(* ===== verification/Prelude.thy ===== *)
theory Prelude
  imports Complex_Main
begin

text \<open>
  Shared vocabulary of the development: the collections of facts its proofs use and the searching
  operations of Python's \<open>str\<close> with their laws.

  Texts are \<open>string\<close>: a character stands for a Unicode code point below 256.
\<close>

section \<open>Collections of facts\<close>

named_theorems text_simps \<open>rewriting on texts\<close>
named_theorems io_simps \<open>evaluation of effectful code\<close>

section \<open>Python's text operations\<close>

definition starts_with :: "'a list \<Rightarrow> 'a list \<Rightarrow> bool" where
  "starts_with p s \<longleftrightarrow> take (length p) s = p"

definition ends_with :: "'a list \<Rightarrow> 'a list \<Rightarrow> bool" where
  "ends_with p s \<longleftrightarrow> starts_with (rev p) (rev s)"

text \<open>\<open>s.find(p)\<close> and \<open>s.rfind(p)\<close>; \<open>None\<close> is Python's \<open>-1\<close>.\<close>

fun find_sub :: "'a list \<Rightarrow> 'a list \<Rightarrow> nat option" where
  "find_sub p [] = (if p = [] then Some 0 else None)"
| "find_sub p (x # xs) =
     (if starts_with p (x # xs) then Some 0 else map_option Suc (find_sub p xs))"

fun rfind_sub :: "'a list \<Rightarrow> 'a list \<Rightarrow> nat option" where
  "rfind_sub p [] = (if p = [] then Some 0 else None)"
| "rfind_sub p (x # xs) =
     (case rfind_sub p xs of
        Some i \<Rightarrow> Some (Suc i)
      | None \<Rightarrow> if starts_with p (x # xs) then Some 0 else None)"

definition has_sub :: "'a list \<Rightarrow> 'a list \<Rightarrow> bool" where
  "has_sub p s \<longleftrightarrow> find_sub p s \<noteq> None"

lemma starts_with_append [simp, text_simps]: "starts_with p (p @ s)"
  by (simp add: starts_with_def)

lemma starts_with_Nil [simp, text_simps]: "starts_with [] s"
  by (simp add: starts_with_def)

lemma starts_with_Cons_Nil [simp, text_simps]: "\<not> starts_with (a # p) []"
  by (simp add: starts_with_def)

lemma starts_with_Cons [simp, text_simps]:
  "starts_with (a # p) (b # s) \<longleftrightarrow> a = b \<and> starts_with p s"
  by (auto simp: starts_with_def)

lemma starts_with_iff: "starts_with p s \<longleftrightarrow> (\<exists>t. s = p @ t)"
  by (auto simp: starts_with_def) (metis append_take_drop_id)

lemma starts_with_length: "starts_with p s \<Longrightarrow> length p \<le> length s"
  by (auto simp: starts_with_iff)

lemma find_sub_Some:
  "find_sub p s = Some i \<longleftrightarrow>
     i \<le> length s \<and> starts_with p (drop i s) \<and> (\<forall>j < i. \<not> starts_with p (drop j s))"
proof (induction s arbitrary: i)
  case Nil
  then show ?case by (auto simp: starts_with_def)
next
  case (Cons x s)
  show ?case
  proof (cases i)
    case 0
    then show ?thesis by auto
  next
    case (Suc k)
    have "(\<forall>j < Suc k. \<not> starts_with p (drop j (x # s))) \<longleftrightarrow>
        \<not> starts_with p (x # s) \<and> (\<forall>j < k. \<not> starts_with p (drop j s))"
      using less_Suc_eq_0_disj by auto
    with Suc Cons.IH [of k] show ?thesis by auto
  qed
qed

lemma find_sub_None:
  "find_sub p s = None \<longleftrightarrow> (\<forall>j \<le> length s. \<not> starts_with p (drop j s))"
proof (induction s)
  case Nil
  then show ?case by (cases p) auto
next
  case (Cons x s)
  have "(\<forall>j \<le> Suc (length s). \<not> starts_with p (drop j (x # s))) \<longleftrightarrow>
      \<not> starts_with p (x # s) \<and> (\<forall>j \<le> length s. \<not> starts_with p (drop j s))"
    by (metis Suc_le_mono drop0 drop_Suc_Cons not0_implies_Suc zero_le)
  with Cons.IH show ?case by auto
qed

lemma rfind_sub_None: "rfind_sub p s = None \<longleftrightarrow> find_sub p s = None"
  by (induction s) (auto split: option.splits)

lemma rfind_sub_Some:
  "rfind_sub p s = Some i \<longleftrightarrow>
     i \<le> length s \<and> starts_with p (drop i s) \<and>
     (\<forall>j. i < j \<and> j \<le> length s \<longrightarrow> \<not> starts_with p (drop j s))"
proof (induction s arbitrary: i)
  case Nil
  then show ?case by (cases p) auto
next
  case (Cons x s)
  have shift: "(\<forall>j. Suc k < j \<and> j \<le> Suc (length s) \<longrightarrow> \<not> starts_with p (drop j (x # s))) \<longleftrightarrow>
      (\<forall>j. k < j \<and> j \<le> length s \<longrightarrow> \<not> starts_with p (drop j s))" for k
    by (metis Suc_le_mono Suc_less_eq drop_Suc_Cons less_imp_Suc_add)
  have none: "(\<forall>j. 0 < j \<and> j \<le> Suc (length s) \<longrightarrow> \<not> starts_with p (drop j (x # s))) \<longleftrightarrow>
      rfind_sub p s = None"
    unfolding rfind_sub_None find_sub_None
    by (metis Suc_le_mono drop_Suc_Cons gr0_implies_Suc zero_less_Suc)
  show ?case
  proof (cases i)
    case 0
    then show ?thesis using none by (auto split: option.splits)
  next
    case (Suc k)
    then show ?thesis using shift [of k] Cons.IH [of k] by (auto split: option.splits)
  qed
qed

end
