(* ===== verification/PyFloat.thy ===== *)
theory PyFloat
  imports Prelude
begin

text \<open>
  Python's \<open>float\<close>: IEEE 754 binary64 values and the operations the sources apply to them
  (subtraction, multiplication, \<open>abs\<close>, \<open>max\<close>, the comparisons, conversion from \<open>int\<close>,
  \<open>repr\<close> and \<open>float(text)\<close>). A finite value is the rational it denotes; every result is
  rounded to nearest, ties to even. The lemmas state that rounding is odd and monotone.
\<close>

section \<open>Values and rounding\<close>

datatype pyfloat = Fin rat | NegZero | PosInf | NegInf | NaN

definition pow2 :: "int \<Rightarrow> rat" where
  "pow2 e = (if 0 \<le> e then 2 ^ nat e else 1 / 2 ^ nat (- e))"

definition pow10 :: "int \<Rightarrow> rat" where
  "pow10 e = (if 0 \<le> e then 10 ^ nat e else 1 / 10 ^ nat (- e))"

text \<open>The same in integers, to compute with.\<close>

lemma pow2_code [code]: "pow2 e = (if 0 \<le> e then of_int (2 ^ nat e) else 1 / of_int (2 ^ nat (- e)))"
  by (simp add: pow2_def)

lemma pow10_code [code]: "pow10 e = (if 0 \<le> e then of_int (10 ^ nat e) else 1 / of_int (10 ^ nat (- e)))"
  by (simp add: pow10_def)

function bit_len :: "int \<Rightarrow> int" where
  "bit_len n = (if n \<le> 0 then 0 else 1 + bit_len (n div 2))"
  by pat_completeness auto
termination
  by (relation "measure nat") auto

declare bit_len.simps [simp del]

text \<open>The exponent \<open>e\<close> with \<open>2^e \<le> x < 2^(e+1)\<close> of a positive rational.\<close>

definition rat_exp2 :: "rat \<Rightarrow> int" where
  "rat_exp2 x = (case quotient_of x of (n, d) \<Rightarrow>
     (let k = bit_len n - bit_len d
      in if pow2 k \<le> x then k else k - 1))"

definition round_half_even :: "rat \<Rightarrow> int" where
  "round_half_even z =
     (let n = \<lfloor>z\<rfloor>; r = z - of_int n
      in if r < 1/2 then n else if 1/2 < r then n + 1 else if even n then n else n + 1)"

text \<open>The spacing of doubles at \<open>x\<close>: 53 significant bits, subnormals below \<open>2^-1022\<close>.\<close>

definition ulp :: "rat \<Rightarrow> rat" where
  "ulp x = pow2 (max (rat_exp2 x) (- 1022) - 52)"

definition round_mag :: "rat \<Rightarrow> rat" where
  "round_mag x = (if x \<le> 0 then 0 else of_int (round_half_even (x / ulp x)) * ulp x)"

definition of_mag :: "rat \<Rightarrow> pyfloat" where
  "of_mag y = (if pow2 1024 \<le> y then PosInf else Fin y)"

definition fneg :: "pyfloat \<Rightarrow> pyfloat" where
  "fneg x = (case x of Fin q \<Rightarrow> if q = 0 then NegZero else Fin (- q) | NegZero \<Rightarrow> Fin 0
     | PosInf \<Rightarrow> NegInf | NegInf \<Rightarrow> PosInf | NaN \<Rightarrow> NaN)"

text \<open>The double nearest to a rational (overflowing to an infinity, as arithmetic does).\<close>

definition rnd :: "rat \<Rightarrow> pyfloat" where
  "rnd x = (if x < 0 then fneg (of_mag (round_mag (- x))) else of_mag (round_mag x))"

section \<open>Arithmetic and comparisons\<close>

fun fval :: "pyfloat \<Rightarrow> rat option" where
  "fval (Fin q) = Some q"
| "fval NegZero = Some 0"
| "fval _ = None"

fun fabs :: "pyfloat \<Rightarrow> pyfloat" where
  "fabs (Fin q) = Fin \<bar>q\<bar>"
| "fabs NegZero = Fin 0"
| "fabs PosInf = PosInf"
| "fabs NegInf = PosInf"
| "fabs NaN = NaN"

fun fle :: "pyfloat \<Rightarrow> pyfloat \<Rightarrow> bool" where
  "fle NaN _ = False"
| "fle _ NaN = False"
| "fle NegInf _ = True"
| "fle _ PosInf = True"
| "fle PosInf _ = False"
| "fle _ NegInf = False"
| "fle x y = (the (fval x) \<le> the (fval y))"

definition flt :: "pyfloat \<Rightarrow> pyfloat \<Rightarrow> bool" where
  "flt x y \<longleftrightarrow> fle x y \<and> \<not> fle y x"

definition feq :: "pyfloat \<Rightarrow> pyfloat \<Rightarrow> bool" where
  "feq x y \<longleftrightarrow> fle x y \<and> fle y x"

text \<open>A zero result of a difference of finite values is written \<open>Fin 0\<close>, whatever its sign:
  the sources take \<open>abs\<close> of a difference or compare it, and both ignore the sign of zero.\<close>

fun fsub :: "pyfloat \<Rightarrow> pyfloat \<Rightarrow> pyfloat" where
  "fsub NaN _ = NaN"
| "fsub _ NaN = NaN"
| "fsub PosInf PosInf = NaN"
| "fsub NegInf NegInf = NaN"
| "fsub PosInf _ = PosInf"
| "fsub NegInf _ = NegInf"
| "fsub _ PosInf = NegInf"
| "fsub _ NegInf = PosInf"
| "fsub x y = rnd (the (fval x) - the (fval y))"

text \<open>Multiplication by a positive finite factor, the only product the sources form.\<close>

fun fscale :: "rat \<Rightarrow> pyfloat \<Rightarrow> pyfloat" where
  "fscale c (Fin q) = rnd (c * q)"
| "fscale c NegZero = NegZero"
| "fscale c x = x"

text \<open>Python's \<open>max\<close> keeps the first of its arguments unless a later one is greater.\<close>

definition pymax2 :: "pyfloat \<Rightarrow> pyfloat \<Rightarrow> pyfloat" where
  "pymax2 a b = (if flt a b then b else a)"

text \<open>\<open>float(n)\<close> of an \<open>int\<close>: \<open>None\<close> is the \<open>OverflowError\<close> where rounding would overflow.\<close>

definition float_of_int :: "int \<Rightarrow> pyfloat option" where
  "float_of_int n = (case rnd (of_int n) of Fin q \<Rightarrow> Some (Fin q) | _ \<Rightarrow> None)"

section \<open>Laws of rounding\<close>

lemma pow2_pos [simp]: "0 < pow2 e"
  by (simp add: pow2_def)

lemma pow2_nonneg [simp]: "0 \<le> pow2 e"
  by (simp add: less_imp_le)

lemma pow2_not_zero [simp]: "pow2 e \<noteq> 0"
  by (simp add: pow2_def)

lemma pow2_powi: "pow2 e = 2 powi e"
  by (simp add: pow2_def power_int_def inverse_eq_divide power_one_over)

lemma pow2_add: "pow2 (a + b) = pow2 a * pow2 b"
  by (simp add: pow2_powi power_int_add)

lemma pow2_mono: "a \<le> b \<Longrightarrow> pow2 a \<le> pow2 b"
  by (simp add: pow2_powi power_int_increasing)

lemma pow2_less: "a < b \<Longrightarrow> pow2 a < pow2 b"
  by (simp add: pow2_powi power_int_strict_increasing)

lemma pow2_double: "pow2 (1 + e) = 2 * pow2 e"
  by (simp add: pow2_add) (simp add: pow2_def)

lemma bit_len_nonneg: "0 \<le> bit_len m"
proof (induction m rule: bit_len.induct)
  case (1 m)
  then show ?case by (simp add: bit_len.simps [of m])
qed

text \<open>An integer below a power of two is at least one below it.\<close>

lemma bit_len_int_less:
  assumes "0 < m" and "of_int m < pow2 (bit_len m)"
  shows "of_int m + 1 \<le> pow2 (bit_len m)"
proof -
  have p: "pow2 (bit_len m) = of_int (2 ^ nat (bit_len m))"
    using bit_len_nonneg [of m] by (simp add: pow2_def)
  have "m < 2 ^ nat (bit_len m)" using assms(2) unfolding p of_int_less_iff .
  then have "m + 1 \<le> 2 ^ nat (bit_len m)" by simp
  then have "of_int (m + 1) \<le> pow2 (bit_len m)" unfolding p of_int_le_iff .
  then show ?thesis by simp
qed

lemma bit_len_pow2:
  "0 < m \<Longrightarrow> pow2 (bit_len m - 1) \<le> of_int m \<and> of_int m < pow2 (bit_len m)"
proof (induction m rule: bit_len.induct)
  case (1 m)
  then have eq: "bit_len m = 1 + bit_len (m div 2)" by (simp add: bit_len.simps [of m])
  show ?case
  proof (cases "m = 1")
    case True
    then show ?thesis by (simp add: bit_len.simps pow2_def)
  next
    case False
    with "1.prems" have "0 < m div 2" by auto
    with "1.IH" "1.prems" have ih: "pow2 (bit_len (m div 2) - 1) \<le> of_int (m div 2)"
      "of_int (m div 2) < pow2 (bit_len (m div 2))" by auto
    have "of_int (2 * (m div 2)) \<le> (of_int m :: rat)"
      and "(of_int m :: rat) \<le> of_int (2 * (m div 2) + 1)"
      unfolding of_int_le_iff by auto
    then have half: "2 * of_int (m div 2) \<le> (of_int m :: rat)"
      "(of_int m :: rat) \<le> 2 * of_int (m div 2) + 1" by simp_all
    have "2 * pow2 (bit_len (m div 2) - 1) \<le> of_int m" using half ih by linarith
    moreover have "of_int m < 2 * pow2 (bit_len (m div 2))"
      using bit_len_int_less [OF \<open>0 < m div 2\<close> ih(2)] half by linarith
    ultimately show ?thesis
      by (simp add: eq pow2_double) (metis add.commute diff_add_cancel pow2_double)
  qed
qed

lemma rat_exp2_bounds:
  assumes "0 < x"
  shows "pow2 (rat_exp2 x) \<le> x" and "x < pow2 (rat_exp2 x + 1)"
proof -
  obtain n d where q: "quotient_of x = (n, d)" by (cases "quotient_of x")
  have d: "0 < d" using q by (rule quotient_of_denom_pos)
  have x: "x = of_int n / of_int d" using q by (rule quotient_of_div)
  have n: "0 < n" using assms d by (simp add: x zero_less_divide_iff)
  define a b where "a = bit_len n" and "b = bit_len d"
  have an: "pow2 (a - 1) \<le> of_int n" "of_int n < pow2 a"
    and bd: "pow2 (b - 1) \<le> of_int d" "of_int d < pow2 b"
    using bit_len_pow2 [OF n] bit_len_pow2 [OF d] by (simp_all add: a_def b_def)
  have dpos: "(0 :: rat) < of_int d" using d by simp
  have up: "x < pow2 (a - b + 1)"
  proof -
    have "pow2 a = pow2 (a - b + 1) * pow2 (b - 1)" by (simp flip: pow2_add)
    also have "\<dots> \<le> pow2 (a - b + 1) * of_int d" using bd by (simp add: mult_left_mono)
    finally show ?thesis using an dpos by (simp add: x divide_less_eq)
  qed
  have lo: "pow2 (a - b - 1) \<le> x"
  proof -
    have "pow2 (a - b - 1) * of_int d \<le> pow2 (a - b - 1) * pow2 b"
      using bd by (simp add: mult_left_mono less_imp_le)
    also have "\<dots> = pow2 (a - 1)" by (simp flip: pow2_add)
    finally show ?thesis using an dpos by (simp add: x le_divide_eq)
  qed
  show "pow2 (rat_exp2 x) \<le> x" "x < pow2 (rat_exp2 x + 1)"
    using up lo by (auto simp: rat_exp2_def q a_def b_def Let_def)
qed

lemma rat_exp2_mono:
  assumes "0 < x" and "x \<le> y"
  shows "rat_exp2 x \<le> rat_exp2 y"
proof (rule ccontr)
  assume "\<not> rat_exp2 x \<le> rat_exp2 y"
  then have "pow2 (rat_exp2 y + 1) \<le> pow2 (rat_exp2 x)" by (simp add: pow2_mono)
  then show False
    using rat_exp2_bounds(1) [OF assms(1)] rat_exp2_bounds(2) [of y] assms by simp
qed

lemma round_half_even_of_int [simp]: "round_half_even (of_int n) = n"
  by (simp add: round_half_even_def)

lemma round_half_even_mono:
  assumes "y \<le> z"
  shows "round_half_even y \<le> round_half_even z"
proof -
  have "\<lfloor>y\<rfloor> \<le> \<lfloor>z\<rfloor>" using assms by (rule floor_mono)
  then consider (same) "\<lfloor>y\<rfloor> = \<lfloor>z\<rfloor>" | (less) "\<lfloor>y\<rfloor> + 1 \<le> \<lfloor>z\<rfloor>" by linarith
  then show ?thesis
  proof cases
    case same
    then show ?thesis using assms by (auto simp: round_half_even_def Let_def)
  next
    case less
    then show ?thesis by (auto simp: round_half_even_def Let_def)
  qed
qed

lemma ulp_pos [simp]: "0 < ulp x"
  by (simp add: ulp_def)

lemma round_mag_nonneg [simp]: "0 \<le> round_mag x"
proof (cases "x \<le> 0")
  case True
  then show ?thesis by (simp add: round_mag_def)
next
  case False
  then have "round_half_even 0 \<le> round_half_even (x / ulp x)"
    by (intro round_half_even_mono) (simp add: divide_nonneg_pos)
  moreover have "round_half_even 0 = 0" by (simp add: round_half_even_def)
  ultimately show ?thesis using False by (simp add: round_mag_def less_imp_le)
qed

text \<open>An integer bound of the scaled value carries over to the rounded one.\<close>

lemma round_mag_le:
  assumes "0 < x" and "x \<le> of_int k * ulp x"
  shows "round_mag x \<le> of_int k * ulp x"
proof -
  have "x / ulp x \<le> of_int k" using assms by (simp add: divide_le_eq)
  then have "round_half_even (x / ulp x) \<le> k"
    using round_half_even_mono [of "x / ulp x" "of_int k"] by simp
  then show ?thesis using assms by (simp add: round_mag_def mult_right_mono less_imp_le)
qed

lemma round_mag_ge:
  assumes "0 < x" and "of_int k * ulp x \<le> x"
  shows "of_int k * ulp x \<le> round_mag x"
proof -
  have "of_int k \<le> x / ulp x" using assms by (simp add: le_divide_eq)
  then have "k \<le> round_half_even (x / ulp x)"
    using round_half_even_mono [of "of_int k" "x / ulp x"] by simp
  then show ?thesis using assms by (simp add: round_mag_def mult_right_mono less_imp_le)
qed

lemma round_mag_mono:
  assumes "x \<le> y"
  shows "round_mag x \<le> round_mag y"
proof (cases "0 < x")
  case False
  then show ?thesis by (simp add: round_mag_def [of x])
next
  case True
  define ex ey where "ex = max (rat_exp2 x) (- 1022)" and "ey = max (rat_exp2 y) (- 1022)"
  have ux: "ulp x = pow2 (ex - 52)" and uy: "ulp y = pow2 (ey - 52)"
    by (simp_all add: ulp_def ex_def ey_def)
  have y: "0 < y" using True assms by simp
  have "ex \<le> ey" using rat_exp2_mono [OF True assms] by (simp add: ex_def ey_def)
  then consider (same) "ex = ey" | (less) "ex + 1 \<le> ey" by linarith
  then show ?thesis
  proof cases
    case same
    then have u: "ulp x = ulp y" by (simp add: ux uy)
    have "round_half_even (x / ulp y) \<le> round_half_even (y / ulp y)"
      using assms by (intro round_half_even_mono) (simp add: divide_right_mono less_imp_le)
    then show ?thesis
      using True y by (simp add: round_mag_def u mult_right_mono less_imp_le)
  next
    case less
    have p: "of_int (2 ^ m) * pow2 e = pow2 (int m + e)" for m e
      by (simp add: pow2_add) (simp add: pow2_def)
    have "x < pow2 (rat_exp2 x + 1)" by (rule rat_exp2_bounds [OF True])
    also have "\<dots> \<le> of_int (2 ^ 53) * ulp x"
      unfolding ux p by (rule pow2_mono) (simp add: ex_def)
    finally have "round_mag x \<le> of_int (2 ^ 53) * ulp x" using True by (intro round_mag_le) auto
    also have "\<dots> \<le> of_int (2 ^ 52) * ulp y"
      unfolding ux uy p by (rule pow2_mono) (use less in simp)
    also have "\<dots> \<le> round_mag y"
    proof (rule round_mag_ge [OF y])
      have "ey = rat_exp2 y" using less by (auto simp: ex_def ey_def)
      then show "of_int (2 ^ 52) * ulp y \<le> y"
        unfolding uy p using rat_exp2_bounds(1) [OF y] by simp
    qed
    finally show ?thesis .
  qed
qed

lemma fabs_fneg [simp]: "fabs (fneg x) = fabs x"
  by (cases x) (auto simp: fneg_def)

lemma fabs_of_mag [simp]: "0 \<le> y \<Longrightarrow> fabs (of_mag y) = of_mag y"
  by (simp add: of_mag_def)

lemma fabs_rnd: "fabs (rnd x) = of_mag (round_mag \<bar>x\<bar>)"
  by (auto simp: rnd_def)

lemma rnd_nonneg: "0 \<le> x \<Longrightarrow> rnd x = of_mag (round_mag x)"
  by (simp add: rnd_def)

lemma fle_of_mag: "0 \<le> a \<Longrightarrow> a \<le> b \<Longrightarrow> fle (of_mag a) (of_mag b)"
  by (auto simp: of_mag_def)

lemma rnd_zero [simp]: "rnd 0 = Fin 0"
  by (simp add: rnd_def round_mag_def of_mag_def pow2_def)

lemma feq_sym: "feq x y \<longleftrightarrow> feq y x"
  by (auto simp: feq_def)

lemma fabs_fsub_commute: "fabs (fsub x y) = fabs (fsub y x)"
  by (cases x; cases y) (simp_all add: fabs_rnd abs_minus_commute)

end
