(* ===== verification/PyText.thy ===== *)
theory PyText
  imports PyFloat
begin

text \<open>
  The rest of Python's text library that the sources call: \<open>strip\<close>, \<open>split\<close>, \<open>join\<close>,
  \<open>replace\<close>, \<open>lower\<close>, \<open>splitlines\<close>, \<open>str\<close> and \<open>int\<close> of integers, \<open>repr\<close> and
  \<open>float\<close> of floating-point numbers.
\<close>

section \<open>Characters\<close>

definition code :: "char \<Rightarrow> nat" where
  "code c = of_char c"

definition py_space :: "char \<Rightarrow> bool" where
  "py_space c \<longleftrightarrow> (let n = code c in 9 \<le> n \<and> n \<le> 13 \<or> 28 \<le> n \<and> n \<le> 32 \<or> n = 133 \<or> n = 160)"

definition is_digit :: "char \<Rightarrow> bool" where
  "is_digit c \<longleftrightarrow> 48 \<le> code c \<and> code c \<le> 57"

definition is_alpha :: "char \<Rightarrow> bool" where
  "is_alpha c \<longleftrightarrow> (let n = code c in 65 \<le> n \<and> n \<le> 90 \<or> 97 \<le> n \<and> n \<le> 122)"

text \<open>\<open>\w\<close> of the regular expressions, for ASCII text.\<close>

definition is_word :: "char \<Rightarrow> bool" where
  "is_word c \<longleftrightarrow> is_alpha c \<or> is_digit c \<or> c = CHR ''_''"

definition to_lower :: "char \<Rightarrow> char" where
  "to_lower c = (if 65 \<le> code c \<and> code c \<le> 90 then char_of (code c + 32) else c)"

abbreviation newline :: char where "newline \<equiv> CHR 0x0A"
abbreviation dquote :: char where "dquote \<equiv> CHR 0x22"
abbreviation squote :: char where "squote \<equiv> CHR 0x27"
abbreviation backslash :: char where "backslash \<equiv> CHR 0x5C"
abbreviation (input) blank :: char where "blank \<equiv> CHR 0x20"

section \<open>Stripping, splitting, joining, replacing\<close>

definition lstrip :: "string \<Rightarrow> string" where
  "lstrip s = dropWhile py_space s"

definition rstrip :: "string \<Rightarrow> string" where
  "rstrip s = rev (dropWhile py_space (rev s))"

definition strip :: "string \<Rightarrow> string" where
  "strip s = rstrip (lstrip s)"

definition rstrip_char :: "char \<Rightarrow> string \<Rightarrow> string" where
  "rstrip_char c s = rev (dropWhile (\<lambda>x. x = c) (rev s))"

text \<open>\<open>s.split()\<close>: the maximal runs of non-space characters.\<close>

fun split_ws_from :: "string \<Rightarrow> string \<Rightarrow> string list" where
  "split_ws_from acc [] = (if acc = [] then [] else [rev acc])"
| "split_ws_from acc (c # cs) =
     (if py_space c then (if acc = [] then [] else [rev acc]) @ split_ws_from [] cs
      else split_ws_from (c # acc) cs)"

definition split_ws :: "string \<Rightarrow> string list" where
  "split_ws s = split_ws_from [] s"

text \<open>\<open>s.split(c)\<close> for a one-character separator.\<close>

fun split_on :: "char \<Rightarrow> string \<Rightarrow> string list" where
  "split_on sep [] = [[]]"
| "split_on sep (c # cs) =
     (if c = sep then [] # split_on sep cs
      else (case split_on sep cs of [] \<Rightarrow> [[c]] | w # ws \<Rightarrow> (c # w) # ws))"

text \<open>\<open>s.splitlines()\<close>: no empty last line.\<close>

definition line_break :: "char \<Rightarrow> bool" where
  "line_break c \<longleftrightarrow> (let n = code c in 10 \<le> n \<and> n \<le> 13 \<or> 28 \<le> n \<and> n \<le> 30 \<or> n = 133)"

fun splitlines_from :: "string \<Rightarrow> string \<Rightarrow> string list" where
  "splitlines_from acc [] = (if acc = [] then [] else [rev acc])"
| "splitlines_from acc (c # cs) =
     (if c = CHR 0x0D \<and> starts_with [newline] cs then rev acc # splitlines_from [] (tl cs)
      else if line_break c then rev acc # splitlines_from [] cs
      else splitlines_from (c # acc) cs)"

definition splitlines :: "string \<Rightarrow> string list" where
  "splitlines s = splitlines_from [] s"

fun join :: "string \<Rightarrow> string list \<Rightarrow> string" where
  "join sep [] = []"
| "join sep [x] = x"
| "join sep (x # y # ys) = x @ sep @ join sep (y # ys)"

text \<open>\<open>s.replace(p, r)\<close> for a non-empty \<open>p\<close>: left to right, non-overlapping.\<close>

function replace :: "string \<Rightarrow> string \<Rightarrow> string \<Rightarrow> string" where
  "replace p r [] = []"
| "replace p r (c # cs) =
     (if p \<noteq> [] \<and> starts_with p (c # cs) then r @ replace p r (drop (length p) (c # cs))
      else c # replace p r cs)"
  by pat_completeness auto
termination
  by (relation "measure (\<lambda>(p, r, s). length s)") auto

section \<open>Integers as text\<close>

definition digit_char :: "int \<Rightarrow> char" where
  "digit_char d = char_of (48 + nat d)"

text \<open>The decimal digits of a non-negative integer.\<close>

function nat_str :: "int \<Rightarrow> string" where
  "nat_str n = (if n < 10 then [digit_char n] else nat_str (n div 10) @ [digit_char (n mod 10)])"
  by pat_completeness auto
termination
  by (relation "measure nat") auto

declare nat_str.simps [simp del]

definition int_str :: "int \<Rightarrow> string" where
  "int_str i = (if i < 0 then CHR ''-'' # nat_str (- i) else nat_str i)"

definition digits_val :: "string \<Rightarrow> int" where
  "digits_val ds = foldl (\<lambda>a c. 10 * a + (int (code c) - 48)) 0 ds"

text \<open>\<open>int(text)\<close>: optional sign, digits with single underscores between them, surrounding
  white space allowed; \<open>None\<close> is the \<open>ValueError\<close>.\<close>

fun digits_ok :: "string \<Rightarrow> bool" where
  "digits_ok [] = False"
| "digits_ok [c] = is_digit c"
| "digits_ok (c # d # cs) =
     (is_digit c \<and> (if d = CHR ''_'' then digits_ok cs else digits_ok (d # cs)))"

definition strip_sign :: "string \<Rightarrow> bool \<times> string" where
  "strip_sign s = (case s of
      c # cs \<Rightarrow> if c = CHR ''-'' then (True, cs) else if c = CHR ''+'' then (False, cs) else (False, s)
    | [] \<Rightarrow> (False, []))"

definition parse_int :: "string \<Rightarrow> int option" where
  "parse_int s = (case strip_sign (strip s) of (neg, ds) \<Rightarrow>
     if digits_ok ds then
       (let v = digits_val (filter is_digit ds) in Some (if neg then - v else v))
     else None)"

section \<open>Floating-point numbers as text\<close>

text \<open>\<open>float(text)\<close>.\<close>

definition decimal_value :: "bool \<Rightarrow> string \<Rightarrow> string \<Rightarrow> int \<Rightarrow> pyfloat" where
  "decimal_value neg ip fp ex =
     (let m = rnd (of_int (digits_val (ip @ fp)) * pow10 (ex - int (length fp)))
      in if neg then fneg m else m)"

definition split_exponent :: "string \<Rightarrow> string \<times> string option" where
  "split_exponent s = (case find_sub ''e'' (map to_lower s) of
      None \<Rightarrow> (s, None) | Some i \<Rightarrow> (take i s, Some (drop (Suc i) s)))"

definition split_point :: "string \<Rightarrow> string \<times> string option" where
  "split_point s = (case find_sub ''.'' s of
      None \<Rightarrow> (s, None) | Some i \<Rightarrow> (take i s, Some (drop (Suc i) s)))"

definition opt_digits_ok :: "string \<Rightarrow> bool" where
  "opt_digits_ok s \<longleftrightarrow> s = [] \<or> digits_ok s"

definition parse_exponent :: "string option \<Rightarrow> int option" where
  "parse_exponent e = (case e of None \<Rightarrow> Some 0 | Some t \<Rightarrow>
     (case strip_sign t of (neg, ds) \<Rightarrow>
        if digits_ok ds then
          (let v = digits_val (filter is_digit ds) in Some (if neg then - v else v))
        else None))"

definition parse_float :: "string \<Rightarrow> pyfloat option" where
  "parse_float text = (case strip_sign (strip text) of (neg, s) \<Rightarrow>
     (let low = map to_lower s in
      if low = ''inf'' \<or> low = ''infinity'' then Some (if neg then NegInf else PosInf)
      else if low = ''nan'' then Some NaN
      else case split_exponent s of (mant, ex) \<Rightarrow>
        (case split_point mant of (ip, fp) \<Rightarrow>
           (let f = (case fp of None \<Rightarrow> [] | Some f \<Rightarrow> f) in
            if opt_digits_ok ip \<and> opt_digits_ok f \<and> (ip \<noteq> [] \<or> f \<noteq> []) then
              (case parse_exponent ex of
                 None \<Rightarrow> None
               | Some e \<Rightarrow> Some (decimal_value neg (filter is_digit ip) (filter is_digit f) e))
            else None))))"

text \<open>\<open>repr(x)\<close>: the shortest digits that read back as \<open>x\<close>, the nearest to \<open>x\<close> among them.
  \<open>dec_point x\<close> is the \<open>p\<close> with \<open>10^(p-1) \<le> x < 10^p\<close>.\<close>

definition dec_point :: "rat \<Rightarrow> int" where
  "dec_point x = (case quotient_of x of (n, d) \<Rightarrow>
     (let k = int (length (nat_str n)) - int (length (nat_str d))
      in if pow10 k \<le> x then k + 1 else k))"

definition digit_candidate :: "rat \<Rightarrow> nat \<Rightarrow> int option" where
  "digit_candidate x n =
     (let s = pow10 (int n - dec_point x); z = x * s; lo = \<lfloor>z\<rfloor>; hi = \<lceil>z\<rceil>;
          ok = (\<lambda>c. rnd (of_int c / s) = Fin x)
      in if ok lo \<and> (\<not> ok hi \<or> z - of_int lo \<le> of_int hi - z) then Some lo
         else if ok hi then Some hi else None)"

text \<open>Seventeen significant digits always suffice for a double.\<close>

definition shortest_digits :: "rat \<Rightarrow> nat \<times> int" where
  "shortest_digits x = (case List.find (\<lambda>n. digit_candidate x n \<noteq> None) [1..<18] of
      Some n \<Rightarrow> (n, the (digit_candidate x n))
    | None \<Rightarrow> (17, \<lfloor>x * pow10 (17 - dec_point x)\<rfloor>))"

definition two_digits :: "int \<Rightarrow> string" where
  "two_digits n = (if n < 10 then CHR ''0'' # nat_str n else nat_str n)"

definition repr_mag :: "rat \<Rightarrow> string" where
  "repr_mag x = (case shortest_digits x of (n, v) \<Rightarrow>
     (let full = (v = 10 ^ n);
          ds = (if full then ''1'' else nat_str v);
          p = dec_point x + (if full then 1 else 0);
          m = int (length ds)
      in if - 4 < p \<and> p \<le> 16 then
           (if p \<le> 0 then ''0.'' @ replicate (nat (- p)) CHR ''0'' @ ds
            else if m \<le> p then ds @ replicate (nat (p - m)) CHR ''0'' @ ''.0''
            else take (nat p) ds @ ''.'' @ drop (nat p) ds)
         else take 1 ds @ (if m = 1 then [] else CHR ''.'' # drop 1 ds) @ ''e'' @
           (if p - 1 < 0 then CHR ''-'' # two_digits (1 - p)
            else CHR ''+'' # two_digits (p - 1))))"

definition float_repr :: "pyfloat \<Rightarrow> string" where
  "float_repr x = (case x of
      Fin q \<Rightarrow> if q = 0 then ''0.0'' else if q < 0 then CHR ''-'' # repr_mag (- q) else repr_mag q
    | NegZero \<Rightarrow> ''-0.0'' | PosInf \<Rightarrow> ''inf'' | NegInf \<Rightarrow> ''-inf'' | NaN \<Rightarrow> ''nan'')"

section \<open>Laws\<close>

lemma code_digit_char [simp]: "0 \<le> d \<Longrightarrow> d < 10 \<Longrightarrow> code (digit_char d) = 48 + nat d"
  by (simp add: code_def digit_char_def)

lemma is_digit_digit_char [simp]: "0 \<le> d \<Longrightarrow> d < 10 \<Longrightarrow> is_digit (digit_char d)"
  by (simp add: is_digit_def)

lemma nat_str_digits: "0 \<le> n \<Longrightarrow> c \<in> set (nat_str n) \<Longrightarrow> is_digit c"
proof (induction n rule: nat_str.induct)
  case (1 n)
  then show ?case by (auto simp: nat_str.simps [of n] split: if_splits)
qed

lemma nat_str_not_Nil [simp]: "nat_str n \<noteq> []"
  by (simp add: nat_str.simps [of n])

lemma digits_val_append_digit: "digits_val (ds @ [c]) = 10 * digits_val ds + (int (code c) - 48)"
  by (simp add: digits_val_def)

lemma digits_val_nat_str [simp]: "0 \<le> n \<Longrightarrow> digits_val (nat_str n) = n"
proof (induction n rule: nat_str.induct)
  case (1 n)
  then show ?case
    by (simp add: nat_str.simps [of n] digits_val_append_digit) (simp add: digits_val_def)
qed

end
