(* ===== verification/PyValue.thy ===== *)
theory PyValue
  imports PyText "HOL-Library.AList"
begin

text \<open>
  The Python values that JSON documents decode to, Python's \<open>==\<close> on them (numbers compare by
  value across \<open>bool\<close>, \<open>int\<close> and \<open>float\<close>; dictionaries compare without regard to order) and
  \<open>str\<close>. A dictionary is the list of its items in insertion order, with distinct keys.
\<close>

section \<open>Values\<close>

datatype pyval =
    VNone
  | VBool bool
  | VInt int
  | VFloat pyfloat
  | VStr string
  | VList "pyval list"
  | VDict "(string \<times> pyval) list"

type_synonym pydict = "(string \<times> pyval) list"

text \<open>\<open>d.get(k)\<close> and \<open>k in d\<close>.\<close>

definition dget :: "pydict \<Rightarrow> string \<Rightarrow> pyval option" where
  "dget d k = map_of d k"

definition dhas :: "string \<Rightarrow> pydict \<Rightarrow> bool" where
  "dhas k d \<longleftrightarrow> dget d k \<noteq> None"

fun val_ok :: "pyval \<Rightarrow> bool" where
  "val_ok (VList xs) = (\<forall>x \<in> set xs. val_ok x)"
| "val_ok (VDict d) = (distinct (map fst d) \<and> (\<forall>p \<in> set d. val_ok (snd p)))"
| "val_ok _ = True"

text \<open>Python's truth value.\<close>

fun truthy :: "pyval \<Rightarrow> bool" where
  "truthy VNone = False"
| "truthy (VBool b) = b"
| "truthy (VInt n) = (n \<noteq> 0)"
| "truthy (VFloat x) = (\<not> feq x (Fin 0))"
| "truthy (VStr s) = (s \<noteq> [])"
| "truthy (VList xs) = (xs \<noteq> [])"
| "truthy (VDict d) = (d \<noteq> [])"

section \<open>Equality\<close>

text \<open>The numeric value of \<open>bool\<close>, \<open>int\<close> and \<open>float\<close>; an \<open>int\<close> compares exactly.\<close>

fun num_val :: "pyval \<Rightarrow> pyfloat option" where
  "num_val (VBool b) = Some (Fin (if b then 1 else 0))"
| "num_val (VInt n) = Some (Fin (of_int n))"
| "num_val (VFloat x) = Some x"
| "num_val _ = None"

fun py_eq :: "pyval \<Rightarrow> pyval \<Rightarrow> bool"
  and py_eq_list :: "pyval list \<Rightarrow> pyval list \<Rightarrow> bool"
  and py_eq_items :: "pydict \<Rightarrow> pydict \<Rightarrow> bool" where
  "py_eq (VStr s) v = (v = VStr s)"
| "py_eq VNone v = (v = VNone)"
| "py_eq (VList xs) v = (case v of VList ys \<Rightarrow> py_eq_list xs ys | _ \<Rightarrow> False)"
| "py_eq (VDict d) v =
     (case v of VDict e \<Rightarrow> length d = length e \<and> py_eq_items d e | _ \<Rightarrow> False)"
| "py_eq (VBool b) v = (case num_val v of Some y \<Rightarrow> feq (Fin (if b then 1 else 0)) y | None \<Rightarrow> False)"
| "py_eq (VInt n) v = (case num_val v of Some y \<Rightarrow> feq (Fin (of_int n)) y | None \<Rightarrow> False)"
| "py_eq (VFloat x) v = (case num_val v of Some y \<Rightarrow> feq x y | None \<Rightarrow> False)"
| "py_eq_list [] ys = (ys = [])"
| "py_eq_list (x # xs) ys = (case ys of [] \<Rightarrow> False | y # ys' \<Rightarrow> py_eq x y \<and> py_eq_list xs ys')"
| "py_eq_items [] e = True"
| "py_eq_items ((k, v) # d) e =
     (case dget e k of Some v' \<Rightarrow> py_eq v v' \<and> py_eq_items d e | None \<Rightarrow> False)"

section \<open>Text of a value: \<open>str\<close> and \<open>repr\<close>\<close>

definition hex_digit :: "nat \<Rightarrow> char" where
  "hex_digit n = (if n < 10 then char_of (48 + n) else char_of (87 + n))"

definition hex2 :: "char \<Rightarrow> string" where
  "hex2 c = [hex_digit (code c div 16), hex_digit (code c mod 16)]"

text \<open>\<open>str.isprintable\<close> for code points below 256.\<close>

definition printable :: "char \<Rightarrow> bool" where
  "printable c \<longleftrightarrow> (let n = code c in 32 \<le> n \<and> n \<le> 126 \<or> 161 \<le> n \<and> n \<noteq> 173)"

definition repr_char :: "char \<Rightarrow> char \<Rightarrow> string" where
  "repr_char q c =
     (if c = q \<or> c = CHR 0x5C then [CHR 0x5C, c]
      else if c = newline then [CHR 0x5C, CHR ''n'']
      else if c = CHR 0x0D then [CHR 0x5C, CHR ''r'']
      else if c = CHR 0x09 then [CHR 0x5C, CHR ''t'']
      else if printable c then [c]
      else [CHR 0x5C, CHR ''x''] @ hex2 c)"

definition repr_quote :: "string \<Rightarrow> char" where
  "repr_quote s = (if CHR 0x27 \<in> set s \<and> CHR 0x22 \<notin> set s then CHR 0x22 else CHR 0x27)"

definition repr_str :: "string \<Rightarrow> string" where
  "repr_str s = (let q = repr_quote s in q # concat (map (repr_char q) s) @ [q])"

fun py_repr :: "pyval \<Rightarrow> string"
  and py_repr_list :: "pyval list \<Rightarrow> string list"
  and py_repr_items :: "pydict \<Rightarrow> string list" where
  "py_repr VNone = ''None''"
| "py_repr (VBool b) = (if b then ''True'' else ''False'')"
| "py_repr (VInt n) = int_str n"
| "py_repr (VFloat x) = float_repr x"
| "py_repr (VStr s) = repr_str s"
| "py_repr (VList xs) = ''['' @ join '', '' (py_repr_list xs) @ '']''"
| "py_repr (VDict d) = ''{'' @ join '', '' (py_repr_items d) @ ''}''"
| "py_repr_list [] = []"
| "py_repr_list (x # xs) = py_repr x # py_repr_list xs"
| "py_repr_items [] = []"
| "py_repr_items ((k, v) # d) = (repr_str k @ '': '' @ py_repr v) # py_repr_items d"

definition py_str :: "pyval \<Rightarrow> string" where
  "py_str v = (case v of VStr s \<Rightarrow> s | _ \<Rightarrow> py_repr v)"

section \<open>Laws of equality\<close>

text \<open>Values without \<open>NaN\<close> anywhere.\<close>

fun no_nan :: "pyval \<Rightarrow> bool" where
  "no_nan (VFloat x) = (x \<noteq> NaN)"
| "no_nan (VList xs) = (\<forall>x \<in> set xs. no_nan x)"
| "no_nan (VDict d) = (\<forall>p \<in> set d. no_nan (snd p))"
| "no_nan _ = True"

lemma feq_refl [simp]: "x \<noteq> NaN \<Longrightarrow> feq x x"
  by (cases x) (auto simp: feq_def)

lemma feq_trans: "feq x y \<Longrightarrow> feq y z \<Longrightarrow> feq x z"
  by (cases x; cases y; cases z) (auto simp: feq_def)

lemma py_eq_list_iff:
  "py_eq_list xs ys \<longleftrightarrow> length xs = length ys \<and> (\<forall>p \<in> set (zip xs ys). py_eq (fst p) (snd p))"
proof (induction xs arbitrary: ys)
  case Nil
  then show ?case by auto
next
  case (Cons x xs)
  then show ?case by (cases ys) auto
qed

lemma py_eq_items_iff:
  "py_eq_items d e \<longleftrightarrow> (\<forall>p \<in> set d. \<exists>v'. dget e (fst p) = Some v' \<and> py_eq (snd p) v')"
proof (induction d)
  case Nil
  then show ?case by simp
next
  case (Cons p d)
  then show ?case by (cases p) (auto split: option.splits)
qed

text \<open>Induction on the structure of values, through lists and dictionaries.\<close>

lemma pyval_induct [case_names None Bool Int Float Str List Dict]:
  assumes "P VNone" and "\<And>b. P (VBool b)" and "\<And>n. P (VInt n)" and "\<And>x. P (VFloat x)"
    and "\<And>s. P (VStr s)" and "\<And>xs. (\<And>x. x \<in> set xs \<Longrightarrow> P x) \<Longrightarrow> P (VList xs)"
    and "\<And>d. (\<And>p. p \<in> set d \<Longrightarrow> P (snd p)) \<Longrightarrow> P (VDict d)"
  shows "P v"
proof (induction v)
  case (VDict d)
  have "P (snd p)" if "p \<in> set d" for p
    using VDict.IH [OF that, of "snd p"] by (cases p) (simp add: snds.simps)
  then show ?case by (rule assms(7))
qed (use assms in blast)+

lemma py_eq_refl: "val_ok v \<Longrightarrow> no_nan v \<Longrightarrow> py_eq v v"
proof (induction v rule: pyval_induct)
  case (List xs)
  then show ?case by (auto simp: py_eq_list_iff set_zip)
next
  case (Dict d)
  then show ?case by (auto simp: py_eq_items_iff dget_def intro!: map_of_is_SomeI)
qed auto

lemma dget_Some_in: "dget d k = Some v \<Longrightarrow> (k, v) \<in> set d"
  by (simp add: dget_def map_of_SomeD)

lemma dget_distinct: "distinct (map fst d) \<Longrightarrow> (k, v) \<in> set d \<Longrightarrow> dget d k = Some v"
  by (simp add: dget_def map_of_is_SomeI)

lemma dget_None: "dget d k = None \<longleftrightarrow> k \<notin> fst ` set d"
  by (simp add: dget_def map_of_eq_None_iff)

lemma py_eq_num: "num_val e = Some x \<Longrightarrow> num_val v = Some y \<Longrightarrow> py_eq e v \<longleftrightarrow> feq x y"
  by (cases e) (auto split del: if_split)

lemma same_keys_of_sub:
  assumes "distinct (map fst d)" "length d = length e" "fst ` set d \<subseteq> fst ` set e"
  shows "fst ` set e = fst ` set d"
proof -
  have "card (fst ` set d) = length e" using assms by (metis distinct_card length_map set_map)
  moreover have "card (fst ` set e) \<le> length e" by (metis card_length length_map set_map)
  ultimately show ?thesis using assms(3)
    by (metis List.finite_set card_seteq finite_imageI)
qed

lemma py_eq_sym_imp: "val_ok a \<Longrightarrow> val_ok e \<Longrightarrow> py_eq a e \<Longrightarrow> py_eq e a"
proof (induction a arbitrary: e rule: pyval_induct)
  case (List xs)
  then obtain ys where e: "e = VList ys" by (auto split: pyval.splits)
  have "py_eq y x" if xy: "(x, y) \<in> set (zip xs ys)" for x y
  proof -
    have "x \<in> set xs" "y \<in> set ys" using xy by (auto dest: set_zip_leftD set_zip_rightD)
    moreover have "py_eq x y" using List.prems e xy by (force simp: py_eq_list_iff)
    ultimately show ?thesis using List e by auto
  qed
  moreover have "length ys = length xs" using List.prems e by (simp add: py_eq_list_iff)
  ultimately show ?case using e by (auto simp: py_eq_list_iff set_zip)
next
  case (Dict d)
  then obtain d' where e: "e = VDict d'" by (auto split: pyval.splits)
  from Dict.prems e have len: "length d = length d'"
    and sub: "\<And>p. p \<in> set d \<Longrightarrow> \<exists>v'. dget d' (fst p) = Some v' \<and> py_eq (snd p) v'"
    and dist: "distinct (map fst d)" "distinct (map fst d')" by (auto simp: py_eq_items_iff)
  have "fst ` set d \<subseteq> fst ` set d'" using sub dget_Some_in by force
  with same_keys_of_sub dist len have keys: "fst ` set d' = fst ` set d" by blast
  have "\<exists>v. dget d k = Some v \<and> py_eq v' v" if kv: "(k, v') \<in> set d'" for k v'
  proof -
    from kv keys obtain v where v: "(k, v) \<in> set d" by (metis fst_conv image_iff prod.collapse)
    with sub [OF v] kv dist have "py_eq v v'" by (auto simp: dget_distinct)
    then have "py_eq v' v" using Dict.IH [OF v] Dict.prems e v kv by force
    with v dist show ?thesis by (auto simp: dget_distinct)
  qed
  then show ?case using e len by (auto simp: py_eq_items_iff)
qed (auto simp: py_eq_num feq_sym split: option.splits)

lemma py_eq_sym: "val_ok a \<Longrightarrow> val_ok e \<Longrightarrow> py_eq a e \<longleftrightarrow> py_eq e a"
  using py_eq_sym_imp by blast

end
