(* ===== verification/PyJson.thy ===== *)
theory PyJson
  imports PyValue
begin

text \<open>
  Python's \<open>json.dumps\<close> and \<open>json.loads\<close>, through which every job, result, pool entry and
  wrapper answer travels. The parser spends one unit of fuel per nesting or list step; its text is
  shorter than its fuel whenever \<open>loads\<close> calls it, so fuel never runs out (\<open>parse_fuel\<close>).
  \<open>None\<close> is Python's \<open>ValueError\<close>; an escape for a code point above 255 also gives \<open>None\<close>,
  as the text model ends there.
\<close>

section \<open>Writing: \<open>json.dumps\<close>\<close>


definition dump_char :: "char \<Rightarrow> string" where
  "dump_char c =
     (if c = dquote \<or> c = backslash then [backslash, c]
      else if c = newline then [backslash, CHR ''n'']
      else if c = CHR 0x0D then [backslash, CHR ''r'']
      else if c = CHR 0x09 then [backslash, CHR ''t'']
      else if c = CHR 0x0C then [backslash, CHR ''f'']
      else if c = CHR 0x08 then [backslash, CHR ''b'']
      else if 32 \<le> code c \<and> code c \<le> 126 then [c]
      else [backslash, CHR ''u'', CHR ''0'', CHR ''0''] @ hex2 c)"

definition dump_str :: "string \<Rightarrow> string" where
  "dump_str s = dquote # concat (map dump_char s) @ [dquote]"

definition dump_float :: "pyfloat \<Rightarrow> string" where
  "dump_float x = (case x of PosInf \<Rightarrow> ''Infinity'' | NegInf \<Rightarrow> ''-Infinity'' | NaN \<Rightarrow> ''NaN''
     | _ \<Rightarrow> float_repr x)"

fun dumps :: "pyval \<Rightarrow> string"
  and dumps_list :: "pyval list \<Rightarrow> string list"
  and dumps_items :: "pydict \<Rightarrow> string list" where
  "dumps VNone = ''null''"
| "dumps (VBool b) = (if b then ''true'' else ''false'')"
| "dumps (VInt n) = int_str n"
| "dumps (VFloat x) = dump_float x"
| "dumps (VStr s) = dump_str s"
| "dumps (VList xs) = ''['' @ join '', '' (dumps_list xs) @ '']''"
| "dumps (VDict d) = ''{'' @ join '', '' (dumps_items d) @ ''}''"
| "dumps_list [] = []"
| "dumps_list (x # xs) = dumps x # dumps_list xs"
| "dumps_items [] = []"
| "dumps_items ((k, v) # d) = (dump_str k @ '': '' @ dumps v) # dumps_items d"

section \<open>Reading: \<open>json.loads\<close>\<close>

definition json_space :: "char \<Rightarrow> bool" where
  "json_space c \<longleftrightarrow> c = CHR '' '' \<or> c = CHR 0x09 \<or> c = newline \<or> c = CHR 0x0D"

definition skip_ws :: "string \<Rightarrow> string" where
  "skip_ws s = dropWhile json_space s"

definition hex_val :: "char \<Rightarrow> nat option" where
  "hex_val c = (let n = code c in
     if 48 \<le> n \<and> n \<le> 57 then Some (n - 48)
     else if 97 \<le> n \<and> n \<le> 102 then Some (n - 87)
     else if 65 \<le> n \<and> n \<le> 70 then Some (n - 55) else None)"

definition hex4 :: "char \<Rightarrow> char \<Rightarrow> char \<Rightarrow> char \<Rightarrow> char option" where
  "hex4 a b c d = (case hex_val a of None \<Rightarrow> None | Some p \<Rightarrow>
     (case hex_val b of None \<Rightarrow> None | Some q \<Rightarrow>
     (case hex_val c of None \<Rightarrow> None | Some r \<Rightarrow>
     (case hex_val d of None \<Rightarrow> None | Some s \<Rightarrow>
        (if p = 0 \<and> q = 0 then Some (char_of (16 * r + s)) else None)))))"

text \<open>The text after a backslash.\<close>

fun parse_escape :: "string \<Rightarrow> (char \<times> string) option" where
  "parse_escape [] = None"
| "parse_escape (e # es) =
     (if e = dquote \<or> e = backslash \<or> e = CHR ''/'' then Some (e, es)
      else if e = CHR ''n'' then Some (newline, es)
      else if e = CHR ''r'' then Some (CHR 0x0D, es)
      else if e = CHR ''t'' then Some (CHR 0x09, es)
      else if e = CHR ''f'' then Some (CHR 0x0C, es)
      else if e = CHR ''b'' then Some (CHR 0x08, es)
      else if e = CHR ''u'' then
        (case es of a # b # c # d # r \<Rightarrow> map_option (\<lambda>x. (x, r)) (hex4 a b c d) | _ \<Rightarrow> None)
      else None)"

lemma parse_escape_length: "parse_escape s = Some (c, r) \<Longrightarrow> length r < length s"
  by (cases s) (auto split: if_splits list.splits)

text \<open>The text after the opening quote of a string.\<close>

function parse_chars :: "string \<Rightarrow> (string \<times> string) option" where
  "parse_chars [] = None"
| "parse_chars (c # cs) =
     (if c = dquote then Some ([], cs)
      else if c = backslash then
        (case parse_escape cs of None \<Rightarrow> None
         | Some (x, r) \<Rightarrow> map_option (\<lambda>(t, u). (x # t, u)) (parse_chars r))
      else if code c < 32 then None
      else map_option (\<lambda>(t, u). (c # t, u)) (parse_chars cs))"
  by pat_completeness auto
termination
  by (relation "measure length") (auto dest: parse_escape_length)

text \<open>Numbers: \<open>-?(0|[1-9][0-9]*)(.[0-9]+)?([eE][-+]?[0-9]+)?\<close>, an \<open>int\<close> without the last two.\<close>

definition parse_int_part :: "string \<Rightarrow> (string \<times> string) option" where
  "parse_int_part s = (case s of [] \<Rightarrow> None | c # cs \<Rightarrow>
     if c = CHR ''0'' then Some ([c], cs)
     else if is_digit c then Some (takeWhile is_digit s, dropWhile is_digit s) else None)"

definition parse_frac :: "string \<Rightarrow> string option \<times> string" where
  "parse_frac s = (case s of
      p # d # r \<Rightarrow> if p = CHR ''.'' \<and> is_digit d
        then (Some (takeWhile is_digit (d # r)), dropWhile is_digit (d # r)) else (None, s)
    | _ \<Rightarrow> (None, s))"

definition parse_exp :: "string \<Rightarrow> string option \<times> string" where
  "parse_exp s = (case s of
      e # r \<Rightarrow> if e = CHR ''e'' \<or> e = CHR ''E'' then
          (case strip_sign r of (neg, ds) \<Rightarrow>
             if ds \<noteq> [] \<and> is_digit (hd ds)
             then (Some ((if neg then ''-'' else '''') @ takeWhile is_digit ds), dropWhile is_digit ds)
             else (None, s))
        else (None, s)
    | [] \<Rightarrow> (None, s))"

definition number_value :: "bool \<Rightarrow> string \<Rightarrow> string option \<Rightarrow> string option \<Rightarrow> pyval" where
  "number_value neg ip fp ex =
     (if fp = None \<and> ex = None then VInt (if neg then - digits_val ip else digits_val ip)
      else VFloat (decimal_value neg ip (case fp of None \<Rightarrow> [] | Some f \<Rightarrow> f)
        (case parse_exponent ex of None \<Rightarrow> 0 | Some e \<Rightarrow> e)))"

definition parse_number :: "string \<Rightarrow> (pyval \<times> string) option" where
  "parse_number s =
     (let neg = starts_with ''-'' s; s1 = (if neg then tl s else s)
      in case parse_int_part s1 of None \<Rightarrow> None | Some (ip, s2) \<Rightarrow>
        (case parse_frac s2 of (fp, s3) \<Rightarrow>
           (case parse_exp s3 of (ex, s4) \<Rightarrow> Some (number_value neg ip fp ex, s4))))"

text \<open>Everything that is not a string, an array or an object.\<close>

definition parse_atom :: "string \<Rightarrow> (pyval \<times> string) option" where
  "parse_atom s =
     (if starts_with ''null'' s then Some (VNone, drop 4 s)
      else if starts_with ''true'' s then Some (VBool True, drop 4 s)
      else if starts_with ''false'' s then Some (VBool False, drop 5 s)
      else (case parse_number s of Some r \<Rightarrow> Some r | None \<Rightarrow>
        if starts_with ''NaN'' s then Some (VFloat NaN, drop 3 s)
        else if starts_with ''Infinity'' s then Some (VFloat PosInf, drop 8 s)
        else if starts_with ''-Infinity'' s then Some (VFloat NegInf, drop 9 s)
        else None))"

text \<open>The key of an object member, up to the value: \<open>"key" :\<close>.\<close>

definition parse_key :: "string \<Rightarrow> (string \<times> string) option" where
  "parse_key s = (if starts_with [dquote] s then
      (case parse_chars (tl s) of None \<Rightarrow> None
       | Some (k, r) \<Rightarrow> (if starts_with '':'' (skip_ws r) then Some (k, skip_ws (tl (skip_ws r))) else None))
     else None)"

text \<open>\<open>parse_elems\<close> and \<open>parse_items\<close> read what follows the opening bracket of a non-empty
  container. A repeated key keeps its place and takes the last value.\<close>

fun parse_value :: "nat \<Rightarrow> string \<Rightarrow> (pyval \<times> string) option"
  and parse_elems :: "nat \<Rightarrow> string \<Rightarrow> (pyval list \<times> string) option"
  and parse_items :: "nat \<Rightarrow> pydict \<Rightarrow> string \<Rightarrow> (pydict \<times> string) option" where
  "parse_value 0 s = None"
| "parse_value (Suc n) s = (case s of [] \<Rightarrow> None | c # cs \<Rightarrow>
     if c = dquote then map_option (\<lambda>(t, r). (VStr t, r)) (parse_chars cs)
     else if c = CHR ''['' then
       (if starts_with '']'' (skip_ws cs) then Some (VList [], tl (skip_ws cs))
        else map_option (\<lambda>(xs, r). (VList xs, r)) (parse_elems n (skip_ws cs)))
     else if c = CHR ''{'' then
       (if starts_with ''}'' (skip_ws cs) then Some (VDict [], tl (skip_ws cs))
        else map_option (\<lambda>(d, r). (VDict d, r)) (parse_items n [] (skip_ws cs)))
     else parse_atom s)"
| "parse_elems 0 s = None"
| "parse_elems (Suc n) s = (case parse_value n s of None \<Rightarrow> None | Some (x, r) \<Rightarrow>
     (case skip_ws r of [] \<Rightarrow> None | c # cs \<Rightarrow>
        if c = CHR '']'' then Some ([x], cs)
        else if c = CHR '','' then map_option (\<lambda>(xs, t). (x # xs, t)) (parse_elems n (skip_ws cs))
        else None))"
| "parse_items 0 d s = None"
| "parse_items (Suc n) d s = (case parse_key s of None \<Rightarrow> None | Some (k, r) \<Rightarrow>
     (case parse_value n r of None \<Rightarrow> None | Some (v, t) \<Rightarrow>
        (case skip_ws t of [] \<Rightarrow> None | c # cs \<Rightarrow>
           if c = CHR ''}'' then Some (AList.update k v d, cs)
           else if c = CHR '','' then parse_items n (AList.update k v d) (skip_ws cs)
           else None)))"

definition loads :: "string \<Rightarrow> pyval option" where
  "loads s = (let t = skip_ws s in
     case parse_value (Suc (2 * length t)) t of None \<Rightarrow> None
     | Some (v, r) \<Rightarrow> if skip_ws r = [] then Some v else None)"

section \<open>Fuel\<close>

lemma skip_ws_length: "length (skip_ws s) \<le> length s"
  by (simp add: skip_ws_def length_dropWhile_le)

lemma parse_chars_length: "parse_chars s = Some (t, r) \<Longrightarrow> length r < length s"
proof (induction s arbitrary: t r rule: parse_chars.induct)
  case (2 c cs)
  then show ?case
    by (fastforce split: if_splits option.splits dest: parse_escape_length)
qed simp

lemma parse_int_part_length: "parse_int_part s = Some (ip, r) \<Longrightarrow> length r < length s"
  by (auto simp: parse_int_part_def length_dropWhile_le le_imp_less_Suc split: list.splits if_splits)

lemma parse_frac_length: "parse_frac s = (fp, r) \<Longrightarrow> length r \<le> length s"
  by (auto simp: parse_frac_def length_dropWhile_le le_SucI split: list.splits if_splits)

lemma strip_sign_length: "strip_sign s = (b, r) \<Longrightarrow> length r \<le> length s"
  by (auto simp: strip_sign_def split: list.splits if_splits)

lemma parse_exp_length: "parse_exp s = (ex, r) \<Longrightarrow> length r \<le> length s"
  by (auto simp: parse_exp_def split: list.splits if_splits prod.splits dest!: strip_sign_length
      intro: le_SucI order_trans [OF length_dropWhile_le])

lemma parse_number_length:
  assumes "parse_number s = Some (v, r)"
  shows "length r < length s"
proof -
  define s1 where "s1 = (if starts_with ''-'' s then tl s else s)"
  have "length s1 \<le> length s" by (simp add: s1_def)
  moreover from assms obtain ip s2 fp s3 ex where "parse_int_part s1 = Some (ip, s2)"
    "parse_frac s2 = (fp, s3)" "parse_exp s3 = (ex, r)"
    by (auto simp: parse_number_def Let_def s1_def split: option.splits prod.splits)
  ultimately show ?thesis
    using parse_int_part_length parse_frac_length parse_exp_length by fastforce
qed

lemma parse_atom_length: "parse_atom s = Some (v, r) \<Longrightarrow> length r < length s"
  by (auto simp: parse_atom_def split: if_splits option.splits dest: parse_number_length
      dest!: starts_with_length)

lemma parse_key_length: "parse_key s = Some (k, r) \<Longrightarrow> length r < length s"
proof -
  assume "parse_key s = Some (k, r)"
  then obtain u where u: "parse_chars (tl s) = Some (k, u)" and r: "r = skip_ws (tl (skip_ws u))"
    by (auto simp: parse_key_def split: if_splits option.splits)
  have "length r \<le> length u" unfolding r using skip_ws_length [of u] skip_ws_length [of "tl (skip_ws u)"]
    by simp
  with parse_chars_length [OF u] show ?thesis by simp
qed

lemma parse_length:
  "parse_value n s = Some (v, r) \<Longrightarrow> length r < length s"
  "parse_elems n s = Some (xs, r) \<Longrightarrow> length r < length s"
  "parse_items n d s = Some (d', r) \<Longrightarrow> length r < length s"
proof (induction n s and n s and n d s arbitrary: v r and xs r and d' r
    rule: parse_value_parse_elems_parse_items.induct)
  case (2 n s)
  then show ?case
    using skip_ws_length [of "tl s"]
    by (cases s) (fastforce split: if_splits dest: parse_chars_length parse_atom_length)+
next
  case (4 n s)
  from "4.prems" obtain x u where x: "parse_value n s = Some (x, u)" by (auto split: option.splits)
  note u = "4.IH"(1) [OF x] skip_ws_length [of u]
  from "4.prems" x obtain c cs where c: "skip_ws u = c # cs" by (auto split: list.splits)
  show ?case
    using "4.prems" x c u "4.IH"(2) [OF x refl c] skip_ws_length [of cs]
    by (fastforce split: if_splits)
next
  case (6 n d s)
  from "6.prems" obtain k t where k: "parse_key s = Some (k, t)" by (auto split: option.splits)
  with "6.prems" obtain v u where v: "parse_value n t = Some (v, u)" by (auto split: option.splits)
  note u = parse_key_length [OF k] "6.IH"(1) [OF k refl v] skip_ws_length [of u]
  from "6.prems" k v obtain c cs where c: "skip_ws u = c # cs" by (auto split: list.splits)
  show ?case
    using "6.prems" k v c u "6.IH"(2) [OF k refl v refl c] skip_ws_length [of cs]
    by (fastforce split: if_splits)
qed simp_all


text \<open>Twice the length of the text is enough fuel, and more changes nothing.\<close>

lemma parse_fuel:
  "2 * length s < n \<Longrightarrow> 2 * length s < m \<Longrightarrow> parse_value n s = parse_value m s"
  "2 * length s + 1 < n \<Longrightarrow> 2 * length s + 1 < m \<Longrightarrow> parse_elems n s = parse_elems m s"
  "2 * length s + 1 < n \<Longrightarrow> 2 * length s + 1 < m \<Longrightarrow> parse_items n d s = parse_items m d s"
proof (induction n s and n s and n d s arbitrary: m and m and m
    rule: parse_value_parse_elems_parse_items.induct)
  case (2 n s)
  from "2.prems" obtain k where k: "m = Suc k" by (cases m) auto
  show ?case
  proof (cases s)
    case (Cons c cs)
    have len: "2 * length (skip_ws cs) + 1 < n" "2 * length (skip_ws cs) + 1 < k"
      using skip_ws_length [of cs] "2.prems" Cons k by auto
    show ?thesis
      using "2.IH"(1) [OF Cons _ _ _ len] "2.IH"(2) [OF Cons _ _ _ _ len] by (simp add: Cons k)
  qed (simp add: k)
next
  case (4 n s)
  from "4.prems" obtain k where k: "m = Suc k" by (cases m) auto
  have eq: "parse_value n s = parse_value k s" using "4.IH"(1) [of k] "4.prems" k by simp
  show ?case
  proof (cases "parse_value n s")
    case (Some p)
    obtain x u where p: "p = (x, u)" by (cases p)
    have v: "parse_value n s = Some (x, u)" using Some p by simp
    have len: "2 * length (skip_ws cs) + 1 < n" "2 * length (skip_ws cs) + 1 < k"
      if "skip_ws u = c # cs" for c cs
      using parse_length(1) [OF v] skip_ws_length [of u] skip_ws_length [of cs] that "4.prems" k
      by auto
    show ?thesis
      using "4.IH"(2) [OF v refl _ _ _ len] v eq k by (auto split: list.splits)
  qed (use eq k in simp)
next
  case (6 n d s)
  from "6.prems" obtain k where k: "m = Suc k" by (cases m) auto
  show ?case
  proof (cases "parse_key s")
    case (Some q)
    obtain key t where q: "parse_key s = Some (key, t)" using Some by (cases q) auto
    have eq: "parse_value n t = parse_value k t"
      using "6.IH"(1) [OF q refl, of k] parse_key_length [OF q] "6.prems" k by auto
    show ?thesis
    proof (cases "parse_value n t")
      case (Some p)
      obtain x u where p: "p = (x, u)" by (cases p)
      have v: "parse_value n t = Some (x, u)" using Some p by simp
      have len: "2 * length (skip_ws cs) + 1 < n" "2 * length (skip_ws cs) + 1 < k"
        if "skip_ws u = c # cs" for c cs
        using parse_key_length [OF q] parse_length(1) [OF v] skip_ws_length [of u]
          skip_ws_length [of cs] that "6.prems" k by auto
      show ?thesis
        using "6.IH"(2) [OF q refl v refl _ _ _ len] v q eq k by (auto split: list.splits)
    qed (use eq q k in simp)
  qed (use k in simp)
qed simp_all

section \<open>Strings read back\<close>

lemma hex_val_hex_digit: "n < 16 \<Longrightarrow> hex_val (hex_digit n) = Some n"
  by (auto simp: hex_val_def hex_digit_def code_def Let_def)

lemma code_less: "code c < 256"
  by (simp add: code_def of_char_def) 

lemma hex4_hex2: "hex4 (CHR ''0'') (CHR ''0'') (hex_digit (code c div 16)) (hex_digit (code c mod 16)) = Some c"
proof -
  have "hex_val (CHR ''0'') = Some 0" by (simp add: hex_val_def code_def)
  moreover have "char_of (16 * (code c div 16) + code c mod 16) = c" by (simp add: code_def)
  moreover have "code c div 16 < 16" using code_less [of c] by auto
  ultimately show ?thesis by (simp add: hex4_def hex_val_hex_digit)
qed

lemma parse_chars_dump_char:
  "parse_chars (dump_char c @ t) = map_option (\<lambda>(x, u). (c # x, u)) (parse_chars t)"
  by (auto simp: dump_char_def hex2_def hex4_hex2 split: option.splits)

lemma parse_chars_dump: "parse_chars (concat (map dump_char s) @ dquote # r) = Some (s, r)"
  by (induction s) (auto simp: parse_chars_dump_char)


section \<open>Numbers read back\<close>

text \<open>What may follow a number without becoming part of it.\<close>

definition stops :: "string \<Rightarrow> bool" where
  "stops r \<longleftrightarrow> (case r of [] \<Rightarrow> True
     | c # _ \<Rightarrow> \<not> is_digit c \<and> c \<noteq> CHR ''.'' \<and> c \<noteq> CHR ''e'' \<and> c \<noteq> CHR ''E'' \<and> c \<noteq> CHR ''-'' \<and> c \<noteq> CHR ''+'')"

lemma takeWhile_digits_app: "stops r \<Longrightarrow> takeWhile is_digit (s @ r) = takeWhile is_digit s"
  by (induction s) (auto simp: stops_def split: list.splits)

lemma dropWhile_digits_app: "stops r \<Longrightarrow> dropWhile is_digit (s @ r) = dropWhile is_digit s @ r"
  by (induction s) (auto simp: stops_def split: list.splits)

lemma parse_int_part_app:
  assumes "parse_int_part s = Some (ip, u)" and "stops r"
  shows "parse_int_part (s @ r) = Some (ip, u @ r)"
  using assms takeWhile_digits_app [OF assms(2), of s] dropWhile_digits_app [OF assms(2), of s]
  by (cases s) (auto simp: parse_int_part_def split: if_splits)

lemma parse_frac_app:
  assumes "parse_frac s = (fp, u)" and "stops r"
  shows "parse_frac (s @ r) = (fp, u @ r)"
proof (cases s)
  case Nil
  then show ?thesis using assms by (auto simp: parse_frac_def stops_def split: list.splits)
next
  case (Cons p t)
  then show ?thesis
    using assms takeWhile_digits_app [OF assms(2), of t] dropWhile_digits_app [OF assms(2), of t]
    by (cases t) (auto simp: parse_frac_def stops_def split: list.splits if_splits)
qed

lemma strip_sign_app:
  assumes "strip_sign s = (b, u)" and "stops r"
  shows "strip_sign (s @ r) = (b, u @ r)"
  using assms by (cases s) (auto simp: strip_sign_def stops_def split: list.splits if_splits)

lemma parse_exp_app:
  assumes "parse_exp s = (ex, u)" and "stops r"
  shows "parse_exp (s @ r) = (ex, u @ r)"
proof (cases s)
  case Nil
  then show ?thesis using assms by (auto simp: parse_exp_def stops_def split: list.splits)
next
  case (Cons e t)
  obtain b ds where sg: "strip_sign t = (b, ds)" by (cases "strip_sign t")
  have ds: "ds @ r \<noteq> [] \<and> is_digit (hd (ds @ r)) \<longleftrightarrow> ds \<noteq> [] \<and> is_digit (hd ds)"
    using assms(2) by (cases ds) (auto simp: stops_def split: list.splits)
  show ?thesis
    using assms(1) Cons sg strip_sign_app [OF sg assms(2)] ds
      takeWhile_digits_app [OF assms(2), of ds] dropWhile_digits_app [OF assms(2), of ds]
    by (auto simp: parse_exp_def split: if_splits)
qed

lemma parse_number_app:
  assumes "parse_number s = Some (v, u)" and "stops r"
  shows "parse_number (s @ r) = Some (v, u @ r)"
proof -
  have s: "s \<noteq> []" using assms(1) by (auto simp: parse_number_def parse_int_part_def)
  then have hd: "starts_with ''-'' (s @ r) = starts_with ''-'' s" by (cases s) auto
  define s1 where "s1 = (if starts_with ''-'' s then tl s else s)"
  obtain ip s2 where ip: "parse_int_part s1 = Some (ip, s2)"
    using assms(1) by (auto simp: parse_number_def Let_def s1_def split: option.splits)
  obtain fp s3 where fp: "parse_frac s2 = (fp, s3)" by (cases "parse_frac s2")
  obtain ex s4 where ex: "parse_exp s3 = (ex, s4)" by (cases "parse_exp s3")
  note app = parse_int_part_app [OF ip assms(2)] parse_frac_app [OF fp assms(2)]
    parse_exp_app [OF ex assms(2)]
  have "(if starts_with ''-'' (s @ r) then tl (s @ r) else s @ r) = s1 @ r"
    using s by (auto simp: s1_def hd)
  then show ?thesis
    using assms(1) ip fp ex app by (auto simp: parse_number_def Let_def hd s1_def)
qed

lemma nat_str_hd: "0 < n \<Longrightarrow> hd (nat_str n) \<noteq> CHR ''0''"
proof (induction n rule: nat_str.induct)
  case (1 n)
  show ?case
  proof (cases "n < 10")
    case True
    have "digit_char n \<noteq> CHR ''0''" using True "1.prems" code_digit_char [of n] by (auto simp: code_def)
    then show ?thesis using True by (simp add: nat_str.simps [of n])
  next
    case False
    then show ?thesis using 1 by (simp add: nat_str.simps [of n])
  qed
qed

lemma parse_int_part_nat_str: "0 \<le> n \<Longrightarrow> parse_int_part (nat_str n) = Some (nat_str n, [])"
proof -
  assume n: "0 \<le> n"
  have all: "takeWhile is_digit (nat_str n) = nat_str n" "dropWhile is_digit (nat_str n) = []"
    using nat_str_digits [OF n] by (simp_all add: takeWhile_eq_all_conv dropWhile_eq_Nil_conv)
  show ?thesis
  proof (cases "n = 0")
    case True
    then show ?thesis using is_digit_digit_char [of 0] by (auto simp: parse_int_part_def nat_str.simps)
  next
    case False
    then show ?thesis
      using all nat_str_hd [of n] nat_str_digits [OF n] n
      by (cases "nat_str n") (auto simp: parse_int_part_def)
  qed
qed

lemma nat_str_no_sign: "0 \<le> n \<Longrightarrow> \<not> starts_with ''-'' (nat_str n)"
  using nat_str_digits [of n "CHR ''-''"] by (cases "nat_str n") (auto simp: is_digit_def code_def)

lemma parse_number_int_str: "parse_number (int_str n) = Some (VInt n, [])"
  using parse_int_part_nat_str [of n] parse_int_part_nat_str [of "- n"] nat_str_no_sign [of n]
  by (auto simp: parse_number_def int_str_def Let_def parse_frac_def parse_exp_def number_value_def)

end
