(* ===== verification/JsonText.thy ===== *)
theory JsonText
  imports PyJson
begin

text \<open>
  JSON documents as the programs of the system write them. They differ in how they escape characters,
  write floating-point numbers and space their punctuation; the contract \<open>json_printer\<close> says what
  these choices must satisfy for \<open>json.loads\<close> to read back what was written. Python's own
  \<open>json.dumps\<close> is one such printer.
\<close>

section \<open>Printing\<close>

definition quote_str :: "(char \<Rightarrow> string) \<Rightarrow> string \<Rightarrow> string" where
  "quote_str esc s = dquote # concat (map esc s) @ [dquote]"

fun text_of :: "(char \<Rightarrow> string) \<Rightarrow> (pyfloat \<Rightarrow> string) \<Rightarrow> string \<Rightarrow> pyval \<Rightarrow> string"
  and text_list :: "(char \<Rightarrow> string) \<Rightarrow> (pyfloat \<Rightarrow> string) \<Rightarrow> string \<Rightarrow> pyval list \<Rightarrow> string list"
  and text_items :: "(char \<Rightarrow> string) \<Rightarrow> (pyfloat \<Rightarrow> string) \<Rightarrow> string \<Rightarrow> pydict \<Rightarrow> string list" where
  "text_of esc num gap VNone = ''null''"
| "text_of esc num gap (VBool b) = (if b then ''true'' else ''false'')"
| "text_of esc num gap (VInt n) = int_str n"
| "text_of esc num gap (VFloat x) = num x"
| "text_of esc num gap (VStr s) = quote_str esc s"
| "text_of esc num gap (VList xs) = ''['' @ join ('','' @ gap) (text_list esc num gap xs) @ '']''"
| "text_of esc num gap (VDict d) = ''{'' @ join ('','' @ gap) (text_items esc num gap d) @ ''}''"
| "text_list esc num gap [] = []"
| "text_list esc num gap (x # xs) = text_of esc num gap x # text_list esc num gap xs"
| "text_items esc num gap [] = []"
| "text_items esc num gap ((k, v) # d) =
     (quote_str esc k @ '':'' @ gap @ text_of esc num gap v) # text_items esc num gap d"

text \<open>Values that survive the trip: distinct keys, and floats whose written form reads back.\<close>

fun text_ok :: "(pyfloat \<Rightarrow> string) \<Rightarrow> pyval \<Rightarrow> bool" where
  "text_ok num (VFloat x) = (parse_number (num x) = Some (VFloat x, []))"
| "text_ok num (VList xs) = (\<forall>x \<in> set xs. text_ok num x)"
| "text_ok num (VDict d) = (distinct (map fst d) \<and> (\<forall>p \<in> set d. text_ok num (snd p)))"
| "text_ok num _ = True"

section \<open>Reading back\<close>

lemma parse_int_part_hd: "parse_int_part s = Some p \<Longrightarrow> s \<noteq> [] \<and> is_digit (hd s)"
  by (auto simp: parse_int_part_def is_digit_def code_def split: list.splits if_splits)

lemma parse_number_hd: "parse_number s = Some p \<Longrightarrow> s \<noteq> [] \<and> (is_digit (hd s) \<or> hd s = CHR ''-'')"
  using parse_int_part_hd [of s] by (cases s) (auto simp: parse_number_def split: if_splits option.splits)

definition opens_value :: "char \<Rightarrow> bool" where
  "opens_value c \<longleftrightarrow> \<not> json_space c \<and> c \<noteq> CHR '']'' \<and> c \<noteq> CHR ''}''"

lemma text_hd: "text_ok num v \<Longrightarrow> text_of esc num gap v \<noteq> [] \<and> opens_value (hd (text_of esc num gap v))"
proof (cases v)
  case (VInt n)
  then show ?thesis using parse_number_hd [OF parse_number_int_str [of n]]
    by (auto simp: opens_value_def json_space_def is_digit_def code_def)
next
  case (VFloat x)
  assume "text_ok num v"
  then show ?thesis using VFloat parse_number_hd [of "num x"]
    by (auto simp: opens_value_def json_space_def is_digit_def code_def)
qed (auto simp: opens_value_def json_space_def quote_str_def)

lemma skip_ws_opens: "s \<noteq> [] \<Longrightarrow> opens_value (hd s) \<Longrightarrow> skip_ws s = s"
  by (cases s) (auto simp: opens_value_def skip_ws_def)

lemma parse_value_number:
  assumes "parse_number s = Some (v, [])" and "stops r" and "0 < n"
  shows "parse_value n (s @ r) = Some (v, r)"
proof -
  obtain c cs where s: "s = c # cs" "is_digit c \<or> c = CHR ''-''"
    using parse_number_hd [OF assms(1)] by (cases s) auto
  then have "c \<noteq> dquote \<and> c \<noteq> CHR ''['' \<and> c \<noteq> CHR ''{'' \<and> c \<noteq> CHR ''n'' \<and> c \<noteq> CHR ''t'' \<and> c \<noteq> CHR ''f''"
    by (auto simp: is_digit_def code_def)
  moreover obtain m where "n = Suc m" using assms(3) by (cases n) auto
  ultimately show ?thesis
    using parse_number_app [OF assms(1,2)] s by (auto simp: parse_atom_def)
qed

lemma update_new: "k \<notin> fst ` set d \<Longrightarrow> AList.update k v d = d @ [(k, v)]"
  by (induction d) auto

lemma join_Cons: "xs \<noteq> [] \<Longrightarrow> join sep (x # xs) = x @ sep @ join sep xs"
  by (cases xs) auto

lemma stops_punctuation [simp]:
  "stops (CHR '']'' # r)" "stops (CHR ''}'' # r)" "stops (CHR '','' # r)"
  by (simp_all add: stops_def is_digit_def code_def)

lemma text_list_Nil [simp]: "text_list esc num gap xs = [] \<longleftrightarrow> xs = []"
  by (cases xs) auto

lemma text_items_Nil [simp]: "text_items esc num gap d = [] \<longleftrightarrow> d = []"
  by (cases d) auto

lemma join_text_list_hd:
  "xs \<noteq> [] \<Longrightarrow> \<forall>x \<in> set xs. text_ok num x \<Longrightarrow>
     join sep (text_list esc num gap xs) \<noteq> [] \<and> opens_value (hd (join sep (text_list esc num gap xs)))"
  using text_hd [of num "hd xs" esc gap] by (cases xs; cases "tl xs") auto

lemma join_text_items_hd:
  "d \<noteq> [] \<Longrightarrow> join sep (text_items esc num gap d) \<noteq> [] \<and> opens_value (hd (join sep (text_items esc num gap d)))"
  by (cases d; cases "tl d") (auto simp: quote_str_def opens_value_def json_space_def)

abbreviation elems_text ::
  "(char \<Rightarrow> string) \<Rightarrow> (pyfloat \<Rightarrow> string) \<Rightarrow> string \<Rightarrow> pyval list \<Rightarrow> string \<Rightarrow> string" where
  "elems_text esc num gap xs r \<equiv> join ('','' @ gap) (text_list esc num gap xs) @ '']'' @ r"

abbreviation items_text ::
  "(char \<Rightarrow> string) \<Rightarrow> (pyfloat \<Rightarrow> string) \<Rightarrow> string \<Rightarrow> pydict \<Rightarrow> string \<Rightarrow> string" where
  "items_text esc num gap d r \<equiv> join ('','' @ gap) (text_items esc num gap d) @ ''}'' @ r"

lemma elems_text_opens:
  "xs \<noteq> [] \<Longrightarrow> \<forall>x \<in> set xs. text_ok num x \<Longrightarrow>
     skip_ws (elems_text esc num gap xs r) = elems_text esc num gap xs r \<and>
     \<not> starts_with '']'' (elems_text esc num gap xs r)"
  using join_text_list_hd [of xs num "'','' @ gap" esc gap] skip_ws_opens [of "elems_text esc num gap xs r"]
  by (cases "join ('','' @ gap) (text_list esc num gap xs)") (auto simp: opens_value_def)

lemma items_text_opens:
  "d \<noteq> [] \<Longrightarrow> skip_ws (items_text esc num gap d r) = items_text esc num gap d r \<and>
     \<not> starts_with ''}'' (items_text esc num gap d r)"
  using join_text_items_hd [of d "'','' @ gap" esc num gap] skip_ws_opens [of "items_text esc num gap d r"]
  by (cases "join ('','' @ gap) (text_items esc num gap d)") (auto simp: opens_value_def)

section \<open>The contract of a printer\<close>

locale json_printer =
  fixes esc :: "char \<Rightarrow> string" and num :: "pyfloat \<Rightarrow> string" and gap :: string
  assumes parse_esc: "parse_chars (esc c @ t) = map_option (\<lambda>(x, u). (c # x, u)) (parse_chars t)"
    and gap: "gap = [] \<or> gap = '' ''"
begin

lemma parse_quoted: "parse_chars (concat (map esc s) @ dquote # r) = Some (s, r)"
  by (induction s) (auto simp: parse_esc)

lemma skip_gap: "skip_ws (gap @ s) = skip_ws s"
  using gap by (auto simp: skip_ws_def json_space_def)

lemma parse_key_text:
  "t \<noteq> [] \<Longrightarrow> opens_value (hd t) \<Longrightarrow> parse_key (quote_str esc k @ '':'' @ gap @ t) = Some (k, t)"
  using parse_quoted [of k "'':'' @ gap @ t"] skip_ws_opens [of t] skip_gap [of t]
  by (auto simp: parse_key_def quote_str_def skip_ws_def json_space_def)

lemma parse_value_scalar:
  "0 < n \<Longrightarrow> parse_value n (CHR ''n'' # CHR ''u'' # CHR ''l'' # CHR ''l'' # r) = Some (VNone, r)"
  "0 < n \<Longrightarrow> parse_value n (CHR ''t'' # CHR ''r'' # CHR ''u'' # CHR ''e'' # r) = Some (VBool True, r)"
  "0 < n \<Longrightarrow> parse_value n (CHR ''f'' # CHR ''a'' # CHR ''l'' # CHR ''s'' # CHR ''e'' # r) =
     Some (VBool False, r)"
  "0 < n \<Longrightarrow> parse_value n (quote_str esc s @ r) = Some (VStr s, r)"
  by (cases n; simp add: parse_atom_def quote_str_def parse_quoted)+

text \<open>One step of each container: the first member, then the rest.\<close>

lemma parse_elems_step:
  assumes "parse_value m (text_of esc num gap x @ s) = Some (x, s)"
    and "s = (if xs = [] then '']'' @ r else '','' @ gap @ elems_text esc num gap xs r)"
    and "xs \<noteq> [] \<Longrightarrow> parse_elems m (elems_text esc num gap xs r) = Some (xs, r)"
    and "\<forall>y \<in> set xs. text_ok num y"
  shows "parse_elems (Suc m) (elems_text esc num gap (x # xs) r) = Some (x # xs, r)"
proof (cases "xs = []")
  case True
  then show ?thesis using assms(1,2) by (simp add: skip_ws_def json_space_def)
next
  case False
  have "elems_text esc num gap (x # xs) r = text_of esc num gap x @ s" using assms(2) False by (simp add: join_Cons)
  moreover have "skip_ws s = s" using assms(2) False by (simp add: skip_ws_def json_space_def)
  moreover have "skip_ws (gap @ elems_text esc num gap xs r) = elems_text esc num gap xs r"
    using skip_gap elems_text_opens [OF False assms(4)] by simp
  ultimately show ?thesis using assms(1-3) False by simp
qed

lemma parse_items_step:
  assumes "parse_value m (text_of esc num gap v @ s) = Some (v, s)"
    and "s = (if d = [] then ''}'' @ r else '','' @ gap @ items_text esc num gap d r)"
    and "d \<noteq> [] \<Longrightarrow> parse_items m (d0 @ [(k, v)]) (items_text esc num gap d r) = Some (d0 @ (k, v) # d, r)"
    and "text_ok num v" and "k \<notin> fst ` set d0"
  shows "parse_items (Suc m) d0 (items_text esc num gap ((k, v) # d) r) = Some (d0 @ (k, v) # d, r)"
proof -
  have "items_text esc num gap ((k, v) # d) r = quote_str esc k @ '':'' @ gap @ text_of esc num gap v @ s"
    using assms(2) by (simp add: join_Cons)
  moreover have "parse_key (quote_str esc k @ '':'' @ gap @ text_of esc num gap v @ s) = Some (k, text_of esc num gap v @ s)"
    using text_hd [OF assms(4), of esc gap] by (intro parse_key_text) auto
  moreover have "skip_ws s = s" using assms(2) by (simp add: skip_ws_def json_space_def)
  moreover have "skip_ws (gap @ items_text esc num gap d r) = items_text esc num gap d r" if "d \<noteq> []"
    using skip_gap items_text_opens [OF that] by simp
  ultimately show ?thesis using assms(1-3,5) by (auto simp: update_new)
qed

lemma parse_text:
  "text_ok num v \<Longrightarrow> stops r \<Longrightarrow> 2 * length (text_of esc num gap v @ r) < n \<Longrightarrow>
     parse_value n (text_of esc num gap v @ r) = Some (v, r)"
  "xs \<noteq> [] \<Longrightarrow> \<forall>x \<in> set xs. text_ok num x \<Longrightarrow> 2 * length (elems_text esc num gap xs r) + 1 < n \<Longrightarrow>
     parse_elems n (elems_text esc num gap xs r) = Some (xs, r)"
  "d \<noteq> [] \<Longrightarrow> distinct (map fst (d0 @ d)) \<Longrightarrow> \<forall>p \<in> set d. text_ok num (snd p) \<Longrightarrow>
     2 * length (items_text esc num gap d r) + 1 < n \<Longrightarrow> parse_items n d0 (items_text esc num gap d r) = Some (d0 @ d, r)"
proof (induction v and xs and d arbitrary: n r and n r and n r d0
    rule: dumps_dumps_list_dumps_items.induct)
  case (3 i)
  then show ?case using parse_value_number [OF parse_number_int_str] by simp
next
  case (4 x)
  then show ?case using parse_value_number [of "num x"] by simp
next
  case (6 xs)
  from "6.prems" obtain m where m: "n = Suc m" by (cases n) auto
  show ?case
    using "6.IH" [of r m] "6.prems" m elems_text_opens [of xs num gap esc r]
    by (cases "xs = []") (auto simp: skip_ws_def json_space_def)
next
  case (7 d)
  from "7.prems" obtain m where m: "n = Suc m" by (cases n) auto
  show ?case
    using "7.IH" [of "[]" r m] "7.prems" m items_text_opens [of d gap esc num r]
    by (cases "d = []") (auto simp: skip_ws_def json_space_def)
next
  case (9 x xs)
  from "9.prems" obtain m where m: "n = Suc m" by (cases n) auto
  let ?s = "if xs = [] then '']'' @ r else '','' @ gap @ elems_text esc num gap xs r"
  show ?case
    unfolding m
  proof (rule parse_elems_step [OF _ refl])
    show "parse_value m (text_of esc num gap x @ ?s) = Some (x, ?s)"
      using "9.prems" m by (intro "9.IH"(1)) (auto simp: join_Cons)
  qed (use "9.IH"(2) [of r m] "9.prems" m in \<open>auto simp: join_Cons\<close>)
next
  case (11 k v d)
  from "11.prems" obtain m where m: "n = Suc m" by (cases n) auto
  let ?s = "if d = [] then ''}'' @ r else '','' @ gap @ items_text esc num gap d r"
  show ?case
    unfolding m
  proof (rule parse_items_step [OF _ refl])
    show "parse_value m (text_of esc num gap v @ ?s) = Some (v, ?s)"
      using "11.prems" m by (intro "11.IH"(1)) (auto simp: join_Cons)
  qed (use "11.IH"(2) [of "d0 @ [(k, v)]" r m] "11.prems" m in \<open>auto simp: join_Cons\<close>)
qed (auto simp: parse_value_scalar)

lemma loads_text: "text_ok num v \<Longrightarrow> loads (text_of esc num gap v) = Some v"
  using parse_text(1) [of v "[]" "Suc (2 * length (text_of esc num gap v))"] text_hd [of num v esc gap]
    skip_ws_opens [of "text_of esc num gap v"]
  by (simp add: loads_def stops_def skip_ws_def)

end

section \<open>Python's printer\<close>

interpretation py_json: json_printer dump_char dump_float "'' ''"
  by unfold_locales (simp_all add: parse_chars_dump_char)

lemma dumps_text:
  "dumps v = text_of dump_char dump_float '' '' v"
  "dumps_list xs = text_list dump_char dump_float '' '' xs"
  "dumps_items d = text_items dump_char dump_float '' '' d"
  by (induction v and xs and d rule: dumps_dumps_list_dumps_items.induct) (simp_all add: dump_str_def quote_str_def)

fun json_ok :: "pyval \<Rightarrow> bool" where
  "json_ok (VFloat x) = (parse_number (dump_float x) = Some (VFloat x, []))"
| "json_ok (VList xs) = (\<forall>x \<in> set xs. json_ok x)"
| "json_ok (VDict d) = (distinct (map fst d) \<and> (\<forall>p \<in> set d. json_ok (snd p)))"
| "json_ok _ = True"

lemma json_ok_text: "json_ok v = text_ok dump_float v"
  by (induction v rule: json_ok.induct) auto

lemma loads_dumps: "json_ok v \<Longrightarrow> loads (dumps v) = Some v"
  by (simp only: dumps_text json_ok_text py_json.loads_text)

end
