(* ===== verification/Effects.thy ===== *)
theory Effects
  imports PyValue
begin

text \<open>
  Python's exceptions as values (the engine's own, \<open>execution/exceptions.py\<close>, and the built-in
  ones its handlers name) and the state-and-exception monad in which effectful code is written. The
  index an exception carries is whatever value the wrapper reported, \<open>None\<close> where there is none.
\<close>

section \<open>Exceptions (\<open>execution/exceptions.py\<close> and the built-in ones)\<close>

datatype exn =
    CompileError string
  | RuntimeExecutionError string pyval
  | ExecutionTimeoutError string pyval
  | ValueError string
  | JSONDecodeError string
  | UnicodeDecodeError string
  | OverflowError string
  | RuntimeError string
  | RedisError string
  | OSError string
  | TimeoutError
  | SyntaxError string
  | KeyError string
  | HTTPException int string
  | OtherError string
  | Diverges

text \<open>\<open>JSONDecodeError\<close> and \<open>UnicodeDecodeError\<close> are the two subclasses of \<open>ValueError\<close> that the libraries
  raise here; a \<open>KeyError\<close> carries the key, and its text is the \<open>repr\<close> of it. \<^const>\<open>OtherError\<close> stands for
  any other class. \<^const>\<open>Diverges\<close> is no exception of the program: it is the outcome of a loop that used
  up its fuel, and no handler sees it.\<close>

fun exn_str :: "exn \<Rightarrow> string" where
  "exn_str (CompileError m) = m"
| "exn_str (RuntimeExecutionError m i) = m"
| "exn_str (ExecutionTimeoutError m i) = m"
| "exn_str (ValueError m) = m"
| "exn_str (JSONDecodeError m) = m"
| "exn_str (UnicodeDecodeError m) = m"
| "exn_str (OverflowError m) = m"
| "exn_str (RuntimeError m) = m"
| "exn_str (RedisError m) = m"
| "exn_str (OSError m) = m"
| "exn_str TimeoutError = ''''"
| "exn_str (SyntaxError m) = m"
| "exn_str (KeyError k) = repr_str k"
| "exn_str (HTTPException status detail) = detail"
| "exn_str (OtherError m) = m"
| "exn_str Diverges = ''''"

text \<open>\<open>except ValueError\<close>, and \<open>type(e).__name__\<close> of what it takes.\<close>

definition is_value_error :: "exn \<Rightarrow> bool" where
  "is_value_error e = (case e of
      ValueError _ \<Rightarrow> True | JSONDecodeError _ \<Rightarrow> True | UnicodeDecodeError _ \<Rightarrow> True | _ \<Rightarrow> False)"

definition value_error_name :: "exn \<Rightarrow> string" where
  "value_error_name e = (case e of
      JSONDecodeError _ \<Rightarrow> ''JSONDecodeError'' | UnicodeDecodeError _ \<Rightarrow> ''UnicodeDecodeError'' | _ \<Rightarrow> ''ValueError'')"

fun is_timeout_error :: "exn \<Rightarrow> bool" where
  "is_timeout_error (ExecutionTimeoutError m i) = True"
| "is_timeout_error _ = False"

text \<open>\<open>ExecutionTimeoutError\<close> is a subclass of \<open>RuntimeExecutionError\<close>.\<close>

fun is_runtime_execution_error :: "exn \<Rightarrow> bool" where
  "is_runtime_execution_error (RuntimeExecutionError m i) = True"
| "is_runtime_execution_error (ExecutionTimeoutError m i) = True"
| "is_runtime_execution_error _ = False"

text \<open>\<open>getattr(exc, "failed_test_case_index", None)\<close>.\<close>

fun exn_index :: "exn \<Rightarrow> pyval" where
  "exn_index (RuntimeExecutionError m i) = i"
| "exn_index (ExecutionTimeoutError m i) = i"
| "exn_index _ = VNone"

section \<open>Effects: state passing with exceptions\<close>

type_synonym ('w, 'a) io = "'w \<Rightarrow> (exn + 'a) \<times> 'w"

definition io_return :: "'a \<Rightarrow> ('w, 'a) io" where
  "io_return a = (\<lambda>w. (Inr a, w))"

definition io_raise :: "exn \<Rightarrow> ('w, 'a) io" where
  "io_raise e = (\<lambda>w. (Inl e, w))"

definition io_bind :: "('w, 'a) io \<Rightarrow> ('a \<Rightarrow> ('w, 'b) io) \<Rightarrow> ('w, 'b) io" where
  "io_bind m k = (\<lambda>w. case m w of (Inl e, w') \<Rightarrow> (Inl e, w') | (Inr a, w') \<Rightarrow> k a w')"

definition io_then :: "('w, 'a) io \<Rightarrow> ('w, 'b) io \<Rightarrow> ('w, 'b) io" where
  "io_then m k = io_bind m (\<lambda>_. k)"

text \<open>\<open>try: m except e: h e\<close> and \<open>try: m finally: f\<close>.\<close>

definition io_catch :: "('w, 'a) io \<Rightarrow> (exn \<Rightarrow> ('w, 'a) io) \<Rightarrow> ('w, 'a) io" where
  "io_catch m h = (\<lambda>w. case m w of
     (Inl e, w') \<Rightarrow> if e = Diverges then (Inl e, w') else h e w'
   | (Inr a, w') \<Rightarrow> (Inr a, w'))"

definition io_finally :: "('w, 'a) io \<Rightarrow> ('w, unit) io \<Rightarrow> ('w, 'a) io" where
  "io_finally m f = (\<lambda>w. case m w of (r, w') \<Rightarrow>
     if r = Inl Diverges then (r, w')
     else (case f w' of (Inl e, w'') \<Rightarrow> (Inl e, w'') | (Inr _, w'') \<Rightarrow> (r, w'')))"

text \<open>A computation that leaves no trace but its result, an outcome as a computation, and
  \<open>for x in xs: body(x)\<close>.\<close>

definition io_of_sum :: "exn + 'a \<Rightarrow> ('w, 'a) io" where
  "io_of_sum r = (case r of Inl e \<Rightarrow> io_raise e | Inr a \<Rightarrow> io_return a)"

fun io_each :: "('a \<Rightarrow> ('w, unit) io) \<Rightarrow> 'a list \<Rightarrow> ('w, unit) io" where
  "io_each f [] = io_return ()"
| "io_each f (x # xs) = io_then (f x) (io_each f xs)"

fun io_map :: "('a \<Rightarrow> ('w, 'b) io) \<Rightarrow> 'a list \<Rightarrow> ('w, 'b list) io" where
  "io_map f [] = io_return []"
| "io_map f (x # xs) = io_bind (f x) (\<lambda>y. io_bind (io_map f xs) (\<lambda>ys. io_return (y # ys)))"

text \<open>\<open>asyncio.create_task(m)\<close>: the task runs on its own, its outcome is not looked at.\<close>

definition create_task :: "('w, unit) io \<Rightarrow> ('w, unit) io" where
  "create_task m = (\<lambda>w. (Inr (), snd (m w)))"

lemma io_return_apply [simp, io_simps]: "io_return a w = (Inr a, w)"
  by (simp add: io_return_def)

lemma io_raise_apply [simp, io_simps]: "io_raise e w = (Inl e, w)"
  by (simp add: io_raise_def)

lemma io_bind_Inl [simp, io_simps]: "m w = (Inl e, w') \<Longrightarrow> io_bind m k w = (Inl e, w')"
  by (simp add: io_bind_def)

lemma io_bind_Inr [simp, io_simps]: "m w = (Inr a, w') \<Longrightarrow> io_bind m k w = k a w'"
  by (simp add: io_bind_def)

text \<open>Conditions with a boolean result are rewritten before they are matched.\<close>

lemma io_bind_False [simp, io_simps]: "m w = (Inr False, w') \<Longrightarrow> io_bind m k w = k False w'"
  by (rule io_bind_Inr)

lemma io_bind_return [simp, io_simps]: "io_bind (io_return a) k = k a"
  by (simp add: io_bind_def fun_eq_iff)

lemma io_bind_raise [simp, io_simps]: "io_bind (io_raise e) k = io_raise e"
  by (simp add: io_bind_def fun_eq_iff)

lemma io_bind_cong [fundef_cong]:
  assumes "m w = m' w'" and "w = w'"
    and "\<And>a w''. m' w' = (Inr a, w'') \<Longrightarrow> k a w'' = k' a w''"
  shows "io_bind m k w = io_bind m' k' w'"
  using assms by (auto simp: io_bind_def split: prod.split sum.split)

lemma io_bind_eq_Inr:
  "io_bind m k w = (Inr b, w'') \<longleftrightarrow> (\<exists>a w'. m w = (Inr a, w') \<and> k a w' = (Inr b, w''))"
  by (auto simp: io_bind_def split: prod.splits sum.splits)

lemma io_finally_apply:
  "m w = (r, w') \<Longrightarrow> r \<noteq> Inl Diverges \<Longrightarrow> io_finally m f w =
     (case f w' of (Inl e, w'') \<Rightarrow> (Inl e, w'') | (Inr _, w'') \<Rightarrow> (r, w''))"
  by (simp add: io_finally_def)

lemma io_then_Inr [simp, io_simps]: "m w = (Inr a, w') \<Longrightarrow> io_then m k w = k w'"
  by (simp add: io_then_def)

lemma io_then_Inl [simp, io_simps]: "m w = (Inl e, w') \<Longrightarrow> io_then m k w = (Inl e, w')"
  by (simp add: io_then_def)

lemma io_of_sum_simps [simp, io_simps]:
  "io_of_sum (Inl e) = io_raise e" "io_of_sum (Inr a) = io_return a"
  by (simp_all add: io_of_sum_def)

lemma io_catch_Inr [simp, io_simps]: "m w = (Inr a, w') \<Longrightarrow> io_catch m h w = (Inr a, w')"
  by (simp add: io_catch_def)

lemma io_catch_Inl [simp, io_simps]:
  "m w = (Inl e, w') \<Longrightarrow> e \<noteq> Diverges \<Longrightarrow> io_catch m h w = h e w'"
  by (simp add: io_catch_def)

lemma create_task_apply [simp, io_simps]: "create_task m w = (Inr (), snd (m w))"
  by (simp add: create_task_def)

end
