(* ===== verification/Env.thy ===== *)
theory Env
  imports JsonText Effects
begin

text \<open>
  What the engine runs on, as parameters: a record of the operations of Redis, of the operating
  system's processes (the \<open>docker\<close> command line), of the file system and of the clock, over an
  unspecified type of worlds. Each operation may raise. \<open>config/limits.py\<close> follows: the tunable
  constants as functions of the process environment.
\<close>

section \<open>External operations\<close>

record proc_result =
  p_stdout :: string
  p_stderr :: string
  p_returncode :: int

text \<open>\<open>asyncio.wait_for\<close>: the awaited result, or the timeout.\<close>

datatype 'a timed = Finished 'a | TimedOut

text \<open>A process read as it runs: the chunks its two pipes delivered, then its exit code, or
  \<open>None\<close> if it was still running when the time limit passed.\<close>

record proc_stream =
  out_chunks :: "string list"
  err_chunks :: "string list"
  exit_code :: "int option"

text \<open>Process output is bytes; \<open>utf8\<close> is \<open>bytes.decode(errors="replace")\<close> and \<open>utf8_strict\<close>
  is \<open>bytes.decode()\<close>, which may fail. \<open>py_compile\<close> is the built-in \<open>compile\<close>: what it raises,
  if anything. \<open>template\<close> gives the wrapper texts of \<open>languages/*_wrapper.py\<close> by the name of their
  constant. \<open>kill_proc\<close> kills and reaps the process started with that command line;
  \<open>communicate\<close> with no time limit never reports a timeout by itself. \<open>sem_acquire\<close> and
  \<open>sem_release\<close> are the \<open>asyncio.Semaphore\<close> of the API process; \<open>image_ids\<close> and \<open>shutting_down\<close>
  are the module variables \<open>_image_ids\<close> and \<open>_shutdown\<close> of the worker process.
  \<open>loop_fuel\<close> bounds the iterations of the loops that have no bound of their own.\<close>

record 'w env =
  getenv :: "string \<Rightarrow> string option"
  utf8 :: "string \<Rightarrow> string"
  utf8_strict :: "string \<Rightarrow> string option"
  py_compile :: "string \<Rightarrow> exn option"
  template :: "string \<Rightarrow> string"
  loop_fuel :: nat
  image_ids :: "'w \<Rightarrow> (string \<times> (string \<times> pyfloat)) list"
  put_image_ids :: "(string \<times> (string \<times> pyfloat)) list \<Rightarrow> ('w, unit) io"
  shutting_down :: "'w \<Rightarrow> bool"
  uuid4 :: "('w, string) io"
  async_sleep :: "int \<Rightarrow> ('w, unit) io"
  sem_acquire :: "int \<Rightarrow> ('w, unit timed) io"
  sem_release :: "('w, unit) io"
  time_now :: "('w, pyfloat) io"
  mkdtemp :: "string \<Rightarrow> ('w, string) io"
  rmtree :: "string \<Rightarrow> ('w, unit) io"
  makedirs :: "string \<Rightarrow> ('w, unit) io"
  write_file :: "string \<Rightarrow> string \<Rightarrow> ('w, unit) io"
  communicate :: "string list \<Rightarrow> string \<Rightarrow> int option \<Rightarrow> ('w, proc_result timed) io"
  stream_proc :: "string list \<Rightarrow> string \<Rightarrow> int \<Rightarrow> ('w, proc_stream) io"
  kill_proc :: "string list \<Rightarrow> ('w, unit) io"
  r_llen :: "string \<Rightarrow> ('w, nat) io"
  r_lpush :: "string \<Rightarrow> string \<Rightarrow> ('w, unit) io"
  r_rpush :: "string \<Rightarrow> string list \<Rightarrow> ('w, unit) io"
  r_rpop :: "string \<Rightarrow> ('w, string option) io"
  r_brpop :: "string list \<Rightarrow> int \<Rightarrow> ('w, (string \<times> string) option) io"
  r_blpop :: "string \<Rightarrow> int \<Rightarrow> ('w, string option) io"
  r_lrange :: "string \<Rightarrow> ('w, string list) io"
  r_delete :: "string \<Rightarrow> ('w, unit) io"
  r_get :: "string \<Rightarrow> ('w, string option) io"
  r_set :: "string \<Rightarrow> string \<Rightarrow> int option \<Rightarrow> ('w, unit) io"
  r_set_nx :: "string \<Rightarrow> string \<Rightarrow> int option \<Rightarrow> ('w, bool) io"
  r_expire :: "string \<Rightarrow> int \<Rightarrow> ('w, unit) io"
  r_scan :: "string \<Rightarrow> ('w, string list) io"

text \<open>An environment in which nothing is configured and every service is down: the base on which
  concrete environments are built by updating the operations of interest.\<close>

definition offline :: "'w env" where
  "offline = \<lparr> getenv = (\<lambda>_. None), utf8 = (\<lambda>s. s), utf8_strict = Some,
     py_compile = (\<lambda>_. None), template = (\<lambda>_. []), loop_fuel = 0, image_ids = (\<lambda>_. []),
     put_image_ids = (\<lambda>_. io_return ()), shutting_down = (\<lambda>_. False), uuid4 = io_return [],
     async_sleep = (\<lambda>_. io_return ()), sem_acquire = (\<lambda>_. io_return (Finished ())),
     sem_release = io_return (), time_now = io_return (Fin 0),
     mkdtemp = (\<lambda>_. io_raise (OSError [])), rmtree = (\<lambda>_. io_return ()),
     makedirs = (\<lambda>_. io_raise (OSError [])), write_file = (\<lambda>_ _. io_raise (OSError [])),
     communicate = (\<lambda>_ _ _. io_raise (OSError [])), stream_proc = (\<lambda>_ _ _. io_raise (OSError [])),
     kill_proc = (\<lambda>_. io_return ()), r_llen = (\<lambda>_. io_raise (RedisError [])),
     r_lpush = (\<lambda>_ _. io_raise (RedisError [])), r_rpush = (\<lambda>_ _. io_raise (RedisError [])),
     r_rpop = (\<lambda>_. io_raise (RedisError [])), r_brpop = (\<lambda>_ _. io_raise (RedisError [])),
     r_blpop = (\<lambda>_ _. io_raise (RedisError [])), r_lrange = (\<lambda>_. io_raise (RedisError [])),
     r_delete = (\<lambda>_. io_raise (RedisError [])), r_get = (\<lambda>_. io_raise (RedisError [])),
     r_set = (\<lambda>_ _ _. io_raise (RedisError [])), r_set_nx = (\<lambda>_ _ _. io_raise (RedisError [])),
     r_expire = (\<lambda>_ _. io_raise (RedisError [])), r_scan = (\<lambda>_. io_raise (RedisError [])) \<rparr>"

text \<open>Strict decoding raises \<open>UnicodeDecodeError\<close>, a \<open>ValueError\<close>.\<close>

definition decode :: "'w env \<Rightarrow> string \<Rightarrow> ('w, string) io" where
  "decode E bytes = (case utf8_strict E bytes of
      None \<Rightarrow> io_raise (UnicodeDecodeError ''utf-8 codec error'')
    | Some s \<Rightarrow> io_return s)"

section \<open>Limits (\<open>config/limits.py\<close>)\<close>

definition int_env :: "'w env \<Rightarrow> string \<Rightarrow> int \<Rightarrow> int" where
  "int_env E name fallback = (case getenv E name of
      None \<Rightarrow> fallback
    | Some value \<Rightarrow> (case parse_int value of None \<Rightarrow> fallback | Some n \<Rightarrow> n))"

definition str_env :: "'w env \<Rightarrow> string \<Rightarrow> string \<Rightarrow> string" where
  "str_env E name fallback = (case getenv E name of None \<Rightarrow> fallback | Some value \<Rightarrow> value)"

definition EXECUTION_TIMEOUT_SECONDS :: "'w env \<Rightarrow> int" where
  "EXECUTION_TIMEOUT_SECONDS E = int_env E ''EXECUTION_TIMEOUT_SECONDS'' 10"

definition COMPILATION_TIMEOUT_SECONDS :: "'w env \<Rightarrow> int" where
  "COMPILATION_TIMEOUT_SECONDS E = int_env E ''COMPILATION_TIMEOUT_SECONDS'' 120"

definition TS_COMPILE_TIMEOUT_SECONDS :: "'w env \<Rightarrow> int" where
  "TS_COMPILE_TIMEOUT_SECONDS E = int_env E ''TS_COMPILE_TIMEOUT_SECONDS'' 30"

definition QUEUE_RESULT_TIMEOUT_SECONDS :: "'w env \<Rightarrow> int" where
  "QUEUE_RESULT_TIMEOUT_SECONDS E = int_env E ''QUEUE_RESULT_TIMEOUT_SECONDS'' 900"

definition DOCKER_MEMORY_LIMIT :: "'w env \<Rightarrow> string" where
  "DOCKER_MEMORY_LIMIT E = str_env E ''DOCKER_MEMORY_LIMIT'' ''1024m''"

definition DOCKER_MEMORY_SWAP :: "'w env \<Rightarrow> string" where
  "DOCKER_MEMORY_SWAP E = str_env E ''DOCKER_MEMORY_SWAP'' ''1024m''"

definition DOCKER_CPU_LIMIT :: "'w env \<Rightarrow> string" where
  "DOCKER_CPU_LIMIT E = str_env E ''DOCKER_CPU_LIMIT'' ''2''"

definition DOCKER_PIDS_LIMIT :: "'w env \<Rightarrow> string" where
  "DOCKER_PIDS_LIMIT E = str_env E ''DOCKER_PIDS_LIMIT'' ''1536''"

definition DOCKER_NOFILE_LIMIT :: "'w env \<Rightarrow> string" where
  "DOCKER_NOFILE_LIMIT E = str_env E ''DOCKER_NOFILE_LIMIT'' ''65535''"

definition TS_CPU_LIMIT :: "'w env \<Rightarrow> string" where
  "TS_CPU_LIMIT E = str_env E ''TS_CPU_LIMIT'' ''2''"

definition CPP_COMPILE_OPT_LEVEL :: "'w env \<Rightarrow> string" where
  "CPP_COMPILE_OPT_LEVEL E = str_env E ''CPP_COMPILE_OPT_LEVEL'' ''-O0''"

definition MAX_STDOUT_BYTES :: "'w env \<Rightarrow> int" where
  "MAX_STDOUT_BYTES E = int_env E ''MAX_STDOUT_BYTES'' 1000000"

definition MAX_COMPILE_ERROR_BYTES :: "'w env \<Rightarrow> int" where
  "MAX_COMPILE_ERROR_BYTES E = int_env E ''MAX_COMPILE_ERROR_BYTES'' 1000"

definition CONTAINER_SLEEP_CMD :: "'w env \<Rightarrow> string list" where
  "CONTAINER_SLEEP_CMD E = [''sleep'', str_env E ''CONTAINER_SLEEP_SECONDS'' ''infinity'']"

definition WORKER_CONCURRENCY :: "'w env \<Rightarrow> int" where
  "WORKER_CONCURRENCY E = int_env E ''WORKER_CONCURRENCY'' 30"

definition FALLBACK_MAX_CONCURRENT :: "'w env \<Rightarrow> int" where
  "FALLBACK_MAX_CONCURRENT E = int_env E ''FALLBACK_MAX_CONCURRENT'' 20"

definition WARM_CONTAINER_TTL_SECONDS :: "'w env \<Rightarrow> int" where
  "WARM_CONTAINER_TTL_SECONDS E = int_env E ''WARM_CONTAINER_TTL_SECONDS'' 60"

definition WARM_POOL_MAX_PER_IMAGE :: "'w env \<Rightarrow> int" where
  "WARM_POOL_MAX_PER_IMAGE E = int_env E ''WARM_POOL_MAX_PER_IMAGE'' 50"

definition CPP_PREWARM_TARGET :: "'w env \<Rightarrow> int" where
  "CPP_PREWARM_TARGET E = int_env E ''CPP_PREWARM_TARGET'' 1"

definition DOCKER_RUN_CONCURRENCY :: "'w env \<Rightarrow> int" where
  "DOCKER_RUN_CONCURRENCY E = int_env E ''DOCKER_RUN_CONCURRENCY'' 20"

definition COMPILE_CONCURRENCY :: "'w env \<Rightarrow> int" where
  "COMPILE_CONCURRENCY E = int_env E ''COMPILE_CONCURRENCY'' 8"

section \<open>Sandbox paths (\<open>execution/sandbox_paths.py\<close>)\<close>

text \<open>\<open>WINDOWS_DRIVE_PATH.match\<close>: a letter, a colon, a slash or a backslash.\<close>

definition WINDOWS_DRIVE_PATH :: "string \<Rightarrow> bool" where
  "WINDOWS_DRIVE_PATH s = (case s of
      a # b # c # _ \<Rightarrow> is_alpha a \<and> b = CHR '':'' \<and> (c = backslash \<or> c = CHR ''/'')
    | _ \<Rightarrow> False)"

definition get_sandbox_roots :: "'w env \<Rightarrow> exn + (string \<times> string)" where
  "get_sandbox_roots E =
     (let container_sandbox_root = str_env E ''CONTAINER_SANDBOX_ROOT'' ''/sandbox'' in
      case getenv E ''HOST_SANDBOX_ROOT'' of
        None \<Rightarrow> Inl (RuntimeExecutionError ''HOST_SANDBOX_ROOT not set'' VNone)
      | Some raw \<Rightarrow>
          if raw = [] then Inl (RuntimeExecutionError ''HOST_SANDBOX_ROOT not set'' VNone)
          else (let host = strip raw in
            if host = [] then Inl (RuntimeExecutionError ''HOST_SANDBOX_ROOT is empty'' VNone)
            else if WINDOWS_DRIVE_PATH host then
              Inl (RuntimeExecutionError (''HOST_SANDBOX_ROOT must be a Docker-daemon-visible Linux path '' @
                ''(for Windows Docker Desktop use /run/desktop/mnt/host/<drive>/...)'') VNone)
            else Inr (container_sandbox_root,
              rstrip_char CHR ''/'' (replace [backslash] ''/'' host))))"

text \<open>\<open>os.path.basename\<close>: what follows the last slash.\<close>

definition basename :: "string \<Rightarrow> string" where
  "basename p = (case rfind_sub ''/'' p of None \<Rightarrow> p | Some i \<Rightarrow> drop (Suc i) p)"

definition build_host_temp_dir :: "string \<Rightarrow> string \<Rightarrow> string" where
  "build_host_temp_dir host_sandbox_root temp_dir = host_sandbox_root @ ''/'' @ basename temp_dir"

text \<open>\<open>os.path.join\<close> of two components.\<close>

definition path_join :: "string \<Rightarrow> string \<Rightarrow> string" where
  "path_join a b =
     (if starts_with ''/'' b then b else if a = [] \<or> ends_with ''/'' a then a @ b else a @ ''/'' @ b)"

end
