(* ===== verification/Compare.thy ===== *)
theory Compare
  imports Effects
begin

text \<open>
  The judge's output comparison (\<open>execution/pipeline.py\<close>: \<open>_floats_close\<close>, \<open>_values_match\<close>,
  \<open>_outputs_match\<close>, \<open>_reported\<close>), the result type \<open>InPlaceResult\<close> of
  \<open>execution/process.py\<close>, the relation the comparison decides, and its laws. An exception that
  escapes the comparison is the left side of the sum.
\<close>

section \<open>Comparing floats\<close>

definition FLOAT_TOLERANCE :: rat where
  "FLOAT_TOLERANCE = the (fval (rnd (1 / 100000)))"

definition floats_close :: "pyfloat \<Rightarrow> pyfloat \<Rightarrow> bool" where
  "floats_close a b =
     fle (fabs (fsub a b)) (fscale FLOAT_TOLERANCE (pymax2 (pymax2 (Fin 1) (fabs a)) (fabs b)))"

section \<open>Comparing values\<close>

fun is_float :: "pyval \<Rightarrow> bool" where
  "is_float (VFloat x) = True"
| "is_float _ = False"

text \<open>\<open>isinstance(v, (int, float)) and not isinstance(v, bool)\<close>.\<close>

fun is_number :: "pyval \<Rightarrow> bool" where
  "is_number (VInt n) = True"
| "is_number (VFloat x) = True"
| "is_number _ = False"

text \<open>\<open>float(v)\<close> of a number.\<close>

fun to_float :: "pyval \<Rightarrow> exn + pyfloat" where
  "to_float (VInt n) = (case float_of_int n of Some x \<Rightarrow> Inr x
     | None \<Rightarrow> Inl (OverflowError ''int too large to convert to float''))"
| "to_float (VFloat x) = Inr x"
| "to_float v = Inl (OtherError ''TypeError'')"

definition numbers_match :: "pyval \<Rightarrow> pyval \<Rightarrow> exn + bool" where
  "numbers_match a e = (case to_float a of Inl x \<Rightarrow> Inl x | Inr fa \<Rightarrow>
     (case to_float e of Inl x \<Rightarrow> Inl x | Inr fe \<Rightarrow> Inr (floats_close fa fe)))"

definition null_or_nil :: "pyval \<Rightarrow> pyval \<Rightarrow> bool" where
  "null_or_nil a e \<longleftrightarrow> a = VNone \<and> py_eq e (VList []) \<or> py_eq a (VList []) \<and> e = VNone"

fun values_match :: "pyval \<Rightarrow> pyval \<Rightarrow> exn + bool"
  and values_match_list :: "pyval list \<Rightarrow> pyval list \<Rightarrow> exn + bool"
  and values_match_items :: "pydict \<Rightarrow> pydict \<Rightarrow> exn + bool" where
  "values_match a e =
     (if py_eq a e then Inr True
      else if null_or_nil a e then Inr True
      else if (is_float a \<or> is_float e) \<and> is_number a \<and> is_number e then numbers_match a e
      else (case a of
          VList xs \<Rightarrow> (case e of
              VList ys \<Rightarrow> if length xs = length ys then values_match_list xs ys else Inr False
            | _ \<Rightarrow> Inr False)
        | VDict d \<Rightarrow> (case e of
              VDict d' \<Rightarrow> if set (map fst d) = set (map fst d') then values_match_items d d' else Inr False
            | _ \<Rightarrow> Inr False)
        | _ \<Rightarrow> Inr False))"
| "values_match_list (x # xs) (y # ys) =
     (case values_match x y of Inl ex \<Rightarrow> Inl ex
      | Inr b \<Rightarrow> if b then values_match_list xs ys else Inr False)"
| "values_match_list _ _ = Inr True"
| "values_match_items [] d' = Inr True"
| "values_match_items ((k, v) # d) d' =
     (case dget d' k of
        None \<Rightarrow> Inl (OtherError ''KeyError'')
      | Some v' \<Rightarrow> (case values_match v v' of Inl ex \<Rightarrow> Inl ex
          | Inr b \<Rightarrow> if b then values_match_items d d' else Inr False))"

declare values_match.simps [simp del]

section \<open>Comparing outputs\<close>

text \<open>The numeric-string rule, with its \<open>ValueError\<close> swallowed.\<close>

definition text_match :: "pyval \<Rightarrow> pyval \<Rightarrow> bool" where
  "text_match a e \<longleftrightarrow> py_str a = py_str e \<or>
     (case parse_float (py_str a) of None \<Rightarrow> False
      | Some x \<Rightarrow> (case parse_float (py_str e) of None \<Rightarrow> False | Some y \<Rightarrow> feq x y))"

text \<open>\<open>isinstance(v, list) and len(v) == 1\<close>, and \<open>v[0]\<close> where that holds.\<close>

fun single :: "pyval \<Rightarrow> pyval option" where
  "single (VList [x]) = Some x"
| "single _ = None"

text \<open>Python's \<open>or\<close> on results that may raise.\<close>

definition or_else :: "exn + bool \<Rightarrow> exn + bool \<Rightarrow> exn + bool" where
  "or_else r s = (case r of Inl ex \<Rightarrow> Inl ex | Inr b \<Rightarrow> if b then Inr True else s)"

lemma single_Some: "single v = Some x \<longleftrightarrow> v = VList [x]"
  by (cases v rule: single.cases) auto

function outputs_match :: "pyval \<Rightarrow> pyval \<Rightarrow> exn + bool" where
  "outputs_match a e =
     or_else (values_match a e)
       (if text_match a e then Inr True
        else or_else
          (case single a of Some x \<Rightarrow> outputs_match x e | None \<Rightarrow> Inr False)
          (case single e of Some y \<Rightarrow> outputs_match a y | None \<Rightarrow> Inr False))"
  by pat_completeness auto
termination
  by (relation "measure (\<lambda>(a, e). size a + size e)") (auto simp: single_Some)

declare outputs_match.simps [simp del]

text \<open>What a run produced: a plain value, or the result of a function that returned nothing.\<close>

datatype outcome = Plain pyval | InPlaceResult pyval pyval

fun outcome_match :: "outcome \<Rightarrow> pyval \<Rightarrow> exn + bool" where
  "outcome_match (Plain a) e = outputs_match a e"
| "outcome_match (InPlaceResult v m) e =
     or_else (outputs_match v e) (outputs_match m e)"

fun reported :: "outcome \<Rightarrow> pyval \<Rightarrow> exn + pyval" where
  "reported (Plain a) e = Inr a"
| "reported (InPlaceResult v m) e =
     (if v \<noteq> VNone then Inr v
      else case outputs_match v e of Inl ex \<Rightarrow> Inl ex | Inr b \<Rightarrow> Inr (if b then v else m))"

section \<open>The relation the comparison decides\<close>

text \<open>The rules, without the order in which the code tries them and without its exceptions. Inside lists
  and objects: equality, \<open>null\<close> against \<open>[]\<close>, floats within tolerance. At the top level also: texts that
  denote the same number, \<open>[x]\<close> against \<open>x\<close>, and (\<open>so_same_text\<close>) any two values with the same \<open>str()\<close>. The
  last rule is the code's own: the docstring lists the others only, and of numeric texts only a text
  against a number.\<close>

inductive same_value :: "pyval \<Rightarrow> pyval \<Rightarrow> bool" where
  sv_equal: "py_eq a e \<Longrightarrow> same_value a e"
| sv_null_nil: "same_value VNone (VList [])"
| sv_nil_null: "same_value (VList []) VNone"
| sv_close: "is_number a \<Longrightarrow> is_number e \<Longrightarrow> is_float a \<or> is_float e \<Longrightarrow>
    to_float a = Inr x \<Longrightarrow> to_float e = Inr y \<Longrightarrow> floats_close x y \<Longrightarrow> same_value a e"
| sv_list: "list_all2 same_value xs ys \<Longrightarrow> same_value (VList xs) (VList ys)"
| sv_dict: "set (map fst d) = set (map fst d') \<Longrightarrow>
    (\<And>k v v'. (k, v) \<in> set d \<Longrightarrow> dget d' k = Some v' \<Longrightarrow> same_value v v') \<Longrightarrow>
    same_value (VDict d) (VDict d')"
monos list.rel_mono_strong list_all2_mono

inductive same_output :: "pyval \<Rightarrow> pyval \<Rightarrow> bool" where
  so_value: "same_value a e \<Longrightarrow> same_output a e"
| so_same_text: "py_str a = py_str e \<Longrightarrow> same_output a e"
| so_numeric_text: "parse_float (py_str a) = Some x \<Longrightarrow> parse_float (py_str e) = Some y \<Longrightarrow> feq x y \<Longrightarrow> same_output a e"
| so_unwrap_actual: "same_output x e \<Longrightarrow> same_output (VList [x]) e"
| so_unwrap_expected: "same_output a y \<Longrightarrow> same_output a (VList [y])"

lemma text_match_iff:
  "text_match a e \<longleftrightarrow> py_str a = py_str e \<or>
     (\<exists>x y. parse_float (py_str a) = Some x \<and> parse_float (py_str e) = Some y \<and> feq x y)"
  by (auto simp: text_match_def split: option.splits)

lemma same_output_text: "text_match a e \<Longrightarrow> same_output a e"
  by (auto simp: text_match_iff intro: same_output.intros)

lemma floats_close_sym: "floats_close a b \<longleftrightarrow> floats_close b a"
proof -
  have "a = NaN \<or> b = NaN \<or>
      pymax2 (pymax2 (Fin 1) (fabs a)) (fabs b) = pymax2 (pymax2 (Fin 1) (fabs b)) (fabs a)"
    by (cases a; cases b) (auto simp: pymax2_def flt_def)
  then show ?thesis
  proof (elim disjE)
    assume "pymax2 (pymax2 (Fin 1) (fabs a)) (fabs b) = pymax2 (pymax2 (Fin 1) (fabs b)) (fabs a)"
    then show ?thesis by (simp only: floats_close_def fabs_fsub_commute)
  qed (cases a; cases b; simp add: floats_close_def)+
qed

lemma floats_close_complete:
  assumes "fval a = Some x" and "fval b = Some y"
    and "\<bar>x - y\<bar> \<le> FLOAT_TOLERANCE * max 1 (max \<bar>x\<bar> \<bar>y\<bar>)"
  shows "floats_close a b"
proof -
  have "fabs (fsub a b) = of_mag (round_mag \<bar>x - y\<bar>)"
    using assms(1,2) rnd_nonneg [of 0] by (cases a; cases b) (auto simp: fabs_rnd)
  moreover have "pymax2 (pymax2 (Fin 1) (fabs a)) (fabs b) = Fin (max 1 (max \<bar>x\<bar> \<bar>y\<bar>))"
    using assms(1,2) by (cases a; cases b) (auto simp: pymax2_def flt_def max_def)
  moreover have "0 \<le> FLOAT_TOLERANCE * max 1 (max \<bar>x\<bar> \<bar>y\<bar>)" using assms(3) by linarith
  ultimately show ?thesis
    using assms(3) by (simp add: floats_close_def rnd_nonneg fle_of_mag round_mag_mono)
qed

section \<open>The comparison decides the relation\<close>

lemma or_else_Inr: "or_else r s = Inr b \<longleftrightarrow> r = Inr True \<and> b \<or> r = Inr False \<and> s = Inr b"
  by (auto simp: or_else_def split: sum.splits)

lemma null_or_nil_iff:
  "null_or_nil a e \<longleftrightarrow> a = VNone \<and> e = VList [] \<or> a = VList [] \<and> e = VNone"
proof -
  have "py_eq v (VList []) \<longleftrightarrow> v = VList []" for v
  proof (cases v)
    case (VList xs)
    then show ?thesis by (cases xs) auto
  qed auto
  then show ?thesis by (auto simp: null_or_nil_def)
qed

definition numeric_pair :: "pyval \<Rightarrow> pyval \<Rightarrow> bool" where
  "numeric_pair a e \<longleftrightarrow> (is_float a \<or> is_float e) \<and> is_number a \<and> is_number e"

lemma same_value_iff:
  "same_value a e \<longleftrightarrow> py_eq a e \<or> null_or_nil a e \<or>
     numeric_pair a e \<and> numbers_match a e = Inr True \<or>
     (\<exists>xs ys. a = VList xs \<and> e = VList ys \<and> list_all2 same_value xs ys) \<or>
     (\<exists>d d'. a = VDict d \<and> e = VDict d' \<and> set (map fst d) = set (map fst d') \<and>
        (\<forall>k v v'. (k, v) \<in> set d \<longrightarrow> dget d' k = Some v' \<longrightarrow> same_value v v'))"
  by (subst same_value.simps)
    (auto simp: null_or_nil_iff numeric_pair_def numbers_match_def split: sum.splits)

lemma values_match_decides:
  "values_match a e = Inr b \<Longrightarrow> b \<longleftrightarrow> same_value a e"
  "values_match_list xs ys = Inr b \<Longrightarrow> length xs = length ys \<Longrightarrow> b \<longleftrightarrow> list_all2 same_value xs ys"
  "values_match_items d d' = Inr b \<Longrightarrow>
     b \<longleftrightarrow> (\<forall>k v v'. (k, v) \<in> set d \<longrightarrow> dget d' k = Some v' \<longrightarrow> same_value v v')"
proof (induction a e and xs ys and d d' arbitrary: b and b and b
    rule: values_match_values_match_list_values_match_items.induct)
  case (1 a e)
  show ?case
  proof (cases "py_eq a e \<or> null_or_nil a e \<or> numeric_pair a e")
    case True
    then show ?thesis
      using "1.prems" same_value_iff [of a e]
      by (cases a; cases e) (auto simp: values_match.simps numeric_pair_def split: if_splits)
  next
    case False
    then have no: "\<not> py_eq a e" "\<not> null_or_nil a e" "\<not> numeric_pair a e" by auto
    show ?thesis
      using "1" no same_value_iff [of a e]
      by (cases a; cases e)
        (auto simp: values_match.simps numeric_pair_def split: if_splits dest: list_all2_lengthD)
  qed
next
  case (2 x xs y ys)
  from "2.prems"(1) obtain c where c: "values_match x y = Inr c"
    by (auto split: sum.splits)
  show ?case
    using "2.IH"(1) [OF c] "2.IH"(2) [OF c] "2.prems" c by (cases c) auto
next
  case (5 k v d d')
  from "5.prems" obtain v' where v': "dget d' k = Some v'" by (auto split: option.splits)
  with "5.prems" obtain c where c: "values_match v v' = Inr c" by (auto split: sum.splits)
  show ?case
    using "5.IH"(1) [OF v' c] "5.IH"(2) [OF v' c] "5.prems" v' c by (cases c) auto
qed auto


lemma outputs_match_decides: "outputs_match a e = Inr b \<Longrightarrow> b \<longleftrightarrow> same_output a e"
proof (induction a e arbitrary: b rule: outputs_match.induct)
  case (1 a e)
  note unfolded = "1.prems" [unfolded outputs_match.simps [of a e] or_else_Inr]
  show ?case
  proof (cases "values_match a e = Inr True \<or> text_match a e")
    case True
    then have "same_output a e" using values_match_decides(1) same_output_text by (auto intro: so_value)
    then show ?thesis using True unfolded by auto
  next
    case False
    then have vm: "values_match a e = Inr False" and tm: "\<not> text_match a e"
      using unfolded by auto
    then have "\<not> same_value a e" using values_match_decides(1) [OF vm] by simp
    then have iff: "same_output a e \<longleftrightarrow>
        (\<exists>x. single a = Some x \<and> same_output x e) \<or> (\<exists>y. single e = Some y \<and> same_output a y)"
      using tm by (subst same_output.simps) (auto simp: single_Some text_match_iff)
    have left: "c \<longleftrightarrow> (\<exists>x. single a = Some x \<and> same_output x e)"
      if "(case single a of Some x \<Rightarrow> outputs_match x e | None \<Rightarrow> Inr False) = Inr c" for c
      using that "1.IH"(1) tm by (cases "single a") auto
    have right: "c \<longleftrightarrow> (\<exists>y. single e = Some y \<and> same_output a y)"
      if "(case single e of Some y \<Rightarrow> outputs_match a y | None \<Rightarrow> Inr False) = Inr c" for c
      using that "1.IH"(2) tm by (cases "single e") auto
    show ?thesis using unfolded vm tm iff left right by (auto simp: or_else_Inr)
  qed
qed

lemma same_value_sym: "same_value a e \<Longrightarrow> val_ok a \<Longrightarrow> val_ok e \<Longrightarrow> same_value e a"
proof (induction a e rule: same_value.induct)
  case (sv_equal a e)
  then show ?case by (auto intro: same_value.intros py_eq_sym_imp)
next
  case (sv_list xs ys)
  then have "list_all2 same_value ys xs"
    by (auto simp: list_all2_conv_all_nth)
  then show ?case by (rule same_value.sv_list)
next
  case (sv_dict d d')
  show ?case
  proof (rule same_value.sv_dict)
    fix k v v'
    assume "(k, v) \<in> set d'" and "dget d k = Some v'"
    then show "same_value v v'"
      using sv_dict by (fastforce simp: dget_distinct dest: dget_Some_in)
  qed (use sv_dict in simp)
qed (use floats_close_sym in \<open>auto intro: same_value.intros\<close>)

lemma same_output_sym: "same_output a e \<Longrightarrow> val_ok a \<Longrightarrow> val_ok e \<Longrightarrow> same_output e a"
proof (induction a e rule: same_output.induct)
  case (so_numeric_text a x e y)
  then show ?case by (auto intro: same_output.so_numeric_text simp: feq_sym)
qed (auto intro: same_output.intros same_value_sym)

text \<open>No exception escapes where every integer converts to a float.\<close>

fun floatable :: "pyval \<Rightarrow> bool" where
  "floatable (VInt n) = (float_of_int n \<noteq> None)"
| "floatable (VList xs) = (\<forall>x \<in> set xs. floatable x)"
| "floatable (VDict d) = (\<forall>p \<in> set d. floatable (snd p))"
| "floatable _ = True"

lemma values_match_total:
  "floatable a \<Longrightarrow> floatable e \<Longrightarrow> \<exists>b. values_match a e = Inr b"
  "\<forall>x \<in> set xs. floatable x \<Longrightarrow> \<forall>y \<in> set ys. floatable y \<Longrightarrow> \<exists>b. values_match_list xs ys = Inr b"
  "\<forall>p \<in> set d. floatable (snd p) \<Longrightarrow> \<forall>p \<in> set d'. floatable (snd p) \<Longrightarrow>
     fst ` set d \<subseteq> fst ` set d' \<Longrightarrow> \<exists>b. values_match_items d d' = Inr b"
proof (induction a e and xs ys and d d'
    rule: values_match_values_match_list_values_match_items.induct)
  case (1 a e)
  then show ?case
    by (cases a; cases e)
      (auto simp: values_match.simps numbers_match_def split: sum.splits option.splits)
next
  case (2 x xs y ys)
  from 2 obtain c where c: "values_match x y = Inr c" by auto
  then show ?case using 2 by (cases c) auto
next
  case (5 k v d d')
  then obtain v' where v': "dget d' k = Some v'"
    by (cases "dget d' k") (auto simp: dget_None)
  then have "floatable v'" using "5.prems"(2) by (auto dest!: dget_Some_in)
  then obtain c where c: "values_match v v' = Inr c" using 5 v' by auto
  then show ?case using 5 v' by (cases c) auto
qed auto

lemma outputs_match_total:
  "floatable a \<Longrightarrow> floatable e \<Longrightarrow> \<exists>b. outputs_match a e = Inr b"
proof (induction a e rule: outputs_match.induct)
  case (1 a e)
  obtain m where m: "values_match a e = Inr m" using values_match_total(1) "1.prems" by blast
  have l: "\<exists>b. (case single a of Some x \<Rightarrow> outputs_match x e | None \<Rightarrow> Inr False) = Inr b"
    if "\<not> text_match a e"
    using "1.IH"(1) "1.prems" that by (cases "single a") (auto simp: single_Some)
  have r: "\<exists>b. (case single e of Some y \<Rightarrow> outputs_match a y | None \<Rightarrow> Inr False) = Inr b"
    if "\<not> text_match a e"
    using "1.IH"(2) "1.prems" that by (cases "single e") (auto simp: single_Some)
  show ?case
    using m l r by (subst outputs_match.simps) (auto simp: or_else_def split: sum.splits)
qed

text \<open>The one exception that can escape.\<close>

definition int_too_large :: exn where
  "int_too_large = OverflowError ''int too large to convert to float''"

lemma numbers_match_raises: "is_number a \<Longrightarrow> is_number e \<Longrightarrow> numbers_match a e = Inl ex \<Longrightarrow> ex = int_too_large"
  by (cases a; cases e) (auto simp: numbers_match_def int_too_large_def split: option.splits sum.splits)

lemma values_match_raises_inside:
  assumes "values_match a e = Inl ex" and "\<not> ((is_float a \<or> is_float e) \<and> is_number a \<and> is_number e)"
  obtains xs ys where "a = VList xs" "e = VList ys" "length xs = length ys" "values_match_list xs ys = Inl ex"
  | d d' where "a = VDict d" "e = VDict d'" "set (map fst d) = set (map fst d')" "values_match_items d d' = Inl ex"
proof -
  have "\<not> py_eq a e" "\<not> null_or_nil a e" using assms(1) by (auto simp: values_match.simps split: if_splits)
  then have "(case a of
      VList us \<Rightarrow> (case e of VList vs \<Rightarrow> if length us = length vs then values_match_list us vs else Inr False | _ \<Rightarrow> Inr False)
    | VDict d \<Rightarrow> (case e of
          VDict d' \<Rightarrow> if set (map fst d) = set (map fst d') then values_match_items d d' else Inr False | _ \<Rightarrow> Inr False)
    | _ \<Rightarrow> Inr False) = Inl ex"
    using assms by (simp only: values_match.simps [of a e] if_False)
  then show ?thesis using that by (cases a; cases e) (simp_all split: if_split_asm)
qed

lemma values_match_raises:
  "values_match a e = Inl ex \<Longrightarrow> ex = int_too_large"
  "values_match_list xs ys = Inl ex \<Longrightarrow> ex = int_too_large"
  "values_match_items d d' = Inl ex \<Longrightarrow> fst ` set d \<subseteq> fst ` set d' \<Longrightarrow> ex = int_too_large"
proof (induction a e and xs ys and d d'
    rule: values_match_values_match_list_values_match_items.induct)
  case (1 a e)
  show ?case
  proof (cases "(is_float a \<or> is_float e) \<and> is_number a \<and> is_number e")
    case True
    then show ?thesis using "1.prems" numbers_match_raises [of a e] by (auto simp: values_match.simps split: if_splits)
  next
    case False
    have no: "\<not> py_eq a e" "\<not> null_or_nil a e" using "1.prems" by (auto simp: values_match.simps split: if_splits)
    from "1.prems" False show ?thesis
    proof (cases rule: values_match_raises_inside)
      case (1 xs ys)
      then show ?thesis using "1.IH"(1) [OF no False] by simp
    next
      case (2 d d')
      then show ?thesis using "1.IH"(2) [OF no False] by simp
    qed
  qed
next
  case (5 k v d d')
  then obtain v' where "dget d' k = Some v'" by (cases "dget d' k") (auto simp: dget_None)
  then show ?case using 5 by (auto split: sum.splits if_splits)
qed (auto split: sum.splits if_splits)

lemma outputs_match_raises: "outputs_match a e = Inl ex \<Longrightarrow> ex = int_too_large"
proof (induction a e rule: outputs_match.induct)
  case (1 a e)
  show ?case
    using "1.prems" "1.IH" values_match_raises(1) [of a e ex]
    by (subst (asm) outputs_match.simps) (auto simp: or_else_def split: sum.splits if_splits option.splits)
qed

section \<open>Properties\<close>

text \<open>C3. The comparison implements its rules, for all values: if it returns, it returns \<open>True\<close> exactly when the
  actual output is related to the expected one by equality, \<open>null\<close> against \<open>[]\<close> or float tolerance (also
  inside lists and objects), by texts that are equal or denote the same number, or by a one-element list
  standing for its element; and the only exception that can escape is the \<open>OverflowError\<close> for an integer
  beyond the range of floats, which one of the two values must then contain.\<close>

theorem outputs_match_decides_rules:
  "case outputs_match a e of
     Inr b \<Rightarrow> (b \<longleftrightarrow> same_output a e)
   | Inl ex \<Rightarrow> ex = int_too_large \<and> \<not> (floatable a \<and> floatable e)"
  using outputs_match_decides [of a e] outputs_match_raises [of a e] outputs_match_total [of a e]
  by (auto split: sum.split)

text \<open>What the rule on equal texts lets pass: a string that prints like a list, the string \<open>None\<close>, and two
  strings that denote the same number match, which the docstring does not mention.\<close>

lemma equal_texts_match:
  "outputs_match (VStr ''[1, 2]'') (VList [VInt 1, VInt 2]) = Inr True"
  "outputs_match (VStr ''None'') VNone = Inr True"
  "outputs_match (VStr ''1.0'') (VStr ''1'') = Inr True"
  by code_simp+

text \<open>Comparing is symmetric: swapping the actual and the expected output never changes the
  judge's decision (on well-formed values whose integers fit a float).\<close>

lemma outputs_match_symmetric:
  assumes "floatable a" and "floatable e" and "val_ok a" and "val_ok e"
  shows "outputs_match a e = outputs_match e a"
proof -
  obtain b c where b: "outputs_match a e = Inr b" and c: "outputs_match e a = Inr c"
    using outputs_match_total assms(1,2) by blast
  have "b \<longleftrightarrow> c"
    using outputs_match_decides [OF b] outputs_match_decides [OF c] same_output_sym assms(3,4)
    by blast
  then show ?thesis by (simp add: b c)
qed

lemma outputs_match_symmetric_witness:
  "outputs_match (VStr ''-1'') (VList [VInt (- 1)]) = outputs_match (VList [VInt (- 1)]) (VStr ''-1'')"
proof (rule outputs_match_symmetric)
  show "floatable (VList [VInt (- 1)])" by code_simp
qed simp_all

text \<open>C34. The float tolerance loses nothing to rounding: two finite doubles whose exact
  difference is within the tolerance, relative to the larger magnitude (at least 1), are judged
  close.\<close>

theorem floats_close_within_tolerance:
  assumes "fval a = Some x" and "fval b = Some y"
    and "\<bar>x - y\<bar> \<le> FLOAT_TOLERANCE * max 1 (max \<bar>x\<bar> \<bar>y\<bar>)"
  shows "floats_close a b"
  using assms by (rule floats_close_complete)

theorem floats_close_within_tolerance_witness: "floats_close (Fin 1) (Fin (1 + 1 / 131072))"
proof (rule floats_close_within_tolerance)
  show "\<bar>1 - (1 + 1 / 131072)\<bar> \<le> FLOAT_TOLERANCE * max 1 (max \<bar>1\<bar> \<bar>1 + 1 / 131072\<bar>)"
    by code_simp
qed simp_all

end
