(* ===== verification/Process.thy ===== *)
theory Process
  imports Env Compare
begin

text \<open>
  \<open>execution/process.py\<close>: running a wrapper in a sandbox container and decoding the result
  blocks it printed between the two markers.
\<close>

section \<open>Result blocks\<close>

definition RESULT_START :: string where
  "RESULT_START = ''__JUDGE_RESULT_7f3a__''"

definition RESULT_END :: string where
  "RESULT_END = ''__JUDGE_END_7f3a__''"

definition MAX_ERROR_MESSAGE_CHARS :: nat where
  "MAX_ERROR_MESSAGE_CHARS = 1000"

definition SIGNAL_MESSAGES :: "(int \<times> string) list" where
  "SIGNAL_MESSAGES =
     [(134, ''Runtime error: aborted (SIGABRT)''),
      (136, ''Runtime error: floating point exception (SIGFPE)''),
      (137, ''Runtime error: killed (SIGKILL), possibly out of memory''),
      (139, ''Runtime error: segmentation fault (SIGSEGV)'')]"

text \<open>\<open>json.loads(text)\<close>, if it is an object.\<close>

definition load_object :: "string \<Rightarrow> pydict option" where
  "load_object t = (case loads t of Some (VDict d) \<Rightarrow> Some d | _ \<Rightarrow> None)"

text \<open>The text between the end of a start marker and the next end marker, and what follows.\<close>

definition block_at :: "string \<Rightarrow> (string \<times> string) option" where
  "block_at s = (case find_sub RESULT_END s of
      None \<Rightarrow> None
    | Some j \<Rightarrow> Some (take j s, drop (j + length RESULT_END) s))"

definition parse_wrapper_output :: "string \<Rightarrow> pydict option" where
  "parse_wrapper_output stdout = (case rfind_sub RESULT_START stdout of
      None \<Rightarrow> None
    | Some i \<Rightarrow> (case block_at (drop (i + length RESULT_START) stdout) of
          None \<Rightarrow> None
        | Some (text, _) \<Rightarrow> load_object text))"

lemma block_at_length: "block_at s = Some (t, r) \<Longrightarrow> length r \<le> length s"
  by (auto simp: block_at_def split: option.splits)

lemma block_rest_shorter:
  assumes "find_sub RESULT_START s = Some i"
    and "block_at (drop (i + length RESULT_START) s) = Some (t, r)"
  shows "length r < length s"
proof -
  have "i + length RESULT_START \<le> length s"
    using assms(1) starts_with_length [of RESULT_START "drop i s"] by (auto simp: find_sub_Some)
  with block_at_length [OF assms(2)] show ?thesis by (simp add: RESULT_START_def)
qed

function parse_all_wrapper_outputs :: "string \<Rightarrow> pydict list" where
  "parse_all_wrapper_outputs stdout = (case find_sub RESULT_START stdout of
      None \<Rightarrow> []
    | Some i \<Rightarrow> (case block_at (drop (i + length RESULT_START) stdout) of
          None \<Rightarrow> []
        | Some (text, rest) \<Rightarrow>
            (case load_object text of Some d \<Rightarrow> [d] | None \<Rightarrow> []) @ parse_all_wrapper_outputs rest))"
  by pat_completeness auto
termination
  by (relation "measure length") (auto dest: block_rest_shorter)

declare parse_all_wrapper_outputs.simps [simp del]

section \<open>Error messages\<close>

definition truncate_message :: "string \<Rightarrow> string" where
  "truncate_message message = (let m = strip message in
     if MAX_ERROR_MESSAGE_CHARS < length m then take MAX_ERROR_MESSAGE_CHARS m @ ''...'' else m)"

definition reported_error :: "pydict option \<Rightarrow> pyval option" where
  "reported_error parsed = (case parsed of None \<Rightarrow> None | Some d \<Rightarrow>
     (case dget d ''error'' of Some v \<Rightarrow> if truthy v then Some v else None | None \<Rightarrow> None))"

definition error_message :: "pydict option \<Rightarrow> string \<Rightarrow> int \<Rightarrow> string" where
  "error_message parsed stderr returncode = (case reported_error parsed of
      Some v \<Rightarrow> truncate_message (py_str v)
    | None \<Rightarrow>
        if strip stderr \<noteq> [] then truncate_message stderr
        else (case map_of SIGNAL_MESSAGES returncode of
            Some m \<Rightarrow> m
          | None \<Rightarrow>
              if returncode \<noteq> 0 then ''Runtime error (exit code '' @ int_str returncode @ '')''
              else ''Invalid output format''))"

section \<open>Running a wrapper\<close>

definition timeout_error :: "pyval \<Rightarrow> exn" where
  "timeout_error i = ExecutionTimeoutError ''Time limit exceeded'' i"

definition run_in_sandbox :: "'w env \<Rightarrow> string list \<Rightarrow> string \<Rightarrow> int \<Rightarrow> ('w, string \<times> string \<times> int) io" where
  "run_in_sandbox E cmd payload timeout =
     io_bind (communicate E cmd payload (Some timeout)) (\<lambda>res. case res of
       TimedOut \<Rightarrow> io_then (kill_proc E cmd) (io_raise (timeout_error VNone))
     | Finished p \<Rightarrow>
         if MAX_STDOUT_BYTES E < int (length (p_stdout p))
         then io_raise (RuntimeExecutionError ''Output limit exceeded'' VNone)
         else io_return (utf8 E (p_stdout p), utf8 E (p_stderr p), p_returncode p))"

definition result_value :: "pydict \<Rightarrow> outcome" where
  "result_value parsed =
     (let r = (case dget parsed ''result'' of Some v \<Rightarrow> v | None \<Rightarrow> VNone) in
      case dget parsed ''mutated'' of Some m \<Rightarrow> InPlaceResult r m | None \<Rightarrow> Plain r)"

text \<open>What \<open>run_wrapper\<close> makes of a finished process.\<close>

definition wrapper_result :: "string \<Rightarrow> string \<Rightarrow> int \<Rightarrow> exn + outcome" where
  "wrapper_result stdout stderr returncode =
     (let parsed = parse_wrapper_output stdout in
      case parsed of
        None \<Rightarrow> Inl (RuntimeExecutionError (error_message parsed stderr returncode) VNone)
      | Some d \<Rightarrow>
          if returncode \<noteq> 0 \<or> dhas ''error'' d \<or> \<not> dhas ''result'' d \<and> \<not> dhas ''mutated'' d
          then Inl (RuntimeExecutionError (error_message parsed stderr returncode) VNone)
          else Inr (result_value d))"

definition run_wrapper :: "'w env \<Rightarrow> string list \<Rightarrow> string \<Rightarrow> int \<Rightarrow> ('w, outcome) io" where
  "run_wrapper E cmd payload timeout =
     io_bind (run_in_sandbox E cmd payload timeout) (\<lambda>(stdout, stderr, returncode).
       io_of_sum (wrapper_result stdout stderr returncode))"

section \<open>Running a batch\<close>

text \<open>\<open>_drain\<close>: collect the chunks of a pipe, stopping at the first that exceeds the limit.\<close>

fun drain :: "int \<Rightarrow> string \<Rightarrow> string list \<Rightarrow> exn + string" where
  "drain limit buf [] = Inr buf"
| "drain limit buf (chunk # chunks) =
     (if limit < int (length (buf @ chunk))
      then Inl (RuntimeExecutionError ''Output limit exceeded'' VNone)
      else drain limit (buf @ chunk) chunks)"

text \<open>The loop over the blocks of a finished batch; \<open>failed_test_case_index\<close> defaults to the
  number of results so far.\<close>

definition block_index :: "pydict \<Rightarrow> nat \<Rightarrow> pyval" where
  "block_index block done =
     (case dget block ''failed_test_case_index'' of None \<Rightarrow> VInt (int done) | Some v \<Rightarrow> v)"

fun collect_results :: "string \<Rightarrow> int \<Rightarrow> outcome list \<Rightarrow> pydict list \<Rightarrow> exn + outcome list" where
  "collect_results stderr returncode results [] = Inr results"
| "collect_results stderr returncode results (block # blocks) =
     (if dhas ''error'' block
      then Inl (RuntimeExecutionError (error_message (Some block) stderr returncode)
        (block_index block (length results)))
      else collect_results stderr returncode (results @ [result_value block]) blocks)"

definition batch_result :: "string \<Rightarrow> string \<Rightarrow> int \<Rightarrow> nat \<Rightarrow> exn + outcome list" where
  "batch_result stdout stderr returncode count =
     (case collect_results stderr returncode [] (parse_all_wrapper_outputs stdout) of
        Inl e \<Rightarrow> Inl e
      | Inr results \<Rightarrow>
          if returncode \<noteq> 0 \<or> length results \<noteq> count
          then Inl (RuntimeExecutionError (error_message None stderr returncode)
            (VInt (int (length results))))
          else Inr results)"

definition batch_timeout :: "string \<Rightarrow> nat \<Rightarrow> exn" where
  "batch_timeout stdout count =
     timeout_error (VInt (min (int (length (parse_all_wrapper_outputs stdout))) (int count - 1)))"

definition run_batch_wrapper ::
  "'w env \<Rightarrow> string list \<Rightarrow> string \<Rightarrow> int \<Rightarrow> nat \<Rightarrow> ('w, outcome list) io" where
  "run_batch_wrapper E cmd payload timeout count =
     io_bind (stream_proc E cmd payload timeout) (\<lambda>p.
       (case drain (MAX_STDOUT_BYTES E) [] (out_chunks p) of
          Inl e \<Rightarrow> io_then (kill_proc E cmd) (io_raise e)
        | Inr out_buf \<Rightarrow>
            (case drain (MAX_STDOUT_BYTES E) [] (err_chunks p) of
               Inl e \<Rightarrow> io_then (kill_proc E cmd) (io_raise e)
             | Inr err_buf \<Rightarrow>
                 (case exit_code p of
                    None \<Rightarrow> io_then (kill_proc E cmd) (io_raise (batch_timeout (utf8 E out_buf) count))
                  | Some returncode \<Rightarrow>
                      io_of_sum (batch_result (utf8 E out_buf) (utf8 E err_buf) returncode count)))))"


section \<open>Markers in text\<close>

lemma starts_with_split: "x \<notin> set p \<Longrightarrow> starts_with p (a @ x # b) \<longleftrightarrow> starts_with p a"
proof (induction p arbitrary: a)
  case (Cons y p)
  then show ?case by (cases a) auto
qed simp

text \<open>An occurrence cannot contain a character that the pattern does not contain.\<close>

lemma find_sub_split:
  assumes "p \<noteq> []" and "x \<notin> set p"
  shows "find_sub p (a @ x # b) = (case find_sub p a of
      Some i \<Rightarrow> Some i | None \<Rightarrow> map_option (\<lambda>i. length a + Suc i) (find_sub p b))"
proof (induction a)
  case Nil
  then show ?case
    using assms starts_with_split [of x p "[]" b] by (cases p) (auto simp: option.map_comp comp_def)
next
  case (Cons y a)
  then show ?case
    using assms starts_with_split [of x p "y # a" b]
    by (auto simp: option.map_comp comp_def split: option.splits)
qed

lemma rfind_sub_app:
  assumes "find_sub p (tl t) = None" and "starts_with p t" and "t \<noteq> []"
  shows "rfind_sub p (a @ t) = Some (length a)"
proof (induction a)
  case Nil
  then show ?case
    using assms by (cases t) (auto simp: rfind_sub_None split: option.splits)
next
  case (Cons y a)
  then show ?case by simp
qed

text \<open>What a wrapper prints for one answer: \<open>emit\<close> of every \<open>languages/*_wrapper.py\<close>, with the
  document it has written, and with the one that Python writes.\<close>

definition emit_block :: "string \<Rightarrow> string" where
  "emit_block t = RESULT_START @ t @ RESULT_END @ [newline]"

definition emit_text :: "pydict \<Rightarrow> string" where
  "emit_text d = RESULT_START @ dumps (VDict d) @ RESULT_END @ [newline]"

text \<open>A text of an answer that the judge can read: a JSON object that contains neither marker.\<close>

definition document :: "string \<Rightarrow> pydict \<Rightarrow> bool" where
  "document t d \<longleftrightarrow> load_object t = Some d \<and> starts_with ''{'' t \<and> ends_with ''}'' t \<and>
     find_sub RESULT_START t = None \<and> find_sub RESULT_END t = None"

definition unmarked :: "pydict \<Rightarrow> bool" where
  "unmarked d \<longleftrightarrow> find_sub RESULT_START (dumps (VDict d)) = None \<and> find_sub RESULT_END (dumps (VDict d)) = None"

lemma emit_text_block: "emit_text d = emit_block (dumps (VDict d))"
  by (simp add: emit_text_def emit_block_def)

lemma document_dumps: "json_ok (VDict d) \<Longrightarrow> unmarked d \<Longrightarrow> document (dumps (VDict d)) d"
  using loads_dumps [of "VDict d"] by (auto simp: document_def unmarked_def load_object_def ends_with_def)

lemma document_braces: "document t d \<Longrightarrow> \<exists>m. t = CHR ''{'' # m @ [CHR ''}'']"
proof -
  assume t: "document t d"
  then obtain u where u: "t = CHR ''{'' # u" by (cases t) (auto simp: document_def)
  moreover have "u \<noteq> []" using t u by (auto simp: document_def ends_with_def)
  moreover have "last t = CHR ''}''" using t u by (cases u rule: rev_cases) (auto simp: document_def ends_with_def)
  ultimately have "t = CHR ''{'' # butlast u @ [CHR ''}'']" using append_butlast_last_id [of u] by simp
  then show ?thesis by blast
qed

lemma marker_facts:
  "RESULT_START \<noteq> []" "RESULT_END \<noteq> []"
  "CHR ''{'' \<notin> set RESULT_START" "CHR ''}'' \<notin> set RESULT_START"
  "CHR ''{'' \<notin> set RESULT_END" "CHR ''}'' \<notin> set RESULT_END"
  "find_sub RESULT_START (tl RESULT_START) = None"
  "find_sub RESULT_START (RESULT_END @ [newline]) = None"
  by (simp_all add: RESULT_START_def RESULT_END_def)

lemma unmarked_inner:
  assumes "find_sub m (CHR ''{'' # u @ [CHR ''}'']) = None" and "m = RESULT_START \<or> m = RESULT_END"
  shows "find_sub m u = None"
proof -
  have m: "m \<noteq> []" "CHR ''{'' \<notin> set m" "CHR ''}'' \<notin> set m" using assms(2) marker_facts by auto
  have "find_sub m ([] @ CHR ''{'' # (u @ CHR ''}'' # [])) = None" using assms(1) by simp
  then show ?thesis
    unfolding find_sub_split [OF m(1,2)] find_sub_split [OF m(1,3)]
    using m(1) by (auto split: option.splits)
qed

lemma block_at_emitted:
  assumes "document t d"
  shows "block_at (t @ RESULT_END @ s) = Some (t, s)"
proof -
  obtain u where u: "t = CHR ''{'' # u @ [CHR ''}'']" using document_braces [OF assms] by blast
  have "find_sub RESULT_END u = None" by (rule unmarked_inner) (use assms in \<open>unfold u document_def, blast+\<close>)
  then have "find_sub RESULT_END ([] @ CHR ''{'' # (u @ CHR ''}'' # (RESULT_END @ s))) = Some (length t)"
    unfolding find_sub_split [OF marker_facts(2,5)] find_sub_split [OF marker_facts(2,6)]
    using starts_with_append [of RESULT_END s] marker_facts(2) u
    by (cases "RESULT_END @ s") (auto simp: RESULT_END_def)
  then show ?thesis using u by (simp add: block_at_def)
qed

lemma rfind_emitted:
  assumes "document t d"
  shows "rfind_sub RESULT_START (noise @ emit_block t) = Some (length noise)"
proof (rule rfind_sub_app)
  obtain u where u: "t = CHR ''{'' # u @ [CHR ''}'']" using document_braces [OF assms] by blast
  have "find_sub RESULT_START u = None" by (rule unmarked_inner) (use assms in \<open>unfold u document_def, blast+\<close>)
  moreover have "tl (emit_block t) = tl RESULT_START @ CHR ''{'' # (u @ CHR ''}'' # (RESULT_END @ [newline]))"
    using u by (simp add: emit_block_def RESULT_START_def)
  ultimately show "find_sub RESULT_START (tl (emit_block t)) = None"
    by (simp only: find_sub_split [OF marker_facts(1,3)] find_sub_split [OF marker_facts(1,4)] marker_facts(7,8)) simp
qed (simp_all add: emit_block_def marker_facts(1))

lemma parse_wrapper_output_emitted:
  assumes "document t d"
  shows "parse_wrapper_output (noise @ emit_block t) = Some d"
proof -
  have "drop (length noise + length RESULT_START) (noise @ emit_block t) = t @ RESULT_END @ [newline]"
    by (simp add: emit_block_def)
  then show ?thesis
    using rfind_emitted [OF assms, of noise] block_at_emitted [OF assms, of "[newline]"] assms
    by (simp add: parse_wrapper_output_def document_def)
qed

text \<open>Debug output that does not reach into the marker that follows it.\<close>

definition quiet :: "string \<Rightarrow> bool" where
  "quiet noise \<longleftrightarrow> find_sub RESULT_START (noise @ RESULT_START) = Some (length noise)"

lemma find_sub_append_Some: "find_sub p s = Some i \<Longrightarrow> i + length p \<le> length s \<Longrightarrow> find_sub p (s @ t) = Some i"
  by (auto simp: find_sub_Some starts_with_def)

lemma parse_all_emitted:
  assumes "quiet noise" and "document t d"
  shows "parse_all_wrapper_outputs (noise @ emit_block t @ s) = d # parse_all_wrapper_outputs (newline # s)"
proof -
  have "find_sub RESULT_START ((noise @ RESULT_START) @ t @ RESULT_END @ newline # s) = Some (length noise)"
    using find_sub_append_Some [of RESULT_START "noise @ RESULT_START"] assms(1)
    by (simp add: quiet_def del: append_assoc)
  then show ?thesis
    using block_at_emitted [OF assms(2), of "newline # s"] assms(2)
    by (subst parse_all_wrapper_outputs.simps) (simp add: emit_block_def document_def)
qed

lemma parse_all_newline: "parse_all_wrapper_outputs (newline # s) = parse_all_wrapper_outputs s"
proof -
  have "find_sub RESULT_START (newline # s) = map_option Suc (find_sub RESULT_START s)"
    by (simp add: RESULT_START_def)
  then show ?thesis
    by (subst (1 2) parse_all_wrapper_outputs.simps) (auto split: option.splits)
qed

text \<open>The output of a batch run: noise and the block of one answer per test case, then a tail.\<close>

fun stream_text :: "(string \<times> string) list \<Rightarrow> string \<Rightarrow> string" where
  "stream_text [] tail = tail"
| "stream_text ((noise, t) # bs) tail = noise @ emit_block t @ stream_text bs tail"

definition stream_ok :: "(string \<times> string) list \<Rightarrow> pydict list \<Rightarrow> bool" where
  "stream_ok bs ds \<longleftrightarrow> list_all2 (\<lambda>(noise, t) d. quiet noise \<and> document t d) bs ds"

lemma parse_all_stream:
  "stream_ok bs ds \<Longrightarrow> parse_all_wrapper_outputs (stream_text bs tail) = ds @ parse_all_wrapper_outputs tail"
proof (induction bs arbitrary: ds)
  case (Cons b bs)
  obtain noise t where b: "b = (noise, t)" by (cases b)
  from Cons.prems obtain d ds' where ds: "ds = d # ds'" "quiet noise" "document t d" "stream_ok bs ds'"
    by (auto simp: b stream_ok_def list_all2_Cons1)
  show ?case
    using parse_all_emitted [OF ds(2,3), of "stream_text bs tail"] Cons.IH [OF ds(4)] b ds(1)
    by (simp add: parse_all_newline)
qed (simp add: stream_ok_def)

lemma parse_all_none: "find_sub RESULT_START tail = None \<Longrightarrow> parse_all_wrapper_outputs tail = []"
  by (subst parse_all_wrapper_outputs.simps) simp

section \<open>Batches\<close>

lemma collect_results_ok:
  "\<forall>b \<in> set bs. \<not> dhas ''error'' b \<Longrightarrow> collect_results err rc rs bs = Inr (rs @ map result_value bs)"
  by (induction bs arbitrary: rs) auto

lemma collect_results_error:
  "\<forall>b \<in> set bs. \<not> dhas ''error'' b \<Longrightarrow> dhas ''error'' block \<Longrightarrow>
   collect_results err rc rs (bs @ block # cs) =
     Inl (RuntimeExecutionError (error_message (Some block) err rc)
       (block_index block (length rs + length bs)))"
  by (induction bs arbitrary: rs) auto

lemma collect_results_Inr:
  "collect_results err rc rs bs = Inr rs' \<Longrightarrow>
     (\<forall>b \<in> set bs. \<not> dhas ''error'' b) \<and> rs' = rs @ map result_value bs"
proof (induction bs arbitrary: rs)
  case (Cons b bs)
  then show ?case using Cons.IH [of "rs @ [result_value b]"] by (simp split: if_splits)
qed simp

lemma drain_iff:
  "int (length buf) \<le> limit \<Longrightarrow> drain limit buf cs =
     (if int (length (buf @ concat cs)) \<le> limit then Inr (buf @ concat cs)
      else Inl (RuntimeExecutionError ''Output limit exceeded'' VNone))"
  by (induction cs arbitrary: buf) auto

section \<open>Single runs\<close>

lemma run_wrapper_finished:
  assumes "communicate E cmd payload (Some t) w = (Inr (Finished p), w')"
    and "int (length (p_stdout p)) \<le> MAX_STDOUT_BYTES E"
  shows "run_wrapper E cmd payload t w = (wrapper_result (utf8 E (p_stdout p)) (utf8 E (p_stderr p)) (p_returncode p), w')"
  using assms by (auto simp: run_wrapper_def run_in_sandbox_def io_of_sum_def split: sum.splits)

section \<open>Properties\<close>

text \<open>Whatever the submission printed first, the answer the wrapper emits last is the one the
  judge gets: if the process exits normally within the output limit, its decoded output is any text
  followed by the block of an answer, in whatever way its JSON is written, and the answer holds no
  error, then \<open>run_wrapper\<close> returns the answer's value.\<close>

lemma run_wrapper_ignores_debug_output:
  assumes "communicate E cmd payload (Some t) w = (Inr (Finished p), w')"
    and "int (length (p_stdout p)) \<le> MAX_STDOUT_BYTES E" and "p_returncode p = 0"
    and "utf8 E (p_stdout p) = noise @ emit_block doc" and "document doc d"
    and "\<not> dhas ''error'' d" and "dhas ''result'' d \<or> dhas ''mutated'' d"
  shows "run_wrapper E cmd payload t w = (Inr (result_value d), w')"
  using run_wrapper_finished [OF assms(1,2)] parse_wrapper_output_emitted [OF assms(5), of noise] assms(3,4,6,7)
  by (auto simp: wrapper_result_def)

definition debug_run :: "unit env" where
  "debug_run = offline\<lparr>communicate := (\<lambda>_ _ _. io_return (Finished
     \<lparr>p_stdout = ''x = 1'' @ emit_text [(''result'', VList [VInt 0, VBool True])], p_stderr = [],
      p_returncode = 0\<rparr>))\<rparr>"

lemma run_wrapper_ignores_debug_output_witness:
  "run_wrapper debug_run [''docker''] ''{}'' 10 () =
     (Inr (Plain (VList [VInt 0, VBool True])), ())"
proof -
  let ?d = "[(''result'', VList [VInt 0, VBool True])]"
  have "int (length (''x = 1'' @ emit_text ?d)) \<le> 1000000" by code_simp
  moreover have "document (dumps (VDict ?d)) ?d" "dhas ''result'' ?d" "\<not> dhas ''error'' ?d" by code_simp+
  ultimately show ?thesis
    using run_wrapper_ignores_debug_output [of debug_run "[''docker'']" "''{}''" 10 "()"
      "\<lparr>p_stdout = ''x = 1'' @ emit_text ?d, p_stderr = [], p_returncode = 0\<rparr>" "()" "''x = 1''" "dumps (VDict ?d)" ?d]
    by (simp add: debug_run_def offline_def MAX_STDOUT_BYTES_def int_env_def result_value_def dget_def emit_text_block
        del: dumps.simps)
qed

text \<open>Streamed batches are read completely and in order: if each test case printed debug output
  that does not run into the marker, followed by the block of its answer, every answer is recovered.\<close>

lemma parse_all_recovers_stream:
  assumes "stream_ok bs ds" and "find_sub RESULT_START tail = None"
  shows "parse_all_wrapper_outputs (stream_text bs tail) = ds"
  using parse_all_stream [OF assms(1)] parse_all_none [OF assms(2)] by simp

lemma parse_all_recovers_stream_witness:
  "parse_all_wrapper_outputs (stream_text [(''a_'', dumps (VDict [(''result'', VInt 1)])),
       ([], dumps (VDict [(''result'', VInt 2)]))] ''bye'') =
     [[(''result'', VInt 1)], [(''result'', VInt 2)]]"
proof (rule parse_all_recovers_stream)
  show "stream_ok [(''a_'', dumps (VDict [(''result'', VInt 1)])), ([], dumps (VDict [(''result'', VInt 2)]))]
      [[(''result'', VInt 1)], [(''result'', VInt 2)]]" by code_simp
  show "find_sub RESULT_START ''bye'' = None" by code_simp
qed

text \<open>C33. A batch result is exact: \<open>run_batch_wrapper\<close>'s decoding returns results precisely when the
  process exited with 0 and every one of the \<open>count\<close> test cases printed a block without an error,
  and then it returns those blocks' values in order.\<close>

theorem batch_result_exact:
  "batch_result out err rc count = Inr rs \<longleftrightarrow>
     rc = 0 \<and> length (parse_all_wrapper_outputs out) = count \<and>
     list_all (\<lambda>b. \<not> dhas ''error'' b) (parse_all_wrapper_outputs out) \<and>
     rs = map result_value (parse_all_wrapper_outputs out)"
  using collect_results_ok [of "parse_all_wrapper_outputs out" err rc "[]"]
    collect_results_Inr [of err rc "[]" "parse_all_wrapper_outputs out"]
  by (auto simp: batch_result_def list_all_iff split: sum.splits)

text \<open>A batch failure names the right test case: if the first error block comes after \<open>k\<close>
  answers and carries no index of its own, test case \<open>k\<close> is reported; if the process died with no
  error block, the first unanswered test case is.\<close>

lemma batch_result_failed_index:
  assumes "parse_all_wrapper_outputs out = oks @ rest" and "\<forall>b \<in> set oks. \<not> dhas ''error'' b"
    and "rest = [] \<and> (rc \<noteq> 0 \<or> length oks \<noteq> count) \<or>
      (\<exists>b bs. rest = b # bs \<and> dhas ''error'' b \<and> dget b ''failed_test_case_index'' = None)"
  shows "\<exists>msg. batch_result out err rc count =
    Inl (RuntimeExecutionError msg (VInt (int (length oks))))"
  using assms collect_results_ok [of oks err rc "[]"]
  by (auto simp: batch_result_def collect_results_error block_index_def)

lemma batch_result_failed_index_witness:
  "\<exists>msg. batch_result (emit_text [(''result'', VInt 1)]) ''boom'' 1 3 =
     Inl (RuntimeExecutionError msg (VInt 1))"
proof -
  have "parse_all_wrapper_outputs (emit_text [(''result'', VInt 1)]) = [[(''result'', VInt 1)]]"
    "\<not> dhas ''error'' [(''result'', VInt 1)]"
    by code_simp+
  then show ?thesis
    using batch_result_failed_index [of "emit_text [(''result'', VInt 1)]" "[[(''result'', VInt 1)]]" "[]" 1 3 "''boom''"]
    by simp
qed

text \<open>The index of a batch timeout is always the index of a test case: the number of answers
  already printed, capped at the last test case.\<close>

lemma batch_timeout_index:
  assumes "0 < count"
  shows "\<exists>i. batch_timeout out count = ExecutionTimeoutError ''Time limit exceeded'' (VInt (int i)) \<and>
    i < count \<and> i = min (length (parse_all_wrapper_outputs out)) (count - 1)"
  using assms by (auto simp: batch_timeout_def timeout_error_def intro!: exI [of _ "min (length (parse_all_wrapper_outputs out)) (count - 1)"])

lemma batch_timeout_index_witness:
  "\<exists>i. batch_timeout (emit_text [(''result'', VInt 1)]) 1 = ExecutionTimeoutError ''Time limit exceeded'' (VInt (int i)) \<and>
    i < 1 \<and> i = min (length (parse_all_wrapper_outputs (emit_text [(''result'', VInt 1)]))) (1 - 1)"
  by (rule batch_timeout_index) simp

text \<open>The length of a truncated error message: unchanged up to 1000 characters, 1003 beyond
  (1000 characters and an ellipsis), which is more than the 1000 characters that the response model
  of a runtime error allows.\<close>

lemma truncate_message_length:
  "length (truncate_message m) = (if length (strip m) \<le> 1000 then length (strip m) else 1003)"
  by (simp add: truncate_message_def MAX_ERROR_MESSAGE_CHARS_def Let_def)

text \<open>Draining a pipe keeps everything up to the limit: it returns all the bytes delivered if
  they fit the limit and raises exactly if they do not.\<close>

lemma drain_exact:
  assumes "0 \<le> limit"
  shows "drain limit [] chunks =
    (if int (length (concat chunks)) \<le> limit then Inr (concat chunks)
     else Inl (RuntimeExecutionError ''Output limit exceeded'' VNone))"
  using drain_iff [of "[]" limit chunks] assms by simp

lemma drain_exact_witness:
  "drain 3 [] [''ab'', ''cd''] = Inl (RuntimeExecutionError ''Output limit exceeded'' VNone)"
  using drain_exact [of 3 "[''ab'', ''cd'']"] by simp

end
