(* ===== verification/JobQueue.thy ===== *)
theory JobQueue
  imports Env
begin

text \<open>
  \<open>jobqueue/job.py\<close>: the job queues (one Redis list per language), the status record of a job and
  the list its result is handed over on.
\<close>

section \<open>Keys\<close>

definition QUEUE_KEY_PREFIX :: string where "QUEUE_KEY_PREFIX = ''exec:queue:''"

definition JOB_PREFIX :: string where "JOB_PREFIX = ''exec:job:''"

definition LANGUAGE_QUEUES :: "string list" where
  "LANGUAGE_QUEUES = [''python'', ''javascript'', ''c'', ''java'', ''kotlin'', ''go'', ''rust'',
     ''typescript'', ''cpp'', ''csharp'']"

definition RESULT_TTL :: int where "RESULT_TTL = 3600"

definition JOB_MAX_AGE :: int where "JOB_MAX_AGE = 300"

definition MAX_QUEUE_DEPTH :: int where "MAX_QUEUE_DEPTH = 10000"

definition queue_key_for_language :: "string \<Rightarrow> exn + string" where
  "queue_key_for_language language =
     (if language \<in> set LANGUAGE_QUEUES then Inr (QUEUE_KEY_PREFIX @ language)
      else Inl (ValueError ''Unsupported language''))"

fun queue_keys :: "string list \<Rightarrow> exn + string list" where
  "queue_keys [] = Inr []"
| "queue_keys (l # ls) = (case queue_key_for_language l of
      Inl e \<Rightarrow> Inl e
    | Inr k \<Rightarrow> (case queue_keys ls of Inl e \<Rightarrow> Inl e | Inr ks \<Rightarrow> Inr (k # ks)))"

definition queue_keys_for_languages :: "string list \<Rightarrow> exn + string list" where
  "queue_keys_for_languages languages =
     queue_keys (if languages = [] then LANGUAGE_QUEUES else languages)"

definition job_key :: "string \<Rightarrow> string" where
  "job_key job_id = JOB_PREFIX @ job_id"

definition result_key :: "string \<Rightarrow> string" where
  "result_key job_id = JOB_PREFIX @ ''result:'' @ job_id"

section \<open>Operations\<close>

text \<open>\<open>payload[key]\<close> of a dictionary.\<close>

definition subscript :: "pydict \<Rightarrow> string \<Rightarrow> exn + pyval" where
  "subscript d k = (case dget d k of None \<Rightarrow> Inl (KeyError k) | Some v \<Rightarrow> Inr v)"

text \<open>A language that is not a string is in no tuple of strings.\<close>

definition queue_key_of_value :: "pyval \<Rightarrow> exn + string" where
  "queue_key_of_value v = (case v of VStr l \<Rightarrow> queue_key_for_language l
     | _ \<Rightarrow> Inl (ValueError ''Unsupported language''))"

definition job_record :: "string \<Rightarrow> pydict \<Rightarrow> pyfloat \<Rightarrow> pyval" where
  "job_record job_id payload now =
     VDict [(''job_id'', VStr job_id), (''payload'', VDict payload), (''enqueued_at'', VFloat now)]"

definition status_record :: "string \<Rightarrow> string" where
  "status_record status = dumps (VDict [(''status'', VStr status)])"

definition enqueue :: "'w env \<Rightarrow> pydict \<Rightarrow> ('w, string) io" where
  "enqueue E payload =
     io_bind (io_of_sum (subscript payload ''language'')) (\<lambda>language.
     io_bind (io_of_sum (queue_key_of_value language)) (\<lambda>queue_key.
     io_bind (r_llen E queue_key) (\<lambda>depth.
       if MAX_QUEUE_DEPTH \<le> int depth then io_raise (OverflowError ''Queue at capacity'')
       else
         io_bind (uuid4 E) (\<lambda>job_id.
         io_bind (time_now E) (\<lambda>now.
           io_then (r_lpush E queue_key (dumps (job_record job_id payload now)))
          (io_then (r_set E (job_key job_id) (status_record ''queued'') (Some RESULT_TTL))
            (io_return job_id)))))))"

definition mark_running :: "'w env \<Rightarrow> string \<Rightarrow> ('w, unit) io" where
  "mark_running E job_id = r_set E (job_key job_id) (status_record ''running'') (Some RESULT_TTL)"

definition mark_done :: "'w env \<Rightarrow> string \<Rightarrow> pydict \<Rightarrow> ('w, unit) io" where
  "mark_done E job_id result =
     io_then (r_set E (job_key job_id)
       (dumps (VDict [(''status'', VStr ''done''), (''result'', VDict result)])) (Some RESULT_TTL))
    (io_then (r_lpush E (result_key job_id) (dumps (VDict result)))
      (r_expire E (result_key job_id) RESULT_TTL))"

definition json_loads :: "string \<Rightarrow> exn + pyval" where
  "json_loads s = (case loads s of None \<Rightarrow> Inl (JSONDecodeError ''invalid JSON'') | Some v \<Rightarrow> Inr v)"

definition get_job_status :: "'w env \<Rightarrow> string \<Rightarrow> ('w, pyval option) io" where
  "get_job_status E job_id = io_bind (r_get E (job_key job_id)) (\<lambda>val. case val of
      None \<Rightarrow> io_return None
    | Some s \<Rightarrow> io_bind (io_of_sum (json_loads s)) (\<lambda>v. io_return (Some v)))"

definition wait_for_job_result :: "'w env \<Rightarrow> string \<Rightarrow> int \<Rightarrow> ('w, pyval option) io" where
  "wait_for_job_result E job_id timeout = io_bind (r_blpop E (result_key job_id) timeout) (\<lambda>res. case res of
      None \<Rightarrow> io_return None
    | Some s \<Rightarrow> io_bind (io_of_sum (json_loads s)) (\<lambda>v. io_return (Some v)))"

definition queue_depth :: "'w env \<Rightarrow> ('w, nat) io" where
  "queue_depth E = io_bind (io_of_sum (queue_keys_for_languages [])) (\<lambda>keys.
     io_bind (io_map (r_llen E) keys) (\<lambda>depths. io_return (sum_list depths)))"

definition queue_depths :: "'w env \<Rightarrow> ('w, (string \<times> nat) list) io" where
  "queue_depths E = io_bind (io_of_sum (queue_keys_for_languages [])) (\<lambda>keys.
     io_bind (io_map (r_llen E) keys) (\<lambda>depths.
       let result = zip LANGUAGE_QUEUES depths in
       io_return (result @ [(''total'', sum_list (map snd result))])))"

end
