(* ===== verification/Semaphore.thy ===== *)
theory Semaphore
  imports Env
begin

text \<open>
  \<open>execution/docker_semaphore.py\<close>: counting semaphores shared by all worker processes, as a Redis
  list of tokens.
\<close>

section \<open>The context manager\<close>

definition ACQUIRE_TIMEOUT :: int where "ACQUIRE_TIMEOUT = 120"

definition init_key :: "string \<Rightarrow> string" where
  "init_key key = key @ '':init''"

definition token :: string where "token = ''t''"

text \<open>\<open>async with semaphore(): body\<close>.\<close>

definition with_semaphore :: "'w env \<Rightarrow> string \<Rightarrow> int \<Rightarrow> ('w, 'a) io \<Rightarrow> ('w, 'a) io" where
  "with_semaphore E key concurrency body =
     io_bind (r_set_nx E (init_key key) ''1'' None) (\<lambda>fresh.
       io_then
         (if fresh then io_then (r_delete E key) (r_rpush E key (replicate (nat concurrency) token))
          else io_return ())
         (io_bind (r_brpop E [key] ACQUIRE_TIMEOUT) (\<lambda>result. case result of
            None \<Rightarrow> io_raise (RuntimeError
              (''Timed out waiting for '' @ key @ '' slot after '' @ int_str ACQUIRE_TIMEOUT @ ''s''))
          | Some _ \<Rightarrow> io_finally body (r_lpush E key token))))"

definition docker_run_semaphore :: "'w env \<Rightarrow> ('w, 'a) io \<Rightarrow> ('w, 'a) io" where
  "docker_run_semaphore E = with_semaphore E ''docker_run_semaphore'' (DOCKER_RUN_CONCURRENCY E)"

definition compile_semaphore :: "'w env \<Rightarrow> ('w, 'a) io \<Rightarrow> ('w, 'a) io" where
  "compile_semaphore E = with_semaphore E ''compile_semaphore'' (COMPILE_CONCURRENCY E)"

end
