(* ===== verification/ContainerPool.thy ===== *)
theory ContainerPool
  imports JobQueue Semaphore
begin

text \<open>
  \<open>execution/container_pool.py\<close>: the warm container pool, one Redis list of entries per image,
  with its prewarming and its reaper.
\<close>

section \<open>Specifications and keys\<close>

definition POOL_KEY_PREFIX :: string where "POOL_KEY_PREFIX = ''warm_pool:''"

definition PREWARM_SPECS :: "(string \<times> string) list" where
  "PREWARM_SPECS =
     [(''cpp-sandbox:latest'', ''/app''), (''python-sandbox:latest'', ''/app''),
      (''js-sandbox:latest'', ''/app''), (''java-sandbox:latest'', ''/app''),
      (''kotlin-sandbox:latest'', ''/app''), (''go-sandbox:latest'', ''/app''),
      (''rust-sandbox:latest'', ''/app''), (''csharp-sandbox:latest'', ''/app'')]"

definition pool_key :: "string \<Rightarrow> string" where
  "pool_key img = POOL_KEY_PREFIX @ img"

text \<open>The Lua script: one atomic step of Redis.\<close>

definition LUA_CAPPED_PUSH :: "'w env \<Rightarrow> string \<Rightarrow> int \<Rightarrow> string \<Rightarrow> ('w, bool) io" where
  "LUA_CAPPED_PUSH E key cap entry = io_bind (r_llen E key) (\<lambda>current.
     if cap \<le> int current then io_return False
     else io_then (r_lpush E key entry) (io_return True))"

section \<open>Containers\<close>

text \<open>A process that runs to its end, whatever that takes.\<close>

definition run_proc :: "'w env \<Rightarrow> string list \<Rightarrow> ('w, proc_result) io" where
  "run_proc E cmd = io_bind (communicate E cmd [] None) (\<lambda>res. case res of
      Finished p \<Rightarrow> io_return p
    | TimedOut \<Rightarrow> io_raise Diverges)"

definition docker_is_running :: "'w env \<Rightarrow> string \<Rightarrow> ('w, bool) io" where
  "docker_is_running E container_id =
     io_bind (run_proc E [''docker'', ''inspect'', ''--format'', ''{{.State.Running}}'', container_id]) (\<lambda>p.
     io_bind (decode E (p_stdout p)) (\<lambda>stdout. io_return (strip stdout = ''true'')))"

definition IMAGE_ID_CACHE_SECONDS :: int where "IMAGE_ID_CACHE_SECONDS = 30"

text \<open>A float and an integer are compared exactly.\<close>

definition older_than :: "pyfloat \<Rightarrow> int \<Rightarrow> bool" where
  "older_than age n = flt (Fin (of_int n)) age"

definition remember_image :: "'w env \<Rightarrow> string \<Rightarrow> string \<Rightarrow> ('w, string option) io" where
  "remember_image E img image_id =
     io_bind (time_now E) (\<lambda>now w.
       io_then (put_image_ids E (AList.update img (image_id, now) (image_ids E w)))
         (io_return (Some image_id)) w)"

definition inspect_image :: "'w env \<Rightarrow> string \<Rightarrow> ('w, string option) io" where
  "inspect_image E img =
     io_bind (run_proc E [''docker'', ''image'', ''inspect'', ''--format'', ''{{.Id}}'', img]) (\<lambda>p.
     io_bind (decode E (p_stdout p)) (\<lambda>stdout.
       if strip stdout = [] then io_return None else remember_image E img (strip stdout)))"

definition current_image_id :: "'w env \<Rightarrow> string \<Rightarrow> ('w, string option) io" where
  "current_image_id E img = (\<lambda>w. (case map_of (image_ids E w) img of
      None \<Rightarrow> inspect_image E img
    | Some (image_id, seen) \<Rightarrow>
        io_bind (time_now E) (\<lambda>now.
          if flt (fsub now seen) (Fin (of_int IMAGE_ID_CACHE_SECONDS)) then io_return (Some image_id)
          else inspect_image E img)) w)"

definition container_is_usable :: "'w env \<Rightarrow> string \<Rightarrow> string \<Rightarrow> ('w, bool) io" where
  "container_is_usable E container_id img =
     io_bind (run_proc E [''docker'', ''inspect'', ''--format'', ''{{.State.Running}} {{.Image}}'', container_id]) (\<lambda>p.
     io_bind (decode E (p_stdout p)) (\<lambda>stdout.
       case split_ws stdout of
         [running, its_image] \<Rightarrow>
           if running \<noteq> ''true'' then io_return False
           else io_bind (current_image_id E img) (\<lambda>current.
             io_return (case current of None \<Rightarrow> True | Some i \<Rightarrow> its_image = i))
       | _ \<Rightarrow> io_return False))"

definition sanitize_script :: string where
  "sanitize_script = ''for pid in $(ls /proc | grep -E '' @ [CHR 0x27] @ ''^[0-9]+$'' @ [CHR 0x27] @
     ''); do [ $pid -gt 1 ] && kill -9 $pid 2>/dev/null; done; rm -rf /app/* /app/.[!.]* 2>/dev/null; true''"

definition sanitize :: "'w env \<Rightarrow> string \<Rightarrow> ('w, bool) io" where
  "sanitize E container_id =
     io_then (run_proc E [''docker'', ''exec'', container_id, ''sh'', ''-c'', sanitize_script])
       (docker_is_running E container_id)"

definition kill_container :: "'w env \<Rightarrow> string \<Rightarrow> string option \<Rightarrow> ('w, unit) io" where
  "kill_container E container_id temp_dir =
     (let cmd = [''docker'', ''rm'', ''-f'', container_id] in
      io_then
        (io_bind (communicate E cmd [] (Some 15)) (\<lambda>res. case res of
            Finished _ \<Rightarrow> io_return ()
          | TimedOut \<Rightarrow> kill_proc E cmd))
        (case temp_dir of None \<Rightarrow> io_return () | Some d \<Rightarrow> if d = [] then io_return () else rmtree E d))"

section \<open>Entries\<close>

record pool_entry =
  e_container_id :: string
  e_temp_dir :: string
  e_host_temp_dir :: string
  e_born_at :: pyfloat

definition entry_json :: "pool_entry \<Rightarrow> string" where
  "entry_json e = dumps (VDict
     [(''container_id'', VStr (e_container_id e)), (''temp_dir'', VStr (e_temp_dir e)),
      (''host_temp_dir'', VStr (e_host_temp_dir e)), (''born_at'', VFloat (e_born_at e))])"

text \<open>Reading an entry back. The entries are written by this module only; anything that is not of
  their form raises.\<close>

definition load_entry :: "string \<Rightarrow> exn + pool_entry" where
  "load_entry raw = (case loads raw of
      None \<Rightarrow> Inl (JSONDecodeError ''invalid JSON'')
    | Some (VDict d) \<Rightarrow>
        (case (dget d ''container_id'', dget d ''temp_dir'', dget d ''host_temp_dir'', dget d ''born_at'') of
           (Some (VStr c), Some (VStr t), Some (VStr h), Some (VFloat b)) \<Rightarrow>
             Inr \<lparr>e_container_id = c, e_temp_dir = t, e_host_temp_dir = h, e_born_at = b\<rparr>
         | _ \<Rightarrow> Inl (KeyError ''entry''))
    | Some _ \<Rightarrow> Inl (OtherError ''entry is not an object''))"

section \<open>Acquire and release\<close>

fun acquire_loop :: "nat \<Rightarrow> 'w env \<Rightarrow> string \<Rightarrow> ('w, pool_entry option) io" where
  "acquire_loop 0 E img = io_raise Diverges"
| "acquire_loop (Suc n) E img =
     io_bind (r_rpop E (pool_key img)) (\<lambda>raw. case raw of
       None \<Rightarrow> io_return None
     | Some s \<Rightarrow>
         io_bind (io_of_sum (load_entry s)) (\<lambda>entry.
         io_bind (time_now E) (\<lambda>now.
           if older_than (fsub now (e_born_at entry)) (WARM_CONTAINER_TTL_SECONDS E)
           then io_then (create_task (kill_container E (e_container_id entry) (Some (e_temp_dir entry))))
             (acquire_loop n E img)
           else io_bind (container_is_usable E (e_container_id entry) img) (\<lambda>usable.
             if \<not> usable
             then io_then (create_task (kill_container E (e_container_id entry) (Some (e_temp_dir entry))))
               (acquire_loop n E img)
             else io_return (Some entry)))))"

definition acquire :: "'w env \<Rightarrow> string \<Rightarrow> ('w, pool_entry option) io" where
  "acquire E = acquire_loop (loop_fuel E) E"

definition release :: "'w env \<Rightarrow> string \<Rightarrow> string \<Rightarrow> string \<Rightarrow> string \<Rightarrow> ('w, unit) io" where
  "release E img container_id temp_dir host_temp_dir =
     io_bind (sanitize E container_id) (\<lambda>alive.
       if \<not> alive then rmtree E temp_dir
       else
         io_bind (time_now E) (\<lambda>now.
         io_bind (LUA_CAPPED_PUSH E (pool_key img) (WARM_POOL_MAX_PER_IMAGE E)
             (entry_json \<lparr>e_container_id = container_id, e_temp_dir = temp_dir,
               e_host_temp_dir = host_temp_dir, e_born_at = now\<rparr>)) (\<lambda>pushed.
           if \<not> pushed then create_task (kill_container E container_id (Some temp_dir))
           else io_then (r_llen E (pool_key img)) (io_return ()))))"

section \<open>Prewarming\<close>

text \<open>The command line that starts a sandbox container; the executors use the same one.\<close>

definition sandbox_run_cmd :: "'w env \<Rightarrow> string \<Rightarrow> string \<Rightarrow> string \<Rightarrow> string \<Rightarrow> string \<Rightarrow> string list" where
  "sandbox_run_cmd E swap cpus host_temp_dir workdir img =
     [''docker'', ''run'', ''-d'', ''--rm'',
      ''--memory'', DOCKER_MEMORY_LIMIT E, ''--memory-swap'', swap, ''--cpus'', cpus,
      ''--pids-limit'', DOCKER_PIDS_LIMIT E,
      ''--ulimit'', ''nofile='' @ DOCKER_NOFILE_LIMIT E @ '':'' @ DOCKER_NOFILE_LIMIT E,
      ''--network'', ''none'', ''--cap-drop'', ''ALL'', ''--security-opt'', ''no-new-privileges'',
      ''-v'', host_temp_dir @ '':/app'', ''-w'', workdir, img] @ CONTAINER_SLEEP_CMD E"

text \<open>One container more: \<open>None\<close> where the loop breaks. A timeout of \<open>asyncio.wait_for\<close> is one of
  the exceptions that \<open>except Exception\<close> takes; the process is left running.\<close>

definition prewarm_start :: "'w env \<Rightarrow> string \<Rightarrow> string \<Rightarrow> string \<Rightarrow> ('w, proc_result option) io" where
  "prewarm_start E host_temp_dir workdir img =
     io_catch
       (io_bind (docker_run_semaphore E (communicate E
          (sandbox_run_cmd E (DOCKER_MEMORY_SWAP E) (DOCKER_CPU_LIMIT E) host_temp_dir workdir img)
          [] (Some 60))) (\<lambda>res. case res of
         Finished p \<Rightarrow> io_return (Some p)
       | TimedOut \<Rightarrow> io_raise TimeoutError))
       (\<lambda>_. io_return None)"

fun prewarm_loop ::
  "nat \<Rightarrow> 'w env \<Rightarrow> string \<Rightarrow> string \<Rightarrow> string \<Rightarrow> string \<Rightarrow> int \<Rightarrow> nat \<Rightarrow> ('w, nat) io" where
  "prewarm_loop 0 E img workdir croot hroot target current = io_raise Diverges"
| "prewarm_loop (Suc n) E img workdir croot hroot target current =
     (if \<not> int current < target then io_return current
      else
        io_bind (queue_depth E) (\<lambda>queued.
          if 0 < queued
          then io_then (async_sleep E 1) (io_bind (r_llen E (pool_key img)) (\<lambda>current'.
            prewarm_loop n E img workdir croot hroot target current'))
          else
            io_bind (mkdtemp E croot) (\<lambda>temp_dir.
            let host_temp_dir = build_host_temp_dir hroot temp_dir in
            io_bind (prewarm_start E host_temp_dir workdir img) (\<lambda>started. case started of
              None \<Rightarrow> io_then (rmtree E temp_dir) (io_return current)
            | Some p \<Rightarrow>
                if p_returncode p \<noteq> 0 then io_then (rmtree E temp_dir) (io_return current)
                else
                  io_bind (decode E (p_stdout p)) (\<lambda>stdout.
                  let container_id = strip stdout in
                  io_bind (time_now E) (\<lambda>now.
                  io_bind (LUA_CAPPED_PUSH E (pool_key img) (WARM_POOL_MAX_PER_IMAGE E)
                      (entry_json \<lparr>e_container_id = container_id, e_temp_dir = temp_dir,
                        e_host_temp_dir = host_temp_dir, e_born_at = now\<rparr>)) (\<lambda>pushed.
                    io_then
                      (if pushed then io_return ()
                       else create_task (kill_container E container_id (Some temp_dir)))
                      (io_bind (r_llen E (pool_key img)) (\<lambda>current'.
                        prewarm_loop n E img workdir croot hroot target current')))))))))"

definition prewarm_lock_key :: "string \<Rightarrow> string" where
  "prewarm_lock_key img = pool_key img @ '':prewarm_lock''"

definition unlock_prewarm :: "'w env \<Rightarrow> string \<Rightarrow> string \<Rightarrow> ('w, unit) io" where
  "unlock_prewarm E lock_key lock_value =
     io_bind (r_get E lock_key) (\<lambda>current.
       if current = Some lock_value then r_delete E lock_key else io_return ())"

definition ensure_pool_target :: "'w env \<Rightarrow> string \<Rightarrow> int \<Rightarrow> ('w, unit) io" where
  "ensure_pool_target E img target =
     (if target \<le> 0 then io_return ()
      else case map_of PREWARM_SPECS img of
        None \<Rightarrow> io_return ()
      | Some workdir \<Rightarrow>
          io_bind (time_now E) (\<lambda>now.
          let lock_value = float_repr now in
          io_bind (r_set_nx E (prewarm_lock_key img) lock_value (Some 900)) (\<lambda>got_lock.
            if \<not> got_lock then io_return ()
            else io_finally
              (io_bind (io_of_sum (get_sandbox_roots E)) (\<lambda>(croot, hroot).
               io_bind (r_llen E (pool_key img)) (\<lambda>current.
                 if target \<le> int current then io_return ()
                 else io_then (prewarm_loop (loop_fuel E) E img workdir croot hroot target current)
                   (io_return ()))))
              (unlock_prewarm E (prewarm_lock_key img) lock_value))))"

section \<open>The reaper\<close>

text \<open>The inner loop: kill what has expired, keep the rest.\<close>

fun reap_entries :: "'w env \<Rightarrow> pyfloat \<Rightarrow> string list \<Rightarrow> ('w, string list) io" where
  "reap_entries E now [] = io_return []"
| "reap_entries E now (raw # raws) =
     io_bind (io_of_sum (load_entry raw)) (\<lambda>entry.
       if older_than (fsub now (e_born_at entry)) (WARM_CONTAINER_TTL_SECONDS E)
       then io_then (create_task (kill_container E (e_container_id entry) (Some (e_temp_dir entry))))
         (reap_entries E now raws)
       else io_bind (reap_entries E now raws) (\<lambda>keep. io_return (raw # keep)))"

definition reap_key :: "'w env \<Rightarrow> pyfloat \<Rightarrow> string \<Rightarrow> ('w, unit) io" where
  "reap_key E now key =
     io_bind (r_lrange E key) (\<lambda>raw_entries.
       if raw_entries = [] then io_return ()
       else
         io_bind (reap_entries E now raw_entries) (\<lambda>keep.
           io_then (r_delete E key) (if keep = [] then io_return () else r_rpush E key keep)))"

definition reap_once :: "'w env \<Rightarrow> ('w, unit) io" where
  "reap_once E =
     io_bind (time_now E) (\<lambda>now.
     io_bind (r_scan E (POOL_KEY_PREFIX @ ''*'')) (\<lambda>keys. io_each (reap_key E now) keys))"

fun reaper_loop :: "nat \<Rightarrow> 'w env \<Rightarrow> ('w, unit) io" where
  "reaper_loop 0 E = io_raise Diverges"
| "reaper_loop (Suc n) E =
     io_then (async_sleep E 30)
    (io_then (io_catch (reap_once E) (\<lambda>_. io_return ())) (reaper_loop n E))"

end
