(* ===== verification/ExecutorBase.thy ===== *)
theory ExecutorBase
  imports Process ContainerPool
begin

text \<open>
  \<open>execution/base.py\<close> and what the ten executors of \<open>languages/\<close> share: the interface that the
  pipeline calls, the attributes of an executor object, and the three ways in which their methods
  obtain a container, run a compiler in it and give it back.
\<close>

section \<open>The interface\<close>

text \<open>\<open>run_batch\<close> is optional: the pipeline asks \<open>hasattr(executor, "run_batch")\<close>.\<close>

record test_case =
  tc_input :: pydict
  expected_output :: pyval

record 'w executor_ops =
  ex_compile :: "('w, unit) io"
  ex_run :: "pydict \<Rightarrow> ('w, outcome) io"
  ex_run_batch :: "(test_case list \<Rightarrow> ('w, outcome list) io) option"
  ex_cleanup :: "('w, unit) io"

section \<open>The object\<close>

text \<open>The attributes that \<open>__init__\<close> sets; an executor's world is a pair of the world it runs in
  and its attributes. \<open>self.code\<close> and \<open>self.function_name\<close> are never assigned again and are
  arguments of the methods.\<close>

record exec_state =
  container_id :: "string option"
  temp_dir :: "string option"
  host_temp_dir :: "string option"
  file_path :: "string option"

definition init_state :: exec_state where
  "init_state = \<lparr>container_id = None, temp_dir = None, host_temp_dir = None, file_path = None\<rparr>"

text \<open>The operations of the environment on a world with a further component.\<close>

definition on_fst :: "('w, 'a) io \<Rightarrow> ('w \<times> 's, 'a) io" where
  "on_fst m = (\<lambda>(w, s). case m w of (r, w') \<Rightarrow> (r, (w', s)))"

definition with_state :: "'w env \<Rightarrow> ('w \<times> 's) env" where
  "with_state E = \<lparr> getenv = getenv E, utf8 = utf8 E, utf8_strict = utf8_strict E,
     py_compile = py_compile E, template = template E, loop_fuel = loop_fuel E,
     image_ids = (\<lambda>w. image_ids E (fst w)), put_image_ids = (\<lambda>x. on_fst (put_image_ids E x)),
     shutting_down = (\<lambda>w. shutting_down E (fst w)), uuid4 = on_fst (uuid4 E),
     async_sleep = (\<lambda>n. on_fst (async_sleep E n)), sem_acquire = (\<lambda>n. on_fst (sem_acquire E n)),
     sem_release = on_fst (sem_release E), time_now = on_fst (time_now E),
     mkdtemp = (\<lambda>d. on_fst (mkdtemp E d)), rmtree = (\<lambda>d. on_fst (rmtree E d)),
     makedirs = (\<lambda>d. on_fst (makedirs E d)), write_file = (\<lambda>f c. on_fst (write_file E f c)),
     communicate = (\<lambda>c i t. on_fst (communicate E c i t)),
     stream_proc = (\<lambda>c i t. on_fst (stream_proc E c i t)), kill_proc = (\<lambda>c. on_fst (kill_proc E c)),
     r_llen = (\<lambda>k. on_fst (r_llen E k)), r_lpush = (\<lambda>k v. on_fst (r_lpush E k v)),
     r_rpush = (\<lambda>k v. on_fst (r_rpush E k v)), r_rpop = (\<lambda>k. on_fst (r_rpop E k)),
     r_brpop = (\<lambda>k t. on_fst (r_brpop E k t)), r_blpop = (\<lambda>k t. on_fst (r_blpop E k t)),
     r_lrange = (\<lambda>k. on_fst (r_lrange E k)), r_delete = (\<lambda>k. on_fst (r_delete E k)),
     r_get = (\<lambda>k. on_fst (r_get E k)), r_set = (\<lambda>k v t. on_fst (r_set E k v t)),
     r_set_nx = (\<lambda>k v t. on_fst (r_set_nx E k v t)), r_expire = (\<lambda>k t. on_fst (r_expire E k t)),
     r_scan = (\<lambda>p. on_fst (r_scan E p)) \<rparr>"

definition get_attr :: "(exec_state \<Rightarrow> 'a) \<Rightarrow> ('w \<times> exec_state, 'a) io" where
  "get_attr f = (\<lambda>(w, s). (Inr (f s), (w, s)))"

definition set_attr :: "(exec_state \<Rightarrow> exec_state) \<Rightarrow> ('w \<times> exec_state, unit) io" where
  "set_attr f = (\<lambda>(w, s). (Inr (), (w, f s)))"

lemma on_fst_apply [simp, io_simps]: "on_fst m (w, s) = (case m w of (r, w') \<Rightarrow> (r, (w', s)))"
  by (simp add: on_fst_def)

lemma get_attr_apply [simp, io_simps]: "get_attr f (w, s) = (Inr (f s), (w, s))"
  by (simp add: get_attr_def)

lemma set_attr_apply [simp, io_simps]: "set_attr f (w, s) = (Inr (), (w, f s))"
  by (simp add: set_attr_def)

section \<open>Methods the executors share\<close>

text \<open>\<open>if not self.container_id: raise\<close>: the identifier, which is then a non-empty string.\<close>

definition need_container :: "('w \<times> exec_state, string) io" where
  "need_container = io_bind (get_attr container_id) (\<lambda>c. case c of
      None \<Rightarrow> io_raise (RuntimeExecutionError ''Container not initialized'' VNone)
    | Some cid \<Rightarrow>
        if cid = [] then io_raise (RuntimeExecutionError ''Container not initialized'' VNone)
        else io_return cid)"

text \<open>The identifier where the code uses it without asking.\<close>

definition the_attr :: "(exec_state \<Rightarrow> string option) \<Rightarrow> ('w \<times> exec_state, string) io" where
  "the_attr f = io_bind (get_attr f) (\<lambda>c. case c of
      None \<Rightarrow> io_raise (OtherError ''expected str, bytes or os.PathLike object, not NoneType'') | Some x \<Rightarrow> io_return x)"

text \<open>What differs between the executors when they start a container: the image, the limits, the
  working directory, the time limit on \<open>docker run\<close> with its message, and the message for a failed
  start, given the standard error of \<open>docker run\<close>.\<close>

record 'w start_spec =
  st_image :: string
  st_swap :: string
  st_cpus :: string
  st_workdir :: string
  st_timeout :: "(int \<times> string) option"
  st_failed :: "string \<Rightarrow> ('w, string) io"

definition start_proc :: "'w env \<Rightarrow> (int \<times> string) option \<Rightarrow> string list \<Rightarrow> ('w, proc_result) io" where
  "start_proc E time_limit cmd = (case time_limit of
      None \<Rightarrow> run_proc E cmd
    | Some (limit, message) \<Rightarrow>
        io_bind (communicate E cmd [] (Some limit)) (\<lambda>res. case res of
          Finished p \<Rightarrow> io_return p
        | TimedOut \<Rightarrow> io_then (kill_proc E cmd) (io_raise (RuntimeExecutionError message VNone))))"

definition cold_start ::
  "('w \<times> exec_state) env \<Rightarrow> ('w \<times> exec_state) start_spec \<Rightarrow> string \<Rightarrow> string \<Rightarrow> ('w \<times> exec_state, unit) io" where
  "cold_start E sp croot hroot =
     io_bind (mkdtemp E croot) (\<lambda>d.
     io_then (set_attr (\<lambda>s. s\<lparr>temp_dir := Some d\<rparr>))
    (let htd = build_host_temp_dir hroot d in
     io_then (set_attr (\<lambda>s. s\<lparr>host_temp_dir := Some htd\<rparr>))
    (io_bind (docker_run_semaphore E (start_proc E (st_timeout sp)
        (sandbox_run_cmd E (st_swap sp) (st_cpus sp) htd (st_workdir sp) (st_image sp)))) (\<lambda>p.
       if p_returncode p \<noteq> 0
       then io_bind (st_failed sp (p_stderr p)) (\<lambda>message.
         io_raise (RuntimeExecutionError message VNone))
       else io_bind (decode E (p_stdout p)) (\<lambda>out.
         set_attr (\<lambda>s. s\<lparr>container_id := Some (strip out)\<rparr>))))))"

text \<open>A warm container if the pool has one, a new one otherwise.\<close>

definition obtain_container ::
  "('w \<times> exec_state) env \<Rightarrow> ('w \<times> exec_state) start_spec \<Rightarrow> ('w \<times> exec_state, unit) io" where
  "obtain_container E sp =
     io_bind (io_of_sum (get_sandbox_roots E)) (\<lambda>(croot, hroot).
     io_bind (acquire E (st_image sp)) (\<lambda>warm. case warm of
       Some e \<Rightarrow> set_attr (\<lambda>s. s\<lparr>container_id := Some (e_container_id e),
         temp_dir := Some (e_temp_dir e), host_temp_dir := Some (e_host_temp_dir e)\<rparr>)
     | None \<Rightarrow> cold_start E sp croot hroot))"

text \<open>The compiler run under \<open>compile_semaphore\<close>; \<open>on_timeout\<close> is what the handler does besides
  killing the compiler.\<close>

definition run_compiler ::
  "'w env \<Rightarrow> string list \<Rightarrow> int \<Rightarrow> ('w, unit) io \<Rightarrow> ('w, proc_result) io" where
  "run_compiler E cmd limit on_timeout =
     compile_semaphore E (io_bind (communicate E cmd [] (Some limit)) (\<lambda>res. case res of
       Finished p \<Rightarrow> io_return p
     | TimedOut \<Rightarrow> io_then (kill_proc E cmd)
         (io_then on_timeout (io_raise (CompileError ''Compilation timed out'')))))"

definition set_file :: "string \<Rightarrow> ('w \<times> exec_state, string) io" where
  "set_file name = io_bind (the_attr temp_dir) (\<lambda>d.
     io_then (set_attr (\<lambda>s. s\<lparr>file_path := Some (path_join d name)\<rparr>)) (io_return (path_join d name)))"

definition opt_text :: "string option \<Rightarrow> string" where
  "opt_text x = (case x of Some t \<Rightarrow> t | None \<Rightarrow> [])"

text \<open>\<open>cleanup\<close>, the same in all ten executors. A container identifier comes with its
  directories.\<close>

definition cleanup :: "('w \<times> exec_state) env \<Rightarrow> string \<Rightarrow> ('w \<times> exec_state, unit) io" where
  "cleanup E img =
     io_bind (get_attr (\<lambda>s. s)) (\<lambda>s. case container_id s of
       None \<Rightarrow> io_return ()
     | Some cid \<Rightarrow>
         if cid = [] then io_return ()
         else
           io_then (set_attr (\<lambda>s. s\<lparr>container_id := None, temp_dir := None, host_temp_dir := None\<rparr>))
             (release E img cid (opt_text (temp_dir s)) (opt_text (host_temp_dir s))))"

text \<open>Payloads, and the time limit of a batch.\<close>

definition named_payload :: "string \<Rightarrow> pydict \<Rightarrow> string" where
  "named_payload function_name test_input =
     dumps (VDict [(''function_name'', VStr function_name), (''input'', VDict test_input)])"

definition batch_payload :: "string \<Rightarrow> pydict list \<Rightarrow> string" where
  "batch_payload function_name test_inputs =
     dumps (VDict [(''function_name'', VStr function_name),
       (''test_cases'', VList (map (\<lambda>inp. VDict [(''input'', VDict inp)]) test_inputs))])"

definition positional_dict :: "pydict \<Rightarrow> pyval" where
  "positional_dict test_input =
     VDict [(''keys'', VList (map (\<lambda>p. VStr (fst p)) test_input)), (''values'', VList (map snd test_input))]"

definition positional_payload :: "pydict \<Rightarrow> string" where
  "positional_payload test_input = dumps (positional_dict test_input)"

definition batch_time_limit :: "'w env \<Rightarrow> nat \<Rightarrow> int" where
  "batch_time_limit E n =
     max (EXECUTION_TIMEOUT_SECONDS E) (EXECUTION_TIMEOUT_SECONDS E * int n)"

definition run_in_container ::
  "('w \<times> exec_state) env \<Rightarrow> (string \<Rightarrow> string list) \<Rightarrow> string \<Rightarrow> ('w \<times> exec_state, outcome) io" where
  "run_in_container E cmd payload =
     io_bind need_container (\<lambda>cid. run_wrapper E (cmd cid) payload (EXECUTION_TIMEOUT_SECONDS E))"

definition run_batch_in_container ::
  "('w \<times> exec_state) env \<Rightarrow> (string \<Rightarrow> string list) \<Rightarrow> string \<Rightarrow> nat \<Rightarrow> ('w \<times> exec_state, outcome list) io" where
  "run_batch_in_container E cmd payload n =
     io_bind need_container (\<lambda>cid. run_batch_wrapper E (cmd cid) payload (batch_time_limit E n) n)"

section \<open>Code that does not see the attributes\<close>

text \<open>What the components below the executors do on a world with attributes is what they do on the
  world alone; the rules move \<^const>\<open>on_fst\<close> towards the operations of the environment.\<close>

named_theorems lift_simps \<open>code lifted to a larger world\<close>

lemma on_fst_return [lift_simps]: "on_fst (io_return a) = io_return a"
  by (auto simp: on_fst_def io_return_def)

lemma on_fst_raise [lift_simps]: "on_fst (io_raise e) = io_raise e"
  by (auto simp: on_fst_def io_raise_def)

lemma on_fst_bind [lift_simps]: "on_fst (io_bind m k) = io_bind (on_fst m) (\<lambda>a. on_fst (k a))"
  by (auto simp: on_fst_def io_bind_def fun_eq_iff split: prod.splits sum.splits)

lemma on_fst_then [lift_simps]: "on_fst (io_then m k) = io_then (on_fst m) (on_fst k)"
  by (simp add: io_then_def on_fst_bind)

lemma on_fst_catch [lift_simps]: "on_fst (io_catch m h) = io_catch (on_fst m) (\<lambda>e. on_fst (h e))"
  by (auto simp: on_fst_def io_catch_def fun_eq_iff split: prod.splits sum.splits)

lemma on_fst_finally [lift_simps]: "on_fst (io_finally m f) = io_finally (on_fst m) (on_fst f)"
  by (auto simp: on_fst_def io_finally_def fun_eq_iff split: prod.splits sum.splits)

lemma on_fst_create_task [lift_simps]: "on_fst (create_task m) = create_task (on_fst m)"
  by (auto simp: on_fst_def create_task_def fun_eq_iff split: prod.splits)

lemma on_fst_of_sum [lift_simps]: "on_fst (io_of_sum r) = io_of_sum r"
  by (cases r) (simp_all add: on_fst_return on_fst_raise)

lemma on_fst_if [lift_simps]: "on_fst (if b then m else n) = (if b then on_fst m else on_fst n)"
  by simp

lemmas on_fst_cases [lift_simps] = option.case_distrib [of on_fst] list.case_distrib [of on_fst]
  timed.case_distrib [of on_fst] prod.case_distrib [of on_fst] sum.case_distrib [of on_fst]

lemmas lift_congs = if_cong option.case_cong list.case_cong timed.case_cong prod.case_cong sum.case_cong

lemma with_state_fields [lift_simps]:
  "getenv (with_state E) = getenv E" "utf8 (with_state E) = utf8 E" "utf8_strict (with_state E) = utf8_strict E"
  "template (with_state E) = template E" "loop_fuel (with_state E) = loop_fuel E"
  "time_now (with_state E) = on_fst (time_now E)" "mkdtemp (with_state E) d = on_fst (mkdtemp E d)"
  "rmtree (with_state E) d = on_fst (rmtree E d)" "makedirs (with_state E) d = on_fst (makedirs E d)"
  "write_file (with_state E) f c = on_fst (write_file E f c)"
  "communicate (with_state E) cmd i t = on_fst (communicate E cmd i t)"
  "stream_proc (with_state E) cmd i n = on_fst (stream_proc E cmd i n)"
  "kill_proc (with_state E) cmd = on_fst (kill_proc E cmd)"
  "r_llen (with_state E) k = on_fst (r_llen E k)" "r_lpush (with_state E) k v = on_fst (r_lpush E k v)"
  "r_rpush (with_state E) k vs = on_fst (r_rpush E k vs)" "r_rpop (with_state E) k = on_fst (r_rpop E k)"
  "r_brpop (with_state E) ks n = on_fst (r_brpop E ks n)" "r_delete (with_state E) k = on_fst (r_delete E k)"
  "r_set_nx (with_state E) k v t = on_fst (r_set_nx E k v t)"
  "put_image_ids (with_state E) ids = on_fst (put_image_ids E ids)"
  "image_ids (with_state E) w = image_ids E (fst w)" "py_compile (with_state E) = py_compile E"
  by (simp_all add: with_state_def)

text \<open>The constants of \<open>config/limits.py\<close> depend on the process environment only.\<close>

lemma with_state_limits [lift_simps]:
  "MAX_STDOUT_BYTES (with_state E) = MAX_STDOUT_BYTES E"
  "WARM_CONTAINER_TTL_SECONDS (with_state E) = WARM_CONTAINER_TTL_SECONDS E"
  "WARM_POOL_MAX_PER_IMAGE (with_state E) = WARM_POOL_MAX_PER_IMAGE E"
  "EXECUTION_TIMEOUT_SECONDS (with_state E) = EXECUTION_TIMEOUT_SECONDS E"
  by (simp_all add: MAX_STDOUT_BYTES_def WARM_CONTAINER_TTL_SECONDS_def WARM_POOL_MAX_PER_IMAGE_def
      EXECUTION_TIMEOUT_SECONDS_def int_env_def with_state_fields)

lemma lift_decode [lift_simps]: "decode (with_state E) b = on_fst (decode E b)"
  by (simp add: decode_def lift_simps cong: lift_congs)

lemma lift_run_proc [lift_simps]: "run_proc (with_state E) cmd = on_fst (run_proc E cmd)"
  by (simp add: run_proc_def lift_simps cong: lift_congs)

lemma lift_docker_is_running [lift_simps]: "docker_is_running (with_state E) c = on_fst (docker_is_running E c)"
  by (simp add: docker_is_running_def lift_simps cong: lift_congs)

lemma lift_sanitize [lift_simps]: "sanitize (with_state E) c = on_fst (sanitize E c)"
  by (simp add: sanitize_def lift_simps cong: lift_congs)

lemma lift_kill_container [lift_simps]: "kill_container (with_state E) c d = on_fst (kill_container E c d)"
  by (simp add: kill_container_def Let_def lift_simps cong: lift_congs)

lemma lift_capped_push [lift_simps]:
  "LUA_CAPPED_PUSH (with_state E) key cap entry = on_fst (LUA_CAPPED_PUSH E key cap entry)"
  by (simp add: LUA_CAPPED_PUSH_def lift_simps cong: lift_congs)

lemma lift_release [lift_simps]: "release (with_state E) img c d h = on_fst (release E img c d h)"
  by (simp add: release_def lift_simps cong: lift_congs)

lemma lift_run_in_sandbox [lift_simps]:
  "run_in_sandbox (with_state E) cmd payload t = on_fst (run_in_sandbox E cmd payload t)"
  by (simp add: run_in_sandbox_def lift_simps cong: lift_congs)

lemma lift_run_wrapper [lift_simps]: "run_wrapper (with_state E) cmd payload t = on_fst (run_wrapper E cmd payload t)"
  unfolding run_wrapper_def case_prod_unfold by (simp add: lift_simps)

lemma lift_run_batch_wrapper [lift_simps]:
  "run_batch_wrapper (with_state E) cmd payload t n = on_fst (run_batch_wrapper E cmd payload t n)"
  by (simp add: run_batch_wrapper_def lift_simps cong: lift_congs)

lemma lift_with_semaphore [lift_simps]:
  "with_semaphore (with_state E) key n (on_fst m) = on_fst (with_semaphore E key n m)"
  by (simp add: with_semaphore_def lift_simps cong: lift_congs)

lemma lift_docker_run_semaphore [lift_simps]:
  "docker_run_semaphore (with_state E) (on_fst m) = on_fst (docker_run_semaphore E m)"
  by (simp add: docker_run_semaphore_def DOCKER_RUN_CONCURRENCY_def int_env_def lift_simps)

lemma lift_start_proc [lift_simps]: "start_proc (with_state E) t cmd = on_fst (start_proc E t cmd)"
  by (simp add: start_proc_def lift_simps cong: lift_congs)

lemma lift_sandbox_run_cmd [lift_simps]:
  "sandbox_run_cmd (with_state E) swap cpus htd workdir img = sandbox_run_cmd E swap cpus htd workdir img"
  by (simp add: sandbox_run_cmd_def DOCKER_MEMORY_LIMIT_def DOCKER_PIDS_LIMIT_def DOCKER_NOFILE_LIMIT_def
      CONTAINER_SLEEP_CMD_def str_env_def lift_simps)

lemma lift_get_sandbox_roots [lift_simps]: "get_sandbox_roots (with_state E) = get_sandbox_roots E"
  by (simp add: get_sandbox_roots_def str_env_def lift_simps)

lemma lift_remember_image [lift_simps]:
  "remember_image (with_state E) img image_id = on_fst (remember_image E img image_id)"
  by (auto simp: remember_image_def lift_simps io_bind_def io_then_def fun_eq_iff split: prod.splits sum.splits)

lemma lift_inspect_image [lift_simps]: "inspect_image (with_state E) img = on_fst (inspect_image E img)"
  by (simp add: inspect_image_def lift_simps cong: lift_congs)

lemma lift_current_image_id [lift_simps]: "current_image_id (with_state E) img = on_fst (current_image_id E img)"
  by (auto simp: current_image_id_def lift_simps io_bind_def fun_eq_iff split: option.splits prod.splits sum.splits)

lemma lift_container_is_usable [lift_simps]:
  "container_is_usable (with_state E) c img = on_fst (container_is_usable E c img)"
  by (simp add: container_is_usable_def lift_simps cong: lift_congs)

lemma lift_acquire_loop: "acquire_loop n (with_state E) img = on_fst (acquire_loop n E img)"
proof (induction n)
  case 0
  show ?case by (simp add: fun_eq_iff on_fst_def)
next
  case (Suc n)
  then show ?case by (simp add: lift_simps cong: lift_congs)
qed

lemma lift_acquire [lift_simps]: "acquire (with_state E) img = on_fst (acquire E img)"
  by (simp add: acquire_def lift_acquire_loop lift_simps)

end
