(* ===== verification/Pipeline.thy ===== *)
theory Pipeline
  imports ExecutorBase
begin

text \<open>
  \<open>execution/pipeline.py\<close>: judging a submission against its test cases, and running a raw program.
\<close>

section \<open>Requests and verdicts\<close>

record request =
  rq_language :: string
  rq_source_code :: string
  rq_function_name :: string
  rq_test_cases :: "test_case list"
  rq_in_place :: "bool option"

text \<open>The dictionaries that \<open>execute\<close> returns, one constructor for each shape.\<close>

datatype verdict =
    Accepted "pyval list"
  | WrongAnswer nat pyval pyval
  | RuntimeErrorVerdict pyval string
  | TimeoutVerdict pyval
  | CompilationError string
  | ErrorVerdict string

fun verdict_json :: "verdict \<Rightarrow> pydict" where
  "verdict_json (Accepted outs) = [(''verdict'', VStr ''accepted''), (''actual_outputs'', VList outs)]"
| "verdict_json (WrongAnswer i actual expected) =
     [(''verdict'', VStr ''wrong_answer''), (''failed_test_case_index'', VInt (int i)),
      (''actual_output'', actual), (''expected_output'', expected)]"
| "verdict_json (RuntimeErrorVerdict i m) =
     [(''verdict'', VStr ''runtime_error''), (''failed_test_case_index'', i), (''error_message'', VStr m)]"
| "verdict_json (TimeoutVerdict i) = [(''verdict'', VStr ''timeout''), (''failed_test_case_index'', i)]"
| "verdict_json (CompilationError m) =
     [(''verdict'', VStr ''compilation_error''), (''error_message'', VStr m)]"
| "verdict_json (ErrorVerdict m) = [(''verdict'', VStr ''error''), (''error_message'', VStr m)]"

definition failure :: "exn \<Rightarrow> pyval \<Rightarrow> verdict" where
  "failure ex i =
     (if is_timeout_error ex then TimeoutVerdict i
      else RuntimeErrorVerdict i (if exn_str ex = [] then ''Runtime error'' else exn_str ex))"

text \<open>\<open>x or 0\<close>.\<close>

definition or_zero :: "pyval \<Rightarrow> pyval" where
  "or_zero v = (if truthy v then v else VInt 0)"

definition apply_in_place :: "bool option \<Rightarrow> outcome \<Rightarrow> outcome" where
  "apply_in_place in_place r = (case r of
      InPlaceResult v m \<Rightarrow> if in_place = Some False then Plain v else r
    | Plain v \<Rightarrow> r)"

section \<open>Comparing the results of a batch\<close>

fun first_mismatch :: "nat \<Rightarrow> (outcome \<times> test_case) list \<Rightarrow> exn + verdict option" where
  "first_mismatch i [] = Inr None"
| "first_mismatch i ((r, tc) # rs) = (case outcome_match r (expected_output tc) of
      Inl ex \<Rightarrow> Inl ex
    | Inr True \<Rightarrow> first_mismatch (Suc i) rs
    | Inr False \<Rightarrow> (case reported r (expected_output tc) of
          Inl ex \<Rightarrow> Inl ex
        | Inr v \<Rightarrow> Inr (Some (WrongAnswer i v (expected_output tc)))))"

fun report_all :: "(outcome \<times> test_case) list \<Rightarrow> exn + pyval list" where
  "report_all [] = Inr []"
| "report_all ((r, tc) # rs) = (case reported r (expected_output tc) of
      Inl ex \<Rightarrow> Inl ex
    | Inr v \<Rightarrow> (case report_all rs of Inl ex \<Rightarrow> Inl ex | Inr vs \<Rightarrow> Inr (v # vs)))"

definition judge_batch :: "bool option \<Rightarrow> test_case list \<Rightarrow> outcome list \<Rightarrow> exn + verdict" where
  "judge_batch in_place tcs outs =
     (if length outs \<noteq> length tcs
      then Inr (RuntimeErrorVerdict (VInt 0) ''Invalid batch output format'')
      else
        (let rs = zip (map (apply_in_place in_place) outs) tcs in
         case first_mismatch 0 rs of
           Inl ex \<Rightarrow> Inl ex
         | Inr (Some v) \<Rightarrow> Inr v
         | Inr None \<Rightarrow> (case report_all rs of Inl ex \<Rightarrow> Inl ex | Inr vs \<Rightarrow> Inr (Accepted vs))))"

section \<open>The pipeline\<close>

text \<open>\<open>try: m except Exception as exc: h\<close> around a part that ends, followed by the rest.\<close>

definition io_try :: "('w, 'a) io \<Rightarrow> (exn \<Rightarrow> ('w, 'b) io) \<Rightarrow> ('a \<Rightarrow> ('w, 'b) io) \<Rightarrow> ('w, 'b) io" where
  "io_try m h k = (\<lambda>w. case m w of
      (Inl e, w') \<Rightarrow> if e = Diverges then (Inl e, w') else h e w'
    | (Inr a, w') \<Rightarrow> k a w')"

fun run_each ::
  "'w executor_ops \<Rightarrow> bool option \<Rightarrow> nat \<Rightarrow> pyval list \<Rightarrow> test_case list \<Rightarrow> ('w, verdict) io" where
  "run_each ex in_place i actual_outputs [] = io_return (Accepted actual_outputs)"
| "run_each ex in_place i actual_outputs (tc # tcs) =
     io_try (ex_run ex (tc_input tc))
       (\<lambda>e. io_return (failure e (VInt (int i))))
       (\<lambda>r0. let r = apply_in_place in_place r0 in
         io_bind (io_of_sum (outcome_match r (expected_output tc))) (\<lambda>ok.
         io_bind (io_of_sum (reported r (expected_output tc))) (\<lambda>v.
           if \<not> ok then io_return (WrongAnswer i v (expected_output tc))
           else run_each ex in_place (Suc i) (actual_outputs @ [v]) tcs)))"

definition run_all :: "'w executor_ops \<Rightarrow> bool option \<Rightarrow> test_case list \<Rightarrow> ('w, verdict) io" where
  "run_all ex in_place tcs = (case ex_run_batch ex of
      Some run_batch \<Rightarrow>
        io_try (run_batch tcs)
          (\<lambda>e. io_return (failure e (or_zero (exn_index e))))
          (\<lambda>outs. io_of_sum (judge_batch in_place tcs outs))
    | None \<Rightarrow> run_each ex in_place 0 [] tcs)"

text \<open>Only \<open>CompileError\<close> and \<open>RuntimeExecutionError\<close> are taken when compiling.\<close>

definition compile_failure :: "exn \<Rightarrow> ('w, verdict) io" where
  "compile_failure e = (case e of
      CompileError m \<Rightarrow> io_return (CompilationError m)
    | RuntimeExecutionError m i \<Rightarrow> io_return (ErrorVerdict (''Execution environment error: '' @ m))
    | ExecutionTimeoutError m i \<Rightarrow> io_return (ErrorVerdict (''Execution environment error: '' @ m))
    | _ \<Rightarrow> io_raise e)"

text \<open>The body of \<open>execute\<close> once the executor exists.\<close>

definition judge :: "'w executor_ops \<Rightarrow> bool option \<Rightarrow> test_case list \<Rightarrow> ('w, verdict) io" where
  "judge ex in_place tcs =
     io_finally (io_try (ex_compile ex) compile_failure (\<lambda>_. run_all ex in_place tcs)) (ex_cleanup ex)"

section \<open>Raw programs\<close>

record lang_config =
  lc_image :: string
  lc_ext :: string
  lc_cmd :: "string list"

definition LANG_CONFIG :: "(string \<times> lang_config) list" where
  "LANG_CONFIG =
     [
      (''python'', \<lparr>lc_image = ''python-sandbox:latest'', lc_ext = ''.py'',
        lc_cmd = [''python3'', ''main.py'']\<rparr>),
      (''javascript'', \<lparr>lc_image = ''js-sandbox:latest'', lc_ext = ''.js'',
        lc_cmd = [''node'', ''main.js'']\<rparr>),
      (''c'', \<lparr>lc_image = ''cpp-sandbox:latest'', lc_ext = ''.c'',
        lc_cmd = [''sh'', ''-c'', ''gcc -O2 main.c -o main && ./main '' @ [dquote] @ ''$@'' @ [dquote], ''sh'']\<rparr>),
      (''cpp'', \<lparr>lc_image = ''cpp-sandbox:latest'', lc_ext = ''.cpp'',
        lc_cmd = [''sh'', ''-c'', ''g++ -O2 main.cpp -o main && ./main '' @ [dquote] @ ''$@'' @ [dquote], ''sh'']\<rparr>),
      (''java'', \<lparr>lc_image = ''java-sandbox:latest'', lc_ext = ''.java'',
        lc_cmd = [''sh'', ''-c'', ''javac Main.java && java Main '' @ [dquote] @ ''$@'' @ [dquote], ''sh'']\<rparr>),
      (''kotlin'', \<lparr>lc_image = ''kotlin-sandbox:latest'', lc_ext = ''.kt'',
        lc_cmd = [''sh'', ''-c'', ''kotlinc main.kt -include-runtime -d main.jar && java -jar main.jar '' @ [dquote] @ ''$@'' @ [dquote], ''sh'']\<rparr>),
      (''go'', \<lparr>lc_image = ''go-sandbox:latest'', lc_ext = ''.go'',
        lc_cmd = [''sh'', ''-c'', ''go build -o main main.go && ./main '' @ [dquote] @ ''$@'' @ [dquote], ''sh'']\<rparr>),
      (''rust'', \<lparr>lc_image = ''rust-sandbox:latest'', lc_ext = ''.rs'',
        lc_cmd = [''sh'', ''-c'', ''rustc main.rs -o main && ./main '' @ [dquote] @ ''$@'' @ [dquote], ''sh'']\<rparr>),
      (''typescript'', \<lparr>lc_image = ''js-sandbox:latest'', lc_ext = ''.ts'',
        lc_cmd = [''sh'', ''-c'', ''tsc main.ts && node main.js '' @ [dquote] @ ''$@'' @ [dquote], ''sh'']\<rparr>),
      (''csharp'', \<lparr>lc_image = ''csharp-sandbox:latest'', lc_ext = ''.cs'',
        lc_cmd = [''sh'', ''-c'', ''echo '' @ [squote] @ ''<Project Sdk='' @ [dquote] @ ''Microsoft.NET.Sdk'' @ [dquote] @ ''><PropertyGroup><OutputType>Exe</OutputType><TargetFramework>net8.0</TargetFramework><ImplicitUsings>enable</ImplicitUsings><Nullable>disable</Nullable></PropertyGroup></Project>'' @ [squote] @ '' > main.csproj && dotnet run -- '' @ [dquote] @ ''$@'' @ [dquote], ''sh'']\<rparr>)]"

record raw_request =
  rw_language :: string
  rw_source_code :: string
  rw_args :: "string list"
  rw_stdin :: string

record raw_result =
  rr_stdout :: string
  rr_stderr :: string
  rr_exit_code :: int

definition raw_run_cmd :: "'w env \<Rightarrow> lang_config \<Rightarrow> string \<Rightarrow> string list \<Rightarrow> string list" where
  "raw_run_cmd E config htd args =
     [''docker'', ''run'', ''-i'', ''--rm'',
      ''--memory'', DOCKER_MEMORY_LIMIT E, ''--memory-swap'', DOCKER_MEMORY_SWAP E,
      ''--cpus'', DOCKER_CPU_LIMIT E, ''--pids-limit'', DOCKER_PIDS_LIMIT E,
      ''--ulimit'', ''nofile='' @ DOCKER_NOFILE_LIMIT E @ '':'' @ DOCKER_NOFILE_LIMIT E,
      ''--network'', ''none'', ''--cap-drop'', ''ALL'', ''--security-opt'', ''no-new-privileges'',
      ''-v'', htd @ '':/app'', ''-w'', ''/app'', lc_image config] @ lc_cmd config @ args"

definition raw_file_name :: "string \<Rightarrow> lang_config \<Rightarrow> string" where
  "raw_file_name lang config = (if lang = ''java'' then ''Main.java'' else ''main'' @ lc_ext config)"

definition raw_run :: "'w env \<Rightarrow> string list \<Rightarrow> string \<Rightarrow> ('w, raw_result) io" where
  "raw_run E cmd stdin =
     io_bind (communicate E cmd stdin (Some 30)) (\<lambda>res. case res of
       TimedOut \<Rightarrow> io_then (kill_proc E cmd)
         (io_return \<lparr>rr_stdout = [], rr_stderr = ''Execution timed out'', rr_exit_code = 124\<rparr>)
     | Finished p \<Rightarrow> io_return
         \<lparr>rr_stdout = take 10000 (utf8 E (p_stdout p)), rr_stderr = take 10000 (utf8 E (p_stderr p)),
          rr_exit_code = p_returncode p\<rparr>)"

definition execute_raw :: "'w env \<Rightarrow> raw_request \<Rightarrow> ('w, raw_result) io" where
  "execute_raw E req =
     io_bind (io_of_sum (get_sandbox_roots E)) (\<lambda>(container_root, host_root).
     io_bind (mkdtemp E container_root) (\<lambda>d.
       case map_of LANG_CONFIG (rw_language req) of
         None \<Rightarrow> io_raise (KeyError (rw_language req))
       | Some config \<Rightarrow>
           io_then (write_file E (path_join d (raw_file_name (rw_language req) config)) (rw_source_code req))
             (io_finally
               (raw_run E (raw_run_cmd E config (build_host_temp_dir host_root d) (rw_args req)) (rw_stdin req))
               (rmtree E d))))"

section \<open>What a verdict means\<close>

text \<open>The specification: a result is accepted if it is the same output as the expected one, or, for
  a function that returned nothing and is not known to be out of place, if its mutated argument is.\<close>

fun accepts :: "outcome \<Rightarrow> pyval \<Rightarrow> bool" where
  "accepts (Plain v) e = same_output v e"
| "accepts (InPlaceResult v m) e = (same_output v e \<or> same_output m e)"

lemma outcome_match_decides: "outcome_match r e = Inr b \<Longrightarrow> b \<longleftrightarrow> accepts r e"
  by (cases r) (auto simp: or_else_Inr dest: outputs_match_decides)

lemma values_match_None: "\<exists>b. values_match VNone e = Inr b"
  by (subst values_match.simps) (auto split: if_splits pyval.splits)

lemma outputs_match_None: "\<exists>b. outputs_match VNone e = Inr b"
proof (induction e rule: measure_induct_rule [of size])
  case (less e)
  show ?case
    using values_match_None [of e] less
    by (subst outputs_match.simps) (auto simp: or_else_def single_Some split: option.splits)
qed

lemma reported_total: "\<exists>v. reported r e = Inr v"
  using outputs_match_None [of e] by (cases r) (auto split: sum.splits)

lemma report_all_total: "\<exists>vs. report_all rs = Inr vs \<and> length vs = length rs"
proof (induction rs)
  case (Cons x rs)
  obtain r tc where x: "x = (r, tc)" by (cases x)
  show ?case using Cons reported_total [of r "expected_output tc"] by (auto simp: x)
qed simp

text \<open>The first mismatch is the first: everything before it is accepted and it is not.\<close>

lemma first_mismatch_Some:
  "first_mismatch i rs = Inr (Some v) \<Longrightarrow>
     \<exists>k. k < length rs \<and> \<not> accepts (fst (rs ! k)) (expected_output (snd (rs ! k))) \<and>
       (\<forall>j < k. accepts (fst (rs ! j)) (expected_output (snd (rs ! j)))) \<and>
       (\<exists>a. reported (fst (rs ! k)) (expected_output (snd (rs ! k))) = Inr a \<and>
         v = WrongAnswer (i + k) a (expected_output (snd (rs ! k))))"
proof (induction i rs rule: first_mismatch.induct)
  case (2 i r tc rs)
  obtain b where b: "outcome_match r (expected_output tc) = Inr b"
    using "2.prems" by (auto split: sum.splits)
  show ?case
  proof (cases b)
    case True
    have "first_mismatch (Suc i) rs = Inr (Some v)" using "2.prems" b True by simp
    from "2.IH" [OF b iffD2 [OF eq_True True] this] obtain k where "k < length rs \<and> \<not> accepts (fst (rs ! k)) (expected_output (snd (rs ! k))) \<and>
       (\<forall>j < k. accepts (fst (rs ! j)) (expected_output (snd (rs ! j)))) \<and>
       (\<exists>a. reported (fst (rs ! k)) (expected_output (snd (rs ! k))) = Inr a \<and>
         v = WrongAnswer (Suc i + k) a (expected_output (snd (rs ! k))))" by blast
    then show ?thesis
      using outcome_match_decides [OF b] True
      by (intro exI [of _ "Suc k"]) (auto simp: less_Suc_eq_0_disj)
  next
    case False
    with "2.prems" b outcome_match_decides [OF b] show ?thesis
      by (intro exI [of _ 0]) (auto split: sum.splits)
  qed
qed simp

lemma first_mismatch_None:
  "first_mismatch i rs = Inr None \<Longrightarrow> \<forall>(r, tc) \<in> set rs. accepts r (expected_output tc)"
proof (induction i rs rule: first_mismatch.induct)
  case (2 i r tc rs)
  obtain b where b: "outcome_match r (expected_output tc) = Inr b"
    using "2.prems" by (auto split: sum.splits)
  with 2 show ?case
    using outcome_match_decides [OF b] by (cases b) (auto split: sum.splits)
qed simp

section \<open>One by one or as a batch\<close>

definition replay :: "pyval list \<Rightarrow> nat \<Rightarrow> (outcome \<times> test_case) list \<Rightarrow> exn + verdict" where
  "replay acc i rs = (case first_mismatch i rs of
      Inl ex \<Rightarrow> Inl ex
    | Inr (Some v) \<Rightarrow> Inr v
    | Inr None \<Rightarrow> (case report_all rs of Inl ex \<Rightarrow> Inl ex | Inr vs \<Rightarrow> Inr (Accepted (acc @ vs))))"

lemma replay_Cons:
  "replay acc i ((r, tc) # rs) = (case outcome_match r (expected_output tc) of
      Inl ex \<Rightarrow> Inl ex
    | Inr ok \<Rightarrow> (case reported r (expected_output tc) of
        Inl ex \<Rightarrow> Inl ex
      | Inr v \<Rightarrow> if ok then replay (acc @ [v]) (Suc i) rs else Inr (WrongAnswer i v (expected_output tc))))"
  using reported_total [of r "expected_output tc"]
  by (auto simp: replay_def split: sum.splits option.splits)

text \<open>Runs that neither fail nor leave a trace.\<close>

lemma run_each_replay:
  assumes "\<forall>tc \<in> set tcs. \<forall>w. ex_run ex (tc_input tc) w = (Inr (f tc), w)"
  shows "run_each ex ip i acc tcs w =
    (replay acc i (zip (map (apply_in_place ip) (map f tcs)) tcs), w)"
  using assms
proof (induction tcs arbitrary: i acc)
  case (Cons tc tcs)
  then have "run_each ex ip j acc' tcs w =
      (replay acc' j (zip (map (apply_in_place ip) (map f tcs)) tcs), w)" for j acc'
    by simp
  with Cons.prems show ?case
    by (auto simp: io_try_def Let_def replay_Cons io_bind_def io_of_sum_def io_return_def io_raise_def
        split: sum.splits)
qed (simp add: replay_def io_return_def)

lemma judge_batch_replay:
  "length outs = length tcs \<Longrightarrow>
     judge_batch ip tcs outs = replay [] 0 (zip (map (apply_in_place ip) outs) tcs)"
  by (auto simp: judge_batch_def replay_def Let_def split: sum.splits option.splits)

section \<open>Raw runs\<close>

lemma raw_run_bounded:
  assumes "raw_run E cmd inp w = (Inr res, w')"
  shows "length (rr_stdout res) \<le> 10000 \<and> length (rr_stderr res) \<le> 10000"
proof (cases "communicate E cmd inp (Some 30) w")
  case (Pair c w1)
  show ?thesis
  proof (cases c)
    case (Inr t)
    then show ?thesis
      using assms Pair by (cases t) (auto simp: raw_run_def io_then_def io_bind_eq_Inr)
  qed (use assms Pair in \<open>simp add: raw_run_def\<close>)
qed

section \<open>Properties\<close>

text \<open>C1. Judging a batch implements the specification of a verdict: the submission is accepted
  only if every test case's result is accepted, and then one output per test case is reported; a
  wrong answer names the first test case whose result is not accepted, with its expected output.\<close>

theorem judge_batch_verdict:
  assumes "judge_batch ip tcs outs = Inr v" and "length outs = length tcs"
  shows "(\<exists>vs. v = Accepted vs \<and> length vs = length tcs \<and>
           (\<forall>i < length tcs. accepts (apply_in_place ip (outs ! i)) (expected_output (tcs ! i)))) \<or>
         (\<exists>i a. v = WrongAnswer i a (expected_output (tcs ! i)) \<and> i < length tcs \<and>
           \<not> accepts (apply_in_place ip (outs ! i)) (expected_output (tcs ! i)) \<and>
           (\<forall>j < i. accepts (apply_in_place ip (outs ! j)) (expected_output (tcs ! j))))"
proof -
  let ?rs = "zip (map (apply_in_place ip) outs) tcs"
  have rs: "length ?rs = length tcs"
    "\<And>i. i < length tcs \<Longrightarrow> ?rs ! i = (apply_in_place ip (outs ! i), tcs ! i)"
    using assms(2) by auto
  show ?thesis
  proof (cases "first_mismatch 0 ?rs")
    case (Inr m)
    show ?thesis
    proof (cases m)
      case None
      then have "\<forall>x \<in> set ?rs. accepts (fst x) (expected_output (snd x))"
        using first_mismatch_None [of 0 ?rs] Inr by auto
      then have "\<forall>i < length tcs. accepts (apply_in_place ip (outs ! i)) (expected_output (tcs ! i))"
        using rs by (metis fst_conv nth_mem snd_conv)
      moreover have "\<exists>vs. v = Accepted vs \<and> length vs = length tcs"
        using assms None Inr report_all_total [of ?rs] by (auto simp: judge_batch_replay replay_def)
      ultimately show ?thesis by blast
    next
      case (Some v')
      then show ?thesis
        using assms Inr first_mismatch_Some [of 0 ?rs v'] rs
        by (auto simp: judge_batch_replay replay_def)
    qed
  qed (use assms in \<open>auto simp: judge_batch_replay replay_def\<close>)
qed

definition two_cases :: "test_case list" where
  "two_cases = [\<lparr>tc_input = [], expected_output = VBool True\<rparr>, \<lparr>tc_input = [], expected_output = VBool False\<rparr>]"

lemma two_cases_judged:
  "judge_batch None two_cases [Plain (VBool True), Plain (VBool True)] = Inr (WrongAnswer 1 (VBool True) (VBool False))"
  by code_simp

theorem judge_batch_verdict_witness:
  "\<not> accepts (Plain (VBool True)) (VBool False) \<and> accepts (Plain (VBool True)) (VBool True)"
  using judge_batch_verdict [OF two_cases_judged]
  by (auto simp: two_cases_def apply_in_place_def)

text \<open>C4. One by one or as a batch: if every run succeeds and leaves no trace, an executor with
  \<open>run_batch\<close> gets the verdict (or the exception) that it would get without it.\<close>

theorem run_all_batch_single:
  assumes "\<forall>tc \<in> set tcs. \<forall>w. ex_run ex (tc_input tc) w = (Inr (f tc), w)"
    and "ex_run_batch ex = Some rb" and "rb tcs w = (Inr (map f tcs), w)"
  shows "run_all ex ip tcs w = run_all (ex\<lparr>ex_run_batch := None\<rparr>) ip tcs w"
proof -
  have "run_each (ex\<lparr>ex_run_batch := None\<rparr>) ip 0 [] tcs w =
      (replay [] 0 (zip (map (apply_in_place ip) (map f tcs)) tcs), w)"
    by (rule run_each_replay) (use assms(1) in simp)
  then show ?thesis
    using assms(2,3)
    by (auto simp: run_all_def io_try_def judge_batch_replay io_of_sum_def io_return_def io_raise_def
        split: sum.splits)
qed

definition constant_executor :: "unit executor_ops" where
  "constant_executor = \<lparr>ex_compile = io_return (), ex_run = (\<lambda>_. io_return (Plain (VBool True))),
     ex_run_batch = Some (\<lambda>tcs. io_return (map (\<lambda>_. Plain (VBool True)) tcs)), ex_cleanup = io_return ()\<rparr>"

theorem run_all_batch_single_witness:
  "run_all constant_executor None two_cases () =
     run_all (constant_executor\<lparr>ex_run_batch := None\<rparr>) None two_cases ()"
  by (rule run_all_batch_single [where f = "\<lambda>_. Plain (VBool True)" and
        rb = "\<lambda>tcs. io_return (map (\<lambda>_. Plain (VBool True)) tcs)"])
    (simp_all add: constant_executor_def)

text \<open>C35. Where the two ways differ: if the first test case is answered wrongly and a later one
  crashes, an executor without \<open>run_batch\<close> reports the wrong answer, one with it the crash.\<close>

theorem run_all_batch_crash_first:
  assumes "ex_run ex (tc_input tc) w = (Inr (Plain a), w1)"
    and "outputs_match a (expected_output tc) = Inr False"
    and "ex_run_batch ex = Some rb"
    and "rb (tc # tcs) w = (Inl (RuntimeExecutionError m (VInt (int k))), w2)" and "0 < k" and "m \<noteq> []"
  shows "run_all (ex\<lparr>ex_run_batch := None\<rparr>) ip (tc # tcs) w = (Inr (WrongAnswer 0 a (expected_output tc)), w1) \<and>
    run_all ex ip (tc # tcs) w = (Inr (RuntimeErrorVerdict (VInt (int k)) m), w2)"
  using assms
  by (simp add: run_all_def io_try_def apply_in_place_def Let_def failure_def or_zero_def)

definition crashing_executor :: "unit executor_ops" where
  "crashing_executor = constant_executor\<lparr>ex_run_batch :=
     Some (\<lambda>_. io_raise (RuntimeExecutionError ''boom'' (VInt 1)))\<rparr>"

theorem run_all_batch_crash_first_witness:
  "run_all (crashing_executor\<lparr>ex_run_batch := None\<rparr>) None (rev two_cases) () =
     (Inr (WrongAnswer 0 (VBool True) (VBool False)), ()) \<and>
   run_all crashing_executor None (rev two_cases) () = (Inr (RuntimeErrorVerdict (VInt 1) ''boom''), ())"
proof -
  have "outputs_match (VBool True) (VBool False) = Inr False" by code_simp
  then show ?thesis
    using run_all_batch_crash_first [of crashing_executor "\<lparr>tc_input = [], expected_output = VBool False\<rparr>" "()"
      "VBool True" "()" "\<lambda>_. io_raise (RuntimeExecutionError ''boom'' (VInt 1))"
      "[\<lparr>tc_input = [], expected_output = VBool True\<rparr>]" "''boom''" 1 "()" None]
    by (simp add: crashing_executor_def constant_executor_def two_cases_def)
qed

text \<open>A raw run is bounded and leaves no directory behind: once the source file is written, the
  temporary directory is removed last, whatever happened, and a result has at most 10000 characters
  of each stream.\<close>

lemma execute_raw_cleans_up:
  assumes "get_sandbox_roots E = Inr (croot, hroot)" and "mkdtemp E croot w = (Inr d, w1)"
    and "map_of LANG_CONFIG (rw_language req) = Some config"
    and "write_file E (path_join d (raw_file_name (rw_language req) config)) (rw_source_code req) w1 = (Inr (), w2)"
    and "execute_raw E req w = (r, w')" and "r \<noteq> Inl Diverges"
  shows "(\<exists>w3. snd (rmtree E d w3) = w') \<and>
    (\<forall>res. r = Inr res \<longrightarrow> length (rr_stdout res) \<le> 10000 \<and> length (rr_stderr res) \<le> 10000)"
proof -
  let ?run = "raw_run E (raw_run_cmd E config (build_host_temp_dir hroot d) (rw_args req)) (rw_stdin req)"
  have fin: "io_finally ?run (rmtree E d) w2 = (r, w')"
    using assms(1-5) by (simp add: execute_raw_def)
  obtain r3 w3 where r3: "?run w2 = (r3, w3)" by (cases "?run w2")
  with fin assms(6) have "snd (rmtree E d w3) = w'" and same: "\<forall>res. r = Inr res \<longrightarrow> r3 = r"
    by (auto simp: io_finally_def split: if_splits prod.splits sum.splits)
  moreover have "length (rr_stdout res) \<le> 10000 \<and> length (rr_stderr res) \<le> 10000" if "r = Inr res" for res
    using raw_run_bounded [of E _ _ w2 res w3] r3 same that by simp
  ultimately show ?thesis by auto
qed

text \<open>A file system that only remembers its directories.\<close>

definition dir_env :: "(string list) env" where
  "dir_env = offline\<lparr>getenv := (\<lambda>n. if n = ''HOST_SANDBOX_ROOT'' then Some ''/host'' else None),
     mkdtemp := (\<lambda>root ds. (Inr (root @ ''/t''), (root @ ''/t'') # ds)),
     rmtree := (\<lambda>d ds. (Inr (), removeAll d ds)), write_file := (\<lambda>_ _. io_return ()),
     communicate := (\<lambda>_ _ _. io_return (Finished \<lparr>p_stdout = ''ok'', p_stderr = [], p_returncode = 0\<rparr>))\<rparr>"

definition raw_hello :: raw_request where
  "raw_hello = \<lparr>rw_language = ''python'', rw_source_code = ''print(1)'', rw_args = [], rw_stdin = []\<rparr>"

lemma dir_env_facts:
  "get_sandbox_roots dir_env = Inr (''/sandbox'', ''/host'')"
  "map_of LANG_CONFIG ''python'' = Some \<lparr>lc_image = ''python-sandbox:latest'', lc_ext = ''.py'',
     lc_cmd = [''python3'', ''main.py'']\<rparr>"
  "mkdtemp dir_env ''/sandbox'' ds = (Inr ''/sandbox/t'', ''/sandbox/t'' # ds)"
  "rmtree dir_env d ds = (Inr (), removeAll d ds)"
  "write_file dir_env f c ds = (Inr (), ds)"
  "communicate dir_env cmd inp t = io_return (Finished \<lparr>p_stdout = ''ok'', p_stderr = [], p_returncode = 0\<rparr>)"
  "utf8 dir_env = (\<lambda>s. s)"
  "get_sandbox_roots (dir_env\<lparr>write_file := g\<rparr>) = get_sandbox_roots dir_env"
  by (code_simp, code_simp, simp_all add: dir_env_def offline_def get_sandbox_roots_def str_env_def)

lemma execute_raw_cleans_up_witness:
  "\<exists>r w'. execute_raw dir_env raw_hello [] = (r, w') \<and> (\<exists>w3. snd (rmtree dir_env ''/sandbox/t'' w3) = w') \<and>
    (\<forall>res. r = Inr res \<longrightarrow> length (rr_stdout res) \<le> 10000 \<and> length (rr_stderr res) \<le> 10000)"
proof -
  have run: "execute_raw dir_env raw_hello [] =
      (Inr \<lparr>rr_stdout = ''ok'', rr_stderr = [], rr_exit_code = 0\<rparr>, [])"
    by (simp add: execute_raw_def raw_hello_def dir_env_facts raw_run_def io_finally_def)
  show ?thesis
    using execute_raw_cleans_up [OF dir_env_facts(1,3) _ dir_env_facts(5) run] dir_env_facts(2) run
    by (simp add: raw_hello_def)
qed

text \<open>But a directory is left behind where the work before the \<open>try\<close> fails: if the source file
  cannot be written, the exception leaves \<open>execute_raw\<close> with the directory still there.\<close>

lemma execute_raw_leaks_on_write_error:
  assumes "get_sandbox_roots E = Inr (croot, hroot)" and "mkdtemp E croot w = (Inr d, w1)"
    and "map_of LANG_CONFIG (rw_language req) = Some config"
    and "write_file E (path_join d (raw_file_name (rw_language req) config)) (rw_source_code req) w1 = (Inl e, w2)"
  shows "execute_raw E req w = (Inl e, w2)"
  using assms by (simp add: execute_raw_def)

lemma execute_raw_leaks_on_write_error_witness:
  "execute_raw (dir_env\<lparr>write_file := (\<lambda>_ _. io_raise (OSError ''no space''))\<rparr>) raw_hello [] =
     (Inl (OSError ''no space''), [''/sandbox/t''])"
  by (rule execute_raw_leaks_on_write_error [of _ "''/sandbox''" "''/host''" _ "''/sandbox/t''" "[''/sandbox/t'']"])
    (simp_all add: raw_hello_def dir_env_facts)

end
