(* ===== verification/Regex.thy ===== *)
theory Regex
  imports PyText
begin

text \<open>
  The fragment of Python's \<open>re\<close> module that the sources use: backtracking matching with captured
  groups, in the order in which the module tries alternatives, and \<open>search\<close>, \<open>match\<close>,
  \<open>finditer\<close> and \<open>sub\<close> on top of it. A position is an index into the whole text, so that the
  assertions \<open>\b\<close>, \<open>^\<close> and \<open>$\<close> see what surrounds it.
\<close>

section \<open>Expressions\<close>

datatype regex =
    Eps
  | Chars "char \<Rightarrow> bool"
  | Seq regex regex
  | Alt regex regex
  | Star regex
  | LazyStar regex
  | Group nat regex
  | WordBoundary
  | LineStart
  | LineEnd
  | TextEnd

abbreviation Plus :: "regex \<Rightarrow> regex" where "Plus r \<equiv> Seq r (Star r)"
abbreviation Opt :: "regex \<Rightarrow> regex" where "Opt r \<equiv> Alt r Eps"
abbreviation Chr :: "char \<Rightarrow> regex" where "Chr c \<equiv> Chars (\<lambda>x. x = c)"
abbreviation Space :: regex where "Space \<equiv> Chars py_space"
abbreviation WordChar :: regex where "WordChar \<equiv> Chars is_word"
abbreviation AnyChar :: regex where "AnyChar \<equiv> Chars (\<lambda>_. True)"

text \<open>A literal text (\<open>re.escape\<close>), and one matched without regard to case (\<open>re.IGNORECASE\<close>).\<close>

fun Lit :: "string \<Rightarrow> regex" where
  "Lit [] = Eps"
| "Lit (c # cs) = Seq (Chr c) (Lit cs)"

fun LitNoCase :: "string \<Rightarrow> regex" where
  "LitNoCase [] = Eps"
| "LitNoCase (c # cs) = Seq (Chars (\<lambda>x. to_lower x = to_lower c)) (LitNoCase cs)"

fun Seqs :: "regex list \<Rightarrow> regex" where
  "Seqs [] = Eps"
| "Seqs [r] = r"
| "Seqs (r # rs) = Seq r (Seqs rs)"

section \<open>Matching\<close>

type_synonym groups = "(nat \<times> nat \<times> nat) list"

definition word_at :: "string \<Rightarrow> nat \<Rightarrow> bool" where
  "word_at s i \<longleftrightarrow> i < length s \<and> is_word (s ! i)"

definition word_before :: "string \<Rightarrow> nat \<Rightarrow> bool" where
  "word_before s i \<longleftrightarrow> 0 < i \<and> word_at s (i - 1)"

text \<open>Repetition: an iteration must consume something.\<close>

fun re_iter :: "nat \<Rightarrow> bool \<Rightarrow> (nat \<Rightarrow> groups \<Rightarrow> (nat \<times> groups) list) \<Rightarrow> nat \<Rightarrow> groups \<Rightarrow> (nat \<times> groups) list" where
  "re_iter 0 greedy f i g = [(i, g)]"
| "re_iter (Suc n) greedy f i g =
     (let more = concat (map (\<lambda>(j, h). if i < j then re_iter n greedy f j h else []) (f i g)) in
      if greedy then more @ [(i, g)] else (i, g) # more)"

text \<open>All ways to match at a position, in order of preference: where the match ends, and its
  groups.\<close>

primrec re_matches :: "regex \<Rightarrow> string \<Rightarrow> nat \<Rightarrow> groups \<Rightarrow> (nat \<times> groups) list" where
  "re_matches Eps s i g = [(i, g)]"
| "re_matches (Chars P) s i g = (if i < length s \<and> P (s ! i) then [(Suc i, g)] else [])"
| "re_matches (Seq r1 r2) s i g = concat (map (\<lambda>(j, h). re_matches r2 s j h) (re_matches r1 s i g))"
| "re_matches (Alt r1 r2) s i g = re_matches r1 s i g @ re_matches r2 s i g"
| "re_matches (Star r) s i g = re_iter (length s) True (re_matches r s) i g"
| "re_matches (LazyStar r) s i g = re_iter (length s) False (re_matches r s) i g"
| "re_matches (Group k r) s i g = map (\<lambda>(j, h). (j, (k, i, j) # h)) (re_matches r s i g)"
| "re_matches WordBoundary s i g = (if word_before s i = word_at s i then [] else [(i, g)])"
| "re_matches LineStart s i g = (if i = 0 \<or> s ! (i - 1) = newline then [(i, g)] else [])"
| "re_matches LineEnd s i g = (if length s \<le> i \<or> s ! i = newline then [(i, g)] else [])"
| "re_matches TextEnd s i g =
     (if length s \<le> i \<or> Suc i = length s \<and> s ! i = newline then [(i, g)] else [])"

record re_match =
  m_start :: nat
  m_end :: nat
  m_groups :: groups

definition re_match_at :: "regex \<Rightarrow> string \<Rightarrow> nat \<Rightarrow> re_match option" where
  "re_match_at r s i = (case re_matches r s i [] of
      [] \<Rightarrow> None
    | (j, g) # _ \<Rightarrow> Some \<lparr>m_start = i, m_end = j, m_groups = g\<rparr>)"

definition slice :: "nat \<Rightarrow> nat \<Rightarrow> string \<Rightarrow> string" where
  "slice i j s = take (j - i) (drop i s)"

text \<open>\<open>match.group(k)\<close>; \<open>None\<close> where the group did not take part.\<close>

definition m_group :: "string \<Rightarrow> re_match \<Rightarrow> nat \<Rightarrow> string option" where
  "m_group s m k = map_option (\<lambda>(i, j). slice i j s) (map_of (m_groups m) k)"

definition group_text :: "string \<Rightarrow> re_match \<Rightarrow> nat \<Rightarrow> string" where
  "group_text s m k = (case m_group s m k of None \<Rightarrow> [] | Some t \<Rightarrow> t)"

section \<open>Searching and replacing\<close>

function re_search_from :: "regex \<Rightarrow> string \<Rightarrow> nat \<Rightarrow> re_match option" where
  "re_search_from r s i =
     (if length s < i then None
      else case re_match_at r s i of Some m \<Rightarrow> Some m | None \<Rightarrow> re_search_from r s (Suc i))"
  by pat_completeness auto
termination
  by (relation "measure (\<lambda>(r, s, i). Suc (length s) - i)") auto

declare re_search_from.simps [simp del]

definition re_search :: "regex \<Rightarrow> string \<Rightarrow> re_match option" where
  "re_search r s = re_search_from r s 0"

definition re_found :: "regex \<Rightarrow> string \<Rightarrow> bool" where
  "re_found r s \<longleftrightarrow> re_search r s \<noteq> None"

text \<open>A match starts where the search found it or later, and does not end before it starts.\<close>

lemma re_iter_ge:
  assumes "\<And>i g q. q \<in> set (f i g) \<Longrightarrow> i \<le> fst q"
  shows "p \<in> set (re_iter n greedy f i g) \<Longrightarrow> i \<le> fst p"
proof (induction n arbitrary: i g)
  case (Suc n)
  from Suc.prems consider "p = (i, g)" | j h where "i < j" "p \<in> set (re_iter n greedy f j h)"
    by (auto simp: Let_def split: if_splits)
  then show ?case
  proof cases
    case 2
    then show ?thesis using Suc.IH [OF 2(2)] by simp
  qed simp
qed simp

lemma re_matches_ge: "p \<in> set (re_matches r s i g) \<Longrightarrow> i \<le> fst p"
proof (induction r arbitrary: i g p)
  case (Seq r1 r2)
  from Seq.prems obtain j h where "(j, h) \<in> set (re_matches r1 s i g)" "p \<in> set (re_matches r2 s j h)"
    by auto
  then show ?case using Seq.IH(1) [of "(j, h)" i g] Seq.IH(2) [of p j h] by simp
next
  case (Star r)
  from Star.prems have "p \<in> set (re_iter (length s) True (re_matches r s) i g)" by simp
  then show ?case by (rule re_iter_ge [rotated]) (rule Star.IH)
next
  case (LazyStar r)
  from LazyStar.prems have "p \<in> set (re_iter (length s) False (re_matches r s) i g)" by simp
  then show ?case by (rule re_iter_ge [rotated]) (rule LazyStar.IH)
next
  case (Group k r)
  from Group.prems obtain j h where "(j, h) \<in> set (re_matches r s i g)" "fst p = j" by auto
  then show ?case using Group.IH [of "(j, h)" i g] by simp
qed (auto split: if_splits)

lemma re_match_at_bounds: "re_match_at r s i = Some m \<Longrightarrow> m_start m = i \<and> i \<le> m_end m"
  using re_matches_ge [of "hd (re_matches r s i [])" r s i "[]"]
  by (auto simp: re_match_at_def split: list.splits)

lemma re_search_from_bounds:
  "re_search_from r s i = Some m \<Longrightarrow> i \<le> m_start m \<and> m_start m \<le> m_end m \<and> m_start m \<le> length s"
proof (induction r s i rule: re_search_from.induct)
  case (1 r s i)
  then show ?case
    using re_match_at_bounds [of r s i]
    by (subst (asm) (2) re_search_from.simps) (auto split: if_splits option.splits)
qed

text \<open>Where the next search begins: behind the match, one further if it was empty.\<close>

definition next_pos :: "re_match \<Rightarrow> nat" where
  "next_pos m = (if m_end m = m_start m then Suc (m_end m) else m_end m)"

function re_finditer :: "regex \<Rightarrow> string \<Rightarrow> nat \<Rightarrow> re_match list" where
  "re_finditer r s i = (case re_search_from r s i of
      None \<Rightarrow> []
    | Some m \<Rightarrow> m # re_finditer r s (next_pos m))"
  by pat_completeness auto
termination
  by (relation "measure (\<lambda>(r, s, i). Suc (length s) - i)")
    (auto simp: next_pos_def dest!: re_search_from_bounds)

declare re_finditer.simps [simp del]

function re_sub_from :: "regex \<Rightarrow> (re_match \<Rightarrow> string) \<Rightarrow> string \<Rightarrow> nat \<Rightarrow> string" where
  "re_sub_from r f s i = (case re_search_from r s i of
      None \<Rightarrow> drop i s
    | Some m \<Rightarrow> slice i (m_start m) s @ f m @ slice (m_end m) (next_pos m) s @ re_sub_from r f s (next_pos m))"
  by pat_completeness auto
termination
  by (relation "measure (\<lambda>(r, f, s, i). Suc (length s) - i)")
    (auto simp: next_pos_def dest!: re_search_from_bounds)

declare re_sub_from.simps [simp del]

text \<open>\<open>re.sub\<close> with a replacement computed from the match.\<close>

definition re_sub :: "regex \<Rightarrow> (re_match \<Rightarrow> string) \<Rightarrow> string \<Rightarrow> string" where
  "re_sub r f s = re_sub_from r f s 0"

lemma re_sub_none: "re_search r s = None \<Longrightarrow> re_sub r f s = s"
  by (simp add: re_sub_def re_search_def re_sub_from.simps)

end
