(* ===== verification/ScriptExecutors.thy ===== *)
theory ScriptExecutors
  imports ExecutorBase Regex
begin

text \<open>
  The executors of the languages whose wrapper is a plain template: \<open>languages/python.py\<close>,
  \<open>js.py\<close>, \<open>ts.py\<close>, \<open>java.py\<close>, \<open>kotlin.py\<close> and \<open>csharp.py\<close>.
\<close>

section \<open>Shared\<close>

definition default_start :: "'w env \<Rightarrow> string \<Rightarrow> string \<Rightarrow> 'w start_spec" where
  "default_start E img message =
     \<lparr>st_image = img, st_swap = DOCKER_MEMORY_SWAP E, st_cpus = DOCKER_CPU_LIMIT E, st_workdir = ''/app'',
      st_timeout = None, st_failed = (\<lambda>_. io_return message)\<rparr>"

definition fill :: "'w env \<Rightarrow> string \<Rightarrow> string \<Rightarrow> string" where
  "fill E name src = replace ''{source_code}'' src (template E name)"

text \<open>\<open>text or default\<close>.\<close>

definition or_text :: "string \<Rightarrow> string \<Rightarrow> string" where
  "or_text t fallback = (if t = [] then fallback else t)"

text \<open>\<open>t[:n]\<close>, for negative \<open>n\<close> too.\<close>

definition slice_to :: "int \<Rightarrow> string \<Rightarrow> string" where
  "slice_to n t = (if n < 0 then take (length t - nat (- n)) t else take (nat n) t)"

section \<open>Python\<close>

definition PYTHON_IMAGE :: string where "PYTHON_IMAGE = ''python-sandbox:latest''"

definition python_compile :: "('w \<times> exec_state) env \<Rightarrow> string \<Rightarrow> ('w \<times> exec_state, unit) io" where
  "python_compile E src = (case py_compile E src of
      Some (SyntaxError m) \<Rightarrow> io_raise (CompileError m)
    | Some e \<Rightarrow> io_raise e
    | None \<Rightarrow>
        io_then (obtain_container E ((default_start E PYTHON_IMAGE ''Failed to start execution container'')
          \<lparr>st_timeout := Some (30, ''Docker daemon timed out while starting the container'')\<rparr>))
       (io_bind (set_file ''main.py'') (\<lambda>f.
          write_file E f (fill E ''PYTHON_WRAPPER_TEMPLATE'' src))))"

definition python_run ::
  "('w \<times> exec_state) env \<Rightarrow> string \<Rightarrow> pydict \<Rightarrow> ('w \<times> exec_state, outcome) io" where
  "python_run E fname inp =
     run_in_container E (\<lambda>cid. [''docker'', ''exec'', ''-i'', cid, ''python3'', ''main.py'']) (named_payload fname inp)"

definition PythonExecutor :: "('w \<times> exec_state) env \<Rightarrow> string \<Rightarrow> string \<Rightarrow> ('w \<times> exec_state) executor_ops" where
  "PythonExecutor E src fname = \<lparr>ex_compile = python_compile E src, ex_run = python_run E fname,
     ex_run_batch = None, ex_cleanup = cleanup E PYTHON_IMAGE\<rparr>"

section \<open>JavaScript\<close>

definition JS_IMAGE :: string where "JS_IMAGE = ''js-sandbox:latest''"

definition js_check :: "('w \<times> exec_state) env \<Rightarrow> ('w \<times> exec_state, unit) io" where
  "js_check E = io_bind (the_attr container_id) (\<lambda>cid.
     io_bind (run_proc E [''docker'', ''exec'', cid, ''node'', ''--check'', ''main.js'']) (\<lambda>p.
       if p_returncode p \<noteq> 0
       then io_raise (CompileError (or_text (take 1000 (strip (utf8 E (p_stderr p)))) ''Syntax error''))
       else io_return ()))"

definition js_compile :: "('w \<times> exec_state) env \<Rightarrow> string \<Rightarrow> ('w \<times> exec_state, unit) io" where
  "js_compile E src =
     io_then (obtain_container E (default_start E JS_IMAGE ''Failed to start execution container''))
    (io_then (io_bind (set_file ''main.js'') (\<lambda>f. write_file E f (fill E ''JS_WRAPPER_TEMPLATE'' src)))
      (js_check E))"

definition node_run ::
  "('w \<times> exec_state) env \<Rightarrow> string \<Rightarrow> pydict \<Rightarrow> ('w \<times> exec_state, outcome) io" where
  "node_run E fname inp =
     run_in_container E (\<lambda>cid. [''docker'', ''exec'', ''-i'', cid, ''node'', ''main.js'']) (named_payload fname inp)"

definition JavaScriptExecutor :: "('w \<times> exec_state) env \<Rightarrow> string \<Rightarrow> string \<Rightarrow> ('w \<times> exec_state) executor_ops" where
  "JavaScriptExecutor E src fname = \<lparr>ex_compile = js_compile E src, ex_run = node_run E fname,
     ex_run_batch = None, ex_cleanup = cleanup E JS_IMAGE\<rparr>"

section \<open>TypeScript\<close>

definition tsc_cmd :: "string \<Rightarrow> string list" where
  "tsc_cmd cid = [''docker'', ''exec'', cid, ''tsc'', ''main.ts'', ''--target'', ''ES2020'',
     ''--module'', ''commonjs'', ''--lib'', ''ES2020'', ''--skipLibCheck'']"

text \<open>The messages of a failed compilation; the code cleans up before it raises.\<close>

definition ts_failed :: "('w \<times> exec_state) env \<Rightarrow> proc_result \<Rightarrow> ('w \<times> exec_state, unit) io" where
  "ts_failed E p =
     io_bind (decode E (p_stderr p)) (\<lambda>err.
     io_bind (if err \<noteq> [] then io_return err else decode E (p_stdout p)) (\<lambda>raw.
       let m = strip raw;
           m' = (if MAX_COMPILE_ERROR_BYTES E < int (length m) then slice_to (MAX_COMPILE_ERROR_BYTES E) m else m)
       in io_then (cleanup E JS_IMAGE)
         (io_raise (CompileError (or_text m' ''TypeScript compilation failed'')))))"

definition ts_check :: "('w \<times> exec_state) env \<Rightarrow> string \<Rightarrow> ('w \<times> exec_state, unit) io" where
  "ts_check E cid =
     io_bind (run_proc E [''docker'', ''exec'', cid, ''test'', ''-f'', ''main.js'']) (\<lambda>p.
       if p_returncode p \<noteq> 0
       then io_then (cleanup E JS_IMAGE) (io_raise (CompileError ''Compilation failed: main.js not generated''))
       else io_return ())"

definition ts_compile :: "('w \<times> exec_state) env \<Rightarrow> string \<Rightarrow> ('w \<times> exec_state, unit) io" where
  "ts_compile E src =
     io_then (obtain_container E ((default_start E JS_IMAGE ''Failed to start execution container'')
       \<lparr>st_swap := ''1024m'', st_cpus := TS_CPU_LIMIT E\<rparr>))
    (io_then (io_bind (set_file ''main.ts'') (\<lambda>f. write_file E f (fill E ''TS_WRAPPER_TEMPLATE'' src)))
    (io_bind (the_attr container_id) (\<lambda>cid.
     io_bind (run_compiler E (tsc_cmd cid) (TS_COMPILE_TIMEOUT_SECONDS E) (cleanup E JS_IMAGE)) (\<lambda>p.
       if p_returncode p \<noteq> 0 then ts_failed E p else ts_check E cid))))"

definition TypeScriptExecutor :: "('w \<times> exec_state) env \<Rightarrow> string \<Rightarrow> string \<Rightarrow> ('w \<times> exec_state) executor_ops" where
  "TypeScriptExecutor E src fname = \<lparr>ex_compile = ts_compile E src, ex_run = node_run E fname,
     ex_run_batch = None, ex_cleanup = cleanup E JS_IMAGE\<rparr>"

section \<open>Java\<close>

text \<open>\<open>^\s*(import|package)\s+\<close>\<close>

definition JAVA_PREAMBLE :: regex where
  "JAVA_PREAMBLE = Seqs [Star Space, Alt (Lit ''import'') (Lit ''package''), Plus Space]"

definition PUBLIC_SOLUTION :: regex where
  "PUBLIC_SOLUTION = Seqs [WordBoundary, Lit ''public'', Plus Space,
     Group 1 (Seqs [Lit ''class'', Plus Space, Lit ''Solution'', WordBoundary])]"

definition CLASS_DECLARATION :: regex where
  "CLASS_DECLARATION = Seqs [WordBoundary, Lit ''class'', Plus Space, Plus WordChar]"

definition demote_solution :: "string \<Rightarrow> string" where
  "demote_solution line = re_sub PUBLIC_SOLUTION (\<lambda>m. group_text line m 1) line"

definition strip_java_preamble :: "string \<Rightarrow> string" where
  "strip_java_preamble src =
     (let filtered = map demote_solution (filter (\<lambda>line. re_match_at JAVA_PREAMBLE line 0 = None) (splitlines src));
          result = join [newline] filtered
      in if re_found CLASS_DECLARATION result then result
         else (''class Solution {'' @ [newline] @ result @ [newline] @ ''}''))"

definition JAVA_IMAGE :: string where "JAVA_IMAGE = ''java-sandbox:latest''"

text \<open>The reaction to a failed compiler run in Java, Kotlin and Go.\<close>

definition compiler_failed :: "'w env \<Rightarrow> proc_result \<Rightarrow> ('w, unit) io" where
  "compiler_failed E p = io_bind (decode E (p_stderr p)) (\<lambda>err.
     io_raise (CompileError (or_text (strip err) ''Compilation failed'')))"

definition java_compile :: "('w \<times> exec_state) env \<Rightarrow> string \<Rightarrow> ('w \<times> exec_state, unit) io" where
  "java_compile E src =
     io_then (obtain_container E (default_start E JAVA_IMAGE ''Failed to start execution container''))
    (io_then (io_bind (set_file ''Main.java'') (\<lambda>f.
       write_file E f (fill E ''JAVA_WRAPPER_TEMPLATE'' (strip_java_preamble src))))
    (io_bind (the_attr container_id) (\<lambda>cid.
     io_bind (run_compiler E [''docker'', ''exec'', cid, ''javac'', ''-cp'', ''.:/opt/libs/*'', ''Main.java'']
       (COMPILATION_TIMEOUT_SECONDS E) (io_return ())) (\<lambda>p.
       if p_returncode p \<noteq> 0 then compiler_failed E p else io_return ()))))"

definition java_exec_cmd :: "string \<Rightarrow> string list" where
  "java_exec_cmd cid = [''docker'', ''exec'', ''-i'', cid, ''java'', ''-Xms16m'', ''-Xmx256m'', ''-Xss256m'',
     ''-XX:+UseSerialGC'', ''-XX:TieredStopAtLevel=1'', ''-cp'', ''.:/opt/libs/*'', ''Main'']"

definition java_run ::
  "('w \<times> exec_state) env \<Rightarrow> string \<Rightarrow> pydict \<Rightarrow> ('w \<times> exec_state, outcome) io" where
  "java_run E fname inp = run_in_container E java_exec_cmd (named_payload fname inp)"

definition java_run_batch ::
  "('w \<times> exec_state) env \<Rightarrow> string \<Rightarrow> test_case list \<Rightarrow> ('w \<times> exec_state, outcome list) io" where
  "java_run_batch E fname tcs = run_batch_in_container E java_exec_cmd
     (batch_payload fname (map tc_input tcs)) (length tcs)"

definition JavaExecutor :: "('w \<times> exec_state) env \<Rightarrow> string \<Rightarrow> string \<Rightarrow> ('w \<times> exec_state) executor_ops" where
  "JavaExecutor E src fname = \<lparr>ex_compile = java_compile E src, ex_run = java_run E fname,
     ex_run_batch = Some (java_run_batch E fname), ex_cleanup = cleanup E JAVA_IMAGE\<rparr>"

section \<open>Kotlin\<close>

fun split_kotlin_lines :: "string list \<Rightarrow> string list \<times> string list" where
  "split_kotlin_lines [] = ([], [])"
| "split_kotlin_lines (line # ls) = (case split_kotlin_lines ls of (imports, body) \<Rightarrow>
     if starts_with ''import '' (strip line) then (strip line # imports, body)
     else if starts_with ''package '' (strip line) then (imports, body)
     else (imports, line # body))"

definition split_kotlin_imports :: "string \<Rightarrow> string \<times> string" where
  "split_kotlin_imports src = (case split_kotlin_lines (splitlines src) of (imports, body) \<Rightarrow>
     (join [newline] imports, join [newline] body))"

definition KOTLIN_IMAGE :: string where "KOTLIN_IMAGE = ''kotlin-sandbox:latest''"

definition JACKSON :: string where
  "JACKSON = ''/opt/libs/jackson-core.jar:/opt/libs/jackson-databind.jar:/opt/libs/jackson-annotations.jar''"

definition kotlin_compile_cmd :: "string \<Rightarrow> string list" where
  "kotlin_compile_cmd cid = [''docker'', ''exec'', cid, ''kotlinc'', ''Main.kt'', ''-cp'', JACKSON, ''-d'', ''.'',
     ''-J-Xms64m'', ''-J-Xmx256m'', ''-J-XX:+UseSerialGC'', ''-J-XX:TieredStopAtLevel=1'']"

definition kotlin_compile :: "('w \<times> exec_state) env \<Rightarrow> string \<Rightarrow> ('w \<times> exec_state, unit) io" where
  "kotlin_compile E src =
     io_then (obtain_container E ((default_start E KOTLIN_IMAGE [])
       \<lparr>st_failed := (\<lambda>stderr. io_bind (decode E stderr) (\<lambda>err.
          io_return (or_text (strip err) ''Failed to start execution container'')))\<rparr>))
    (io_then (io_bind (set_file ''Main.kt'') (\<lambda>f. case split_kotlin_imports src of (imports, body) \<Rightarrow>
       write_file E f (replace ''{source_code}'' body
         (replace ''{user_imports}'' imports (template E ''KOTLIN_WRAPPER_TEMPLATE'')))))
    (io_bind (the_attr container_id) (\<lambda>cid.
     io_bind (run_compiler E (kotlin_compile_cmd cid) (COMPILATION_TIMEOUT_SECONDS E) (io_return ())) (\<lambda>p.
       if p_returncode p \<noteq> 0 then compiler_failed E p else io_return ()))))"

definition kotlin_exec_cmd :: "string \<Rightarrow> string list" where
  "kotlin_exec_cmd cid = [''docker'', ''exec'', ''-i'', cid, ''java'', ''-Xms16m'', ''-Xmx256m'', ''-Xss256m'',
     ''-XX:+UseSerialGC'', ''-XX:TieredStopAtLevel=1'',
     ''-cp'', ''.:/opt/kotlinc/lib/kotlin-stdlib.jar:'' @ JACKSON, ''Main'']"

definition kotlin_run ::
  "('w \<times> exec_state) env \<Rightarrow> string \<Rightarrow> pydict \<Rightarrow> ('w \<times> exec_state, outcome) io" where
  "kotlin_run E fname inp = run_in_container E kotlin_exec_cmd (named_payload fname inp)"

definition KotlinExecutor :: "('w \<times> exec_state) env \<Rightarrow> string \<Rightarrow> string \<Rightarrow> ('w \<times> exec_state) executor_ops" where
  "KotlinExecutor E src fname = \<lparr>ex_compile = kotlin_compile E src, ex_run = kotlin_run E fname,
     ex_run_batch = None, ex_cleanup = cleanup E KOTLIN_IMAGE\<rparr>"

section \<open>C#\<close>

text \<open>\<open>^\s*(using\s+[\w.]+\s*;|namespace\s+)\<close>\<close>

definition CSHARP_PREAMBLE :: regex where
  "CSHARP_PREAMBLE = Seq (Star Space) (Alt
     (Seqs [Lit ''using'', Plus Space, Plus (Chars (\<lambda>c. is_word c \<or> c = CHR ''.'')), Star Space, Chr CHR '';''])
     (Seq (Lit ''namespace'') (Plus Space)))"

definition strip_csharp_preamble :: "string \<Rightarrow> string" where
  "strip_csharp_preamble src =
     join [newline] (filter (\<lambda>line. re_match_at CSHARP_PREAMBLE line 0 = None) (splitlines src))"

definition CSHARP_IMAGE :: string where "CSHARP_IMAGE = ''csharp-sandbox:latest''"

definition csproj_content :: string where
  "csproj_content = (''<Project Sdk='' @ [dquote] @ ''Microsoft.NET.Sdk'' @ [dquote] @ ''>'' @ [newline] @ ''  <PropertyGroup>'' @ [newline] @ ''    <OutputType>Exe</OutputType>'' @ [newline] @ ''    <TargetFramework>net8.0</TargetFramework>'' @ [newline] @ ''    <ImplicitUsings>enable</ImplicitUsings>'' @ [newline] @ ''    <Nullable>disable</Nullable>'' @ [newline] @ ''  </PropertyGroup>'' @ [newline] @ ''</Project>'' @ [newline])"

text \<open>\<open>self.project_path\<close> is kept in the attribute that the other executors use for their file.\<close>

definition csharp_compile :: "('w \<times> exec_state) env \<Rightarrow> string \<Rightarrow> ('w \<times> exec_state, unit) io" where
  "csharp_compile E src =
     io_then (obtain_container E ((default_start E CSHARP_IMAGE ''Failed to start execution container'')
       \<lparr>st_workdir := ''/app/SandboxApp''\<rparr>))
    (io_bind (set_file ''SandboxApp'') (\<lambda>project_path.
     io_then (makedirs E project_path)
    (io_bind (the_attr container_id) (\<lambda>cid.
     io_then (run_proc E [''docker'', ''exec'', cid, ''mkdir'', ''-p'', ''/app/SandboxApp''])
    (io_then (write_file E (path_join project_path ''Program.cs'')
       (fill E ''CSHARP_WRAPPER_TEMPLATE'' (strip_csharp_preamble src)))
    (io_then (write_file E (path_join project_path ''SandboxApp.csproj'') csproj_content)
    (io_bind (run_compiler E [''docker'', ''exec'', cid, ''dotnet'', ''build'', ''--configuration'', ''Release'', ''--nologo'']
       (COMPILATION_TIMEOUT_SECONDS E) (io_return ())) (\<lambda>p.
       if p_returncode p \<noteq> 0
       then io_bind (decode E (p_stdout p)) (\<lambda>out.
         if strip out \<noteq> [] then io_raise (CompileError (strip out))
         else io_bind (decode E (p_stderr p)) (\<lambda>err.
           io_raise (CompileError (or_text (strip err) ''Compilation failed''))))
       else io_return ()))))))))"

definition csharp_run ::
  "('w \<times> exec_state) env \<Rightarrow> string \<Rightarrow> pydict \<Rightarrow> ('w \<times> exec_state, outcome) io" where
  "csharp_run E fname inp = run_in_container E
     (\<lambda>cid. [''docker'', ''exec'', ''-i'', cid, ''dotnet'', ''/app/SandboxApp/bin/Release/net8.0/SandboxApp.dll''])
     (named_payload fname inp)"

definition CSharpExecutor :: "('w \<times> exec_state) env \<Rightarrow> string \<Rightarrow> string \<Rightarrow> ('w \<times> exec_state) executor_ops" where
  "CSharpExecutor E src fname = \<lparr>ex_compile = csharp_compile E src, ex_run = csharp_run E fname,
     ex_run_batch = None, ex_cleanup = cleanup E CSHARP_IMAGE\<rparr>"

end
