(* ===== verification/CSignature.thy ===== *)
theory CSignature
  imports Regex Effects
begin

text \<open>
  \<open>languages/c_signature.py\<close>: finding the definition of a function in C or C++ source and
  splitting its signature.
\<close>

section \<open>Comments and literals\<close>

text \<open>The inside of a literal, blanked, and what follows it.\<close>

fun blank_literal :: "char \<Rightarrow> string \<Rightarrow> string \<times> string" where
  "blank_literal quote [] = ([], [])"
| "blank_literal quote (c # cs) =
     (if c = quote then ([], c # cs)
      else if c = backslash \<and> cs \<noteq> []
      then (case blank_literal quote (tl cs) of (b, rest) \<Rightarrow> (blank # blank # b, rest))
      else (case blank_literal quote cs of (b, rest) \<Rightarrow> ((if c = newline then newline else blank) # b, rest)))"

lemma blank_literal_length: "length (fst (blank_literal q s)) + length (snd (blank_literal q s)) = length s"
  by (induction q s rule: blank_literal.induct) (auto split: prod.splits)

lemma blank_literal_rest: "length (snd (blank_literal q s)) \<le> length s"
  using blank_literal_length [of q s] by simp

text \<open>How far a block comment reaches.\<close>

definition comment_end :: "string \<Rightarrow> nat" where
  "comment_end s = (case find_sub ''*/'' (drop 2 s) of None \<Rightarrow> length s | Some j \<Rightarrow> j + 4)"

function strip_comments :: "string \<Rightarrow> string" where
  "strip_comments [] = []"
| "strip_comments (c # cs) =
     (if starts_with ''//'' (c # cs) then
        replicate (length (takeWhile (\<lambda>x. x \<noteq> newline) (c # cs))) blank @
          strip_comments (dropWhile (\<lambda>x. x \<noteq> newline) (c # cs))
      else if starts_with ''/*'' (c # cs) then
        map (\<lambda>x. if x = newline then x else blank) (take (comment_end (c # cs)) (c # cs)) @
          strip_comments (drop (comment_end (c # cs)) (c # cs))
      else if c = dquote \<or> c = squote then
        (case blank_literal c cs of (b, rest) \<Rightarrow>
           c # b @ (case rest of [] \<Rightarrow> [] | quote # rest' \<Rightarrow> quote # strip_comments rest'))
      else c # strip_comments cs)"
  by pat_completeness auto
termination
proof (relation "measure length", goal_cases)
  case (2 c cs)
  have "length (dropWhile (\<lambda>x. x \<noteq> newline) cs) \<le> length cs" by (rule length_dropWhile_le)
  with 2 show ?case by auto
next
  case (3 c cs)
  then show ?case by (auto simp: comment_end_def split: option.splits)
next
  case (4 c cs b rest quote rest')
  then have "length (snd (b, quote # rest')) \<le> length cs" using blank_literal_rest [of c cs] by simp
  then show ?case by simp
qed auto

declare strip_comments.simps(2) [simp del]

section \<open>Splitting and matching\<close>

text \<open>\<open>split_top_level\<close>: the depth after a character, and the loop with the depth and the current
  piece.\<close>

definition bracket_step :: "nat \<Rightarrow> char \<Rightarrow> nat" where
  "bracket_step depth c =
     (if c \<in> set ''<([{'' then Suc depth else if c \<in> set ''>)]}'' then depth - 1 else depth)"

fun split_level :: "char \<Rightarrow> nat \<Rightarrow> string \<Rightarrow> string \<Rightarrow> string list" where
  "split_level sep depth current [] = (if strip current = [] then [] else [strip current])"
| "split_level sep depth current (c # cs) =
     (let d = bracket_step depth c in
      if c = sep \<and> d = 0 then strip current # split_level sep d [] cs
      else split_level sep d (current @ [c]) cs)"

definition split_top_level :: "string \<Rightarrow> char \<Rightarrow> string list" where
  "split_top_level s sep = split_level sep 0 [] s"

fun paren_scan :: "int \<Rightarrow> nat \<Rightarrow> string \<Rightarrow> nat option" where
  "paren_scan depth i [] = None"
| "paren_scan depth i (c # cs) =
     (if c = CHR ''('' then paren_scan (depth + 1) (Suc i) cs
      else if c = CHR '')'' then
        (if depth - 1 = 0 then Some i else paren_scan (depth - 1) (Suc i) cs)
      else paren_scan depth (Suc i) cs)"

definition matching_paren :: "string \<Rightarrow> nat \<Rightarrow> nat option" where
  "matching_paren s open_index = paren_scan 0 open_index (drop open_index s)"

section \<open>The return type\<close>

definition RETURN_TYPE_KEYWORDS :: "string list" where
  "RETURN_TYPE_KEYWORDS =
     [''static'', ''inline'', ''virtual'', ''constexpr'', ''extern'', ''friend'', ''explicit'']"

definition stops_type :: "string \<Rightarrow> nat \<Rightarrow> bool" where
  "stops_type s i \<longleftrightarrow> s ! i \<in> set '';{}#'' \<or>
     s ! i = CHR '':'' \<and> \<not> (0 < i \<and> s ! (i - 1) = CHR '':'') \<and>
     \<not> (i + 1 < length s \<and> s ! (i + 1) = CHR '':'')"

text \<open>The loop that walks back from the name: where the words of the type begin.\<close>

fun type_start :: "string \<Rightarrow> nat \<Rightarrow> nat" where
  "type_start s 0 = 0"
| "type_start s (Suc i) = (if stops_type s i then Suc i else type_start s i)"

definition SOLUTION_SCOPE :: regex where
  "SOLUTION_SCOPE = Seqs [WordBoundary, Lit ''Solution'', Star Space, Lit ''::'', Star Space, TextEnd]"

definition return_type_before :: "string \<Rightarrow> nat \<Rightarrow> string" where
  "return_type_before s name_index =
     (let words = split_ws (slice (type_start s name_index) name_index s);
          words' = filter (\<lambda>w. w \<notin> set RETURN_TYPE_KEYWORDS \<and> \<not> starts_with ''[['' w) words
      in strip (re_sub SOLUTION_SCOPE (\<lambda>_. []) (join '' '' words')))"

section \<open>Parameters\<close>

record c_param =
  p_type :: string
  p_name :: string
  p_raw :: string

record c_signature =
  return_type :: string
  params :: "c_param list"
  raw_params :: string
  in_solution_class :: bool

definition Identifier :: regex where
  "Identifier = Seq (Chars (\<lambda>c. is_alpha c \<or> c = CHR ''_'')) (Star WordChar)"

definition PARAM :: regex where
  "PARAM = Seqs [Group 1 (LazyStar AnyChar), Group 2 Identifier, Star Space,
     Group 3 (Star (Seqs [Chr CHR ''['', Star (Chars (\<lambda>c. c \<noteq> CHR '']'')), Chr CHR '']''])), TextEnd]"

definition POINTER :: regex where
  "POINTER = Seqs [Star Space, Group 1 (Chars (\<lambda>c. c = CHR ''*'' \<or> c = CHR ''&'')), Star Space]"

definition parse_param :: "string \<Rightarrow> exn + c_param" where
  "parse_param raw =
     (let t = strip (takeWhile (\<lambda>c. c \<noteq> CHR ''='') raw) in
      case re_match_at PARAM t 0 of
        None \<Rightarrow> Inl (CompileError (''Could not parse parameter: '' @ raw))
      | Some m \<Rightarrow>
          if strip (group_text t m 1) = [] then Inl (CompileError (''Could not parse parameter: '' @ raw))
          else
            (let type_text = join '' '' (split_ws (group_text t m 1));
                 type_text' = re_sub POINTER (\<lambda>p. group_text type_text p 1) type_text;
                 stars = replicate (count_list (group_text t m 3) CHR ''['') CHR ''*''
             in Inr \<lparr>p_type = type_text' @ stars, p_name = group_text t m 2, p_raw = strip raw\<rparr>))"

fun parse_params :: "string list \<Rightarrow> exn + c_param list" where
  "parse_params [] = Inr []"
| "parse_params (raw # raws) = (case parse_param raw of
      Inl e \<Rightarrow> Inl e
    | Inr p \<Rightarrow> (case parse_params raws of Inl e \<Rightarrow> Inl e | Inr ps \<Rightarrow> Inr (p # ps)))"

section \<open>Signatures\<close>

definition TRAILING_QUALIFIERS :: regex where
  "TRAILING_QUALIFIERS = Seq (Star Space) (Star (Alt
     (Seq (Alt (Lit ''const'') (Alt (Lit ''noexcept'') (Alt (Lit ''override'') (Lit ''final'')))) WordBoundary)
     (Alt (Lit ''&&'') (Alt (Lit ''&'') Space))))"

definition SOLUTION_CLASS :: regex where
  "SOLUTION_CLASS = Seqs [WordBoundary, Alt (Lit ''class'') (Lit ''struct''), Plus Space, Lit ''Solution'',
     WordBoundary, Star (Chars (\<lambda>c. c \<noteq> CHR '';'' \<and> c \<noteq> CHR ''{'')), Chr CHR ''{'']"

definition CALL_OF :: "string \<Rightarrow> regex" where
  "CALL_OF function_name = Seqs [WordBoundary, Lit function_name, Star Space, Chr CHR ''('']"

text \<open>One candidate: \<open>None\<close> where the loop continues.\<close>

definition candidate :: "string \<Rightarrow> string \<Rightarrow> re_match \<Rightarrow> (exn + c_signature) option" where
  "candidate src clean m =
     (let open_index = m_end m - 1 in
      case matching_paren clean open_index of
        None \<Rightarrow> None
      | Some close_index \<Rightarrow>
          (let after = (case re_match_at TRAILING_QUALIFIERS clean (close_index + 1) of
               Some q \<Rightarrow> m_end q | None \<Rightarrow> close_index + 1)
           in if length clean \<le> after \<or> clean ! after \<noteq> CHR ''{'' then None
              else
                (let rtype = return_type_before clean (m_start m) in
                 if rtype = [] then None
                 else
                   (let raws = strip (slice (open_index + 1) close_index src);
                        cleans = strip (slice (open_index + 1) close_index clean);
                        in_class = (case re_search SOLUTION_CLASS clean of
                          None \<Rightarrow> False | Some c \<Rightarrow> m_start c < m_start m)
                    in case (if cleans \<noteq> [] \<and> cleans \<noteq> ''void'' then parse_params (split_top_level raws CHR '','')
                             else Inr []) of
                         Inl e \<Rightarrow> Some (Inl e)
                       | Inr ps \<Rightarrow> Some (Inr \<lparr>return_type = rtype, params = ps, raw_params = raws,
                           in_solution_class = in_class\<rparr>)))))"

fun first_candidate :: "string \<Rightarrow> string \<Rightarrow> string \<Rightarrow> re_match list \<Rightarrow> exn + c_signature" where
  "first_candidate src clean function_name [] =
     Inl (CompileError (''Could not find a definition of function '' @ [squote] @ function_name @ [squote]))"
| "first_candidate src clean function_name (m # ms) = (case candidate src clean m of
      None \<Rightarrow> first_candidate src clean function_name ms
    | Some r \<Rightarrow> r)"

definition parse_signature :: "string \<Rightarrow> string \<Rightarrow> exn + c_signature" where
  "parse_signature src function_name =
     (let clean = strip_comments src in
      first_candidate src clean function_name (re_finditer (CALL_OF function_name) clean 0))"

section \<open>Offsets are stable\<close>

definition blanked :: "char \<Rightarrow> char \<Rightarrow> bool" where
  "blanked c d \<longleftrightarrow> d = c \<or> d = blank"

lemma blanked_simps [simp]: "blanked c c" "blanked c blank"
  by (simp_all add: blanked_def)

lemma blanked_trans: "blanked a b \<Longrightarrow> blanked b c \<Longrightarrow> blanked a c"
  by (auto simp: blanked_def)

lemma blanked_list_trans: "list_all2 blanked r s \<Longrightarrow> list_all2 blanked s t \<Longrightarrow> list_all2 blanked r t"
  by (rule list_all2_trans [OF blanked_trans])

lemma blanked_replicate: "list_all2 blanked s (replicate (length s) blank)"
  by (induction s) auto

lemma blank_literal_blanked:
  "list_all2 blanked s (fst (blank_literal q s) @ snd (blank_literal q s))"
proof (induction q s rule: blank_literal.induct)
  case (2 q c cs)
  show ?case
  proof (cases "c = q")
    case False
    show ?thesis
    proof (cases "c = backslash \<and> cs \<noteq> []")
      case True
      then obtain d ds where "cs = d # ds" by (cases cs) auto
      with 2(1) False True show ?thesis by (auto simp: blanked_def split: prod.splits)
    qed (use 2 False in \<open>auto simp: blanked_def split: prod.splits\<close>)
  qed (auto simp: blanked_def list_all2_refl)
qed simp

lemma blanked_refl: "list_all2 blanked s s"
  by (rule list_all2_refl) (simp add: blanked_def)

lemma blanked_map: "(\<And>c. blanked c (f c)) \<Longrightarrow> list_all2 blanked s (map f s)"
  by (induction s) auto

lemma strip_comments_blanked: "list_all2 blanked s (strip_comments s)"
proof (induction s rule: strip_comments.induct)
  case (2 c cs)
  let ?s = "c # cs"
  consider (line) "starts_with ''//'' ?s" | (block) "\<not> starts_with ''//'' ?s" "starts_with ''/*'' ?s"
    | (literal) "\<not> starts_with ''//'' ?s" "\<not> starts_with ''/*'' ?s" "c = dquote \<or> c = squote"
    | (plain) "\<not> starts_with ''//'' ?s" "\<not> starts_with ''/*'' ?s" "\<not> (c = dquote \<or> c = squote)"
    by blast
  then show ?case
  proof cases
    case line
    have "list_all2 blanked (takeWhile (\<lambda>x. x \<noteq> newline) ?s @ dropWhile (\<lambda>x. x \<noteq> newline) ?s) (strip_comments ?s)"
      unfolding strip_comments.simps(2) using line 2(1) [OF line]
      by (simp only: if_True) (intro list_all2_appendI blanked_replicate)
    then show ?thesis by (simp only: takeWhile_dropWhile_id)
  next
    case block
    have "list_all2 blanked (take (comment_end ?s) ?s @ drop (comment_end ?s) ?s) (strip_comments ?s)"
      using block 2(2) by (subst strip_comments.simps)
        (simp only: if_True if_False, intro list_all2_appendI blanked_map, auto)
    then show ?thesis by (simp only: append_take_drop_id)
  next
    case literal
    obtain b rest where br: "blank_literal c cs = (b, rest)" by fastforce
    have tail: "list_all2 blanked rest (case rest of [] \<Rightarrow> [] | q # r \<Rightarrow> q # strip_comments r)"
      using 2(3) [OF literal br [symmetric]] by (cases rest) auto
    have "list_all2 blanked cs (b @ rest)" using blank_literal_blanked [of cs c] br by simp
    then obtain x y where "cs = x @ y" "list_all2 blanked x b" "list_all2 blanked y rest"
      by (auto simp: list_all2_append2)
    then have "list_all2 blanked cs (b @ (case rest of [] \<Rightarrow> [] | q # r \<Rightarrow> q # strip_comments r))"
      using tail blanked_list_trans [of y rest] by (auto intro!: list_all2_appendI)
    then show ?thesis using literal br by (subst strip_comments.simps) auto
  next
    case plain
    then show ?thesis using 2(4) by (subst strip_comments.simps) auto
  qed
qed simp

section \<open>Splitting at the top level\<close>

fun level :: "nat \<Rightarrow> string \<Rightarrow> nat" where
  "level d [] = d"
| "level d (c # cs) = level (bracket_step d c) cs"

text \<open>No separator of the text lies outside brackets.\<close>

fun no_cut :: "char \<Rightarrow> nat \<Rightarrow> string \<Rightarrow> bool" where
  "no_cut sep d [] = True"
| "no_cut sep d (c # cs) = (\<not> (c = sep \<and> bracket_step d c = 0) \<and> no_cut sep (bracket_step d c) cs)"

definition whole_piece :: "char \<Rightarrow> string \<Rightarrow> bool" where
  "whole_piece sep s \<longleftrightarrow> no_cut sep 0 s \<and> level 0 s = 0"

lemma split_level_no_cut:
  "no_cut sep d p \<Longrightarrow> split_level sep d cur (p @ rest) = split_level sep (level d p) (cur @ p) rest"
proof (induction p arbitrary: d cur)
  case (Cons c p)
  then show ?case using Cons.IH [of "bracket_step d c" "cur @ [c]"] by (auto simp: Let_def)
qed simp

lemma split_level_join:
  assumes "sep \<notin> set ''<([{>)]}''" and "ps \<noteq> []" and "strip (last ps) \<noteq> []"
    and "\<forall>p \<in> set ps. whole_piece sep p"
  shows "split_level sep 0 [] (join [sep] ps) = map strip ps"
  using assms(2-4)
proof (induction ps rule: induct_list012)
  case (2 p)
  then show ?case using split_level_no_cut [of sep 0 p "[]" "[]"] by (simp add: whole_piece_def)
next
  case (3 p q ps)
  have "bracket_step 0 sep = 0" using assms(1) by (auto simp: bracket_step_def)
  with 3 show ?case
    using split_level_no_cut [of sep 0 p "[]" "sep # join [sep] (q # ps)"]
    by (simp add: whole_piece_def)
qed simp

section \<open>Matching parentheses\<close>

fun nest :: "int \<Rightarrow> string \<Rightarrow> int" where
  "nest d [] = d"
| "nest d (c # cs) = nest (if c = CHR ''('' then d + 1 else if c = CHR '')'' then d - 1 else d) cs"

definition closes_at :: "int \<Rightarrow> string \<Rightarrow> nat \<Rightarrow> bool" where
  "closes_at d s k \<longleftrightarrow> k < length s \<and> s ! k = CHR '')'' \<and> nest d (take (Suc k) s) = 0"

lemma closes_at_Cons:
  "closes_at d (c # s) 0 \<longleftrightarrow> c = CHR '')'' \<and> d - 1 = 0"
  "closes_at d (c # s) (Suc k) \<longleftrightarrow>
     closes_at (if c = CHR ''('' then d + 1 else if c = CHR '')'' then d - 1 else d) s k"
  by (auto simp: closes_at_def)

text \<open>The scan returns the first position that closes.\<close>

lemma paren_scan_Some:
  "paren_scan d i s = Some j \<Longrightarrow> \<exists>k. j = i + k \<and> closes_at d s k \<and> (\<forall>m < k. \<not> closes_at d s m)"
proof (induction d i s rule: paren_scan.induct)
  case (2 d i c s)
  show ?case
  proof (cases "c = CHR '')'' \<and> d - 1 = 0")
    case True
    then show ?thesis using 2 by (intro exI [of _ 0]) (auto simp: closes_at_Cons)
  next
    case False
    let ?d = "if c = CHR ''('' then d + 1 else if c = CHR '')'' then d - 1 else d"
    have "paren_scan ?d (Suc i) s = Some j" using 2(4) False by (auto split: if_splits)
    then have "\<exists>k. j = Suc i + k \<and> closes_at ?d s k \<and> (\<forall>m < k. \<not> closes_at ?d s m)"
      using 2(1-3) False by (auto split: if_splits)
    then obtain k where "j = Suc i + k" "closes_at ?d s k" "\<forall>m < k. \<not> closes_at ?d s m" by blast
    then show ?thesis
      using False by (intro exI [of _ "Suc k"]) (auto simp: closes_at_Cons less_Suc_eq_0_disj)
  qed
qed simp

lemma paren_scan_None: "paren_scan d i s = None \<Longrightarrow> \<not> closes_at d s k"
proof (induction d i s arbitrary: k rule: paren_scan.induct)
  case (2 d i c s)
  then show ?case by (cases k) (auto simp: closes_at_Cons split: if_splits)
qed (simp add: closes_at_def)


section \<open>Properties\<close>

text \<open>Blanking comments and literals keeps offsets: the result has the length of the source, and
  each of its characters is the source's or a space.\<close>

lemma strip_comments_keeps_offsets:
  "list_all2 (\<lambda>c d. d = c \<or> d = CHR '' '') src (strip_comments src)"
  using strip_comments_blanked [of src] by (simp add: blanked_def [abs_def])

text \<open>Splitting a parameter list undoes joining it: parameters whose separators all lie inside
  balanced brackets come back stripped and in order, if the last one is not blank.\<close>

lemma split_top_level_join:
  assumes "sep \<notin> set ''<([{>)]}''" and "ps \<noteq> []" and "strip (last ps) \<noteq> []"
    and "\<forall>p \<in> set ps. whole_piece sep p"
  shows "split_top_level (join [sep] ps) sep = map strip ps"
  using split_level_join [OF assms] by (simp add: split_top_level_def)

lemma split_top_level_join_witness:
  "split_top_level ''map<int, int> m, int k'' CHR '','' = [''map<int, int> m'', ''int k'']"
proof -
  have "whole_piece CHR '','' ''map<int, int> m''" "whole_piece CHR '','' '' int k''" by code_simp+
  moreover have "strip '' int k'' = ''int k''" "strip ''map<int, int> m'' = ''map<int, int> m''" by code_simp+
  ultimately show ?thesis
    using split_top_level_join [of "CHR '',''" "[''map<int, int> m'', '' int k'']"] by simp
qed

text \<open>\<open>_matching_paren\<close> is exact: from an opening parenthesis it returns the first position at
  which the parentheses read so far are balanced, and \<open>-1\<close> only if there is none.\<close>

lemma matching_paren_exact:
  "matching_paren s i0 = Some j \<longleftrightarrow>
    (\<exists>k. j = i0 + k \<and> closes_at 0 (drop i0 s) k \<and> (\<forall>m < k. \<not> closes_at 0 (drop i0 s) m))"
proof
  assume "\<exists>k. j = i0 + k \<and> closes_at 0 (drop i0 s) k \<and> (\<forall>m < k. \<not> closes_at 0 (drop i0 s) m)"
  then obtain k where k: "j = i0 + k" "closes_at 0 (drop i0 s) k"
    "\<forall>m < k. \<not> closes_at 0 (drop i0 s) m" by blast
  then obtain i where i: "matching_paren s i0 = Some i"
    using paren_scan_None [of 0 i0 "drop i0 s" k] by (auto simp: matching_paren_def)
  then obtain n where "i = i0 + n" "closes_at 0 (drop i0 s) n" "\<forall>m < n. \<not> closes_at 0 (drop i0 s) m"
    using paren_scan_Some [of 0 i0 "drop i0 s" i] by (auto simp: matching_paren_def)
  with k i show "matching_paren s i0 = Some j" by (metis nat_neq_iff)
qed (auto simp: matching_paren_def dest: paren_scan_Some)

lemma matching_paren_exact_witness: "matching_paren ''f(g(x), y) {'' 1 = Some 9"
proof -
  have "closes_at 0 (drop 1 ''f(g(x), y) {'') 8 \<and> (\<forall>m < 8. \<not> closes_at 0 (drop 1 ''f(g(x), y) {'') m)"
    by code_simp
  then show ?thesis by (intro iffD2 [OF matching_paren_exact] exI [of _ 8]) simp
qed

end
