(* ===== verification/CExecutors.thy ===== *)
theory CExecutors
  imports ScriptExecutors CSignature
begin

text \<open>
  \<open>languages/c.py\<close> and \<open>languages/cpp.py\<close>: the code that reads each argument from JSON, calls the
  submitted function and writes its result, generated from the function's signature, and the two
  executors.
\<close>

section \<open>C types\<close>

definition SCALAR_TYPES :: "(string \<times> string) list" where
  "SCALAR_TYPES =
     [(''int'', ''int''), (''long'', ''long''), (''long long'', ''long long''), (''short'', ''short''),
      (''unsigned'', ''unsigned''), (''unsigned int'', ''unsigned int''), (''unsigned long'', ''unsigned long''),
      (''unsigned long long'', ''unsigned long long''), (''double'', ''double''), (''float'', ''float''),
      (''bool'', ''bool''), (''_Bool'', ''bool''), (''char'', ''char''), (''size_t'', ''size_t''),
      (''int32_t'', ''int32_t''), (''int64_t'', ''int64_t''), (''uint32_t'', ''uint32_t''), (''uint64_t'', ''uint64_t'')]"

definition ARRAY_TYPES :: "(string \<times> string) list" where
  "ARRAY_TYPES = map (\<lambda>t. (t @ ''*'', t))
     [''int'', ''long'', ''long long'', ''double'', ''float'', ''unsigned int'', ''int64_t'']"

definition CONST_WORD :: regex where
  "CONST_WORD = Seqs [WordBoundary, Lit ''const'', WordBoundary]"

definition normalize :: "string \<Rightarrow> string" where
  "normalize type_text =
     (let t = re_sub CONST_WORD (\<lambda>_. []) type_text;
          t' = join '' '' (split_ws t)
      in re_sub (Seq (Star Space) (Chr CHR ''*'')) (\<lambda>_. ''*'') t')"

section \<open>Binding the arguments in C\<close>

text \<open>How to size and re-serialize a bound argument; \<open>None\<close> where the code's dictionary has no
  entry or \<open>None\<close>.\<close>

record arg_info =
  ai_size :: "string option"
  ai_cols :: "string option"
  ai_mutated :: "string option"

definition bind_input :: "string \<Rightarrow> string \<Rightarrow> string \<Rightarrow> (string list \<times> arg_info) option" where
  "bind_input t var arg =
     (case map_of SCALAR_TYPES t of
        Some ctype \<Rightarrow> Some ([(ctype @ '' '' @ var @ '' = judge::Arg<'' @ ctype @ ''>::get('' @ arg @ '');'')],
          \<lparr>ai_size = None, ai_cols = None, ai_mutated = None\<rparr>)
      | None \<Rightarrow>
      case map_of ARRAY_TYPES t of
        Some elem \<Rightarrow> Some
          ([(''vector<'' @ elem @ ''> '' @ var @ ''_v = judge::Arg<vector<'' @ elem @ ''>>::get('' @ arg @ '');''),
            (elem @ ''* '' @ var @ '' = '' @ var @ ''_v.data();'')],
           \<lparr>ai_size = Some (''(int)'' @ var @ ''_v.size()''), ai_cols = None, ai_mutated = Some (''json('' @ var @ ''_v)'')\<rparr>)
      | None \<Rightarrow>
      if t = ''char*'' then Some
          ([(''const json& '' @ var @ ''_j = '' @ arg @ '';''),
            (''string '' @ var @ ''_s = judge_c::charsToString('' @ var @ ''_j);''),
            (''vector<char> '' @ var @ ''_v('' @ var @ ''_s.begin(), '' @ var @ ''_s.end());''),
            (var @ ''_v.push_back('' @ [squote] @ [backslash] @ ''0'' @ [squote] @ '');''),
            (''char* '' @ var @ '' = '' @ var @ ''_v.data();'')],
           \<lparr>ai_size = Some (''(int)'' @ var @ ''_s.size()''), ai_cols = None,
            ai_mutated = Some (''('' @ var @ ''_j.is_array() ? judge_c::stringToChars('' @ var @ '', (int)'' @ var @ ''_s.size()) : json(string('' @ var @ '')))'')\<rparr>)
      else if t = ''char**'' then Some
          ([(''judge_c::CharRows '' @ var @ ''_rows('' @ arg @ '');''), (''char** '' @ var @ '' = '' @ var @ ''_rows.ptrs.data();'')],
           \<lparr>ai_size = Some (''(int)'' @ var @ ''_rows.rows.size()''), ai_cols = Some (var @ ''_rows.cols''),
            ai_mutated = Some (var @ ''_rows.toJson()'')\<rparr>)
      else if t = ''int**'' then Some
          ([(''judge_c::IntRows '' @ var @ ''_rows('' @ arg @ '');''), (''int** '' @ var @ '' = '' @ var @ ''_rows.ptrs.data();'')],
           \<lparr>ai_size = Some (''(int)'' @ var @ ''_rows.rows.size()''), ai_cols = Some (var @ ''_rows.cols''),
            ai_mutated = Some (''json('' @ var @ ''_rows.rows)'')\<rparr>)
      else if t = ''struct ListNode*'' \<or> t = ''ListNode*'' then Some
          ([(''ListNode* '' @ var @ '' = judge::Arg<ListNode*>::get('' @ arg @ '');'')],
           \<lparr>ai_size = None, ai_cols = None, ai_mutated = Some (''judge::toJson('' @ var @ '')'')\<rparr>)
      else if t = ''struct TreeNode*'' \<or> t = ''TreeNode*'' then Some
          ([(''TreeNode* '' @ var @ '' = judge::Arg<TreeNode*>::get('' @ arg @ '');'')],
           \<lparr>ai_size = None, ai_cols = None, ai_mutated = Some (''judge::toJson('' @ var @ '')'')\<rparr>)
      else None)"

text \<open>The searches in a parameter's name, which ignore case.\<close>

definition RETURN_SIZE :: regex where
  "RETURN_SIZE = Seqs [LitNoCase ''return'', Star (Chars (\<lambda>c. c \<noteq> newline)), LitNoCase ''size'']"

definition RETURN_COL :: regex where
  "RETURN_COL = Seqs [LitNoCase ''return'', Star (Chars (\<lambda>c. c \<noteq> newline)), LitNoCase ''col'']"

definition COL_SIZE :: regex where
  "COL_SIZE = Seqs [LitNoCase ''col'', Opt (LitNoCase ''umn''), LitNoCase ''size'']"

definition SIZE_END :: regex where
  "SIZE_END = Seq (LitNoCase ''size'') TextEnd"

text \<open>The variables of the loop over the parameters.\<close>

record bind_state =
  bs_bindings :: "string list"
  bs_call_args :: "string list"
  bs_sized :: "arg_info option"
  bs_first_input :: "arg_info option"
  bs_return_size :: bool
  bs_return_cols :: bool
  bs_json_index :: nat

definition bind_start :: bind_state where
  "bind_start = \<lparr>bs_bindings = [], bs_call_args = [], bs_sized = None, bs_first_input = None,
     bs_return_size = False, bs_return_cols = False, bs_json_index = 0\<rparr>"

definition cols_of :: "arg_info option \<Rightarrow> string option" where
  "cols_of sized = (case sized of None \<Rightarrow> None | Some i \<Rightarrow> ai_cols i)"

definition size_of :: "arg_info option \<Rightarrow> string option" where
  "size_of sized = (case sized of None \<Rightarrow> None | Some i \<Rightarrow> ai_size i)"

definition arg_var :: "nat \<Rightarrow> string" where
  "arg_var index = ''_a'' @ int_str (int index)"

text \<open>The last branch: an argument that comes from the input.\<close>

definition bind_json :: "string \<Rightarrow> c_param \<Rightarrow> string \<Rightarrow> bind_state \<Rightarrow> exn + bind_state" where
  "bind_json t p var st =
     (case bind_input t var (''_in.arg('' @ [dquote] @ p_name p @ [dquote] @ '', '' @ int_str (int (bs_json_index st)) @ '')'') of
        None \<Rightarrow> Inl (CompileError ((''Unsupported C parameter type: '' @ p_type p @ '' '' @ p_name p)))
      | Some (lines, info) \<Rightarrow> Inr (st\<lparr>bs_bindings := bs_bindings st @ lines,
          bs_json_index := Suc (bs_json_index st),
          bs_sized := (if ai_size info = None then bs_sized st else Some info),
          bs_first_input := (if bs_first_input st = None then Some info else bs_first_input st)\<rparr>))"

definition bind_param :: "nat \<Rightarrow> c_param \<Rightarrow> bind_state \<Rightarrow> exn + bind_state" where
  "bind_param index p st =
     (let t = normalize (p_type p); var = arg_var index;
          bound =
            (if t = ''int*'' \<and> re_found RETURN_SIZE (p_name p) then
               Inr (st\<lparr>bs_bindings := bs_bindings st @ [''int _returnSize = 0;'', (''int* '' @ var @ '' = &_returnSize;'')],
                 bs_return_size := True\<rparr>)
             else if t = ''int**'' \<and> re_found RETURN_COL (p_name p) then
               Inr (st\<lparr>bs_bindings := bs_bindings st @ [''int* _returnCols = nullptr;'', (''int** '' @ var @ '' = &_returnCols;'')],
                 bs_return_cols := True\<rparr>)
             else if t = ''int*'' \<and> re_found COL_SIZE (p_name p) \<and> cols_of (bs_sized st) \<noteq> None then
               Inr (st\<lparr>bs_bindings := bs_bindings st @ [(''int* '' @ var @ '' = '' @ the (cols_of (bs_sized st)) @ ''.data();'')]\<rparr>)
             else if t \<in> {''int'', ''size_t''} \<and> re_found SIZE_END (p_name p) \<and> bs_sized st \<noteq> None then
               Inr (st\<lparr>bs_bindings := bs_bindings st @ [(t @ '' '' @ var @ '' = '' @ the (size_of (bs_sized st)) @ '';'')]\<rparr>)
             else bind_json t p var st)
      in case bound of
           Inl e \<Rightarrow> Inl e
         | Inr st' \<Rightarrow> Inr (st'\<lparr>bs_call_args := bs_call_args st' @ [var]\<rparr>))"

fun bind_params :: "nat \<Rightarrow> c_param list \<Rightarrow> bind_state \<Rightarrow> exn + bind_state" where
  "bind_params i [] st = Inr st"
| "bind_params i (p # ps) st = (case bind_param i p st of
      Inl e \<Rightarrow> Inl e | Inr st' \<Rightarrow> bind_params (Suc i) ps st')"

section \<open>Calling and serializing in C\<close>

definition call_and_serialize :: "string \<Rightarrow> string \<Rightarrow> arg_info option \<Rightarrow> bool \<Rightarrow> bool \<Rightarrow> exn + string list" where
  "call_and_serialize rtype call first_input has_return_size has_return_cols =
     (if rtype = ''void'' then
        Inr ([(call @ '';''), (''_output['' @ [dquote] @ ''result'' @ [dquote] @ ''] = nullptr;'')] @
          (case first_input of
             Some i \<Rightarrow> (case ai_mutated i of Some m \<Rightarrow> [(''_output['' @ [dquote] @ ''mutated'' @ [dquote] @ ''] = '' @ m @ '';'')] | None \<Rightarrow> [])
           | None \<Rightarrow> []))
      else
        (let lines = [(''auto _result = '' @ call @ '';'')] in
         case map_of SCALAR_TYPES rtype of
           Some ctype \<Rightarrow> Inr (lines @ [(''_output['' @ [dquote] @ ''result'' @ [dquote] @ ''] = judge::toJson(static_cast<'' @ ctype @ ''>(_result));'')])
         | None \<Rightarrow>
         if rtype = ''char*'' then
           Inr (lines @ [(''_output['' @ [dquote] @ ''result'' @ [dquote] @ ''] = _result ? json(string(_result)) : json(nullptr);'')])
         else case map_of ARRAY_TYPES rtype of
           Some elem \<Rightarrow>
             (let sz = (if has_return_size then ''_returnSize''
                        else case size_of first_input of Some s \<Rightarrow> s | None \<Rightarrow> ''0'')
              in Inr (lines @ [(''_output['' @ [dquote] @ ''result'' @ [dquote] @ ''] = json(vector<'' @ elem @ ''>(_result, _result + '' @ sz @ ''));'')]))
         | None \<Rightarrow>
         if rtype = ''char**'' then
           (if \<not> has_return_size then Inl (CompileError ''char** return value needs an int* returnSize parameter'')
            else Inr (lines @
              [''json _arr = json::array();'',
               ''for (int _i = 0; _i < _returnSize; ++_i) _arr.push_back(string(_result[_i]));'',
               (''_output['' @ [dquote] @ ''result'' @ [dquote] @ ''] = _arr;'')]))
         else if rtype = ''int**'' then
           (if \<not> (has_return_size \<and> has_return_cols)
            then Inl (CompileError ''int** return value needs returnSize and returnColumnSizes parameters'')
            else Inr (lines @
              [''json _arr = json::array();'',
               ''for (int _i = 0; _i < _returnSize; ++_i)'',
               ''    _arr.push_back(vector<int>(_result[_i], _result[_i] + _returnCols[_i]));'',
               (''_output['' @ [dquote] @ ''result'' @ [dquote] @ ''] = _arr;'')]))
         else if rtype \<in> {''struct ListNode*'', ''ListNode*'', ''struct TreeNode*'', ''TreeNode*''} then
           Inr (lines @ [(''_output['' @ [dquote] @ ''result'' @ [dquote] @ ''] = judge::toJson(_result);'')])
         else Inl (CompileError ((''Unsupported C return type: '' @ rtype)))))"

definition takes_list_node :: "c_signature \<Rightarrow> bool" where
  "takes_list_node sig \<longleftrightarrow> list_ex (\<lambda>p. has_sub ''ListNode'' (p_type p)) (params sig)"

definition bool_word :: "bool \<Rightarrow> string" where
  "bool_word b = (if b then ''true'' else ''false'')"

definition c_generate_wrapper :: "string \<Rightarrow> string \<Rightarrow> string \<Rightarrow> exn + string" where
  "c_generate_wrapper tmpl src fname = (case parse_signature src fname of
      Inl e \<Rightarrow> Inl e
    | Inr sig \<Rightarrow> (case bind_params 0 (params sig) bind_start of
        Inl e \<Rightarrow> Inl e
      | Inr st \<Rightarrow>
          (let call = (''::'' @ fname @ ''('' @ join '', '' (bs_call_args st) @ '')'') in
           case call_and_serialize (normalize (return_type sig)) call (bs_first_input st)
               (bs_return_size st) (bs_return_cols st) of
             Inl e \<Rightarrow> Inl e
           | Inr lines \<Rightarrow>
               (let declaration = (return_type sig @ '' '' @ fname @ ''('' @ or_text (raw_params sig) ''void'' @ '');'');
                    indent = ([newline] @ ''    '')
                in Inr (replace ''__CALL_AND_SERIALIZE_PLACEHOLDER__'' (join indent lines)
                    (replace ''__PARAMETER_DESERIALIZATION_PLACEHOLDER__'' (join indent (bs_bindings st))
                    (replace ''__SKIP_POS_PLACEHOLDER__'' (bool_word (takes_list_node sig))
                    (replace ''__FUNCTION_DECLARATION_PLACEHOLDER__'' declaration tmpl))))))))"

section \<open>The C executor\<close>

definition CPP_IMAGE :: string where "CPP_IMAGE = ''cpp-sandbox:latest''"

definition c_build :: "'w env \<Rightarrow> string" where
  "c_build E = ''gcc -std=gnu17 -O2 -include judge_prelude.h -c user.c -o user.o'' @
     '' && g++ -std=c++20 -pipe '' @ CPP_COMPILE_OPT_LEVEL E @ '' solution.cpp user.o -o solution -lm''"

definition c_compile :: "('w \<times> exec_state) env \<Rightarrow> string \<Rightarrow> string \<Rightarrow> ('w \<times> exec_state, unit) io" where
  "c_compile E src fname =
     io_then (obtain_container E (default_start E CPP_IMAGE ''Failed to start container''))
    (io_bind (io_of_sum (c_generate_wrapper (template E ''C_WRAPPER_TEMPLATE'') src fname)) (\<lambda>wrapped_code.
     io_bind (the_attr temp_dir) (\<lambda>d.
     io_then (io_each (\<lambda>(name, content). write_file E (path_join d name) content)
       [(''judge_prelude.h'', template E ''C_PRELUDE''), (''user.c'', src), (''solution.cpp'', wrapped_code)])
    (io_then (set_file ''solution.cpp'')
    (io_bind (the_attr container_id) (\<lambda>cid.
     io_bind (run_compiler E [''docker'', ''exec'', cid, ''sh'', ''-c'', c_build E]
       (COMPILATION_TIMEOUT_SECONDS E) (io_return ())) (\<lambda>p.
       if p_returncode p \<noteq> 0
       then io_raise (CompileError (or_text (take 1000 (strip (utf8 E (p_stderr p)))) ''Compilation failed''))
       else io_return ())))))))"

definition solution_cmd :: "string \<Rightarrow> string list" where
  "solution_cmd cid = [''docker'', ''exec'', ''-i'', cid, ''./solution'']"

definition solution_run :: "('w \<times> exec_state) env \<Rightarrow> pydict \<Rightarrow> ('w \<times> exec_state, outcome) io" where
  "solution_run E inp = run_in_container E solution_cmd (positional_payload inp)"

definition c_run_batch ::
  "('w \<times> exec_state) env \<Rightarrow> test_case list \<Rightarrow> ('w \<times> exec_state, outcome list) io" where
  "c_run_batch E tcs = run_batch_in_container E solution_cmd
     (dumps (VDict [(''test_cases'', VList (map (\<lambda>tc. positional_dict (tc_input tc)) tcs))])) (length tcs)"

definition CExecutor :: "('w \<times> exec_state) env \<Rightarrow> string \<Rightarrow> string \<Rightarrow> ('w \<times> exec_state) executor_ops" where
  "CExecutor E src fname = \<lparr>ex_compile = c_compile E src fname, ex_run = solution_run E,
     ex_run_batch = Some (c_run_batch E), ex_cleanup = cleanup E CPP_IMAGE\<rparr>"

section \<open>The C++ executor\<close>

definition cpp_value_type :: "c_param \<Rightarrow> string" where
  "cpp_value_type p = strip (replace ''&'' [] (re_sub CONST_WORD (\<lambda>_. []) (p_type p)))"

fun cpp_bindings :: "nat \<Rightarrow> c_param list \<Rightarrow> string list" where
  "cpp_bindings i [] = []"
| "cpp_bindings i (p # ps) =
     (let value_type = cpp_value_type p in
      (value_type @ '' '' @ arg_var i @ '' = judge::Arg<'' @ value_type @ ''>::get(_in.arg('' @ [dquote] @ p_name p @ [dquote] @ '', '' @ int_str (int i) @ ''));''))
     # cpp_bindings (Suc i) ps"

definition cpp_lines :: "c_signature \<Rightarrow> string \<Rightarrow> string list" where
  "cpp_lines sig fname =
     (let arg_names = map arg_var [0..<length (params sig)];
          indent = ([newline] @ ''        '');
          setup = (if in_solution_class sig then (''Solution _solution;'' @ indent) else []);
          target = (if in_solution_class sig then ''_solution.'' else []);
          call = (target @ fname @ ''('' @ join '', '' arg_names @ '')'')
      in if strip (return_type sig) = ''void'' then
           [(setup @ call @ '';''), (''_output['' @ [dquote] @ ''result'' @ [dquote] @ ''] = nullptr;'')] @
             (case arg_names of [] \<Rightarrow> [] | a # _ \<Rightarrow> [(''_output['' @ [dquote] @ ''mutated'' @ [dquote] @ ''] = judge::toJson('' @ a @ '');'')])
         else [(setup @ ''auto _result = '' @ call @ '';''), (''_output['' @ [dquote] @ ''result'' @ [dquote] @ ''] = judge::toJson(_result);'')])"

definition cpp_generate_wrapper :: "string \<Rightarrow> string \<Rightarrow> string \<Rightarrow> exn + string" where
  "cpp_generate_wrapper tmpl src fname = (case parse_signature src fname of
      Inl e \<Rightarrow> Inl e
    | Inr sig \<Rightarrow>
        (let indent = ([newline] @ ''        '') in
         Inr (replace ''__CALL_AND_SERIALIZE_PLACEHOLDER__'' (join indent (cpp_lines sig fname))
           (replace ''__PARAMETER_DESERIALIZATION_PLACEHOLDER__'' (join indent (cpp_bindings 0 (params sig)))
           (replace ''__SKIP_POS_PLACEHOLDER__'' (bool_word (takes_list_node sig))
           (replace ''__USER_CODE_PLACEHOLDER__'' src tmpl))))))"

text \<open>The test for a placeholder that was left over.\<close>

definition check_placeholders :: "string \<Rightarrow> exn + string" where
  "check_placeholders wrapped_code =
     (if has_sub ''__PLACEHOLDER__'' wrapped_code \<or> has_sub ''__FUNCTION_'' wrapped_code
      then Inl (CompileError ''Wrapper placeholder replacement failed'') else Inr wrapped_code)"

definition cpp_compile :: "('w \<times> exec_state) env \<Rightarrow> string \<Rightarrow> string \<Rightarrow> ('w \<times> exec_state, unit) io" where
  "cpp_compile E src fname =
     io_then (obtain_container E ((default_start E CPP_IMAGE ''Failed to start C++ container'')
       \<lparr>st_timeout := Some (30, ''Docker daemon timed out and hung while starting the container'')\<rparr>))
    (io_bind (io_of_sum (cpp_generate_wrapper (template E ''CPP_WRAPPER_TEMPLATE'') src fname)) (\<lambda>wrapped.
     io_bind (io_of_sum (check_placeholders wrapped)) (\<lambda>wrapped_code.
     io_bind (set_file ''solution.cpp'') (\<lambda>f.
     io_then (write_file E f wrapped_code)
    (io_bind (the_attr container_id) (\<lambda>cid.
     io_bind (run_compiler E [''docker'', ''exec'', cid, ''g++'', ''solution.cpp'', ''-pipe'',
         CPP_COMPILE_OPT_LEVEL E, ''-std=c++20'', ''-o'', ''solution'']
       (COMPILATION_TIMEOUT_SECONDS E) (io_return ())) (\<lambda>p.
       if p_returncode p \<noteq> 0
       then io_bind (decode E (p_stderr p)) (\<lambda>err. io_raise (CompileError err))
       else io_return ())))))))"

definition CppExecutor :: "('w \<times> exec_state) env \<Rightarrow> string \<Rightarrow> string \<Rightarrow> ('w \<times> exec_state) executor_ops" where
  "CppExecutor E src fname = \<lparr>ex_compile = cpp_compile E src fname, ex_run = solution_run E,
     ex_run_batch = None, ex_cleanup = cleanup E CPP_IMAGE\<rparr>"

end
