(* ===== verification/GoExecutors.thy ===== *)
theory GoExecutors
  imports CExecutors
begin

text \<open>
  \<open>languages/go.py\<close>: parsing the signature of a Go function, generating the code that binds its
  arguments and calls it, merging imports, and the executor.
\<close>

section \<open>Types and signatures\<close>

definition normalize_type :: "string \<Rightarrow> string" where
  "normalize_type type_name = join '' '' (split_ws (strip type_name))"

definition is_pointer_type :: "string \<Rightarrow> bool" where
  "is_pointer_type t = starts_with ''*'' (normalize_type t)"

definition strip_pointer :: "string \<Rightarrow> string" where
  "strip_pointer t = strip (dropWhile (\<lambda>c. c = CHR ''*'') (normalize_type t))"

definition is_listnode_type :: "string \<Rightarrow> bool" where
  "is_listnode_type t = (strip_pointer t = ''ListNode'')"

definition is_treenode_type :: "string \<Rightarrow> bool" where
  "is_treenode_type t = (strip_pointer t = ''TreeNode'')"

definition is_graph_node_type :: "string \<Rightarrow> bool" where
  "is_graph_node_type t = (strip_pointer t = ''Node'')"

definition BYTE_DECODERS :: "(string \<times> string) list" where
  "BYTE_DECODERS = [(''byte'', ''decodeByte''), (''[]byte'', ''decodeBytes''), (''[][]byte'', ''decodeByteGrid'')]"

definition GO_SIGNATURE :: "string \<Rightarrow> regex" where
  "GO_SIGNATURE fname = Seqs [Lit ''func'', Plus Space, Lit fname, Star Space, Chr CHR ''('',
     Group 1 (LazyStar AnyChar), Chr CHR '')'', Star Space,
     Opt (Group 2 (Alt (Seqs [Chr CHR ''('', Star (Chars (\<lambda>c. c \<noteq> CHR '')'')), Chr CHR '')''])
       (Plus (Chars (\<lambda>c. \<not> py_space c \<and> c \<noteq> CHR ''{''))))),
     Star Space, Chr CHR ''{'']"

definition go_parse_signature :: "string \<Rightarrow> string \<Rightarrow> exn + (string \<times> string)" where
  "go_parse_signature src fname = (case re_search (GO_SIGNATURE fname) src of
      None \<Rightarrow> Inl (CompileError ''Could not parse Go function signature'')
    | Some m \<Rightarrow> Inr (strip (group_text src m 1), strip (group_text src m 2)))"

text \<open>The three depths of \<open>_split_top_level\<close>, and its loop.\<close>

definition go_depth :: "nat \<times> nat \<times> nat \<Rightarrow> char \<Rightarrow> nat \<times> nat \<times> nat" where
  "go_depth d c = (case d of (paren, bracket, brace) \<Rightarrow>
     if c = CHR ''('' then (Suc paren, bracket, brace)
     else if c = CHR '')'' then (paren - 1, bracket, brace)
     else if c = CHR ''['' then (paren, Suc bracket, brace)
     else if c = CHR '']'' then (paren, bracket - 1, brace)
     else if c = CHR ''{'' then (paren, bracket, Suc brace)
     else if c = CHR ''}'' then (paren, bracket, brace - 1)
     else d)"

definition piece_list :: "string \<Rightarrow> string list" where
  "piece_list current = (if strip current = [] then [] else [strip current])"

fun go_split_level :: "nat \<times> nat \<times> nat \<Rightarrow> string \<Rightarrow> string \<Rightarrow> string list" where
  "go_split_level d current [] = piece_list current"
| "go_split_level d current (c # cs) =
     (let d' = go_depth d c in
      if c = CHR '','' \<and> d' = (0, 0, 0) then piece_list current @ go_split_level d' [] cs
      else go_split_level d' (current @ [c]) cs)"

definition go_split_top_level :: "string \<Rightarrow> string list" where
  "go_split_top_level content = go_split_level (0, 0, 0) [] content"

text \<open>The loop of \<open>_parse_params\<close>: names that wait for their type, as in \<open>a, b int\<close>.\<close>

fun go_params :: "string \<Rightarrow> string list \<Rightarrow> string list \<Rightarrow> exn + (string \<times> string) list" where
  "go_params params_str pending [] =
     (if pending = [] then Inr [] else Inl (CompileError ((''Invalid Go parameter syntax: '' @ params_str))))"
| "go_params params_str pending (segment # segments) = (case split_ws segment of
      [] \<Rightarrow> go_params params_str pending segments
    | [name] \<Rightarrow> go_params params_str (pending @ [name]) segments
    | name # type_parts \<Rightarrow>
        (case go_params params_str [] segments of
           Inl e \<Rightarrow> Inl e
         | Inr ps \<Rightarrow> Inr (map (\<lambda>n. (n, join '' '' type_parts)) (pending @ [name]) @ ps)))"

definition go_parse_params :: "string \<Rightarrow> exn + (string \<times> string) list" where
  "go_parse_params params_str =
     (if params_str = [] then Inr [] else go_params params_str [] (go_split_top_level params_str))"

definition go_parse_returns :: "string \<Rightarrow> string list" where
  "go_parse_returns returns_str =
     (if returns_str = [] then []
      else if starts_with ''('' returns_str \<and> ends_with '')'' returns_str then
        (let inner = strip (slice 1 (length returns_str - 1) returns_str) in
         if inner = [] then [] else map normalize_type (go_split_top_level inner))
      else [normalize_type returns_str])"

section \<open>Binding the arguments\<close>

definition fetch_lines :: "string \<Rightarrow> string \<Rightarrow> string list" where
  "fetch_lines lookup name =
     [(''    raw_'' @ name @ '', ok := '' @ lookup),
      (''    if !ok { return nil, fmt.Errorf('' @ [dquote] @ ''missing parameter: '' @ name @ [dquote] @ '') }'')]"

text \<open>\<open>json.Unmarshal\<close> of a raw argument into a variable, with its error.\<close>

definition unmarshal_lines :: "string \<Rightarrow> string \<Rightarrow> string list" where
  "unmarshal_lines name target =
     [(''    if err := json.Unmarshal(raw_'' @ name @ '', &'' @ target @ ''); err != nil {''),
      (''        return nil, fmt.Errorf('' @ [dquote] @ ''invalid parameter '' @ name @ '': %w'' @ [dquote] @ '', err)''),
      ''    }'']"

definition list_node_lines :: "string \<Rightarrow> string \<Rightarrow> string list" where
  "list_node_lines lookup name =
     fetch_lines lookup name @ [(''    var '' @ name @ ''_arr []int'')] @ unmarshal_lines name ((name @ ''_arr'')) @
     [(''    pos_'' @ name @ '' := -1''),
      (''    if rawPos_'' @ name @ '', ok := input['' @ [dquote] @ ''pos'' @ [dquote] @ '']; ok {''),
      (''        if err := json.Unmarshal(rawPos_'' @ name @ '', &pos_'' @ name @ ''); err != nil {''),
      (''            return nil, fmt.Errorf('' @ [dquote] @ ''invalid parameter pos: %w'' @ [dquote] @ '', err)''),
      ''        }'', ''    }'']"

definition deref_lines :: "string \<Rightarrow> string \<Rightarrow> string list" where
  "deref_lines node_type name =
     [(''    var '' @ name @ '' '' @ node_type), (''    if tmp_'' @ name @ '' != nil {''), (''        '' @ name @ '' = *tmp_'' @ name), ''    }'', '''']"

definition go_param_lines :: "bool \<Rightarrow> nat \<Rightarrow> string \<times> string \<Rightarrow> exn + string list" where
  "go_param_lines skip_pos idx p = (case p of (name, ptype) \<Rightarrow>
     let lookup = (''pickArg(input, keys, '' @ [dquote] @ name @ [dquote] @ '', '' @ int_str (int idx) @ '', '' @ bool_word skip_pos @ '')'') in
     if is_listnode_type ptype then
       (if is_pointer_type ptype then
          Inr (list_node_lines lookup name @ [(''    '' @ name @ '' := buildLinkedList('' @ name @ ''_arr, pos_'' @ name @ '')''), ''''])
        else
          Inr (list_node_lines lookup name @ [(''    tmp_'' @ name @ '' := buildLinkedList('' @ name @ ''_arr, pos_'' @ name @ '')'')] @
            deref_lines ''ListNode'' name))
     else if is_treenode_type ptype then
       (if is_pointer_type ptype then
          Inr (fetch_lines lookup name @ [(''    var '' @ name @ ''_arr []interface{}'')] @
            unmarshal_lines name ((name @ ''_arr'')) @ [(''    '' @ name @ '' := buildTree('' @ name @ ''_arr)''), ''''])
        else
          Inr (fetch_lines lookup name @ [(''    var '' @ name @ ''_arr []interface{}'')] @
            unmarshal_lines name ((name @ ''_arr'')) @ [(''    tmp_'' @ name @ '' := buildTree('' @ name @ ''_arr)'')] @
            deref_lines ''TreeNode'' name))
     else if is_graph_node_type ptype then
       (if is_pointer_type ptype then
          Inr (fetch_lines lookup name @ [(''    var '' @ name @ ''_adj [][]int'')] @
            unmarshal_lines name ((name @ ''_adj'')) @ [(''    '' @ name @ '' := buildGraph('' @ name @ ''_adj)''), ''''])
        else Inl (CompileError ''Go graph node parameters must be pointers''))
     else case map_of BYTE_DECODERS (normalize_type ptype) of
       Some decoder \<Rightarrow>
         Inr (fetch_lines lookup name @
           [(''    '' @ name @ '', err_'' @ name @ '' := '' @ decoder @ ''(raw_'' @ name @ '')''),
            (''    if err_'' @ name @ '' != nil {''),
            (''        return nil, fmt.Errorf('' @ [dquote] @ ''invalid parameter '' @ name @ '': %w'' @ [dquote] @ '', err_'' @ name @ '')''),
            ''    }'', ''''])
     | None \<Rightarrow>
         Inr (fetch_lines lookup name @ [(''    var '' @ name @ '' '' @ normalize_type ptype)] @
           unmarshal_lines name name @ ['''']))"

fun go_all_param_lines :: "bool \<Rightarrow> nat \<Rightarrow> (string \<times> string) list \<Rightarrow> exn + string list" where
  "go_all_param_lines skip_pos i [] = Inr []"
| "go_all_param_lines skip_pos i (p # ps) = (case go_param_lines skip_pos i p of
      Inl e \<Rightarrow> Inl e
    | Inr ls \<Rightarrow> (case go_all_param_lines skip_pos (Suc i) ps of Inl e \<Rightarrow> Inl e | Inr rest \<Rightarrow> Inr (ls @ rest)))"

definition build_call_lines :: "string \<Rightarrow> string \<Rightarrow> string list \<Rightarrow> string option \<Rightarrow> exn + string" where
  "build_call_lines fname args returns first_param =
     (if returns = [] then
        (let mutated = (case first_param of
            Some p \<Rightarrow> if p = [] then [] else ('', '' @ [dquote] @ ''mutated'' @ [dquote] @ '': autoConvertOutput('' @ p @ '')'') | None \<Rightarrow> [])
         in Inr ((''    '' @ fname @ ''('' @ args @ '')'' @ [newline] @ ''    return map[string]interface{}{'' @ [dquote] @ ''result'' @ [dquote] @ '': nil'' @ mutated @ ''}, nil'')))
      else if length returns \<noteq> 1 then Inl (CompileError ''Multiple Go return values are not supported'')
      else Inr ((''    result := '' @ fname @ ''('' @ args @ '')'' @ [newline] @ ''    return map[string]interface{}{'' @ [dquote] @ ''result'' @ [dquote] @ '': autoConvertOutput(result)}, nil'')))"

section \<open>Imports\<close>

definition WRAPPER_IMPORTS :: "string list" where
  "WRAPPER_IMPORTS = [''encoding/json'', ''fmt'', ''io'', ''os'', ''reflect'', ''runtime/debug'', ''sort'', ''strings'']"

definition GO_PACKAGE :: regex where
  "GO_PACKAGE = Seqs [LineStart, Star Space, Lit ''package'', Plus Space, Plus WordChar, Star Space, LineEnd]"

definition GO_IMPORT_BLOCK :: regex where
  "GO_IMPORT_BLOCK = Seqs [LineStart, Star Space, Lit ''import'', Star Space, Chr CHR ''('',
     Group 1 (LazyStar AnyChar), Chr CHR '')'']"

definition GO_IMPORT :: regex where
  "GO_IMPORT = Seqs [LineStart, Star Space, Lit ''import'', Plus Space,
     Group 1 (Plus (Chars (\<lambda>c. c \<noteq> newline \<and> c \<noteq> CHR ''(''))), LineEnd]"

definition strip_line_comment :: "string \<Rightarrow> string" where
  "strip_line_comment line = strip (case find_sub ''//'' line of None \<Rightarrow> line | Some i \<Rightarrow> take i line)"

definition block_imports :: "string \<Rightarrow> string list" where
  "block_imports block = filter (\<lambda>l. l \<noteq> []) (map strip_line_comment (splitlines block))"

definition split_imports :: "string \<Rightarrow> string list \<times> string" where
  "split_imports src =
     (let src1 = re_sub GO_PACKAGE (\<lambda>_. []) src;
          blocks = concat (map (\<lambda>m. block_imports (group_text src1 m 1)) (re_finditer GO_IMPORT_BLOCK src1 0));
          src2 = re_sub GO_IMPORT_BLOCK (\<lambda>_. []) src1;
          singles = map (\<lambda>m. strip (group_text src2 m 1)) (re_finditer GO_IMPORT src2 0)
      in (blocks @ singles, re_sub GO_IMPORT (\<lambda>_. []) src2))"

fun add_imports :: "string list \<Rightarrow> string list \<Rightarrow> string list" where
  "add_imports specs [] = specs"
| "add_imports specs (s # ss) = add_imports (if s \<in> set specs then specs else specs @ [s]) ss"

definition merge_imports :: "string list \<Rightarrow> string" where
  "merge_imports user_imports =
     ''import ('' @ [newline] @
     concat (map (\<lambda>s. (''    '' @ s @ [newline])) (add_imports (map (\<lambda>path. ([dquote] @ path @ [dquote])) WRAPPER_IMPORTS) user_imports)) @ '')''"

section \<open>The wrapper and the executor\<close>

definition go_generate_wrapper :: "string \<Rightarrow> string \<Rightarrow> string \<Rightarrow> exn + string" where
  "go_generate_wrapper tmpl src fname = (case go_parse_signature src fname of
      Inl e \<Rightarrow> Inl e
    | Inr (params_str, returns_str) \<Rightarrow> (case go_parse_params params_str of
        Inl e \<Rightarrow> Inl e
      | Inr ps \<Rightarrow>
          (let returns = go_parse_returns returns_str;
               skip_pos = list_ex (\<lambda>p. is_listnode_type (snd p)) ps in
           case go_all_param_lines skip_pos 0 ps of
             Inl e \<Rightarrow> Inl e
           | Inr param_lines \<Rightarrow>
               (case build_call_lines fname (join '', '' (map fst ps)) returns
                   (case ps of [] \<Rightarrow> None | p # _ \<Rightarrow> Some (fst p)) of
                  Inl e \<Rightarrow> Inl e
                | Inr call_lines \<Rightarrow>
                    (case split_imports src of (user_imports, body) \<Rightarrow>
                       Inr (replace ''__FUNCTION_NAME_PLACEHOLDER__'' fname
                         (replace ''__CALL_PLACEHOLDER__'' call_lines
                         (replace ''__INVOKER_SETUP_PLACEHOLDER__'' []
                         (replace ''__PARAM_BINDINGS_PLACEHOLDER__'' (rstrip (join [newline] param_lines))
                         (replace ''{source_code}'' body
                         (replace ''__IMPORTS_PLACEHOLDER__'' (merge_imports user_imports) tmpl)))))))))))"

definition GO_IMAGE :: string where "GO_IMAGE = ''go-sandbox:latest''"

definition go_compile :: "('w \<times> exec_state) env \<Rightarrow> string \<Rightarrow> string \<Rightarrow> ('w \<times> exec_state, unit) io" where
  "go_compile E src fname =
     io_then (obtain_container E ((default_start E GO_IMAGE ''Failed to start execution container'')
       \<lparr>st_timeout := Some (30, ''Docker daemon timed out and hung while starting the container'')\<rparr>))
    (io_bind (set_file ''main.go'') (\<lambda>f.
     io_bind (io_of_sum (go_generate_wrapper (template E ''GO_WRAPPER_TEMPLATE'') src fname)) (\<lambda>wrapped_code.
     io_then (write_file E f wrapped_code)
    (io_bind (the_attr container_id) (\<lambda>cid.
     io_bind (run_compiler E [''docker'', ''exec'', ''-e'', ''CGO_ENABLED=0'', cid,
         ''go'', ''build'', ''-buildvcs=false'', ''-o'', ''main'', ''main.go'']
       (COMPILATION_TIMEOUT_SECONDS E) (io_return ())) (\<lambda>p.
       if p_returncode p \<noteq> 0 then compiler_failed E p else io_return ()))))))"

definition go_payload :: "string \<Rightarrow> pydict \<Rightarrow> string" where
  "go_payload fname inp = dumps (VDict [(''function_name'', VStr fname), (''input'', VDict inp),
     (''keys'', VList (map (\<lambda>p. VStr (fst p)) inp))])"

definition go_run ::
  "('w \<times> exec_state) env \<Rightarrow> string \<Rightarrow> pydict \<Rightarrow> ('w \<times> exec_state, outcome) io" where
  "go_run E fname inp =
     run_in_container E (\<lambda>cid. [''docker'', ''exec'', ''-i'', cid, ''./main'']) (go_payload fname inp)"

definition GoExecutor :: "('w \<times> exec_state) env \<Rightarrow> string \<Rightarrow> string \<Rightarrow> ('w \<times> exec_state) executor_ops" where
  "GoExecutor E src fname = \<lparr>ex_compile = go_compile E src fname, ex_run = go_run E fname,
     ex_run_batch = None, ex_cleanup = cleanup E GO_IMAGE\<rparr>"

end
