(* ===== verification/RustExecutors.thy ===== *)
theory RustExecutors
  imports GoExecutors
begin

text \<open>
  \<open>languages/rust.py\<close>: parsing the signature of a Rust function, generating the code that binds
  its arguments and calls it, and the executor.
\<close>

section \<open>Signatures\<close>

definition RUST_SIGNATURE :: "string \<Rightarrow> regex" where
  "RUST_SIGNATURE fname = Seqs [Lit ''fn'', Plus Space, Lit fname, Star Space, Chr CHR ''('',
     Group 1 (LazyStar AnyChar), Chr CHR '')'', Star Space,
     Opt (Seqs [Lit ''->'', Star Space, Group 2 (Plus (Chars (\<lambda>c. c \<noteq> CHR ''{'')))]),
     Star Space, Chr CHR ''{'']"

definition rust_depth :: "nat \<times> nat \<times> nat \<Rightarrow> char \<Rightarrow> nat \<times> nat \<times> nat" where
  "rust_depth d c = (case d of (angle, paren, bracket) \<Rightarrow>
     if c = CHR ''<'' then (Suc angle, paren, bracket)
     else if c = CHR ''>'' then (angle - 1, paren, bracket)
     else if c = CHR ''('' then (angle, Suc paren, bracket)
     else if c = CHR '')'' then (angle, paren - 1, bracket)
     else if c = CHR ''['' then (angle, paren, Suc bracket)
     else if c = CHR '']'' then (angle, paren, bracket - 1)
     else d)"

fun rust_split_level :: "nat \<times> nat \<times> nat \<Rightarrow> string \<Rightarrow> string \<Rightarrow> string list" where
  "rust_split_level d current [] = piece_list current"
| "rust_split_level d current (c # cs) =
     (let d' = rust_depth d c in
      if c = CHR '','' \<and> d' = (0, 0, 0) then piece_list current @ rust_split_level d' [] cs
      else rust_split_level d' (current @ [c]) cs)"

definition rust_split_top_level :: "string \<Rightarrow> string list" where
  "rust_split_top_level content = rust_split_level (0, 0, 0) [] content"

fun rust_params :: "string list \<Rightarrow> exn + (string \<times> string) list" where
  "rust_params [] = Inr []"
| "rust_params (param # ps) = (case find_sub '':'' param of
      None \<Rightarrow> Inl (CompileError ((''Invalid Rust parameter syntax: '' @ param)))
    | Some i \<Rightarrow> (case rust_params ps of
        Inl e \<Rightarrow> Inl e
      | Inr rest \<Rightarrow> Inr ((strip (drop (Suc i) param), replace ''mut '' [] (strip (take i param))) # rest)))"

definition rust_parse_signature :: "string \<Rightarrow> string \<Rightarrow> exn + (string \<times> (string \<times> string) list)" where
  "rust_parse_signature src fname = (case re_search (RUST_SIGNATURE fname) src of
      None \<Rightarrow> Inl (CompileError ''Could not parse Rust function signature'')
    | Some m \<Rightarrow>
        (let params_str = strip (group_text src m 1);
             rtype = strip (or_text (group_text src m 2) ''()'')
         in if params_str = [] then Inr (rtype, [])
            else case rust_params (map strip (rust_split_top_level params_str)) of
              Inl e \<Rightarrow> Inl e
            | Inr ps \<Rightarrow> Inr (rtype, ps)))"

section \<open>Binding the arguments\<close>

definition resolve_owned_reference_target :: "string \<Rightarrow> string" where
  "resolve_owned_reference_target borrowed_type =
     (let inner = strip borrowed_type in
      if inner = ''str'' then ''String''
      else if starts_with ''['' inner \<and> ends_with '']'' inner then
        (''Vec<'' @ strip (slice 1 (length inner - 1) inner) @ ''>'')
      else inner)"

definition rust_to_json :: "string \<Rightarrow> string \<Rightarrow> string" where
  "rust_to_json type_name e =
     (let bare = strip (replace ''mut '' [] (dropWhile (\<lambda>c. c = CHR ''&'') type_name)) in
      if has_sub ''TreeNode'' bare then (''__judge::tree_to_json('' @ e @ '')'')
      else if has_sub ''ListNode'' bare then (''__judge::list_to_json('' @ e @ '')'')
      else (''serde_json::to_value('' @ e @ '').unwrap_or(serde_json::Value::Null)''))"

text \<open>The binding line, the argument, and the variable if it is passed by \<open>&mut\<close>.\<close>

definition build_param_binding :: "string \<Rightarrow> nat \<Rightarrow> string \<Rightarrow> bool \<Rightarrow> string \<times> string \<times> string option" where
  "build_param_binding type_name index name skip_pos =
     (let var = arg_var index;
          v = (''__judge::pick(&payload, '' @ [dquote] @ name @ [dquote] @ '', '' @ int_str (int index) @ '', '' @ bool_word skip_pos @ '')'');
          mutable = starts_with ''&mut '' type_name;
          borrowed = starts_with ''&'' type_name;
          owned_type = (if mutable then resolve_owned_reference_target (strip (drop 5 type_name))
            else if borrowed then resolve_owned_reference_target (strip (drop 1 type_name))
            else type_name);
          e = (if has_sub ''TreeNode'' owned_type then (''__judge::build_tree(&'' @ v @ '')'')
            else if has_sub ''ListNode'' owned_type then (''__judge::build_list(&'' @ v @ '')'')
            else (''serde_json::from_value::<'' @ owned_type @ ''>('' @ v @ '').unwrap_or_else(|e| panic!('' @ [dquote] @ ''invalid argument '' @ name @ '': {}'' @ [dquote] @ '', e))''));
          line = (''let mut '' @ var @ '': '' @ owned_type @ '' = '' @ e @ '';'')
      in if mutable then (line, (''&mut '' @ var), Some var)
         else if borrowed then (line, (''&'' @ var), None)
         else (line, var, None))"

fun rust_bindings :: "bool \<Rightarrow> nat \<Rightarrow> (string \<times> string) list \<Rightarrow> (string \<times> string \<times> string option) list" where
  "rust_bindings skip_pos i [] = []"
| "rust_bindings skip_pos i ((ptype, name) # ps) =
     build_param_binding (normalize_type ptype) i name skip_pos # rust_bindings skip_pos (Suc i) ps"

text \<open>The first parameter's variable and type, if it is mutable.\<close>

definition first_mutable :: "(string \<times> string) list \<Rightarrow> (string \<times> string \<times> string option) list \<Rightarrow> (string \<times> string) option" where
  "first_mutable ps bs = (case (ps, bs) of
      ((ptype, _) # _, (_, _, Some var) # _) \<Rightarrow> if var = [] then None else Some (var, normalize_type ptype)
    | _ \<Rightarrow> None)"

definition rust_body :: "string \<Rightarrow> string \<Rightarrow> (string \<times> string) option \<Rightarrow> string list" where
  "rust_body rtype call mutable_first =
     (if rtype = [] \<or> rtype = ''()'' then
        (let mutated = (case mutable_first of
            Some (var, ptype) \<Rightarrow> rust_to_json ptype ((''&'' @ var)) | None \<Rightarrow> ''serde_json::Value::Null'')
         in [(call @ '';''), (''serde_json::json!({'' @ [dquote] @ ''result'' @ [dquote] @ '': serde_json::Value::Null, '' @ [dquote] @ ''mutated'' @ [dquote] @ '': '' @ mutated @ ''})'')])
      else [(''let _result = '' @ call @ '';''), (''serde_json::json!({'' @ [dquote] @ ''result'' @ [dquote] @ '': '' @ rust_to_json rtype ''&_result'' @ ''})'')])"

definition StructNamed :: "string \<Rightarrow> regex" where
  "StructNamed name = Seqs [WordBoundary, Lit ''struct'', Plus Space, Lit name, WordBoundary]"

definition IMPL_SOLUTION :: regex where
  "IMPL_SOLUTION = Seqs [WordBoundary, Lit ''impl'', Plus Space, Lit ''Solution'', WordBoundary]"

definition node_definitions :: "(string \<Rightarrow> string) \<Rightarrow> string \<Rightarrow> string list" where
  "node_definitions tmpl src =
     (if re_found (StructNamed ''TreeNode'') src then [] else [tmpl ''TREE_NODE_DEFINITION'']) @
     (if re_found (StructNamed ''ListNode'') src then [] else [tmpl ''LIST_NODE_DEFINITION''])"

definition rust_generate_wrapper :: "(string \<Rightarrow> string) \<Rightarrow> string \<Rightarrow> string \<Rightarrow> exn + string" where
  "rust_generate_wrapper tmpl src fname = (case rust_parse_signature src fname of
      Inl e \<Rightarrow> Inl e
    | Inr (rtype, ps) \<Rightarrow>
        (let skip_pos = list_ex (\<lambda>p. has_sub ''ListNode'' (fst p)) ps;
             bs = rust_bindings skip_pos 0 ps;
             target = (if re_found IMPL_SOLUTION src then ''Solution::'' else []);
             call = (target @ fname @ ''('' @ join '', '' (map (\<lambda>(_, a, _). a) bs) @ '')'');
             body = rust_body (normalize_type rtype) call (first_mutable ps bs);
             indent = ([newline] @ ''    '')
         in Inr (replace ''__USER_CODE_PLACEHOLDER__'' src
             (replace ''__CALL_AND_SERIALIZE_PLACEHOLDER__'' (join indent body)
             (replace ''__PARAMETER_DESERIALIZATION_PLACEHOLDER__'' (join indent (map fst bs))
             (replace ''__NODE_DEFINITIONS_PLACEHOLDER__'' (join [newline] (node_definitions tmpl src))
             (replace ''__SOLUTION_STRUCT_PLACEHOLDER__''
               (if re_found (StructNamed ''Solution'') src then [] else tmpl ''SOLUTION_STRUCT'')
               (tmpl ''RUST_WRAPPER_TEMPLATE'')))))))) "

section \<open>The executor\<close>

definition RUST_IMAGE :: string where "RUST_IMAGE = ''rust-sandbox:latest''"

definition VENDORED_SOURCE_DIR :: string where "VENDORED_SOURCE_DIR = ''/opt/cache/runner/vendor''"

definition SHARED_TARGET_DIR :: string where "SHARED_TARGET_DIR = ''/opt/cache/runner/target''"

definition cargo_toml :: string where
  "cargo_toml = ([newline] @ ''[package]'' @ [newline] @ ''name = '' @ [dquote] @ ''runner'' @ [dquote] @ [newline] @ ''version = '' @ [dquote] @ ''0.1.0'' @ [dquote] @ [newline] @ ''edition = '' @ [dquote] @ ''2021'' @ [dquote] @ [newline] @ [newline] @ ''[dependencies]'' @ [newline] @ ''serde_json = '' @ [dquote] @ ''1'' @ [dquote] @ [newline])"

definition cargo_config :: string where
  "cargo_config = (''[source.crates-io]'' @ [newline] @ ''replace-with = '' @ [dquote] @ ''vendored-sources'' @ [dquote] @ [newline] @ [newline] @ ''[source.vendored-sources]'' @ [newline] @ ''directory = '' @ [dquote] @ VENDORED_SOURCE_DIR @ [dquote] @ [newline])"

definition rust_compile :: "('w \<times> exec_state) env \<Rightarrow> string \<Rightarrow> string \<Rightarrow> ('w \<times> exec_state, unit) io" where
  "rust_compile E src fname =
     io_then (obtain_container E (default_start E RUST_IMAGE ''Failed to start Rust container''))
    (io_bind (io_of_sum (rust_generate_wrapper (template E) src fname)) (\<lambda>wrapped.
     io_bind (io_of_sum (check_placeholders wrapped)) (\<lambda>wrapped_code.
     io_bind (the_attr temp_dir) (\<lambda>d.
     io_then (makedirs E (path_join d ''src''))
    (io_then (write_file E (path_join (path_join d ''src'') ''main.rs'') wrapped_code)
    (io_then (write_file E (path_join d ''Cargo.toml'') cargo_toml)
    (io_then (makedirs E (path_join d ''.cargo''))
    (io_then (write_file E (path_join (path_join d ''.cargo'') ''config.toml'') cargo_config)
    (io_bind (the_attr container_id) (\<lambda>cid.
     io_bind (run_compiler E [''docker'', ''exec'', cid, ''cargo'', ''build'', ''--release'', ''--offline'',
         ''--target-dir'', SHARED_TARGET_DIR]
       (COMPILATION_TIMEOUT_SECONDS E) (io_return ())) (\<lambda>p.
       if p_returncode p \<noteq> 0
       then io_bind (decode E (p_stderr p)) (\<lambda>err. io_raise (CompileError (take 1000 (strip err))))
       else io_return ()))))))))))) "

definition rust_run :: "('w \<times> exec_state) env \<Rightarrow> pydict \<Rightarrow> ('w \<times> exec_state, outcome) io" where
  "rust_run E inp = run_in_container E
     (\<lambda>cid. [''docker'', ''exec'', ''-i'', cid, SHARED_TARGET_DIR @ ''/release/runner'']) (positional_payload inp)"

definition RustExecutor :: "('w \<times> exec_state) env \<Rightarrow> string \<Rightarrow> string \<Rightarrow> ('w \<times> exec_state) executor_ops" where
  "RustExecutor E src fname = \<lparr>ex_compile = rust_compile E src fname, ex_run = rust_run E,
     ex_run_batch = None, ex_cleanup = cleanup E RUST_IMAGE\<rparr>"

end
