(* ===== verification/Executors.thy ===== *)
theory Executors
  imports Pipeline RustExecutors
begin

text \<open>
  \<open>execution/executor.py\<close>: the registry of executors, \<open>ExecutionPipeline.execute\<close> with the
  executor it creates, and what all executors promise the pipeline.
\<close>

section \<open>The registry\<close>

definition registry ::
  "(string \<times> (('w \<times> exec_state) env \<Rightarrow> string \<Rightarrow> string \<Rightarrow> ('w \<times> exec_state) executor_ops)) list" where
  "registry =
     [(''python'', PythonExecutor), (''javascript'', JavaScriptExecutor), (''typescript'', TypeScriptExecutor),
      (''java'', JavaExecutor), (''kotlin'', KotlinExecutor), (''csharp'', CSharpExecutor),
      (''cpp'', CppExecutor), (''go'', GoExecutor), (''c'', CExecutor), (''rust'', RustExecutor)]"

definition get_executor ::
  "('w \<times> exec_state) env \<Rightarrow> string \<Rightarrow> string \<Rightarrow> string \<Rightarrow> exn + ('w \<times> exec_state) executor_ops" where
  "get_executor E language source_code function_name = (case map_of registry language of
      None \<Rightarrow> Inl (ValueError ''Unsupported language'')
    | Some executor_class \<Rightarrow> Inr (executor_class E source_code function_name))"

section \<open>Executing a request\<close>

text \<open>The executor object is created, used and dropped inside \<open>execute\<close>; \<open>run_request\<close> shows its
  attributes at the end as well.\<close>

definition run_request :: "'w env \<Rightarrow> request \<Rightarrow> ('w \<times> exec_state, verdict) io" where
  "run_request E req =
     io_bind (io_of_sum (get_executor (with_state E) (rq_language req) (rq_source_code req) (rq_function_name req)))
       (\<lambda>ex. judge ex (rq_in_place req) (rq_test_cases req))"

definition execute :: "'w env \<Rightarrow> request \<Rightarrow> ('w, verdict) io" where
  "execute E req = (\<lambda>w. case run_request E req (w, init_state) of (r, (w', s)) \<Rightarrow> (r, w'))"

section \<open>What an executor promises\<close>

text \<open>\<open>if self.container_id\<close>.\<close>

definition live :: "exec_state \<Rightarrow> bool" where
  "live s \<longleftrightarrow> (case container_id s of None \<Rightarrow> False | Some cid \<Rightarrow> cid \<noteq> [])"

definition released :: "exec_state \<Rightarrow> exec_state" where
  "released s = s\<lparr>container_id := None, temp_dir := None, host_temp_dir := None\<rparr>"

lemma not_live_released [simp]: "\<not> live (released s)"
  by (simp add: live_def released_def)

lemma not_live_init [simp]: "\<not> live init_state"
  by (simp add: live_def init_state_def)

lemma cleanup_idle: "\<not> live s \<Longrightarrow> cleanup E img (w, s) = (Inr (), (w, s))"
  by (auto simp: cleanup_def live_def split: option.splits)

lemma cleanup_live:
  "live s \<Longrightarrow> \<exists>cid. container_id s = Some cid \<and> cid \<noteq> [] \<and>
     cleanup (with_state E) img (w, s) =
       (case release E img cid (opt_text (temp_dir s)) (opt_text (host_temp_dir s)) w of
          (r, w') \<Rightarrow> (r, (w', released s)))"
  by (auto simp: cleanup_def live_def released_def lift_release split: option.splits prod.splits)

lemma cleanup_not_live: "cleanup (with_state E) img (w, s) = (r, (w', s')) \<Longrightarrow> \<not> live s'"
  using cleanup_idle [of s "with_state E" img w] cleanup_live [of s E img w]
  by (cases "live s") (auto simp: case_prod_beta)

text \<open>The contract: cleaning up is the shared method; without a container a run fails and changes
  nothing; a run does not touch the attributes.\<close>

locale executor =
  fixes E :: "'w env" and ex :: "('w \<times> exec_state) executor_ops" and img :: string
  assumes cleanup_shared: "ex_cleanup ex = cleanup (with_state E) img"
    and run_idle: "\<not> live s \<Longrightarrow> ex_run ex inp (w, s) =
      (Inl (RuntimeExecutionError ''Container not initialized'' VNone), (w, s))"
    and run_attrs: "ex_run ex inp (w, s) = (r, (w', s')) \<Longrightarrow> s' = s"
    and batch_attrs: "ex_run_batch ex = Some rb \<Longrightarrow> rb tcs (w, s) = (b, (w', s')) \<Longrightarrow> s' = s"
begin

lemma cleanup_twice:
  assumes "ex_cleanup ex (w, s) = (r, ws')"
  shows "ex_cleanup ex ws' = (Inr (), ws')"
proof -
  obtain w' s' where ws: "ws' = (w', s')" by (cases ws')
  with assms have "\<not> live s'" using cleanup_not_live by (simp add: cleanup_shared)
  then show ?thesis by (simp add: ws cleanup_shared cleanup_idle)
qed

text \<open>The end of a request: the container held when the body ends, if any, is given to \<open>release\<close>.\<close>

lemma judge_hands_back:
  assumes "judge ex ip tcs (w, s) = (r, (w', s'))" and "r \<noteq> Inl Diverges"
  shows "\<not> live s' \<and> (\<exists>r1 w1 s1.
    io_try (ex_compile ex) compile_failure (\<lambda>_. run_all ex ip tcs) (w, s) = (r1, (w1, s1)) \<and>
    (if live s1 then w' = snd (release E img (the (container_id s1)) (opt_text (temp_dir s1))
       (opt_text (host_temp_dir s1)) w1) else r = r1 \<and> w' = w1))"
proof -
  obtain r1 w1 s1 where b: "io_try (ex_compile ex) compile_failure (\<lambda>_. run_all ex ip tcs) (w, s) = (r1, (w1, s1))"
    by (metis surj_pair)
  obtain r2 w2 s2 where c: "ex_cleanup ex (w1, s1) = (r2, (w2, s2))" by (metis surj_pair)
  have "r1 \<noteq> Inl Diverges" using assms b by (auto simp: judge_def io_finally_def)
  then have "w' = w2" "s' = s2" "r2 = Inr () \<longrightarrow> r = r1"
    using assms b c by (auto simp: judge_def io_finally_def split: sum.splits)
  moreover have "\<not> live s2" using cleanup_not_live c by (simp add: cleanup_shared)
  moreover have "w2 = snd (release E img (the (container_id s1)) (opt_text (temp_dir s1))
      (opt_text (host_temp_dir s1)) w1)" if "live s1"
    using cleanup_live [OF that, of E img w1] c by (auto simp: cleanup_shared case_prod_beta)
  moreover have "w2 = w1" "r2 = Inr ()" if "\<not> live s1"
    using cleanup_idle [OF that, of "with_state E" img w1] c by (simp_all add: cleanup_shared)
  ultimately show ?thesis using b by auto
qed

lemma run_each_attrs: "run_each ex ip i acc tcs (w, s) = (r, (w', s')) \<Longrightarrow> s' = s"
proof (induction tcs arbitrary: i acc w)
  case (Cons tc tcs)
  obtain r1 w1 s1 where run: "ex_run ex (tc_input tc) (w, s) = (r1, (w1, s1))" by (metis surj_pair)
  then have "s1 = s" by (rule run_attrs)
  with Cons.prems run show ?case
    by (auto simp: io_try_def Let_def io_bind_def io_of_sum_def split: sum.splits if_splits dest: Cons.IH)
qed simp

lemma run_all_attrs: "run_all ex ip tcs (w, s) = (r, (w', s')) \<Longrightarrow> s' = s"
proof (cases "ex_run_batch ex")
  case (Some rb)
  assume run: "run_all ex ip tcs (w, s) = (r, (w', s'))"
  obtain b w1 s1 where "rb tcs (w, s) = (b, (w1, s1))" by (metis surj_pair)
  with run Some show ?thesis
    by (auto simp: run_all_def io_try_def io_of_sum_def split: sum.splits if_splits dest: batch_attrs)
qed (auto simp: run_all_def dest: run_each_attrs)

end

lemma run_in_container_idle:
  "\<not> live s \<Longrightarrow> run_in_container E cmd payload (w, s) =
     (Inl (RuntimeExecutionError ''Container not initialized'' VNone), (w, s))"
  by (auto simp: run_in_container_def need_container_def live_def split: option.splits)

lemma need_container_attrs: "need_container (w, s) = (r, ws) \<Longrightarrow> ws = (w, s)"
  by (auto simp: need_container_def split: option.splits if_splits)

lemma run_in_container_attrs:
  "run_in_container (with_state E) cmd payload (w, s) = (r, (w', s')) \<Longrightarrow> s' = s"
  using need_container_attrs [of w s]
  by (auto simp: run_in_container_def io_bind_def lift_run_wrapper split: prod.splits sum.splits)

lemma run_batch_in_container_attrs:
  "run_batch_in_container (with_state E) cmd payload n (w, s) = (r, (w', s')) \<Longrightarrow> s' = s"
  using need_container_attrs [of w s]
  by (auto simp: run_batch_in_container_def io_bind_def lift_run_batch_wrapper split: prod.splits sum.splits)

lemmas in_container = run_in_container_idle run_in_container_attrs run_batch_in_container_attrs

interpretation python: executor E "PythonExecutor (with_state E) src fname" PYTHON_IMAGE for E src fname
  by unfold_locales (auto simp: PythonExecutor_def python_run_def in_container(1) dest: in_container(2,3))

interpretation javascript: executor E "JavaScriptExecutor (with_state E) src fname" JS_IMAGE for E src fname
  by unfold_locales (auto simp: JavaScriptExecutor_def node_run_def in_container(1) dest: in_container(2,3))

interpretation typescript: executor E "TypeScriptExecutor (with_state E) src fname" JS_IMAGE for E src fname
  by unfold_locales (auto simp: TypeScriptExecutor_def node_run_def in_container(1) dest: in_container(2,3))

interpretation java: executor E "JavaExecutor (with_state E) src fname" JAVA_IMAGE for E src fname
  by unfold_locales (auto simp: JavaExecutor_def java_run_def java_run_batch_def in_container(1) dest: in_container(2,3))

interpretation kotlin: executor E "KotlinExecutor (with_state E) src fname" KOTLIN_IMAGE for E src fname
  by unfold_locales (auto simp: KotlinExecutor_def kotlin_run_def in_container(1) dest: in_container(2,3))

interpretation csharp: executor E "CSharpExecutor (with_state E) src fname" CSHARP_IMAGE for E src fname
  by unfold_locales (auto simp: CSharpExecutor_def csharp_run_def in_container(1) dest: in_container(2,3))

interpretation cplusplus: executor E "CppExecutor (with_state E) src fname" CPP_IMAGE for E src fname
  by unfold_locales (auto simp: CppExecutor_def solution_run_def in_container(1) dest: in_container(2,3))

interpretation golang: executor E "GoExecutor (with_state E) src fname" GO_IMAGE for E src fname
  by unfold_locales (auto simp: GoExecutor_def go_run_def in_container(1) dest: in_container(2,3))

interpretation clang: executor E "CExecutor (with_state E) src fname" CPP_IMAGE for E src fname
  by unfold_locales (auto simp: CExecutor_def solution_run_def c_run_batch_def in_container(1) dest: in_container(2,3))

interpretation rust: executor E "RustExecutor (with_state E) src fname" RUST_IMAGE for E src fname
  by unfold_locales (auto simp: RustExecutor_def rust_run_def in_container(1) dest: in_container(2,3))

lemma get_executor_cases:
  assumes "get_executor E lang src fname = Inr ex"
  shows "ex \<in> {PythonExecutor E src fname, JavaScriptExecutor E src fname, TypeScriptExecutor E src fname,
    JavaExecutor E src fname, KotlinExecutor E src fname, CSharpExecutor E src fname,
    CppExecutor E src fname, GoExecutor E src fname, CExecutor E src fname, RustExecutor E src fname}"
proof -
  obtain c where "map_of registry lang = Some c" "ex = c E src fname"
    using assms by (auto simp: get_executor_def split: option.splits)
  then have "(lang, c) \<in> set registry" by (auto dest: map_of_SomeD)
  with \<open>ex = c E src fname\<close> show ?thesis by (auto simp: registry_def)
qed

text \<open>Whatever the factory returns honours the contract.\<close>

lemma get_executor_contract:
  assumes "get_executor (with_state E) lang src fname = Inr ex"
  shows "\<exists>img. executor E ex img"
  using get_executor_cases [OF assms]
    python.executor_axioms [of E src fname] javascript.executor_axioms [of E src fname]
    typescript.executor_axioms [of E src fname] java.executor_axioms [of E src fname]
    kotlin.executor_axioms [of E src fname] csharp.executor_axioms [of E src fname]
    cplusplus.executor_axioms [of E src fname] golang.executor_axioms [of E src fname]
    clang.executor_axioms [of E src fname] rust.executor_axioms [of E src fname]
  by blast

section \<open>Properties\<close>

text \<open>C2. No container outlives its request: whatever happens while a request is executed (a
  compilation error, a crash, a timeout, an exception that leaves the pipeline), the executor holds
  no container in the end, and the one it held, if any, was given to \<open>container_pool.release\<close> last.\<close>

theorem judge_hands_container_back:
  assumes "get_executor (with_state E) lang src fname = Inr ex"
    and "judge ex ip tcs (w, init_state) = (r, (w', s'))" and "r \<noteq> Inl Diverges"
  shows "\<not> live s' \<and> (\<exists>img r1 w1 s1.
    io_try (ex_compile ex) compile_failure (\<lambda>_. run_all ex ip tcs) (w, init_state) = (r1, (w1, s1)) \<and>
    (if live s1 then w' = snd (release E img (the (container_id s1)) (opt_text (temp_dir s1))
       (opt_text (host_temp_dir s1)) w1) else r = r1 \<and> w' = w1))"
proof -
  obtain img where "executor E ex img" using get_executor_contract [OF assms(1)] by blast
  from executor.judge_hands_back [OF this assms(2,3)] show ?thesis by blast
qed

definition lab_reply :: "string list \<Rightarrow> string" where
  "lab_reply cmd = (if take 2 cmd = [''docker'', ''run''] then ''c1''
     else if take 2 cmd = [''docker'', ''inspect''] then ''true''
     else emit_text [(''result'', VBool True)])"

definition lab :: "unit env" where
  "lab = offline\<lparr>getenv := (\<lambda>n. if n = ''HOST_SANDBOX_ROOT'' then Some ''/host'' else None), loop_fuel := 1,
     mkdtemp := (\<lambda>root. io_return (root @ ''/t'')), write_file := (\<lambda>_ _. io_return ()),
     communicate := (\<lambda>cmd _ _. io_return (Finished \<lparr>p_stdout = lab_reply cmd, p_stderr = [], p_returncode = 0\<rparr>)),
     r_rpop := (\<lambda>_. io_return None), r_set_nx := (\<lambda>_ _ _. io_return False),
     r_brpop := (\<lambda>_ _. io_return (Some ([], ''t''))), r_lpush := (\<lambda>_ _. io_return ()),
     r_llen := (\<lambda>_. io_return 0)\<rparr>"

definition lab_request :: request where
  "lab_request = \<lparr>rq_language = ''python'', rq_source_code = ''def f(): return True'', rq_function_name = ''f'',
     rq_test_cases = [\<lparr>tc_input = [], expected_output = VBool True\<rparr>], rq_in_place = None\<rparr>"

lemma lab_executor:
  "get_executor (with_state lab) ''python'' src fname = Inr (PythonExecutor (with_state lab) src fname)"
  by (simp add: get_executor_def registry_def)

lemma lab_accepted:
  "judge (PythonExecutor (with_state lab) ''def f(): return True'' ''f'') None
     [\<lparr>tc_input = [], expected_output = VBool True\<rparr>] ((), init_state) =
   (Inr (Accepted [VBool True]), ((), init_state\<lparr>file_path := Some ''/sandbox/t/main.py''\<rparr>))"
  by code_simp

theorem judge_hands_container_back_witness:
  "\<not> live (init_state\<lparr>file_path := Some ''/sandbox/t/main.py''\<rparr>)"
  using judge_hands_container_back [OF lab_executor lab_accepted] by simp

text \<open>Cleaning up twice releases once: a second \<open>cleanup\<close> of any registered executor does
  nothing (the TypeScript executor cleans up when its compiler fails, and the pipeline again).\<close>

lemma cleanup_second_is_noop:
  assumes "get_executor (with_state E) lang src fname = Inr ex" and "ex_cleanup ex (w, s) = (r, ws)"
  shows "ex_cleanup ex ws = (Inr (), ws)"
  using get_executor_contract [OF assms(1)] executor.cleanup_twice [OF _ assms(2)] by auto

lemma cleanup_second_is_noop_witness:
  "cleanup (with_state lab) PYTHON_IMAGE (snd (cleanup (with_state lab) PYTHON_IMAGE
     ((), init_state\<lparr>container_id := Some ''c1''\<rparr>))) =
   (Inr (), snd (cleanup (with_state lab) PYTHON_IMAGE ((), init_state\<lparr>container_id := Some ''c1''\<rparr>)))"
  using cleanup_second_is_noop [OF lab_executor [of "[]" "[]"], of "()" "init_state\<lparr>container_id := Some ''c1''\<rparr>"
      "fst (cleanup (with_state lab) PYTHON_IMAGE ((), init_state\<lparr>container_id := Some ''c1''\<rparr>))"
      "snd (cleanup (with_state lab) PYTHON_IMAGE ((), init_state\<lparr>container_id := Some ''c1''\<rparr>))"]
  by (simp add: PythonExecutor_def)

text \<open>A failed cold start leaks its directory: if the pool is empty and \<open>docker run\<close> fails, the
  request ends in the world in which \<open>docker run\<close> left it: nothing removes the directory created
  for the container, because \<open>cleanup\<close> does nothing without a container.\<close>

lemma cold_start_failure_leaks_directory:
  assumes "get_sandbox_roots E = Inr (croot, hroot)" and "acquire E JS_IMAGE w = (Inr None, w0)"
    and "mkdtemp E croot w0 = (Inr d, w1)"
    and "docker_run_semaphore E (run_proc E (sandbox_run_cmd E (DOCKER_MEMORY_SWAP E) (DOCKER_CPU_LIMIT E)
      (build_host_temp_dir hroot d) ''/app'' JS_IMAGE)) w1 = (Inr p, w2)"
    and "p_returncode p \<noteq> 0"
  shows "execute E (req\<lparr>rq_language := ''javascript''\<rparr>) w =
    (Inr (ErrorVerdict ''Execution environment error: Failed to start execution container''), w2)"
proof -
  let ?s = "init_state\<lparr>temp_dir := Some d, host_temp_dir := Some (build_host_temp_dir hroot d)\<rparr>"
  have "cold_start (with_state E) (default_start (with_state E) JS_IMAGE ''Failed to start execution container'')
      croot hroot (w0, init_state) =
      (Inl (RuntimeExecutionError ''Failed to start execution container'' VNone), (w2, ?s))"
    using assms(3-5)
    by (simp add: cold_start_def default_start_def start_proc_def lift_simps Let_def DOCKER_MEMORY_SWAP_def
        DOCKER_CPU_LIMIT_def str_env_def)
  then have "js_compile (with_state E) src (w, init_state) =
      (Inl (RuntimeExecutionError ''Failed to start execution container'' VNone), (w2, ?s))" for src
    using assms(1,2) by (simp add: js_compile_def obtain_container_def lift_simps default_start_def)
  moreover have "\<not> live ?s" by (simp add: live_def init_state_def)
  ultimately show ?thesis
    by (simp add: execute_def run_request_def get_executor_def registry_def judge_def io_finally_def io_try_def
        JavaScriptExecutor_def compile_failure_def cleanup_idle)
qed

text \<open>Docker refuses to start the container: the directory stays in the world.\<close>

definition broken_docker :: "string list env" where
  "broken_docker = dir_env\<lparr>communicate := (\<lambda>_ _ _. io_return (Finished \<lparr>p_stdout = [], p_stderr = [], p_returncode = 1\<rparr>)),
     loop_fuel := 1, r_rpop := (\<lambda>_. io_return None), r_set_nx := (\<lambda>_ _ _. io_return False),
     r_brpop := (\<lambda>_ _. io_return (Some ([], ''t''))), r_lpush := (\<lambda>_ _. io_return ())\<rparr>"

lemma cold_start_failure_leaks_directory_witness:
  "execute broken_docker (lab_request\<lparr>rq_language := ''javascript''\<rparr>) [] =
     (Inr (ErrorVerdict ''Execution environment error: Failed to start execution container''), [''/sandbox/t''])"
proof (rule cold_start_failure_leaks_directory)
  show "get_sandbox_roots broken_docker = Inr (''/sandbox'', ''/host'')" by code_simp
  show "acquire broken_docker JS_IMAGE [] = (Inr None, [])"
    by (simp add: acquire_def broken_docker_def)
  show "mkdtemp broken_docker ''/sandbox'' [] = (Inr ''/sandbox/t'', [''/sandbox/t''])"
    by (simp add: broken_docker_def dir_env_def)
  show "docker_run_semaphore broken_docker (run_proc broken_docker (sandbox_run_cmd broken_docker
      (DOCKER_MEMORY_SWAP broken_docker) (DOCKER_CPU_LIMIT broken_docker)
      (build_host_temp_dir ''/host'' ''/sandbox/t'') ''/app'' JS_IMAGE)) [''/sandbox/t''] =
      (Inr \<lparr>p_stdout = [], p_stderr = [], p_returncode = 1\<rparr>, [''/sandbox/t''])"
    by (simp add: docker_run_semaphore_def with_semaphore_def run_proc_def broken_docker_def io_finally_def)
qed simp

end
