(* ===== verification/Worker.thy ===== *)
theory Worker
  imports Executors "HOL-Library.List_Lexorder" "HOL-Library.Char_ord"
begin

text \<open>
  \<open>worker.py\<close>: taking jobs from the queues and running them. A job's payload is the dictionary the
  API put there; \<open>request_of_payload\<close> and \<open>raw_of_payload\<close> make the lookups that the pipeline
  makes, all at the start: a field that is missing or of another type raises there.
\<close>

section \<open>Payloads\<close>

definition field :: "pydict \<Rightarrow> string \<Rightarrow> (pyval \<Rightarrow> 'a option) \<Rightarrow> exn + 'a" where
  "field d k f = (case dget d k of
      None \<Rightarrow> Inl (KeyError k)
    | Some v \<Rightarrow> (case f v of None \<Rightarrow> Inl (OtherError ''TypeError'') | Some a \<Rightarrow> Inr a))"

fun as_str :: "pyval \<Rightarrow> string option" where
  "as_str (VStr s) = Some s" | "as_str _ = None"

fun as_list :: "pyval \<Rightarrow> pyval list option" where
  "as_list (VList xs) = Some xs" | "as_list _ = None"

fun as_dict :: "pyval \<Rightarrow> pydict option" where
  "as_dict (VDict d) = Some d" | "as_dict _ = None"

fun all_some :: "'a option list \<Rightarrow> 'a list option" where
  "all_some [] = Some []"
| "all_some (x # xs) = (case (x, all_some xs) of (Some a, Some as) \<Rightarrow> Some (a # as) | _ \<Rightarrow> None)"

definition as_test_case :: "pyval \<Rightarrow> test_case option" where
  "as_test_case v = (case v of
      VDict d \<Rightarrow> (case (dget d ''input'', dget d ''expected_output'') of
          (Some (VDict i), Some e) \<Rightarrow> Some \<lparr>tc_input = i, expected_output = e\<rparr>
        | _ \<Rightarrow> None)
    | _ \<Rightarrow> None)"

definition as_test_cases :: "pyval \<Rightarrow> test_case list option" where
  "as_test_cases v = (case v of VList xs \<Rightarrow> all_some (map as_test_case xs) | _ \<Rightarrow> None)"

definition as_strings :: "pyval \<Rightarrow> string list option" where
  "as_strings v = (case v of VList xs \<Rightarrow> all_some (map as_str xs) | _ \<Rightarrow> None)"

text \<open>\<open>request.get("in_place") is False\<close>, for the two booleans.\<close>

definition in_place_of :: "pydict \<Rightarrow> bool option" where
  "in_place_of d = (case dget d ''in_place'' of Some (VBool b) \<Rightarrow> Some b | _ \<Rightarrow> None)"

definition sum_bind :: "exn + 'a \<Rightarrow> ('a \<Rightarrow> exn + 'b) \<Rightarrow> exn + 'b" where
  "sum_bind r k = (case r of Inl e \<Rightarrow> Inl e | Inr a \<Rightarrow> k a)"

definition request_of_payload :: "pydict \<Rightarrow> exn + request" where
  "request_of_payload d =
     sum_bind (field d ''language'' as_str) (\<lambda>lang.
     sum_bind (field d ''test_cases'' as_test_cases) (\<lambda>tcs.
     sum_bind (field d ''source_code'' as_str) (\<lambda>src.
     sum_bind (field d ''function_name'' as_str) (\<lambda>fname.
       Inr \<lparr>rq_language = lang, rq_source_code = src, rq_function_name = fname,
         rq_test_cases = tcs, rq_in_place = in_place_of d\<rparr>))))"

definition raw_of_payload :: "pydict \<Rightarrow> exn + raw_request" where
  "raw_of_payload d =
     sum_bind (field d ''language'' as_str) (\<lambda>lang.
     sum_bind (field d ''source_code'' as_str) (\<lambda>src.
     sum_bind (if dhas ''args'' d then field d ''args'' as_strings else Inr []) (\<lambda>args.
     sum_bind (if dhas ''stdin'' d then field d ''stdin'' as_str else Inr []) (\<lambda>stdin.
       Inr \<lparr>rw_language = lang, rw_source_code = src, rw_args = args, rw_stdin = stdin\<rparr>))))"

definition raw_json :: "raw_result \<Rightarrow> pydict" where
  "raw_json r = [(''stdout'', VStr (rr_stdout r)), (''stderr'', VStr (rr_stderr r)),
     (''exit_code'', VInt (rr_exit_code r))]"

text \<open>\<open>ExecutionPipeline(payload).execute()\<close>.\<close>

definition is_raw :: "pydict \<Rightarrow> bool" where
  "is_raw d = (case dget d ''is_raw'' of Some v \<Rightarrow> truthy v | None \<Rightarrow> False)"

definition execute_payload :: "'w env \<Rightarrow> pydict \<Rightarrow> ('w, pydict) io" where
  "execute_payload E payload =
     (if is_raw payload then
        io_bind (io_of_sum (raw_of_payload payload)) (\<lambda>req.
        io_bind (execute_raw E req) (\<lambda>r. io_return (raw_json r)))
      else
        io_bind (io_of_sum (request_of_payload payload)) (\<lambda>req.
        io_bind (execute E req) (\<lambda>v. io_return (verdict_json v))))"

section \<open>One job\<close>

text \<open>\<open>f"{age:.0f}"\<close>.\<close>

definition format_0f :: "pyfloat \<Rightarrow> string" where
  "format_0f x = (case x of
      Fin r \<Rightarrow> if r < 0 \<and> round_half_even r = 0 then ''-0'' else int_str (round_half_even r)
    | NegZero \<Rightarrow> ''-0'' | PosInf \<Rightarrow> ''inf'' | NegInf \<Rightarrow> ''-inf'' | NaN \<Rightarrow> ''nan'')"

definition error_result :: "string \<Rightarrow> pydict" where
  "error_result m = [(''verdict'', VStr ''error''), (''error_message'', VStr m)]"

text \<open>\<open>time.time() - job.get("enqueued_at", 0.0)\<close>.\<close>

definition job_age :: "pydict \<Rightarrow> pyfloat \<Rightarrow> exn + pyfloat" where
  "job_age job now = (case dget job ''enqueued_at'' of
      None \<Rightarrow> Inr (fsub now (Fin 0))
    | Some v \<Rightarrow> (case to_float v of Inl e \<Rightarrow> Inl e | Inr t \<Rightarrow> Inr (fsub now t)))"

definition job_name :: "pydict \<Rightarrow> string" where
  "job_name job = (case dget job ''job_id'' of None \<Rightarrow> ''unknown'' | Some v \<Rightarrow> py_str v)"

definition job_payload :: "pydict \<Rightarrow> exn + pydict" where
  "job_payload job = (case dget job ''payload'' of
      None \<Rightarrow> Inr []
    | Some v \<Rightarrow> (case as_dict v of None \<Rightarrow> Inl (OtherError ''AttributeError'') | Some d \<Rightarrow> Inr d))"

text \<open>The part of \<open>_process\<close> that is inside the \<open>try\<close> block, with its handlers.\<close>

definition run_job :: "'w env \<Rightarrow> string \<Rightarrow> pydict \<Rightarrow> ('w, unit) io" where
  "run_job E job_id payload =
     io_catch
       (io_bind (execute_payload E payload) (\<lambda>result. mark_done E job_id result))
       (\<lambda>e. if is_value_error e then mark_done E job_id (error_result (exn_str e))
            else mark_done E job_id (error_result ''Internal execution error''))"

definition process :: "'w env \<Rightarrow> string \<Rightarrow> ('w, unit) io" where
  "process E job_data = (case loads job_data of
      None \<Rightarrow> io_return ()
    | Some v \<Rightarrow> (case as_dict v of
        None \<Rightarrow> io_raise (OtherError ''AttributeError'')
      | Some job \<Rightarrow>
          io_bind (io_of_sum (job_payload job)) (\<lambda>payload.
          io_bind (time_now E) (\<lambda>now.
          io_bind (io_of_sum (job_age job now)) (\<lambda>age.
            if older_than age JOB_MAX_AGE
            then mark_done E (job_name job) (error_result (''Job expired after '' @ format_0f age @ ''s in queue''))
            else io_then (mark_running E (job_name job)) (run_job E (job_name job) payload))))))"

section \<open>A slot\<close>

definition WORKER_LANGUAGES :: "'w env \<Rightarrow> string list" where
  "WORKER_LANGUAGES E = filter (\<lambda>l. l \<noteq> []) (map strip
     (split_on CHR '','' (str_env E ''WORKER_LANGUAGES'' (join '','' LANGUAGE_QUEUES))))"

definition BRPOP_TIMEOUT :: int where "BRPOP_TIMEOUT = 2"

text \<open>The loop; an exception that \<open>_process\<close> lets out ends the slot.\<close>

fun slot_loop :: "nat \<Rightarrow> 'w env \<Rightarrow> string list \<Rightarrow> ('w, unit) io" where
  "slot_loop 0 E keys = io_raise Diverges"
| "slot_loop (Suc n) E keys = (\<lambda>w.
     if shutting_down E w then (Inr (), w)
     else io_bind
       (io_catch (io_bind (r_brpop E keys BRPOP_TIMEOUT) (\<lambda>item. io_return (Inr item)))
         (\<lambda>e. io_then (async_sleep E 1) (io_return (Inl e))))
       (\<lambda>polled. case polled of
          Inl _ \<Rightarrow> slot_loop n E keys
        | Inr None \<Rightarrow> slot_loop n E keys
        | Inr (Some (_, job_data)) \<Rightarrow> io_then (process E job_data) (slot_loop n E keys)) w)"

definition slot :: "'w env \<Rightarrow> ('w, unit) io" where
  "slot E = io_bind (io_of_sum (queue_keys_for_languages (WORKER_LANGUAGES E))) (slot_loop (loop_fuel E) E)"

section \<open>The process\<close>

text \<open>The depths that the reporter reads go to a gauge, which is left out.\<close>

fun queue_depth_reporter :: "nat \<Rightarrow> 'w env \<Rightarrow> ('w, unit) io" where
  "queue_depth_reporter 0 E = io_raise Diverges"
| "queue_depth_reporter (Suc n) E = (\<lambda>w.
     if shutting_down E w then (Inr (), w)
     else io_then (io_catch (io_then (queue_depths E) (io_return ())) (\<lambda>_. io_return ()))
       (io_then (async_sleep E 5) (queue_depth_reporter n E)) w)"

text \<open>\<open>sorted(set(WORKER_LANGUAGES) - set(LANGUAGE_QUEUES))\<close>\<close>

definition invalid_languages :: "'w env \<Rightarrow> string list" where
  "invalid_languages E = sort (remdups (filter (\<lambda>l. l \<notin> set LANGUAGE_QUEUES) (WORKER_LANGUAGES E)))"

text \<open>\<open>_main\<close>: the tasks given to \<open>asyncio.gather\<close>, or the \<open>ValueError\<close> before any of them starts.\<close>

definition worker_main :: "'w env \<Rightarrow> exn + ('w, unit) io list" where
  "worker_main E =
     (if invalid_languages E \<noteq> [] then
        Inl (ValueError (''Unsupported worker languages: '' @ join '', '' (invalid_languages E)))
      else Inr ([reaper_loop (loop_fuel E) E, ensure_pool_target E ''cpp-sandbox:latest'' (CPP_PREWARM_TARGET E),
          queue_depth_reporter (loop_fuel E) E] @ replicate (nat (WORKER_CONCURRENCY E)) (slot E)))"

text \<open>A worker that starts has queues to listen on: no slot ends with a \<open>ValueError\<close> for its languages.\<close>

lemma queue_keys_known: "set ls \<subseteq> set LANGUAGE_QUEUES \<Longrightarrow> queue_keys ls = Inr (map (\<lambda>l. QUEUE_KEY_PREFIX @ l) ls)"
  by (induction ls) (auto simp: queue_key_for_language_def)

lemma worker_main_slots_listen:
  assumes "worker_main E = Inr tasks"
  shows "\<exists>keys. queue_keys_for_languages (WORKER_LANGUAGES E) = Inr keys \<and> keys \<noteq> [] \<and>
    slot E = slot_loop (loop_fuel E) E keys"
proof -
  have "set (invalid_languages E) = set (WORKER_LANGUAGES E) - set LANGUAGE_QUEUES"
    by (auto simp: invalid_languages_def)
  moreover have "invalid_languages E = []" using assms by (simp add: worker_main_def split: if_splits)
  ultimately have "set (WORKER_LANGUAGES E) \<subseteq> set LANGUAGE_QUEUES" by simp
  then show ?thesis
    by (auto simp: queue_keys_for_languages_def queue_keys_known slot_def LANGUAGE_QUEUES_def)
qed

lemma reaper_loop_endless:
  assumes "\<forall>w. \<exists>w'. async_sleep E 30 w = (Inr (), w')"
  shows "\<exists>w'. reaper_loop n E w = (Inl Diverges, w')"
proof (induction n arbitrary: w)
  case 0
  then show ?case by simp
next
  case (Suc n)
  obtain w1 where sleep: "async_sleep E 30 w = (Inr (), w1)" using assms by blast
  obtain r w2 where reap: "io_catch (reap_once E) (\<lambda>_. io_return ()) w1 = (r, w2)" by fastforce
  have "r = Inl Diverges \<or> r = Inr ()"
    using reap by (auto simp: io_catch_def split: prod.splits sum.splits if_splits)
  then show ?case using Suc.IH [of w2] sleep reap by (auto simp: io_then_def io_bind_def)
qed

section \<open>Properties\<close>

text \<open>C37. A worker that has started never ends by itself: the first of the tasks that \<open>_main\<close> waits for is
  the reaper, which does not look at the shutdown flag; whatever state the process is in, also after a
  signal has set that flag and all slots have ended, the reaper uses up every amount of fuel, so that
  \<open>asyncio.gather\<close> never returns.\<close>

theorem worker_never_shuts_down:
  assumes "worker_main E = Inr tasks" and "\<forall>w. \<exists>w'. async_sleep E 30 w = (Inr (), w')"
  shows "tasks \<noteq> [] \<and> hd tasks = reaper_loop (loop_fuel E) E \<and> (\<exists>w'. hd tasks w = (Inl Diverges, w'))"
  using assms(1) reaper_loop_endless [OF assms(2), of "loop_fuel E" w]
  by (auto simp: worker_main_def split: if_splits)

definition stopping_worker :: "unit env" where
  "stopping_worker = offline\<lparr>getenv := (\<lambda>n. if n = ''WORKER_LANGUAGES'' then Some ''python, cpp'' else None),
     async_sleep := (\<lambda>_. io_return ()), shutting_down := (\<lambda>_. True), loop_fuel := 1000\<rparr>"

theorem worker_never_shuts_down_witness:
  "\<exists>tasks w'. worker_main stopping_worker = Inr tasks \<and> shutting_down stopping_worker () \<and>
    hd tasks () = (Inl Diverges, w')"
proof -
  have "WORKER_LANGUAGES stopping_worker = [''python'', ''cpp'']" by code_simp
  then obtain tasks where t: "worker_main stopping_worker = Inr tasks"
    by (simp add: worker_main_def invalid_languages_def LANGUAGE_QUEUES_def)
  have "\<forall>w. \<exists>w'. async_sleep stopping_worker 30 w = (Inr (), w')" "shutting_down stopping_worker ()"
    by (simp_all add: stopping_worker_def)
  then show ?thesis using worker_never_shuts_down [OF t, of "()"] t by blast
qed

end
