(* ===== verification/Api.thy ===== *)
theory Api
  imports Worker
begin

text \<open>
  \<open>api/main.py\<close> and \<open>api/schemas.py\<close>: the constraints on requests, the two endpoints that execute
  code (through the queue, or directly when Redis is down) and the health check. The tracing context
  that the API adds to a payload is left out.
\<close>

section \<open>Requests (\<open>api/schemas.py\<close>)\<close>

definition LANGUAGES :: "string list" where
  "LANGUAGES = [''python'', ''javascript'', ''c'', ''java'', ''kotlin'', ''go'', ''rust'',
     ''typescript'', ''cpp'', ''csharp'']"

definition ExecuteRequest :: "request \<Rightarrow> bool" where
  "ExecuteRequest r \<longleftrightarrow> rq_language r \<in> set LANGUAGES \<and>
     1 \<le> length (rq_source_code r) \<and> length (rq_source_code r) \<le> 5000 \<and>
     1 \<le> length (rq_function_name r) \<and> length (rq_function_name r) \<le> 100 \<and>
     1 \<le> length (rq_test_cases r) \<and> length (rq_test_cases r) \<le> 20"

definition RawExecuteRequest :: "raw_request \<Rightarrow> bool" where
  "RawExecuteRequest r \<longleftrightarrow> rw_language r \<in> set LANGUAGES \<and>
     1 \<le> length (rw_source_code r) \<and> length (rw_source_code r) \<le> 50000 \<and>
     length (rw_stdin r) \<le> 10000 \<and> length (rw_args r) \<le> 100"

definition dump_test_case :: "test_case \<Rightarrow> pyval" where
  "dump_test_case tc = VDict [(''input'', VDict (tc_input tc)), (''expected_output'', expected_output tc)]"

definition model_dump :: "request \<Rightarrow> pydict" where
  "model_dump r =
     [(''language'', VStr (rq_language r)), (''source_code'', VStr (rq_source_code r)),
      (''function_name'', VStr (rq_function_name r)),
      (''test_cases'', VList (map dump_test_case (rq_test_cases r))),
      (''in_place'', (case rq_in_place r of None \<Rightarrow> VNone | Some b \<Rightarrow> VBool b))]"

definition raw_model_dump :: "raw_request \<Rightarrow> pydict" where
  "raw_model_dump r =
     [(''language'', VStr (rw_language r)), (''source_code'', VStr (rw_source_code r)),
      (''stdin'', VStr (rw_stdin r)), (''args'', VList (map VStr (rw_args r)))]"

text \<open>The response models: which dictionaries they accept.\<close>

definition index_ok :: "pyval \<Rightarrow> bool" where
  "index_ok v = (case v of VInt n \<Rightarrow> 0 \<le> n | _ \<Rightarrow> False)"

definition message_ok :: "nat option \<Rightarrow> pyval \<Rightarrow> bool" where
  "message_ok bound v = (case v of VStr m \<Rightarrow> (case bound of None \<Rightarrow> True | Some n \<Rightarrow> length m \<le> n) | _ \<Rightarrow> False)"

fun verdict_ok :: "verdict \<Rightarrow> bool" where
  "verdict_ok (Accepted outs) = True"
| "verdict_ok (WrongAnswer i a e) = True"
| "verdict_ok (RuntimeErrorVerdict i m) = (index_ok i \<and> length m \<le> 1000)"
| "verdict_ok (CompilationError m) = (length m \<le> 1000)"
| "verdict_ok (TimeoutVerdict i) = index_ok i"
| "verdict_ok (ErrorVerdict m) = True"

section \<open>Endpoints (\<open>api/main.py\<close>)\<close>

definition is_redis_error :: "exn \<Rightarrow> bool" where
  "is_redis_error e = (case e of RedisError _ \<Rightarrow> True | OSError _ \<Rightarrow> True | _ \<Rightarrow> False)"

definition is_overflow_error :: "exn \<Rightarrow> bool" where
  "is_overflow_error e = (case e of OverflowError _ \<Rightarrow> True | _ \<Rightarrow> False)"

text \<open>\<open>None\<close>: Redis is unavailable, the request is to be executed directly.\<close>

definition wait_for_queued_result :: "'w env \<Rightarrow> pydict \<Rightarrow> ('w, pyval option) io" where
  "wait_for_queued_result E payload =
     io_try (enqueue E payload)
       (\<lambda>e. if is_overflow_error e then io_raise (HTTPException 503 ''Queue at capacity - try again shortly'')
            else if is_redis_error e then io_return None
            else io_raise e)
       (\<lambda>job_id.
         io_bind
           (io_catch (wait_for_job_result E job_id (QUEUE_RESULT_TIMEOUT_SECONDS E))
             (\<lambda>e. if is_redis_error e then io_raise (HTTPException 503 ''Result store unavailable'')
                  else io_raise e))
           (\<lambda>result. case result of
              None \<Rightarrow> io_raise (HTTPException 504 ''Execution timed out'')
            | Some content \<Rightarrow> io_return (Some content)))"

definition execute_direct :: "'w env \<Rightarrow> pydict \<Rightarrow> ('w, pyval) io" where
  "execute_direct E payload =
     io_bind (sem_acquire E 30) (\<lambda>got. case got of
       TimedOut \<Rightarrow> io_raise (HTTPException 503
         ''Server busy - Redis is unavailable and the fallback queue is full'')
     | Finished _ \<Rightarrow>
         io_finally
           (io_catch (io_bind (execute_payload E payload) (\<lambda>result. io_return (VDict result)))
             (\<lambda>e. if is_value_error e then io_raise (HTTPException 400 (exn_str e)) else io_raise e))
           (sem_release E))"

definition api_execute :: "'w env \<Rightarrow> request \<Rightarrow> ('w, pyval) io" where
  "api_execute E req =
     io_bind (wait_for_queued_result E (model_dump req)) (\<lambda>response. case response of
       Some content \<Rightarrow> io_return content
     | None \<Rightarrow> execute_direct E (model_dump req))"

definition raw_payload :: "raw_request \<Rightarrow> pydict" where
  "raw_payload req = raw_model_dump req @ [(''is_raw'', VBool True)]"

definition api_execute_raw :: "'w env \<Rightarrow> raw_request \<Rightarrow> ('w, pyval) io" where
  "api_execute_raw E req =
     io_bind (wait_for_queued_result E (raw_payload req)) (\<lambda>response. case response of
       Some content \<Rightarrow> io_return content
     | None \<Rightarrow> execute_direct E (raw_payload req))"

definition health :: "'w env \<Rightarrow> ('w, pydict) io" where
  "health E =
     io_catch
       (io_bind (queue_depths E) (\<lambda>depths. io_return
          [(''ok'', VBool True), (''redis'', VStr ''up''),
           (''queue_depth'', (case map_of depths ''total'' of Some n \<Rightarrow> VInt (int n) | None \<Rightarrow> VNone)),
           (''queue_depths'', VDict (map (\<lambda>(l, n). (l, VInt (int n))) depths))]))
       (\<lambda>e. if is_redis_error e
            then io_return [(''ok'', VBool True), (''redis'', VStr ''down''), (''fallback'', VStr ''direct execution'')]
            else io_raise e)"

section \<open>From the API to the worker\<close>

lemma all_some_map: "all_some (map (\<lambda>x. Some (f x)) xs) = Some (map f xs)"
  by (induction xs) auto

lemma as_test_case_dump: "as_test_case (dump_test_case tc) = Some tc"
  by (simp add: as_test_case_def dump_test_case_def dget_def)

lemma request_of_model_dump: "request_of_payload (model_dump r) = Inr r"
proof -
  have "all_some (map (as_test_case \<circ> dump_test_case) tcs) = Some tcs" for tcs
    using all_some_map [of "\<lambda>x. x" tcs] by (simp add: as_test_case_dump comp_def)
  then show ?thesis
    by (auto simp: request_of_payload_def model_dump_def sum_bind_def field_def dget_def as_test_cases_def
        in_place_of_def split: option.splits)
qed

lemma raw_of_raw_payload: "raw_of_payload (raw_payload r) = Inr r" "is_raw (raw_payload r)"
  "\<not> is_raw (model_dump q)"
  using all_some_map [of "\<lambda>x. x" "rw_args r"]
  by (auto simp: raw_of_payload_def raw_payload_def raw_model_dump_def sum_bind_def field_def dget_def dhas_def
      as_strings_def is_raw_def model_dump_def comp_def)

section \<open>Properties\<close>

text \<open>C30. What the API queues is what the worker runs: the job record written for a validated request,
  decoded from JSON, leads the worker to execute exactly that request.\<close>

theorem queued_request_roundtrip:
  assumes "json_ok (job_record job_id (model_dump req) now)"
  shows "\<exists>job. loads (dumps (job_record job_id (model_dump req) now)) = Some (VDict job) \<and>
    job_payload job = Inr (model_dump req) \<and> job_name job = job_id \<and>
    execute_payload E (model_dump req) =
      io_bind (execute E req) (\<lambda>v. io_return (verdict_json v))"
  using loads_dumps [OF assms]
  by (auto simp: job_record_def job_payload_def job_name_def dget_def execute_payload_def
      request_of_model_dump raw_of_raw_payload py_str_def fun_eq_iff)

theorem queued_request_roundtrip_witness:
  "\<exists>job. loads (dumps (job_record ''j1'' (model_dump lab_request) (Fin 0))) = Some (VDict job) \<and>
    job_payload job = Inr (model_dump lab_request) \<and> job_name job = ''j1'' \<and>
    execute_payload lab (model_dump lab_request) =
      io_bind (execute lab lab_request) (\<lambda>v. io_return (verdict_json v))"
proof (rule queued_request_roundtrip)
  show "json_ok (job_record ''j1'' (model_dump lab_request) (Fin 0))" by code_simp
qed

text \<open>C32. A validated request never fails for its language: every language the schema allows has an
  executor, a queue and a raw configuration.\<close>

theorem validated_language_supported:
  assumes "ExecuteRequest req"
  shows "(\<exists>ex. get_executor E (rq_language req) src fname = Inr ex) \<and>
    queue_key_for_language (rq_language req) = Inr (''exec:queue:'' @ rq_language req) \<and>
    map_of LANG_CONFIG (rq_language req) \<noteq> None"
  using assms
  by (auto simp: ExecuteRequest_def LANGUAGES_def get_executor_def registry_def queue_key_for_language_def
      LANGUAGE_QUEUES_def QUEUE_KEY_PREFIX_def LANG_CONFIG_def)

theorem validated_language_supported_witness:
  "queue_key_for_language ''python'' = Inr ''exec:queue:python'' \<and> map_of LANG_CONFIG ''python'' \<noteq> None"
  using validated_language_supported [of lab_request "with_state lab" "[]" "[]"]
  by (simp add: lab_request_def ExecuteRequest_def LANGUAGES_def)

section \<open>Redis down\<close>

lemma obtain_container_redis_down:
  assumes "get_sandbox_roots E = Inr roots" and "acquire E (st_image sp) w = (Inl (RedisError m), w1)"
  shows "obtain_container (with_state E) sp (w, s) = (Inl (RedisError m), (w1, s))"
  using assms by (cases roots) (simp add: obtain_container_def lift_simps)

lemma acquire_redis_down:
  assumes "\<forall>k. r_rpop E k w = (Inl (RedisError m), w1)" and "0 < loop_fuel E"
  shows "acquire E img w = (Inl (RedisError m), w1)"
proof -
  obtain n where "loop_fuel E = Suc n" using assms(2) by (cases "loop_fuel E") auto
  then show ?thesis using assms(1) by (simp add: acquire_def)
qed

lemma compile_redis_down:
  assumes "get_executor (with_state E) lang src fname = Inr ex" and "py_compile E src = None"
    and "\<And>sp s. obtain_container (with_state E) sp (w, s) = (Inl (RedisError m), (w1, s))"
  shows "ex_compile ex (w, s) = (Inl (RedisError m), (w1, s))"
  using get_executor_cases [OF assms(1)] assms(2,3)
  by (elim insertE emptyE)
    (simp_all add: PythonExecutor_def JavaScriptExecutor_def TypeScriptExecutor_def JavaExecutor_def
      KotlinExecutor_def CSharpExecutor_def CppExecutor_def GoExecutor_def CExecutor_def RustExecutor_def
      python_compile_def js_compile_def ts_compile_def java_compile_def kotlin_compile_def
      csharp_compile_def cpp_compile_def go_compile_def c_compile_def rust_compile_def lift_simps)

lemma execute_redis_down:
  assumes "ExecuteRequest req" and "py_compile E (rq_source_code req) = None" and "get_sandbox_roots E = Inr roots"
    and "\<forall>k. r_rpop E k w = (Inl (RedisError m), w1)" and "0 < loop_fuel E"
  shows "execute E req w = (Inl (RedisError m), w1)"
proof -
  let ?E = "with_state E :: ('a \<times> exec_state) env"
  obtain ex where ex: "get_executor ?E (rq_language req) (rq_source_code req) (rq_function_name req) = Inr ex"
    using assms(1) by (auto simp: ExecuteRequest_def LANGUAGES_def get_executor_def registry_def)
  obtain img where "executor E ex img" using get_executor_contract [OF ex] by blast
  then have "ex_cleanup ex (w1, init_state) = (Inr (), (w1, init_state))"
    by (simp add: executor.cleanup_shared cleanup_idle)
  moreover have "ex_compile ex (w, init_state) = (Inl (RedisError m), (w1, init_state))"
    using compile_redis_down [OF ex assms(2)] obtain_container_redis_down [OF assms(3)]
      acquire_redis_down [OF assms(4,5)] by blast
  ultimately show ?thesis
    using ex by (simp add: execute_def run_request_def judge_def io_finally_def io_try_def compile_failure_def)
qed

text \<open>With Redis down the raw endpoint still answers: if the queue cannot be reached, the program
  is run directly and its result returned, and the fallback slot it took is given back.\<close>

lemma api_raw_falls_back_to_direct:
  assumes "enqueue E (raw_payload req) w = (Inl e, w1)" and "is_redis_error e"
    and "sem_acquire E 30 w1 = (Inr (Finished ()), w2)"
    and "execute_raw E req w2 = (Inr res, w3)" and "sem_release E w3 = (Inr (), w4)"
  shows "api_execute_raw E req w = (Inr (VDict (raw_json res)), w4)"
proof -
  have "e \<noteq> Diverges" "\<not> is_overflow_error e"
    using assms(2) by (auto simp: is_redis_error_def is_overflow_error_def split: exn.splits)
  then have "wait_for_queued_result E (raw_payload req) w = (Inr None, w1)"
    using assms(1,2) by (simp add: wait_for_queued_result_def io_try_def)
  moreover have "execute_payload E (raw_payload req) w2 = (Inr (raw_json res), w3)"
    using assms(4) by (simp add: execute_payload_def raw_of_raw_payload)
  ultimately show ?thesis
    using assms(3,5) by (simp add: api_execute_raw_def execute_direct_def io_finally_def)
qed

text \<open>Files and processes work, Redis is down.\<close>

definition no_redis :: "string list env" where
  "no_redis = dir_env\<lparr>loop_fuel := 1\<rparr>"

lemma enqueue_no_redis:
  "dget payload ''language'' = Some (VStr ''python'') \<Longrightarrow> enqueue no_redis payload w = (Inl (RedisError []), w)"
  by (simp add: enqueue_def subscript_def queue_key_of_value_def queue_key_for_language_def LANGUAGE_QUEUES_def
      no_redis_def dir_env_def offline_def)

lemma no_redis_facts:
  "get_sandbox_roots no_redis = Inr (''/sandbox'', ''/host'')" "mkdtemp no_redis = mkdtemp dir_env"
  "rmtree no_redis = rmtree dir_env" "write_file no_redis = write_file dir_env"
  "communicate no_redis = communicate dir_env" "utf8 no_redis = utf8 dir_env"
  using dir_env_facts(1) by (simp_all add: no_redis_def get_sandbox_roots_def str_env_def)

lemma api_raw_falls_back_to_direct_witness:
  "api_execute_raw no_redis raw_hello [] =
     (Inr (VDict (raw_json \<lparr>rr_stdout = ''ok'', rr_stderr = [], rr_exit_code = 0\<rparr>)), [])"
proof (rule api_raw_falls_back_to_direct)
  show "enqueue no_redis (raw_payload raw_hello) [] = (Inl (RedisError []), [])"
    by (rule enqueue_no_redis) (simp add: raw_payload_def raw_model_dump_def raw_hello_def dget_def)
  show "execute_raw no_redis raw_hello [] = (Inr \<lparr>rr_stdout = ''ok'', rr_stderr = [], rr_exit_code = 0\<rparr>, [])"
    by (simp add: execute_raw_def raw_hello_def no_redis_facts dir_env_facts raw_run_def io_finally_def)
qed (simp_all add: is_redis_error_def no_redis_def dir_env_def offline_def)

text \<open>C36. With Redis down the judge endpoint does not: the direct execution it falls back to needs
  Redis itself, for the pool of warm containers, so that every validated request whose code compiles
  ends in the Redis error that the fallback was there to survive.\<close>

theorem api_judge_fallback_needs_redis:
  assumes "ExecuteRequest req" and "py_compile E (rq_source_code req) = None" and "get_sandbox_roots E = Inr roots"
    and "0 < loop_fuel E"
    and "enqueue E (model_dump req) w = (Inl e, w1)" and "is_redis_error e"
    and "sem_acquire E 30 w1 = (Inr (Finished ()), w2)"
    and "\<forall>k. r_rpop E k w2 = (Inl (RedisError m), w3)" and "sem_release E w3 = (Inr (), w4)"
  shows "api_execute E req w = (Inl (RedisError m), w4)"
proof -
  have "e \<noteq> Diverges" "\<not> is_overflow_error e"
    using assms(6) by (auto simp: is_redis_error_def is_overflow_error_def split: exn.splits)
  then have "wait_for_queued_result E (model_dump req) w = (Inr None, w1)"
    using assms(5,6) by (simp add: wait_for_queued_result_def io_try_def)
  moreover have "execute_payload E (model_dump req) w2 = (Inl (RedisError m), w3)"
    using execute_redis_down [OF assms(1-3,8,4)]
    by (simp add: execute_payload_def request_of_model_dump raw_of_raw_payload)
  ultimately show ?thesis
    using assms(7,9) by (simp add: api_execute_def execute_direct_def io_finally_def is_value_error_def)
qed

theorem api_judge_fallback_needs_redis_witness:
  "api_execute no_redis lab_request [] = (Inl (RedisError []), [])"
proof (rule api_judge_fallback_needs_redis)
  show "ExecuteRequest lab_request" by (simp add: lab_request_def ExecuteRequest_def LANGUAGES_def)
  show "get_sandbox_roots no_redis = Inr (''/sandbox'', ''/host'')" by (fact no_redis_facts)
  show "enqueue no_redis (model_dump lab_request) [] = (Inl (RedisError []), [])"
    by (rule enqueue_no_redis) (simp add: model_dump_def lab_request_def dget_def)
qed (simp_all add: is_redis_error_def no_redis_def dir_env_def offline_def)

section \<open>The worker answers\<close>

text \<open>Redis accepts the writes of a job's status and result.\<close>

definition writes_ok :: "'w env \<Rightarrow> bool" where
  "writes_ok E \<longleftrightarrow> (\<forall>k v t w. \<exists>w'. r_set E k v t w = (Inr (), w')) \<and>
     (\<forall>k v w. \<exists>w'. r_lpush E k v w = (Inr (), w')) \<and> (\<forall>k t w. \<exists>w'. r_expire E k t w = (Inr (), w'))"

lemma mark_done_ok: "writes_ok E \<Longrightarrow> \<exists>w'. mark_done E job_id res w = (Inr (), w')"
proof -
  assume ok: "writes_ok E"
  let ?status = "dumps (VDict [(''status'', VStr ''done''), (''result'', VDict res)])"
  obtain w1 where w1: "r_set E (job_key job_id) ?status (Some RESULT_TTL) w = (Inr (), w1)"
    using ok unfolding writes_ok_def by blast
  obtain w2 where w2: "r_lpush E (result_key job_id) (dumps (VDict res)) w1 = (Inr (), w2)"
    using ok unfolding writes_ok_def by blast
  obtain w3 where w3: "r_expire E (result_key job_id) RESULT_TTL w2 = (Inr (), w3)"
    using ok unfolding writes_ok_def by blast
  from w1 w2 w3 show ?thesis by (simp add: mark_done_def del: dumps.simps)
qed

lemma mark_done_answers: "writes_ok E \<Longrightarrow> mark_done E job_id res w = (r, w') \<Longrightarrow> r = Inr ()"
  using mark_done_ok [of E job_id res w] by auto

lemma run_job_answers:
  assumes "writes_ok E" and "run_job E job_id payload w = (r, w')" and "r \<noteq> Inl Diverges"
  shows "\<exists>res w1. mark_done E job_id res w1 = (r, w')"
proof -
  obtain x w1 where x: "execute_payload E payload w = (x, w1)" by (cases "execute_payload E payload w")
  show ?thesis
  proof (cases x)
    case (Inl e)
    let ?res = "error_result (if is_value_error e then exn_str e else ''Internal execution error'')"
    have "e \<noteq> Diverges" using assms(2,3) x Inl by (auto simp: run_job_def io_catch_def)
    then have "mark_done E job_id ?res w1 = (r, w')" using assms(2) x Inl by (auto simp: run_job_def)
    then show ?thesis by blast
  next
    case (Inr res)
    obtain w2 where "mark_done E job_id res w1 = (Inr (), w2)" using mark_done_ok [OF assms(1)] by blast
    then show ?thesis using assms(2) x Inr by (auto simp: run_job_def)
  qed
qed

text \<open>C31. Every job is answered: if Redis accepts the writes, then whatever the pipeline does with a
  job (a verdict, any exception, an expired job), \<open>_process\<close> returns and the last thing it does is to
  publish a result for that job.\<close>

theorem process_answers_every_job:
  assumes "writes_ok E" and "loads job_data = Some (VDict job)" and "job_payload job = Inr payload"
    and "time_now E w = (Inr now, w0)" and "job_age job now = Inr age"
    and "process E job_data w = (r, w')" and "r \<noteq> Inl Diverges"
  shows "r = Inr () \<and> (\<exists>res w1. mark_done E (job_name job) res w1 = (Inr (), w'))"
proof -
  have "\<exists>res w1. mark_done E (job_name job) res w1 = (r, w')"
  proof (cases "older_than age JOB_MAX_AGE")
    case True
    then show ?thesis using assms(2-6) by (auto simp: process_def)
  next
    case False
    obtain w1 where "mark_running E (job_name job) w0 = (Inr (), w1)"
      using assms(1) unfolding writes_ok_def mark_running_def by blast
    then have "run_job E (job_name job) payload w1 = (r, w')"
      using assms(2-6) False by (simp add: process_def)
    then show ?thesis using run_job_answers [OF assms(1)] assms(7) by blast
  qed
  then show ?thesis using mark_done_answers [OF assms(1)] by blast
qed

text \<open>A Redis that takes every write, and a job whose payload is empty.\<close>

definition write_only :: "unit env" where
  "write_only = offline\<lparr>r_set := (\<lambda>_ _ _. io_return ()), r_lpush := (\<lambda>_ _. io_return ()),
     r_expire := (\<lambda>_ _. io_return ())\<rparr>"

definition empty_job :: pydict where
  "empty_job = [(''job_id'', VStr ''j1''), (''payload'', VDict [])]"

lemma empty_job_facts:
  "loads (dumps (VDict empty_job)) = Some (VDict empty_job)" "job_payload empty_job = Inr []"
  "job_name empty_job = ''j1''" "job_age empty_job (Fin 0) = Inr (Fin 0)" "\<not> older_than (Fin 0) JOB_MAX_AGE"
  by code_simp+

theorem process_answers_every_job_witness:
  "\<exists>res w1. mark_done write_only ''j1'' res w1 = (Inr (), ())"
proof -
  have "writes_ok write_only" by (simp add: writes_ok_def write_only_def)
  moreover have "process write_only (dumps (VDict empty_job)) () = (Inr (), ())"
    by (simp add: process_def empty_job_facts write_only_def offline_def run_job_def mark_done_def mark_running_def
        execute_payload_def is_raw_def dget_def request_of_payload_def sum_bind_def field_def is_value_error_def
        del: dumps.simps)
  moreover have "time_now write_only () = (Inr (Fin 0), ())" by (simp add: write_only_def offline_def)
  ultimately show ?thesis
    using process_answers_every_job [of write_only _ empty_job "[]" "()" "Fin 0" "()" "Fin 0" "Inr ()" "()"]
      empty_job_facts by (metis sum.distinct(1))
qed

text \<open>A slot does not survive a failed status write: errors of \<open>BRPOP\<close> are retried, but if Redis
  fails when a job is marked as running, the exception ends the slot although no shutdown was asked
  for, and the job it had taken is lost.\<close>

lemma slot_dies_on_failed_status_write:
  assumes "\<not> shutting_down E w" and "r_brpop E keys BRPOP_TIMEOUT w = (Inr (Some (k, job_data)), w1)"
    and "loads job_data = Some (VDict job)" and "job_payload job = Inr payload"
    and "time_now E w1 = (Inr now, w2)" and "job_age job now = Inr age" and "\<not> older_than age JOB_MAX_AGE"
    and "r_set E (job_key (job_name job)) (status_record ''running'') (Some RESULT_TTL) w2 = (Inl (RedisError m), w3)"
  shows "slot_loop (Suc n) E keys w = (Inl (RedisError m), w3)"
proof -
  have "process E job_data w1 = (Inl (RedisError m), w3)"
    using assms(3-8) by (simp add: process_def mark_running_def)
  then show ?thesis using assms(1,2) by simp
qed

definition read_only :: "unit env" where
  "read_only = offline\<lparr>r_brpop := (\<lambda>_ _. io_return (Some (''q'', dumps (VDict empty_job))))\<rparr>"

lemma slot_dies_on_failed_status_write_witness:
  "slot_loop (Suc 5) read_only [''exec:queue:python''] () = (Inl (RedisError []), ())"
proof (rule slot_dies_on_failed_status_write)
  show "r_brpop read_only [''exec:queue:python''] BRPOP_TIMEOUT () =
      (Inr (Some (''q'', dumps (VDict empty_job))), ())"
    by (simp add: read_only_def del: dumps.simps)
  show "job_payload empty_job = Inr []" "job_age empty_job (Fin 0) = Inr (Fin 0)"
    "\<not> older_than (Fin 0) JOB_MAX_AGE" by (fact empty_job_facts)+
qed (simp_all add: empty_job_facts read_only_def offline_def del: dumps.simps)

end
