(* ===== verification/RedisLaws.thy ===== *)
theory RedisLaws
  imports Env
begin

text \<open>
  What the code relies on of the services it calls, as named predicates on an environment: the
  documented behaviour of Redis's list commands, that the other operations leave the lists alone, and
  that processes without a time limit end.
\<close>

section \<open>Redis lists\<close>

text \<open>The documented behaviour of the list commands, seen through a view of the world's lists: each
  command answers and has its effect on the lists; the other operations leave the lists alone.\<close>

definition answers :: "('w \<Rightarrow> string \<Rightarrow> string list) \<Rightarrow> ('w, 'a) io \<Rightarrow>
    ((string \<Rightarrow> string list) \<Rightarrow> 'a) \<Rightarrow> ((string \<Rightarrow> string list) \<Rightarrow> string \<Rightarrow> string list) \<Rightarrow> bool" where
  "answers lst m a f \<longleftrightarrow> (\<forall>w. \<exists>w'. m w = (Inr (a (lst w)), w') \<and> lst w' = f (lst w))"

definition keeps_lists :: "('w \<Rightarrow> string \<Rightarrow> string list) \<Rightarrow> ('w, 'a) io \<Rightarrow> bool" where
  "keeps_lists lst m \<longleftrightarrow> (\<forall>w. lst (snd (m w)) = lst w)"

definition redis_lists :: "'w env \<Rightarrow> ('w \<Rightarrow> string \<Rightarrow> string list) \<Rightarrow> bool" where
  "redis_lists E lst \<longleftrightarrow>
     (\<forall>k. answers lst (r_llen E k) (\<lambda>l. length (l k)) (\<lambda>l. l)) \<and>
     (\<forall>k v. answers lst (r_lpush E k v) (\<lambda>l. ()) (\<lambda>l. l(k := v # l k))) \<and>
     (\<forall>k vs. answers lst (r_rpush E k vs) (\<lambda>l. ()) (\<lambda>l. l(k := l k @ vs))) \<and>
     (\<forall>k. answers lst (r_rpop E k) (\<lambda>l. if l k = [] then None else Some (last (l k))) (\<lambda>l. l(k := butlast (l k)))) \<and>
     (\<forall>k. answers lst (r_lrange E k) (\<lambda>l. l k) (\<lambda>l. l)) \<and>
     (\<forall>k. answers lst (r_delete E k) (\<lambda>l. ()) (\<lambda>l. l(k := [])))"

definition quiet_rest :: "'w env \<Rightarrow> ('w \<Rightarrow> string \<Rightarrow> string list) \<Rightarrow> bool" where
  "quiet_rest E lst \<longleftrightarrow>
     (\<forall>c i t. keeps_lists lst (communicate E c i t)) \<and> (\<forall>c. keeps_lists lst (kill_proc E c)) \<and>
     keeps_lists lst (time_now E) \<and> (\<forall>d. keeps_lists lst (rmtree E d)) \<and>
     (\<forall>x. keeps_lists lst (put_image_ids E x))"

text \<open>A process without a time limit comes to an end.\<close>

definition procs_end :: "'w env \<Rightarrow> bool" where
  "procs_end E \<longleftrightarrow> (\<forall>c i w. fst (communicate E c i None w) \<noteq> Inr TimedOut) \<and>
     (\<forall>c i t w. fst (communicate E c i t w) \<noteq> Inl Diverges) \<and> (\<forall>w. fst (time_now E w) \<noteq> Inl Diverges) \<and>
     (\<forall>x w. fst (put_image_ids E x w) \<noteq> Inl Diverges)"

lemma answersE:
  assumes "answers lst m a f"
  obtains w' where "m w = (Inr (a (lst w)), w')" "lst w' = f (lst w)"
  using assms by (auto simp: answers_def)

lemma redis_listsD:
  assumes "redis_lists E lst"
  shows "answers lst (r_llen E k) (\<lambda>l. length (l k)) (\<lambda>l. l)"
    "answers lst (r_lpush E k v) (\<lambda>l. ()) (\<lambda>l. l(k := v # l k))"
    "answers lst (r_rpush E k vs) (\<lambda>l. ()) (\<lambda>l. l(k := l k @ vs))"
    "answers lst (r_rpop E k) (\<lambda>l. if l k = [] then None else Some (last (l k))) (\<lambda>l. l(k := butlast (l k)))"
    "answers lst (r_lrange E k) (\<lambda>l. l k) (\<lambda>l. l)"
    "answers lst (r_delete E k) (\<lambda>l. ()) (\<lambda>l. l(k := []))"
  using assms by (simp_all add: redis_lists_def)

named_theorems keeps_intros \<open>code that leaves the lists alone\<close>

lemma keeps_return [keeps_intros]: "keeps_lists lst (io_return a)"
  and keeps_raise [keeps_intros]: "keeps_lists lst (io_raise e)"
  by (simp_all add: keeps_lists_def)

lemma keeps_bind [keeps_intros]: "keeps_lists lst m \<Longrightarrow> (\<And>a. keeps_lists lst (k a)) \<Longrightarrow> keeps_lists lst (io_bind m k)"
  by (auto simp: keeps_lists_def io_bind_def split: prod.splits sum.splits) (metis snd_conv)+

lemma keeps_then [keeps_intros]: "keeps_lists lst m \<Longrightarrow> keeps_lists lst k \<Longrightarrow> keeps_lists lst (io_then m k)"
  unfolding io_then_def by (rule keeps_bind)

lemma keeps_create_task [keeps_intros]: "keeps_lists lst m \<Longrightarrow> keeps_lists lst (create_task m)"
  by (simp add: keeps_lists_def)

lemma keeps_of_sum [keeps_intros]: "keeps_lists lst (io_of_sum r)"
  by (cases r) (simp_all add: keeps_lists_def)

lemma keeps_state: "(\<And>w. keeps_lists lst (m w)) \<Longrightarrow> keeps_lists lst (\<lambda>w. m w w)"
  by (simp add: keeps_lists_def)

section \<open>A concrete Redis\<close>

text \<open>An environment in which Redis works and the world is its lists; everything else is down. The
  laws can hold: the witnesses of the properties that assume them are built on it.\<close>

definition list_store :: "(string \<Rightarrow> string list) env" where
  "list_store = offline\<lparr>
     r_llen := (\<lambda>k l. (Inr (length (l k)), l)), r_lpush := (\<lambda>k v l. (Inr (), l(k := v # l k))),
     r_rpush := (\<lambda>k vs l. (Inr (), l(k := l k @ vs))),
     r_rpop := (\<lambda>k l. (Inr (if l k = [] then None else Some (last (l k))), l(k := butlast (l k)))),
     r_blpop := (\<lambda>k t l. (Inr (if l k = [] then None else Some (hd (l k))), l(k := tl (l k)))),
     r_brpop := (\<lambda>ks t l. (Inr (if l (hd ks) = [] then None else Some (hd ks, last (l (hd ks)))),
       l(hd ks := butlast (l (hd ks))))),
     r_lrange := (\<lambda>k l. (Inr (l k), l)), r_delete := (\<lambda>k l. (Inr (), l(k := []))),
     r_set := (\<lambda>k v t. io_return ()), r_expire := (\<lambda>k t. io_return ()), r_set_nx := (\<lambda>k v t. io_return False) \<rparr>"

lemma list_store_lists: "redis_lists list_store (\<lambda>l. l)"
  by (simp add: redis_lists_def answers_def list_store_def offline_def)

end
