(* ===== verification/PoolFrame.thy ===== *)
theory PoolFrame
  imports ContainerPool RedisLaws
begin

text \<open>
  What the operations of the warm pool leave alone and that they end: the code that runs processes
  and reads the clock changes no list of Redis and, if the processes end, ends itself; what the
  list commands of Redis do, in a form for proofs.
\<close>

section \<open>Code that leaves the lists alone\<close>

lemma quiet_restD [keeps_intros]:
  assumes "quiet_rest E lst"
  shows "keeps_lists lst (communicate E c i t)" "keeps_lists lst (kill_proc E c)" "keeps_lists lst (time_now E)"
    "keeps_lists lst (rmtree E d)" "keeps_lists lst (put_image_ids E x)"
  using assms by (simp_all add: quiet_rest_def)

lemma keeps_decode [keeps_intros]: "keeps_lists lst (decode E b)"
  by (auto simp: decode_def keeps_lists_def split: option.splits)

lemma keeps_run_proc [keeps_intros]: "quiet_rest E lst \<Longrightarrow> keeps_lists lst (run_proc E cmd)"
  unfolding run_proc_def by (intro keeps_intros) (auto split: timed.splits intro: keeps_intros)

lemma keeps_kill_container [keeps_intros]: "quiet_rest E lst \<Longrightarrow> keeps_lists lst (kill_container E c d)"
  unfolding kill_container_def Let_def
  by (intro keeps_intros) (auto split: timed.splits option.splits intro: keeps_intros)

lemma keeps_docker_is_running [keeps_intros]: "quiet_rest E lst \<Longrightarrow> keeps_lists lst (docker_is_running E c)"
  unfolding docker_is_running_def by (intro keeps_intros)

lemma keeps_sanitize [keeps_intros]: "quiet_rest E lst \<Longrightarrow> keeps_lists lst (sanitize E c)"
  unfolding sanitize_def by (intro keeps_intros)

lemma keeps_remember_image [keeps_intros]:
  "quiet_rest E lst \<Longrightarrow> keeps_lists lst (remember_image E img image_id)"
  unfolding remember_image_def
  by (rule keeps_bind [OF quiet_restD(3)], assumption, rule keeps_state, intro keeps_then quiet_restD(5) keeps_return)

lemma keeps_inspect_image [keeps_intros]: "quiet_rest E lst \<Longrightarrow> keeps_lists lst (inspect_image E img)"
  unfolding inspect_image_def by (intro keeps_intros) (auto intro!: keeps_intros)

lemma keeps_current_image_id [keeps_intros]: "quiet_rest E lst \<Longrightarrow> keeps_lists lst (current_image_id E img)"
  unfolding current_image_id_def
  by (rule keeps_state) (auto split: option.splits intro!: keeps_intros)

lemma keeps_container_is_usable [keeps_intros]:
  "quiet_rest E lst \<Longrightarrow> keeps_lists lst (container_is_usable E c img)"
  unfolding container_is_usable_def
  by (intro keeps_intros) (auto split: list.splits intro!: keeps_intros)

lemma keeps_listsD: "keeps_lists lst m \<Longrightarrow> m w = (r, w') \<Longrightarrow> lst w' = lst w"
  unfolding keeps_lists_def by (metis snd_conv)

section \<open>Code that ends\<close>

definition ends :: "('w, 'a) io \<Rightarrow> bool" where
  "ends m \<longleftrightarrow> (\<forall>w. fst (m w) \<noteq> Inl Diverges)"

named_theorems ends_intros \<open>code that ends\<close>

lemma endsD: "ends m \<Longrightarrow> m w = (r, w') \<Longrightarrow> r \<noteq> Inl Diverges"
  unfolding ends_def by (metis fst_conv)

lemma ends_return [ends_intros]: "ends (io_return a)"
  by (simp add: ends_def)

lemma ends_raise [ends_intros]: "e \<noteq> Diverges \<Longrightarrow> ends (io_raise e)"
  by (simp add: ends_def)

lemma ends_bind [ends_intros]: "ends m \<Longrightarrow> (\<And>a. ends (k a)) \<Longrightarrow> ends (io_bind m k)"
  by (auto simp: ends_def io_bind_def split: prod.splits sum.splits) (metis fst_conv)+

lemma ends_then [ends_intros]: "ends m \<Longrightarrow> ends k \<Longrightarrow> ends (io_then m k)"
  unfolding io_then_def by (rule ends_bind)

lemma ends_state: "(\<And>w. ends (m w)) \<Longrightarrow> ends (\<lambda>w. m w w)"
  by (simp add: ends_def)

lemma ends_of_sum: "r \<noteq> Inl Diverges \<Longrightarrow> ends (io_of_sum r)"
  by (cases r) (simp_all add: ends_def)

lemma ends_decode [ends_intros]: "ends (decode E b)"
  by (auto simp: decode_def ends_def split: option.splits)

lemma load_entry_ends: "load_entry raw \<noteq> Inl Diverges"
  by (auto simp: load_entry_def split: option.splits pyval.splits)

lemma procs_endD [ends_intros]:
  assumes "procs_end E"
  shows "ends (communicate E c i t)" "ends (time_now E)" "ends (put_image_ids E x)"
  using assms by (auto simp: procs_end_def ends_def)

lemma ends_run_proc [ends_intros]: "procs_end E \<Longrightarrow> ends (run_proc E cmd)"
proof -
  assume E: "procs_end E"
  have "fst (run_proc E cmd w) \<noteq> Inl Diverges" for w
  proof (cases "communicate E cmd [] None w")
    case (Pair r w')
    have "r \<noteq> Inr TimedOut" "r \<noteq> Inl Diverges" using E Pair by (auto simp: procs_end_def) (metis fst_conv)+
    then show ?thesis
      using Pair by (cases r) (auto simp: run_proc_def split: timed.splits)
  qed
  then show ?thesis by (simp add: ends_def)
qed

lemma ends_remember_image [ends_intros]: "procs_end E \<Longrightarrow> ends (remember_image E img i)"
  unfolding remember_image_def
  by (rule ends_bind [OF procs_endD(2)], assumption, rule ends_state, intro ends_then procs_endD(3) ends_return)

lemma ends_inspect_image [ends_intros]: "procs_end E \<Longrightarrow> ends (inspect_image E img)"
  unfolding inspect_image_def by (intro ends_bind ends_run_proc ends_decode) (auto intro!: ends_intros)

lemma ends_current_image_id [ends_intros]: "procs_end E \<Longrightarrow> ends (current_image_id E img)"
  unfolding current_image_id_def
  by (rule ends_state) (auto split: option.splits intro!: ends_intros)

lemma ends_container_is_usable [ends_intros]: "procs_end E \<Longrightarrow> ends (container_is_usable E c img)"
  unfolding container_is_usable_def
  by (intro ends_bind ends_run_proc ends_decode) (auto split: list.splits intro!: ends_intros)

section \<open>The commands on a list\<close>

text \<open>The Lua script pushes exactly when there is room.\<close>

lemma capped_push:
  assumes "redis_lists E lst"
  obtains w' where "LUA_CAPPED_PUSH E key cap entry w = (Inr (int (length (lst w key)) < cap), w')"
    and "lst w' = (if int (length (lst w key)) < cap then (lst w)(key := entry # lst w key) else lst w)"
proof -
  from redis_listsD(1) [OF assms, of key] obtain w1 where
    w1: "r_llen E key w = (Inr (length (lst w key)), w1)" "lst w1 = lst w" by (rule answersE)
  from redis_listsD(2) [OF assms, of key entry] obtain w2 where
    w2: "r_lpush E key entry w1 = (Inr (), w2)" "lst w2 = (lst w1)(key := entry # lst w1 key)" by (rule answersE)
  from w1 w2 show thesis
    by (cases "int (length (lst w key)) < cap") (auto intro!: that simp: LUA_CAPPED_PUSH_def)
qed

end
