(* ===== verification/PoolSpec.thy ===== *)
theory PoolSpec
  imports PoolFrame
begin

text \<open>
  The warm pool used by one process at a time: what \<open>acquire\<close>, \<open>release\<close>, the reaper and the
  prewarming do to the list of an image, given Redis's lists.
\<close>

section \<open>Entries\<close>

lemma load_entry_json:
  "json_ok (VFloat (e_born_at e)) \<Longrightarrow> load_entry (entry_json e) = Inr e"
  unfolding load_entry_def entry_json_def
  by (subst loads_dumps) (simp_all add: dget_def del: dumps.simps)

section \<open>Release\<close>

lemma release_push:
  assumes "redis_lists E lst" and "quiet_rest E lst" and "release E img c d h w = (r, w')"
  shows "lst w' = lst w \<or>
    (r = Inr () \<and> int (length (lst w (pool_key img))) < WARM_POOL_MAX_PER_IMAGE E \<and> (\<exists>now w1 w2.
      time_now E w1 = (Inr now, w2) \<and> lst w' = (lst w)(pool_key img :=
        entry_json \<lparr>e_container_id = c, e_temp_dir = d, e_host_temp_dir = h, e_born_at = now\<rparr> # lst w (pool_key img))))"
proof -
  let ?k = "pool_key img"
  obtain a w1 where s: "sanitize E c w = (a, w1)" by fastforce
  have w1: "lst w1 = lst w" using keeps_listsD [OF keeps_sanitize [OF assms(2)] s] .
  consider (err) e where "a = Inl e" | (dead) "a = Inr False" | (alive) "a = Inr True" by (metis (full_types) sum.exhaust)
  then show ?thesis
  proof cases
    case err
    show ?thesis using s err w1 assms(3) by (simp add: release_def)
  next
    case dead
    have "rmtree E d w1 = (r, w')" using s dead assms(3) by (simp add: release_def)
    then show ?thesis using keeps_listsD [OF quiet_restD(4) [OF assms(2)]] w1 by metis
  next
    case alive
    obtain t w2 where t: "time_now E w1 = (t, w2)" by fastforce
    have w2: "lst w2 = lst w" using keeps_listsD [OF quiet_restD(3) [OF assms(2)] t] w1 by simp
    show ?thesis
    proof (cases t)
      case (Inl e)
      then show ?thesis using s alive t w2 assms(3) by (simp add: release_def)
    next
      case (Inr now)
      let ?e = "entry_json \<lparr>e_container_id = c, e_temp_dir = d, e_host_temp_dir = h, e_born_at = now\<rparr>"
      from capped_push [OF assms(1), of ?k "WARM_POOL_MAX_PER_IMAGE E" ?e w2] obtain w3 where
        p: "LUA_CAPPED_PUSH E ?k (WARM_POOL_MAX_PER_IMAGE E) ?e w2 =
            (Inr (int (length (lst w2 ?k)) < WARM_POOL_MAX_PER_IMAGE E), w3)"
          "lst w3 = (if int (length (lst w2 ?k)) < WARM_POOL_MAX_PER_IMAGE E
            then (lst w2)(?k := ?e # lst w2 ?k) else lst w2)" .
      show ?thesis
      proof (cases "int (length (lst w ?k)) < WARM_POOL_MAX_PER_IMAGE E")
        case True
        obtain w4 where "r_llen E ?k w3 = (Inr (length (lst w3 ?k)), w4)" "lst w4 = lst w3"
          using redis_listsD(1) [OF assms(1), of ?k] by (rule answersE)
        then have "r = Inr ()" "lst w' = (lst w)(?k := ?e # lst w ?k)"
          using s alive t Inr p w2 True assms(3) by (simp_all add: release_def)
        then show ?thesis using True t Inr by blast
      next
        case False
        then have "w' = snd (kill_container E c (Some d) w3)"
          using s alive t Inr p w2 assms(3) by (simp add: release_def)
        moreover have "lst (snd (kill_container E c (Some d) w3)) = lst w3"
          using keeps_kill_container [OF assms(2), of c "Some d"] by (simp add: keeps_lists_def)
        ultimately show ?thesis using False p w2 by simp
      qed
    qed
  qed
qed

section \<open>Acquire\<close>

definition expired :: "'w env \<Rightarrow> pool_entry \<Rightarrow> pyfloat \<Rightarrow> bool" where
  "expired E e now = older_than (fsub now (e_born_at e)) (WARM_CONTAINER_TTL_SECONDS E)"

text \<open>Why \<open>acquire\<close> takes an entry, and why it passes over one: the answers of the clock and of
  \<open>docker inspect\<close> when it looked.\<close>

definition was_taken :: "'w env \<Rightarrow> string \<Rightarrow> string \<Rightarrow> pool_entry \<Rightarrow> bool" where
  "was_taken E img raw e \<longleftrightarrow> load_entry raw = Inr e \<and>
     (\<exists>now w1 w2. time_now E w1 = (Inr now, w2) \<and> \<not> expired E e now) \<and>
     (\<exists>w1 w2. container_is_usable E (e_container_id e) img w1 = (Inr True, w2))"

definition was_stale :: "'w env \<Rightarrow> string \<Rightarrow> string \<Rightarrow> bool" where
  "was_stale E img raw \<longleftrightarrow> (\<exists>e. load_entry raw = Inr e \<and>
     ((\<exists>now w1 w2. time_now E w1 = (Inr now, w2) \<and> expired E e now) \<or>
      (\<exists>w1 w2. container_is_usable E (e_container_id e) img w1 = (Inr False, w2))))"

text \<open>What one call of \<open>acquire\<close> did to the list of the image.\<close>

definition acquired :: "'w env \<Rightarrow> string \<Rightarrow> string list \<Rightarrow> exn + pool_entry option \<Rightarrow> nat \<Rightarrow> bool" where
  "acquired E img l r m \<longleftrightarrow> m \<le> length l \<and> (case r of
      Inl e \<Rightarrow> e \<noteq> Diverges \<and> m < length l \<and> (\<forall>i. m < i \<and> i < length l \<longrightarrow> was_stale E img (l ! i))
    | Inr None \<Rightarrow> m = 0 \<and> (\<forall>i < length l. was_stale E img (l ! i))
    | Inr (Some e) \<Rightarrow> m < length l \<and> was_taken E img (l ! m) e \<and>
        (\<forall>i. m < i \<and> i < length l \<longrightarrow> was_stale E img (l ! i)))"

lemma acquired_shorter:
  assumes "acquired E img (butlast l) r m" and "l \<noteq> []" and "was_stale E img (last l)"
  shows "acquired E img l r m"
proof -
  have up: "\<forall>i. P i \<and> i < length l \<longrightarrow> was_stale E img (l ! i)"
    if old: "\<forall>i. P i \<and> i < length (butlast l) \<longrightarrow> was_stale E img (butlast l ! i)" for P
  proof (intro allI impI, elim conjE)
    fix i assume i: "P i" "i < length l"
    show "was_stale E img (l ! i)"
    proof (cases "i < length (butlast l)")
      case True
      then show ?thesis using old i by (simp add: nth_butlast)
    next
      case False
      then have "i = length l - 1" using i by simp
      then show ?thesis using assms(2,3) by (simp add: last_conv_nth)
    qed
  qed
  have m: "m \<le> length l" "m < length (butlast l) \<Longrightarrow> m < length l \<and> l ! m = butlast l ! m"
    using assms(1) by (auto simp: acquired_def nth_butlast)
  show ?thesis
    using assms(1) m up [of "\<lambda>i. True"] up [of "\<lambda>i. m < i"]
    unfolding acquired_def by (simp split: sum.splits option.splits)
qed

lemma take_butlast: "m \<le> length (butlast l) \<Longrightarrow> take m (butlast l) = take m l"
  by (simp add: butlast_conv_take)

text \<open>The rest of the loop, after an entry was passed over.\<close>

lemma acquired_pass_over:
  assumes "acquired E img (butlast l) r m \<and> l'' = l0(k := take m (butlast l))" and "l \<noteq> []"
    and "was_stale E img (last l)"
  shows "acquired E img l r m \<and> l'' = l0(k := take m l)"
proof -
  have "m \<le> length (butlast l)" using assms(1) by (auto simp: acquired_def)
  with assms(1) acquired_shorter [OF _ assms(2,3), of r m] show ?thesis by (simp add: take_butlast)
qed

lemma acquired_stop:
  assumes "l \<noteq> []"
  shows "e \<noteq> Diverges \<Longrightarrow> acquired E img l (Inl e) (length l - 1)"
    and "was_taken E img (last l) x \<Longrightarrow> acquired E img l (Inr (Some x)) (length l - 1)"
  using assms by (auto simp: acquired_def last_conv_nth)

text \<open>One entry: the loop stops at it (with an error or with the entry) or passes over it.\<close>

lemma acquire_one:
  assumes "quiet_rest E lst" and "procs_end E"
    and pop: "r_rpop E (pool_key img) w = (Inr (Some raw), w1)" and loop: "acquire_loop (Suc n) E img w = (r, w')"
  shows "((\<exists>x. r = Inl x \<and> x \<noteq> Diverges) \<or> (\<exists>e. r = Inr (Some e) \<and> was_taken E img raw e)) \<and> lst w' = lst w1 \<or>
    was_stale E img raw \<and> (\<exists>w2. lst w2 = lst w1 \<and> acquire_loop n E img w2 = (r, w'))"
proof (cases "load_entry raw")
  case (Inl e)
  then show ?thesis using pop loop load_entry_ends [of raw] by auto
next
  case e: (Inr e)
  let ?kill = "kill_container E (e_container_id e) (Some (e_temp_dir e))"
  obtain t w2 where t: "time_now E w1 = (t, w2)" by fastforce
  obtain u w3 where u: "container_is_usable E (e_container_id e) img w2 = (u, w3)" by fastforce
  have same: "lst w2 = lst w1" "lst w3 = lst w1" "lst (snd (?kill x)) = lst x" for x
    using keeps_listsD [OF quiet_restD(3) [OF assms(1)] t] keeps_kill_container [OF assms(1)]
      keeps_listsD [OF keeps_container_is_usable [OF assms(1)] u] by (simp_all add: keeps_lists_def)
  have nd: "t \<noteq> Inl Diverges" "u \<noteq> Inl Diverges"
    using endsD [OF procs_endD(2) [OF assms(2)] t] endsD [OF ends_container_is_usable [OF assms(2)] u] .
  consider (time) x where "t = Inl x" | (old) now where "t = Inr now" "expired E e now"
    | (err) now x where "t = Inr now" "\<not> expired E e now" "u = Inl x"
    | (dead) now where "t = Inr now" "\<not> expired E e now" "u = Inr False"
    | (ok) now where "t = Inr now" "\<not> expired E e now" "u = Inr True"
    by (metis (full_types) sum.exhaust)
  then show ?thesis
  proof cases
    case time
    then show ?thesis using pop e t loop nd same by auto
  next
    case old
    then have "acquire_loop n E img (snd (?kill w2)) = (r, w')" using pop e t loop by (simp add: expired_def)
    moreover have "was_stale E img raw" unfolding was_stale_def using e t old by blast
    ultimately show ?thesis by (intro disjI2 conjI exI [of _ "snd (?kill w2)"]) (simp_all add: same)
  next
    case err
    then show ?thesis using pop e t u loop nd same by (auto simp: expired_def)
  next
    case dead
    then have "acquire_loop n E img (snd (?kill w3)) = (r, w')" using pop e t u loop by (simp add: expired_def)
    moreover have "was_stale E img raw" unfolding was_stale_def using e u dead by blast
    ultimately show ?thesis by (intro disjI2 conjI exI [of _ "snd (?kill w3)"]) (simp_all add: same)
  next
    case ok
    then have "r = Inr (Some e)" "w' = w3" using pop e t u loop by (simp_all add: expired_def)
    moreover have "was_taken E img raw e" unfolding was_taken_def using e t u ok by blast
    ultimately show ?thesis using same(2) by blast
  qed
qed

lemma acquire_loop_spec:
  assumes "redis_lists E lst" and "quiet_rest E lst" and "procs_end E"
    and "acquire_loop n E img w = (r, w')" and "length (lst w (pool_key img)) < n"
  shows "\<exists>m. acquired E img (lst w (pool_key img)) r m \<and>
    lst w' = (lst w)(pool_key img := take m (lst w (pool_key img)))"
  using assms(4,5)
proof (induction n arbitrary: w)
  case (Suc n)
  let ?k = "pool_key img" and ?l = "lst w (pool_key img)"
  obtain w1 where pop: "r_rpop E ?k w = (Inr (if ?l = [] then None else Some (last ?l)), w1)"
    and w1: "lst w1 = (lst w)(?k := butlast ?l)"
    using redis_listsD(4) [OF assms(1), of ?k] by (rule answersE)
  show ?case
  proof (cases "?l = []")
    case True
    then have "r = Inr None" "w' = w1" using pop Suc.prems(1) by simp_all
    then show ?thesis using True w1 by (intro exI [of _ 0]) (simp add: acquired_def)
  next
    case ne: False
    then have "r_rpop E ?k w = (Inr (Some (last ?l)), w1)" using pop by simp
    from acquire_one [OF assms(2,3) this Suc.prems(1)] consider
      (stop) "(\<exists>x. r = Inl x \<and> x \<noteq> Diverges) \<or> (\<exists>e. r = Inr (Some e) \<and> was_taken E img (last ?l) e)" "lst w' = lst w1"
      | (pass) w2 where "was_stale E img (last ?l)" "lst w2 = lst w1" "acquire_loop n E img w2 = (r, w')" by blast
    then show ?thesis
    proof cases
      case stop
      then have "acquired E img ?l r (length ?l - 1)" using acquired_stop [OF ne] by blast
      then show ?thesis using stop(2) w1 by (intro exI [of _ "length ?l - 1"]) (simp add: butlast_conv_take)
    next
      case pass
      have "length (lst w2 ?k) < n" using Suc.prems(2) ne pass(2) w1 by (cases ?l) simp_all
      from Suc.IH [OF pass(3) this] obtain m where
        "acquired E img (butlast ?l) r m \<and> lst w' = (lst w)(?k := take m (butlast ?l))"
        unfolding pass(2) w1 fun_upd_upd fun_upd_same by blast
      from acquired_pass_over [OF this ne pass(1)] show ?thesis by blast
    qed
  qed
qed simp

section \<open>The reaper\<close>

definition survives :: "'w env \<Rightarrow> pyfloat \<Rightarrow> string \<Rightarrow> bool" where
  "survives E now raw = (case load_entry raw of Inl _ \<Rightarrow> False | Inr e \<Rightarrow> \<not> expired E e now)"

lemma reap_entries_filter:
  assumes "quiet_rest E lst" and "\<forall>raw \<in> set raws. \<exists>e. load_entry raw = Inr e"
  shows "\<exists>w'. reap_entries E now raws w = (Inr (filter (survives E now) raws), w') \<and> lst w' = lst w"
  using assms(2)
proof (induction raws arbitrary: w)
  case (Cons raw raws)
  then obtain e where e: "load_entry raw = Inr e" by auto
  let ?w = "if expired E e now then snd (kill_container E (e_container_id e) (Some (e_temp_dir e)) w) else w"
  have "lst ?w = lst w" using keeps_kill_container [OF assms(1)] by (simp add: keeps_lists_def)
  moreover obtain w' where "reap_entries E now raws ?w = (Inr (filter (survives E now) raws), w')" "lst w' = lst ?w"
    using Cons.IH [of ?w] Cons.prems by auto
  moreover have "survives E now raw \<longleftrightarrow> \<not> expired E e now" using e by (simp add: survives_def)
  ultimately show ?case using e by (auto simp: expired_def)
qed simp

lemma reap_key_filter:
  assumes "redis_lists E lst" and "quiet_rest E lst" and "\<forall>raw \<in> set (lst w key). \<exists>e. load_entry raw = Inr e"
  shows "\<exists>w'. reap_key E now key w = (Inr (), w') \<and> lst w' = (lst w)(key := filter (survives E now) (lst w key))"
proof -
  let ?keep = "filter (survives E now) (lst w key)"
  obtain w1 where w1: "r_lrange E key w = (Inr (lst w key), w1)" "lst w1 = lst w"
    using redis_listsD(5) [OF assms(1), of key] by (rule answersE)
  obtain w2 where w2: "reap_entries E now (lst w key) w1 = (Inr ?keep, w2)" "lst w2 = lst w"
    using reap_entries_filter [OF assms(2,3)] w1(2) by metis
  obtain w3 where w3: "r_delete E key w2 = (Inr (), w3)" "lst w3 = (lst w2)(key := [])"
    using redis_listsD(6) [OF assms(1), of key] by (rule answersE)
  obtain w4 where w4: "r_rpush E key ?keep w3 = (Inr (), w4)" "lst w4 = (lst w3)(key := lst w3 key @ ?keep)"
    using redis_listsD(3) [OF assms(1), of key ?keep] by (rule answersE)
  show ?thesis
  proof (cases "lst w key = []")
    case True
    then show ?thesis using w1 by (auto simp: reap_key_def fun_upd_idem)
  next
    case False
    then show ?thesis using w1 w2 w3 w4 by (cases "?keep = []") (auto simp: reap_key_def)
  qed
qed

section \<open>Prewarming\<close>

text \<open>Two states of the lists that differ at most in the tokens of the semaphore around
  \<open>docker run\<close>.\<close>

definition same_lists :: "(string \<Rightarrow> string list) \<Rightarrow> (string \<Rightarrow> string list) \<Rightarrow> bool" where
  "same_lists l l' \<longleftrightarrow> (\<forall>k. k \<noteq> ''docker_run_semaphore'' \<longrightarrow> l' k = l k)"

text \<open>Directories and containers can be created.\<close>

definition prewarm_ready ::
  "'w env \<Rightarrow> ('w \<Rightarrow> string \<Rightarrow> string list) \<Rightarrow> string \<Rightarrow> string \<Rightarrow> string \<Rightarrow> bool" where
  "prewarm_ready E lst img workdir croot \<longleftrightarrow>
     (\<forall>w. \<exists>d w'. mkdtemp E croot w = (Inr d, w') \<and> same_lists (lst w) (lst w')) \<and>
     (\<forall>h w. \<exists>p w'. prewarm_start E h workdir img w = (Inr (Some p), w') \<and> p_returncode p = 0 \<and>
        utf8_strict E (p_stdout p) \<noteq> None \<and> same_lists (lst w) (lst w')) \<and>
     (\<forall>w. \<exists>now w'. time_now E w = (Inr now, w') \<and> same_lists (lst w) (lst w'))"

text \<open>No job waits.\<close>

definition no_jobs :: "(string \<Rightarrow> string list) \<Rightarrow> bool" where
  "no_jobs l \<longleftrightarrow> (\<forall>language \<in> set LANGUAGE_QUEUES. l (QUEUE_KEY_PREFIX @ language) = [])"

lemma same_listsD: "same_lists l l' \<Longrightarrow> l' (pool_key img) = l (pool_key img)" "same_lists l l' \<Longrightarrow> no_jobs l' = no_jobs l"
  by (auto simp: same_lists_def pool_key_def POOL_KEY_PREFIX_def no_jobs_def QUEUE_KEY_PREFIX_def)

lemma no_jobs_pool [simp]: "no_jobs (l(pool_key img := x)) = no_jobs l"
  by (simp add: no_jobs_def pool_key_def POOL_KEY_PREFIX_def QUEUE_KEY_PREFIX_def)

lemma io_map_llen:
  assumes "redis_lists E lst"
  shows "\<exists>w'. io_map (r_llen E) ks w = (Inr (map (\<lambda>k. length (lst w k)) ks), w') \<and> lst w' = lst w"
proof (induction ks arbitrary: w)
  case (Cons k ks)
  obtain w1 where w1: "r_llen E k w = (Inr (length (lst w k)), w1)" "lst w1 = lst w"
    using redis_listsD(1) [OF assms, of k] by (rule answersE)
  then show ?case using Cons.IH [of w1] by auto
qed simp

lemma queue_keys_all: "queue_keys_for_languages [] = Inr (map (\<lambda>l. QUEUE_KEY_PREFIX @ l) LANGUAGE_QUEUES)"
  by (simp add: queue_keys_for_languages_def LANGUAGE_QUEUES_def queue_key_for_language_def)

lemma queue_depth_sum:
  assumes "redis_lists E lst"
  shows "\<exists>w'. queue_depth E w =
    (Inr (sum_list (map (\<lambda>l. length (lst w (QUEUE_KEY_PREFIX @ l))) LANGUAGE_QUEUES)), w') \<and> lst w' = lst w"
  using io_map_llen [OF assms, of "map (\<lambda>l. QUEUE_KEY_PREFIX @ l) LANGUAGE_QUEUES" w]
  by (auto simp: queue_depth_def queue_keys_all comp_def)

lemma queue_depth_idle:
  assumes "redis_lists E lst" and "no_jobs (lst w)"
  shows "\<exists>w'. queue_depth E w = (Inr 0, w') \<and> lst w' = lst w"
proof -
  have "sum_list (map (\<lambda>l. length (lst w (QUEUE_KEY_PREFIX @ l))) LANGUAGE_QUEUES) = 0"
    using assms(2) by (simp add: no_jobs_def sum_list_eq_0_iff)
  then show ?thesis using queue_depth_sum [OF assms(1), of w] by metis
qed

lemma prewarm_step:
  assumes "redis_lists E lst" and "quiet_rest E lst" and "prewarm_ready E lst img workdir croot"
    and "int current < target" and "no_jobs (lst w)"
  obtains w' where
    "prewarm_loop (Suc n) E img workdir croot hroot target current w =
      prewarm_loop n E img workdir croot hroot target (length (lst w' (pool_key img))) w'"
    "length (lst w' (pool_key img)) = length (lst w (pool_key img)) +
      (if int (length (lst w (pool_key img))) < WARM_POOL_MAX_PER_IMAGE E then 1 else 0)"
    "no_jobs (lst w')"
proof -
  let ?k = "pool_key img" and ?cap = "WARM_POOL_MAX_PER_IMAGE E"
  note ready = assms(3) [unfolded prewarm_ready_def]
  obtain w1 where w1: "queue_depth E w = (Inr 0, w1)" "lst w1 = lst w"
    using queue_depth_idle [OF assms(1,5)] by blast
  obtain d w2 where w2: "mkdtemp E croot w1 = (Inr d, w2)" "lst w2 ?k = lst w ?k" "no_jobs (lst w2)"
    using ready w1(2) assms(5) same_listsD by metis
  let ?h = "build_host_temp_dir hroot d"
  obtain p w3 where w3: "prewarm_start E ?h workdir img w2 = (Inr (Some p), w3)" "p_returncode p = 0"
      "utf8_strict E (p_stdout p) \<noteq> None" "lst w3 ?k = lst w ?k" "no_jobs (lst w3)"
    using ready w2(2,3) same_listsD by metis
  obtain now w4 where w4: "time_now E w3 = (Inr now, w4)" "lst w4 ?k = lst w ?k" "no_jobs (lst w4)"
    using ready w3(4,5) same_listsD by metis
  obtain s where s: "utf8_strict E (p_stdout p) = Some s" using w3(3) by blast
  let ?e = "entry_json \<lparr>e_container_id = strip s, e_temp_dir = d, e_host_temp_dir = ?h, e_born_at = now\<rparr>"
  from capped_push [OF assms(1), of ?k ?cap ?e w4] obtain w5 where
    push: "LUA_CAPPED_PUSH E ?k ?cap ?e w4 = (Inr (int (length (lst w4 ?k)) < ?cap), w5)"
      "lst w5 = (if int (length (lst w4 ?k)) < ?cap then (lst w4)(?k := ?e # lst w4 ?k) else lst w4)" .
  then have w5: "LUA_CAPPED_PUSH E ?k ?cap ?e w4 = (Inr (int (length (lst w ?k)) < ?cap), w5)"
      "length (lst w5 ?k) = length (lst w ?k) + (if int (length (lst w ?k)) < ?cap then 1 else 0)"
      "no_jobs (lst w5)"
    using w4(2,3) by simp_all
  let ?w6 = "if int (length (lst w ?k)) < ?cap then w5 else snd (kill_container E (strip s) (Some d) w5)"
  have w6: "lst ?w6 = lst w5" using keeps_kill_container [OF assms(2)] by (simp add: keeps_lists_def)
  obtain w7 where w7: "r_llen E ?k ?w6 = (Inr (length (lst ?w6 ?k)), w7)" "lst w7 = lst ?w6"
    using redis_listsD(1) [OF assms(1), of ?k] by (rule answersE)
  show thesis
  proof (rule that [of w7])
    show "prewarm_loop (Suc n) E img workdir croot hroot target current w =
      prewarm_loop n E img workdir croot hroot target (length (lst w7 ?k)) w7"
      using assms(4) w1 w2 w3 w4 s w5(1) w6 w7
      by (cases "int (length (lst w ?k)) < ?cap") (simp_all add: Let_def decode_def)
    show "length (lst w7 ?k) = length (lst w ?k) + (if int (length (lst w ?k)) < ?cap then 1 else 0)"
      using w5(2) w6 w7(2) by simp
    show "no_jobs (lst w7)" using w5(3) w6 w7(2) by simp
  qed
qed

lemma prewarm_fills:
  assumes "redis_lists E lst" and "quiet_rest E lst" and "prewarm_ready E lst img workdir croot"
    and "target \<le> WARM_POOL_MAX_PER_IMAGE E" and "no_jobs (lst w)" and "current = length (lst w (pool_key img))"
    and "nat target - current < n"
  shows "\<exists>w'. prewarm_loop n E img workdir croot hroot target current w = (Inr (max current (nat target)), w') \<and>
    length (lst w' (pool_key img)) = max current (nat target)"
  using assms(5-7)
proof (induction n arbitrary: current w)
  case (Suc n)
  show ?case
  proof (cases "int current < target")
    case False
    then show ?thesis using Suc.prems by auto
  next
    case True
    obtain w' where step: "prewarm_loop (Suc n) E img workdir croot hroot target current w =
        prewarm_loop n E img workdir croot hroot target (length (lst w' (pool_key img))) w'"
      and len: "length (lst w' (pool_key img)) = length (lst w (pool_key img)) +
        (if int (length (lst w (pool_key img))) < WARM_POOL_MAX_PER_IMAGE E then 1 else 0)"
      and idle: "no_jobs (lst w')"
      by (rule prewarm_step [OF assms(1-3) True Suc.prems(1)])
    have grown: "length (lst w' (pool_key img)) = Suc current" using len True Suc.prems(2) assms(4) by simp
    have "nat target - Suc current < n" "max (Suc current) (nat target) = max current (nat target)"
      using Suc.prems(3) True by linarith+
    then show ?thesis unfolding step grown using Suc.IH [OF idle grown [symmetric]] by simp
  qed
qed simp

lemma prewarm_runs_on:
  assumes "redis_lists E lst" and "quiet_rest E lst" and "prewarm_ready E lst img workdir croot"
    and "WARM_POOL_MAX_PER_IMAGE E < target" and "no_jobs (lst w)" and "int current < target"
    and "int (length (lst w (pool_key img))) < target"
  shows "fst (prewarm_loop n E img workdir croot hroot target current w) = Inl Diverges"
  using assms(5-7)
proof (induction n arbitrary: current w)
  case (Suc n)
  obtain w' where step: "prewarm_loop (Suc n) E img workdir croot hroot target current w =
      prewarm_loop n E img workdir croot hroot target (length (lst w' (pool_key img))) w'"
    and len: "length (lst w' (pool_key img)) = length (lst w (pool_key img)) +
      (if int (length (lst w (pool_key img))) < WARM_POOL_MAX_PER_IMAGE E then 1 else 0)"
    and idle: "no_jobs (lst w')"
    by (rule prewarm_step [OF assms(1-3) Suc.prems(2,1)])
  have "int (length (lst w' (pool_key img))) < target" using len Suc.prems(3) assms(4) by (simp split: if_splits)
  then show ?case unfolding step using Suc.IH [OF idle] by blast
qed simp

section \<open>A concrete Redis and Docker\<close>

text \<open>For the witnesses: the world is Redis's lists; every container of \<open>docker inspect\<close> runs and has
  image \<open>i1\<close>, except \<open>gone\<close>; the clock stands still.\<close>

definition shelf_docker :: "string list \<Rightarrow> proc_result" where
  "shelf_docker cmd = \<lparr>p_stdout = (if ''gone'' \<in> set cmd then ''false i1'' else if ''{{.State.Running}}'' \<in> set cmd then ''true''
     else if length cmd = 5 then ''true i1'' else ''c9''),
     p_stderr = [], p_returncode = 0\<rparr>"

definition shelf :: "(string \<Rightarrow> string list) env" where
  "shelf = list_store\<lparr>loop_fuel := 10, time_now := io_return (Fin 0),
     image_ids := (\<lambda>_. [(''img'', (''i1'', Fin 0))]),
     communicate := (\<lambda>cmd i t. io_return (Finished (shelf_docker cmd))),
     mkdtemp := (\<lambda>_. io_return ''/sandbox/t''),
     r_brpop := (\<lambda>ks t. io_return (Some ([], []))) \<rparr>"

lemmas shelf_defs = shelf_def list_store_def offline_def

lemma shelf_redis_lists: "redis_lists shelf (\<lambda>l. l)"
  by (simp add: redis_lists_def answers_def shelf_defs)

lemma shelf_quiet: "quiet_rest shelf (\<lambda>l. l)"
  by (simp add: quiet_rest_def keeps_lists_def shelf_defs)

lemma shelf_procs_end: "procs_end shelf"
  by (simp add: procs_end_def shelf_defs)

definition shelf_entry :: "string \<Rightarrow> string" where
  "shelf_entry c = entry_json \<lparr>e_container_id = c, e_temp_dir = ''/sandbox/'' @ c, e_host_temp_dir = ''/host/'' @ c, e_born_at = Fin 0\<rparr>"

definition shelf_with :: "string list \<Rightarrow> string \<Rightarrow> string list" where
  "shelf_with cs = (\<lambda>_. [])(pool_key ''img'' := map shelf_entry cs)"

lemma shelf_cap: "WARM_POOL_MAX_PER_IMAGE shelf = 50"
  by (simp add: WARM_POOL_MAX_PER_IMAGE_def int_env_def shelf_defs)

lemma shelf_json_ok: "json_ok (VFloat (Fin 0))"
  by code_simp

section \<open>Properties of the pool\<close>

text \<open>C21. \<open>acquire\<close> comes to an end and takes the oldest usable container: with more fuel than the
  pool has entries it does not run out of fuel; the entries it passed over (from the old end of the
  list) had expired or were unusable when it looked; the entry it returns was neither; what is left
  in the pool is exactly the entries younger than the one it stopped at, and \<open>None\<close> means that the
  pool is used up.\<close>

theorem acquire_takes_oldest_usable:
  assumes "redis_lists E lst" and "quiet_rest E lst" and "procs_end E"
    and "length (lst w (pool_key img)) < loop_fuel E" and "acquire E img w = (r, w')"
  shows "\<exists>m. acquired E img (lst w (pool_key img)) r m \<and>
    lst w' = (lst w)(pool_key img := take m (lst w (pool_key img)))"
  using acquire_loop_spec [OF assms(1-3) assms(5) [unfolded acquire_def] assms(4)] .

theorem acquire_takes_oldest_usable_witness:
  "\<exists>m. acquired shelf ''img'' (map shelf_entry [''young'', ''old'', ''gone''])
      (fst (acquire shelf ''img'' (shelf_with [''young'', ''old'', ''gone'']))) m"
  using acquire_takes_oldest_usable [OF shelf_redis_lists shelf_quiet shelf_procs_end,
      of "shelf_with [''young'', ''old'', ''gone'']" "''img''" _ "snd (acquire shelf ''img'' (shelf_with [''young'', ''old'', ''gone'']))",
      OF _ prod.collapse [symmetric]]
  by (auto simp: shelf_with_def shelf_def)

text \<open>C22. The pool never grows past its cap: a \<open>release\<close> leaves every list as it is, or adds the
  entry of the released container at the young end of its image's list, which had room for it.\<close>

theorem release_respects_cap:
  assumes "redis_lists E lst" and "quiet_rest E lst" and "release E img c d h w = (r, w')"
  shows "lst w' = lst w \<or> (r = Inr () \<and> (\<exists>now. lst w' = (lst w)(pool_key img :=
        entry_json \<lparr>e_container_id = c, e_temp_dir = d, e_host_temp_dir = h, e_born_at = now\<rparr> # lst w (pool_key img))) \<and>
      int (length (lst w' (pool_key img))) \<le> WARM_POOL_MAX_PER_IMAGE E)"
  using release_push [OF assms] by auto

theorem release_respects_cap_witness:
  "\<exists>l. release shelf ''img'' ''c1'' ''/sandbox/c1'' ''/host/c1'' (shelf_with [''c2'']) = (Inr (), l) \<and>
    l (pool_key ''img'') = map shelf_entry [''c1'', ''c2''] \<and> int (length (l (pool_key ''img''))) \<le> 50"
proof -
  define l where "l = (shelf_with [''c2''])(pool_key ''img'' := map shelf_entry [''c1'', ''c2''])"
  have "strip ''true'' = ''true''" by code_simp
  then have "sanitize shelf ''c1'' w = (Inr True, w)" for w
    by (simp add: sanitize_def docker_is_running_def run_proc_def decode_def shelf_defs) (simp add: shelf_docker_def sanitize_script_def)
  then have r: "release shelf ''img'' ''c1'' ''/sandbox/c1'' ''/host/c1'' (shelf_with [''c2'']) = (Inr (), l)"
    by (simp add: release_def LUA_CAPPED_PUSH_def shelf_cap) (simp add: shelf_defs shelf_with_def shelf_entry_def l_def)
  have "l (pool_key ''img'') \<noteq> shelf_with [''c2''] (pool_key ''img'')" by (simp add: l_def shelf_with_def)
  then show ?thesis
    using release_respects_cap [OF shelf_redis_lists shelf_quiet r] r shelf_cap by (auto simp: l_def)
qed

text \<open>An entry survives the pool: what \<open>release\<close> or prewarming pushes is what \<open>acquire\<close> and the
  reaper read back.\<close>

lemma pool_entry_roundtrip:
  assumes "json_ok (VFloat (e_born_at e))"
  shows "load_entry (entry_json e) = Inr e"
  using load_entry_json [OF assms] .

lemma pool_entry_roundtrip_witness:
  "load_entry (shelf_entry ''c1'') =
    Inr \<lparr>e_container_id = ''c1'', e_temp_dir = ''/sandbox/c1'', e_host_temp_dir = ''/host/c1'', e_born_at = Fin 0\<rparr>"
  using pool_entry_roundtrip [of "\<lparr>e_container_id = ''c1'', e_temp_dir = ''/sandbox/c1'', e_host_temp_dir = ''/host/c1'', e_born_at = Fin 0\<rparr>"]
    shelf_json_ok by (simp add: shelf_entry_def)

text \<open>Undisturbed, the reaper removes exactly the expired containers of an image: the entries that
  have not outlived their time stay, in their order, and no other list changes.\<close>

lemma reap_key_keeps_unexpired:
  assumes "redis_lists E lst" and "quiet_rest E lst" and "\<forall>raw \<in> set (lst w key). \<exists>e. load_entry raw = Inr e"
  shows "\<exists>w'. reap_key E now key w = (Inr (), w') \<and>
    lst w' = (lst w)(key := filter (survives E now) (lst w key))"
  using reap_key_filter [OF assms] .

lemma reap_key_keeps_unexpired_witness:
  "\<exists>w'. reap_key shelf (Fin 30) (pool_key ''img'') (shelf_with [''a'', ''b'']) = (Inr (), w') \<and>
    w' (pool_key ''img'') = filter (survives shelf (Fin 30)) (map shelf_entry [''a'', ''b''])"
proof -
  have "\<forall>raw \<in> set (shelf_with [''a'', ''b''] (pool_key ''img'')). \<exists>e. load_entry raw = Inr e"
    using shelf_json_ok load_entry_json by (auto simp: shelf_with_def shelf_entry_def)
  then show ?thesis
    using reap_key_keeps_unexpired [OF shelf_redis_lists shelf_quiet,
      of "shelf_with [''a'', ''b'']" "pool_key ''img''" "Fin 30"]
    by (auto simp: shelf_with_def)
qed

text \<open>Prewarming reaches its target: if no job is waiting and containers can be started, a target
  within the cap is reached, and enough fuel is one more than the number of missing containers.\<close>

lemma prewarm_reaches_target:
  assumes "redis_lists E lst" and "quiet_rest E lst" and "prewarm_ready E lst img workdir croot"
    and "target \<le> WARM_POOL_MAX_PER_IMAGE E" and "no_jobs (lst w)" and "current = length (lst w (pool_key img))"
    and "nat target - current < n"
  shows "\<exists>w'. prewarm_loop n E img workdir croot hroot target current w = (Inr (max current (nat target)), w') \<and>
    length (lst w' (pool_key img)) = max current (nat target)"
  using prewarm_fills [OF assms] .

lemma shelf_prewarm_start: "prewarm_start shelf h ''/app'' ''img'' w =
    (Inr (Some (shelf_docker (sandbox_run_cmd shelf (DOCKER_MEMORY_SWAP shelf) (DOCKER_CPU_LIMIT shelf) h ''/app'' ''img''))),
     w(''docker_run_semaphore'' := token # w ''docker_run_semaphore''))"
  by (simp add: prewarm_start_def docker_run_semaphore_def with_semaphore_def shelf_defs io_finally_def
      io_bind_def io_then_def io_catch_def)

lemma shelf_prewarm_ready: "prewarm_ready shelf (\<lambda>l. l) ''img'' ''/app'' ''/sandbox''"
proof -
  have "mkdtemp shelf r w = (Inr ''/sandbox/t'', w)" "time_now shelf w = (Inr (Fin 0), w)"
    "utf8_strict shelf s = Some s" for r w s
    by (simp_all add: shelf_defs)
  then show ?thesis
    unfolding prewarm_ready_def by (simp add: shelf_prewarm_start same_lists_def) (simp add: shelf_docker_def)
qed

lemma shelf_idle: "no_jobs (shelf_with cs)"
  unfolding shelf_with_def no_jobs_pool by (simp add: no_jobs_def)

lemma prewarm_reaches_target_witness:
  "\<exists>w'. prewarm_loop 4 shelf ''img'' ''/app'' ''/sandbox'' ''/host'' 3 1 (shelf_with [''a'']) = (Inr 3, w') \<and>
    length (w' (pool_key ''img'')) = 3"
  using prewarm_reaches_target [OF shelf_redis_lists shelf_quiet shelf_prewarm_ready, of 3 "shelf_with [''a'']" 1 4 "''/host''"]
    shelf_cap shelf_idle by (simp add: shelf_with_def)

text \<open>A target above the cap is never reached and never given up: the loop starts a container,
  fails to push it, kills it and goes on, for every amount of fuel.\<close>

lemma prewarm_above_cap_never_ends:
  assumes "redis_lists E lst" and "quiet_rest E lst" and "prewarm_ready E lst img workdir croot"
    and "WARM_POOL_MAX_PER_IMAGE E < target" and "no_jobs (lst w)"
    and "int (length (lst w (pool_key img))) < target"
  shows "\<forall>n. fst (prewarm_loop n E img workdir croot hroot target (length (lst w (pool_key img))) w) = Inl Diverges"
  using prewarm_runs_on [OF assms(1-5) assms(6,6)] by blast

lemma prewarm_above_cap_never_ends_witness:
  "\<forall>n. fst (prewarm_loop n shelf ''img'' ''/app'' ''/sandbox'' ''/host'' 51 0 (shelf_with [])) = Inl Diverges"
  using prewarm_above_cap_never_ends [OF shelf_redis_lists shelf_quiet shelf_prewarm_ready, of 51 "shelf_with []" "''/host''"]
    shelf_cap shelf_idle by (simp add: shelf_with_def)

end
