(* ===== verification/Transitions.thy ===== *)
theory Transitions
  imports Main
begin

text \<open>
  Interleaved executions: the states reachable from a start state by a step relation, invariants as
  a contract between the two, and counting processes by the place in the code they are at. The
  protocols that several processes follow over one Redis are built on it.
\<close>

section \<open>Reachable states\<close>

inductive reach :: "'s \<Rightarrow> ('s \<Rightarrow> 's \<Rightarrow> bool) \<Rightarrow> 's \<Rightarrow> bool" for start step where
  reach_start: "reach start step start"
| reach_step: "reach start step s \<Longrightarrow> step s s' \<Longrightarrow> reach start step s'"

lemma reach_mono:
  assumes "reach start step s" and "\<And>s s'. step s s' \<Longrightarrow> step' s s'"
  shows "reach start step' s"
  using assms(1) by induction (auto intro: reach.intros assms(2))

text \<open>An invariant: it holds at the start and every step keeps it.\<close>

locale invariant =
  fixes start :: 's and step :: "'s \<Rightarrow> 's \<Rightarrow> bool" and inv :: "'s \<Rightarrow> bool"
  assumes inv_start: "inv start"
    and inv_step: "inv s \<Longrightarrow> step s s' \<Longrightarrow> inv s'"
begin

lemma always: "reach start step s \<Longrightarrow> inv s"
  by (induction rule: reach.induct) (auto intro: inv_start inv_step)

end

section \<open>Processes at a place in the code\<close>

definition at_pc :: "'p list \<Rightarrow> 'p \<Rightarrow> nat" where
  "at_pc ps p = length (filter (\<lambda>q. q = p) ps)"

lemma at_pc_replicate [simp]: "at_pc (replicate n q) p = (if q = p then n else 0)"
  by (simp add: at_pc_def)

lemma at_pc_pos: "i < length ps \<Longrightarrow> 0 < at_pc ps (ps ! i)"
  unfolding at_pc_def by (metis (mono_tags, lifting) filter_empty_conv length_greater_0_conv nth_mem)

lemma at_pc_le: "at_pc ps p \<le> length ps"
  by (simp add: at_pc_def)

lemma at_pc_update:
  assumes "i < length ps"
  shows "at_pc (ps[i := q]) p + (if ps ! i = p then 1 else 0) = at_pc ps p + (if q = p then 1 else 0)"
proof -
  obtain xs a ys where ps: "ps = xs @ a # ys" "length xs = i"
    using assms by (metis id_take_nth_drop length_take min.absorb4)
  then have "ps[i := q] = xs @ q # ys" "ps ! i = a" by (auto simp: list_update_append)
  with ps show ?thesis by (simp add: at_pc_def)
qed

text \<open>A process that moves from one place to another.\<close>

lemma at_pc_move:
  assumes "i < length ps" and "ps ! i = p" and "p \<noteq> q"
  shows "at_pc (ps[i := q]) r =
    (if r = p then at_pc ps p - 1 else if r = q then Suc (at_pc ps q) else at_pc ps r)"
  using at_pc_update [OF assms(1), of q r] assms(2,3) by auto

end
