(* ===== verification/PoolProtocol.thy ===== *)
theory PoolProtocol
  imports ContainerPool Transitions
begin

text \<open>
  The warm pool of \<open>execution/container_pool.py\<close> under interleaving: the requests of many workers, the
  prewarming and the reapers (one in each worker process) share the Redis list of one image. A step is one
  Redis command with the action that follows from its answer; a reaper takes two.
\<close>

section \<open>States and steps\<close>

text \<open>The list (young end first), the containers that requests hold, all containers ever started, those
  that were told to stop (\<open>_kill_container\<close>), those found dead when they were released, and the
  lists that reapers have read and not yet replaced.\<close>

record pool_state =
  pool :: "string list"
  in_use :: "string list"
  started :: "string set"
  killed :: "string set"
  dead :: "string set"
  snapshots :: "string list list"

definition pool_start :: pool_state where
  "pool_start = \<lparr>pool = [], in_use = [], started = {}, killed = {}, dead = {}, snapshots = []\<rparr>"

text \<open>Requests: one that finds no warm container starts one (\<open>cold_start\<close>). A popped entry is handed out, or
  its container is told to stop because it is expired or unusable. A container that is not alive any more
  when it is released is dropped, another goes to the list unless that is full.\<close>

inductive pool_step :: "nat \<Rightarrow> pool_state \<Rightarrow> pool_state \<Rightarrow> bool" for cap where
  cold_start: "c \<notin> started s \<Longrightarrow>
     pool_step cap s (s\<lparr>in_use := c # in_use s, started := insert c (started s)\<rparr>)"
| acquire_usable: "pool s \<noteq> [] \<Longrightarrow>
     pool_step cap s (s\<lparr>pool := butlast (pool s), in_use := last (pool s) # in_use s\<rparr>)"
| acquire_stale: "pool s \<noteq> [] \<Longrightarrow>
     pool_step cap s (s\<lparr>pool := butlast (pool s), killed := insert (last (pool s)) (killed s)\<rparr>)"
| release_dead: "c \<in> set (in_use s) \<Longrightarrow>
     pool_step cap s (s\<lparr>in_use := remove1 c (in_use s), dead := insert c (dead s)\<rparr>)"
| release_push: "c \<in> set (in_use s) \<Longrightarrow> length (pool s) < cap \<Longrightarrow>
     pool_step cap s (s\<lparr>pool := c # pool s, in_use := remove1 c (in_use s)\<rparr>)"
| release_full: "c \<in> set (in_use s) \<Longrightarrow> cap \<le> length (pool s) \<Longrightarrow>
     pool_step cap s (s\<lparr>in_use := remove1 c (in_use s), killed := insert c (killed s)\<rparr>)"

text \<open>Prewarming: the new container goes to the list, or is told to stop if the list is full by then.\<close>

inductive prewarm_step :: "nat \<Rightarrow> pool_state \<Rightarrow> pool_state \<Rightarrow> bool" for cap where
  prewarm_push: "c \<notin> started s \<Longrightarrow> length (pool s) < cap \<Longrightarrow>
     prewarm_step cap s (s\<lparr>pool := c # pool s, started := insert c (started s)\<rparr>)"
| prewarm_full: "c \<notin> started s \<Longrightarrow> cap \<le> length (pool s) \<Longrightarrow>
     prewarm_step cap s (s\<lparr>started := insert c (started s), killed := insert c (killed s)\<rparr>)"

definition kill_all :: "string list \<Rightarrow> pool_state \<Rightarrow> pool_state" where
  "kill_all cs s = s\<lparr>killed := killed s \<union> set cs\<rparr>"

text \<open>A reaper reads the list and later replaces it by the entries it read that have not expired; the others
  it tells to stop.\<close>

inductive reap_in_two :: "pool_state \<Rightarrow> pool_state \<Rightarrow> bool" where
  lrange: "pool s \<noteq> [] \<Longrightarrow> reap_in_two s (s\<lparr>snapshots := pool s # snapshots s\<rparr>)"
| rebuild: "cs \<in> set (snapshots s) \<Longrightarrow>
     reap_in_two s ((kill_all (filter expired cs) s)\<lparr>pool := filter (\<lambda>c. \<not> expired c) cs, snapshots := remove1 cs (snapshots s)\<rparr>)"

definition actual_step :: "nat \<Rightarrow> pool_state \<Rightarrow> pool_state \<Rightarrow> bool" where
  "actual_step cap s s' \<longleftrightarrow> pool_step cap s s' \<or> prewarm_step cap s s' \<or> reap_in_two s s'"

inductive_cases pool_stepE: "pool_step cap s s'"
inductive_cases prewarm_stepE: "prewarm_step cap s s'"
inductive_cases reap_in_twoE: "reap_in_two s s'"

section \<open>The invariant\<close>

text \<open>No container is in two places, the cap is kept, and every container is accounted for: it is in the list,
  with a request, or it was told to stop or found dead, and only one of these.\<close>

definition pool_inv :: "nat \<Rightarrow> pool_state \<Rightarrow> bool" where
  "pool_inv cap s \<longleftrightarrow> distinct (pool s @ in_use s) \<and> length (pool s) \<le> cap \<and>
     (set (pool s) \<union> set (in_use s)) \<inter> (killed s \<union> dead s) = {} \<and>
     started s = set (pool s) \<union> set (in_use s) \<union> killed s \<union> dead s"

text \<open>A step that is no replacement of a list that has changed since the reaper read it.\<close>

definition replaces_current :: "pool_state \<Rightarrow> pool_state \<Rightarrow> bool" where
  "replaces_current s s' \<longleftrightarrow> (\<forall>cs \<in> set (snapshots s). snapshots s' = remove1 cs (snapshots s) \<longrightarrow> cs = pool s)"

lemma pool_inv_pop:
  assumes "pool_inv cap s" and "pool s \<noteq> []"
  shows "pool_inv cap (s\<lparr>pool := butlast (pool s), in_use := last (pool s) # in_use s\<rparr>)"
    and "pool_inv cap (s\<lparr>pool := butlast (pool s), killed := insert (last (pool s)) (killed s)\<rparr>)"
proof -
  obtain xs c where "pool s = xs @ [c]" using assms(2) by (cases "pool s" rule: rev_cases) auto
  then show "pool_inv cap (s\<lparr>pool := butlast (pool s), in_use := last (pool s) # in_use s\<rparr>)"
    "pool_inv cap (s\<lparr>pool := butlast (pool s), killed := insert (last (pool s)) (killed s)\<rparr>)"
    using assms(1) by (auto simp: pool_inv_def)
qed

lemma pool_inv_step:
  assumes "pool_inv cap s" and "pool_step cap s s'"
  shows "pool_inv cap s'"
  using assms(2)
proof (rule pool_stepE)
  assume "s' = s\<lparr>pool := butlast (pool s), in_use := last (pool s) # in_use s\<rparr>" "pool s \<noteq> []"
  then show ?thesis using pool_inv_pop(1) [OF assms(1)] by simp
next
  assume "s' = s\<lparr>pool := butlast (pool s), killed := insert (last (pool s)) (killed s)\<rparr>" "pool s \<noteq> []"
  then show ?thesis using pool_inv_pop(2) [OF assms(1)] by simp
qed (use assms(1) in \<open>auto simp: pool_inv_def\<close>)

lemma pool_inv_prewarm: "pool_inv cap s \<Longrightarrow> prewarm_step cap s s' \<Longrightarrow> pool_inv cap s'"
  by (erule prewarm_stepE) (auto simp: pool_inv_def)

lemma pool_inv_reap:
  assumes "pool_inv cap s" and "reap_in_two s s'" and "replaces_current s s'"
  shows "pool_inv cap s'"
  using assms(2)
proof (rule reap_in_twoE)
  fix cs expired
  assume s': "s' = (kill_all (filter expired cs) s)\<lparr>pool := filter (\<lambda>c. \<not> expired c) cs, snapshots := remove1 cs (snapshots s)\<rparr>"
    and cs: "cs \<in> set (snapshots s)"
  then have "cs = pool s" using assms(3) by (simp add: replaces_current_def)
  then show ?thesis using assms(1) s' by (auto simp: pool_inv_def kill_all_def intro: le_trans [OF length_filter_le])
qed (use assms(1) in \<open>simp add: pool_inv_def\<close>)

lemma pool_inv_start: "pool_inv cap pool_start"
  by (simp add: pool_inv_def pool_start_def)

interpretation pooled: invariant pool_start "\<lambda>s s'. actual_step cap s s' \<and> replaces_current s s'" "pool_inv cap" for cap
  by unfold_locales
    (auto simp: actual_step_def intro: pool_inv_start pool_inv_step pool_inv_prewarm pool_inv_reap)

section \<open>Properties of the shared pool\<close>

text \<open>C23. A warm container serves one request at a time as long as no reaper replaces a list that has changed
  since it read it: then, however requests, prewarming and reapers interleave, no container is in the list
  and with a request, or with two requests, none of these has been told to stop, the list keeps its cap,
  and every container ever started is in the list, with a request, told to stop or found dead. That
  proviso is the only one: every step of the pool's code is taken into account.\<close>

theorem pool_exclusive_unless_raced:
  assumes "reach pool_start (\<lambda>s s'. actual_step cap s s' \<and> replaces_current s s') s"
  shows "distinct (pool s @ in_use s) \<and> length (pool s) \<le> cap \<and>
    (set (pool s) \<union> set (in_use s)) \<inter> (killed s \<union> dead s) = {} \<and>
    started s = set (pool s) \<union> set (in_use s) \<union> killed s \<union> dead s"
  using pooled.always [OF assms] by (simp add: pool_inv_def)

abbreviation one_pooled :: "string \<Rightarrow> pool_state" where
  "one_pooled c \<equiv> \<lparr>pool = [c], in_use = [], started = {c}, killed = {}, dead = {}, snapshots = []\<rparr>"

lemma one_pooled_step: "0 < cap \<Longrightarrow> actual_step cap pool_start (one_pooled c)"
  using prewarm_push [of c pool_start cap] by (simp add: pool_start_def actual_step_def)

text \<open>A container is prewarmed, the reaper reads the list, finds it expired and replaces the list.\<close>

theorem pool_exclusive_unless_raced_witness:
  "\<exists>s. reach pool_start (\<lambda>s s'. actual_step 1 s s' \<and> replaces_current s s') s \<and>
    killed s = {''c1''} \<and> started s = set (pool s) \<union> set (in_use s) \<union> killed s \<union> dead s"
proof -
  let ?R = "\<lambda>s s'. actual_step 1 s s' \<and> replaces_current s s'"
  let ?S = "\<lambda>p k sn. \<lparr>pool = p, in_use = [], started = {''c1''}, killed = k, dead = {}, snapshots = sn\<rparr>"
  have "?R pool_start (one_pooled ''c1'')" using one_pooled_step [of 1] by (simp add: replaces_current_def pool_start_def)
  moreover have "?R (one_pooled ''c1'') (?S [''c1''] {} [[''c1'']])"
    using lrange [of "one_pooled ''c1''"] by (simp add: actual_step_def replaces_current_def)
  moreover have "?R (?S [''c1''] {} [[''c1'']]) (?S [] {''c1''} [])"
    using rebuild [of "[''c1'']" "?S [''c1''] {} [[''c1'']]" "\<lambda>_. True"] by (simp add: actual_step_def replaces_current_def kill_all_def)
  ultimately have r: "reach pool_start ?R (?S [] {''c1''} [])" by (blast intro: reach_start reach_step [where step = ?R])
  from r pool_exclusive_unless_raced [OF r] show ?thesis by (intro exI [of _ "?S [] {''c1''} []"]) simp
qed

text \<open>C24. The reaper hands a container out twice: it reads the list in one command and replaces it in
  another, so that a container taken in between is put back while a request runs in it, and the next
  request gets it as well.\<close>

theorem reaper_race_hands_out_twice:
  assumes "0 < cap"
  shows "\<exists>s. reach pool_start (actual_step cap) s \<and> in_use s = [c, c]"
proof -
  let ?S = "\<lambda>p u sn. \<lparr>pool = p, in_use = u, started = {c}, killed = {}, dead = {}, snapshots = sn\<rparr>"
  have "actual_step cap pool_start (?S [c] [] [])" by (rule one_pooled_step [OF assms])
  moreover have "actual_step cap (?S [c] [] []) (?S [c] [] [[c]])"
    using lrange [of "?S [c] [] []"] by (simp add: actual_step_def)
  moreover have "actual_step cap (?S [c] [] [[c]]) (?S [] [c] [[c]])"
    using acquire_usable [of "?S [c] [] [[c]]"] by (simp add: actual_step_def)
  moreover have "actual_step cap (?S [] [c] [[c]]) (?S [c] [c] [])"
    using rebuild [of "[c]" "?S [] [c] [[c]]" "\<lambda>_. False"] by (simp add: actual_step_def kill_all_def)
  moreover have "actual_step cap (?S [c] [c] []) (?S [] [c, c] [])"
    using acquire_usable [of "?S [c] [c] []"] by (simp add: actual_step_def)
  ultimately have "reach pool_start (actual_step cap) (?S [] [c, c] [])" by (meson reach_start reach_step)
  then show ?thesis by fastforce
qed

theorem reaper_race_hands_out_twice_witness:
  "\<exists>s. reach pool_start (actual_step 50) s \<and> in_use s = [''c1'', ''c1'']"
  using reaper_race_hands_out_twice [of 50 "''c1''"] by simp

text \<open>The reaper forgets a container: one that a request releases between the two commands is
  overwritten; it keeps running, in no list and with no request, and nothing will stop it.\<close>

lemma reaper_race_loses_container:
  assumes "1 < cap" and "c \<noteq> d"
  shows "\<exists>s. reach pool_start (actual_step cap) s \<and>
    d \<in> started s \<and> d \<notin> killed s \<and> d \<notin> dead s \<and> d \<notin> set (pool s) \<and> d \<notin> set (in_use s)"
proof -
  let ?S = "\<lambda>p u sn. \<lparr>pool = p, in_use = u, started = {d, c}, killed = {}, dead = {}, snapshots = sn\<rparr>"
  have "actual_step cap pool_start (one_pooled c)" using one_pooled_step assms by simp
  moreover have "actual_step cap (one_pooled c) (?S [c] [d] [])"
    using cold_start [of d "one_pooled c" cap] assms by (simp add: actual_step_def)
  moreover have "actual_step cap (?S [c] [d] []) (?S [c] [d] [[c]])"
    using lrange [of "?S [c] [d] []"] by (simp add: actual_step_def)
  moreover have "actual_step cap (?S [c] [d] [[c]]) (?S [d, c] [] [[c]])"
    using release_push [of d "?S [c] [d] [[c]]" cap] assms by (simp add: actual_step_def)
  moreover have "actual_step cap (?S [d, c] [] [[c]]) (?S [c] [] [])"
    using rebuild [of "[c]" "?S [d, c] [] [[c]]" "\<lambda>_. False"] by (simp add: actual_step_def kill_all_def)
  ultimately have "reach pool_start (actual_step cap) (?S [c] [] [])" by (meson reach_start reach_step)
  then show ?thesis using assms(2) by (intro exI [of _ "?S [c] [] []"]) simp
qed

lemma reaper_race_loses_container_witness:
  "\<exists>s. reach pool_start (actual_step 50) s \<and>
    ''c2'' \<in> started s \<and> ''c2'' \<notin> killed s \<and> ''c2'' \<notin> dead s \<and> ''c2'' \<notin> set (pool s) \<and> ''c2'' \<notin> set (in_use s)"
  using reaper_race_loses_container [of 50 "''c1''" "''c2''"] by simp

end
