(* ===== verification/SemaphoreProtocol.thy ===== *)
theory SemaphoreProtocol
  imports Semaphore RedisLaws Transitions
begin

text \<open>
  The semaphore of \<open>execution/docker_semaphore.py\<close> as processes that share one Redis: one step per
  Redis command of the context manager, in any order among the processes, with the two faults the
  system lives with: Redis may restart without its data (a comment of the code says so), and a
  process may die.
\<close>

section \<open>States and steps\<close>

text \<open>Where a process is: before the context manager; after \<open>SETNX\<close> told it to create the slots;
  after the \<open>DEL\<close>; before the \<open>BRPOP\<close>; in the body.\<close>

datatype sem_pc = Outside | Claimed | Deleted | Waiting | Inside

record sem_state =
  sem_init :: bool
  sem_tokens :: nat
  sem_pcs :: "sem_pc list"

definition sem_start :: "nat \<Rightarrow> sem_state" where
  "sem_start n = \<lparr>sem_init = False, sem_tokens = 0, sem_pcs = replicate n Outside\<rparr>"

definition is_at :: "sem_state \<Rightarrow> nat \<Rightarrow> sem_pc \<Rightarrow> bool" where
  "is_at s i p \<longleftrightarrow> i < length (sem_pcs s) \<and> sem_pcs s ! i = p"

definition move :: "nat \<Rightarrow> sem_pc \<Rightarrow> sem_state \<Rightarrow> sem_state" where
  "move i p s = s\<lparr>sem_pcs := (sem_pcs s)[i := p]\<rparr>"

inductive sem_step :: "nat \<Rightarrow> sem_state \<Rightarrow> sem_state \<Rightarrow> bool" for c where
  setnx_fresh: "is_at s i Outside \<Longrightarrow> \<not> sem_init s \<Longrightarrow> sem_step c s (move i Claimed s\<lparr>sem_init := True\<rparr>)"
| setnx_known: "is_at s i Outside \<Longrightarrow> sem_init s \<Longrightarrow> sem_step c s (move i Waiting s)"
| delete: "is_at s i Claimed \<Longrightarrow> sem_step c s (move i Deleted s\<lparr>sem_tokens := 0\<rparr>)"
| rpush: "is_at s i Deleted \<Longrightarrow> sem_step c s (move i Waiting s\<lparr>sem_tokens := sem_tokens s + c\<rparr>)"
| brpop: "is_at s i Waiting \<Longrightarrow> 0 < sem_tokens s \<Longrightarrow> sem_step c s (move i Inside s\<lparr>sem_tokens := sem_tokens s - 1\<rparr>)"
| timeout: "is_at s i Waiting \<Longrightarrow> sem_step c s (move i Outside s)"
| lpush: "is_at s i Inside \<Longrightarrow> sem_step c s (move i Outside s\<lparr>sem_tokens := sem_tokens s + 1\<rparr>)"

inductive process_dies :: "sem_state \<Rightarrow> sem_state \<Rightarrow> bool" where
  dies: "i < length (sem_pcs s) \<Longrightarrow> process_dies s (move i Outside s)"

inductive redis_restarts :: "sem_state \<Rightarrow> sem_state \<Rightarrow> bool" where
  restarts: "redis_restarts s (s\<lparr>sem_init := False, sem_tokens := 0\<rparr>)"

definition step_or_death :: "nat \<Rightarrow> sem_state \<Rightarrow> sem_state \<Rightarrow> bool" where
  "step_or_death c s s' \<longleftrightarrow> sem_step c s s' \<or> process_dies s s'"

definition step_or_restart :: "nat \<Rightarrow> sem_state \<Rightarrow> sem_state \<Rightarrow> bool" where
  "step_or_restart c s s' \<longleftrightarrow> sem_step c s s' \<or> redis_restarts s s'"

abbreviation holders :: "sem_state \<Rightarrow> nat" where
  "holders s \<equiv> at_pc (sem_pcs s) Inside"

abbreviation creators :: "sem_state \<Rightarrow> nat" where
  "creators s \<equiv> at_pc (sem_pcs s) Claimed + at_pc (sem_pcs s) Deleted"

section \<open>The invariant\<close>

text \<open>Slots and holders add up, except while the one process that \<open>SETNX\<close> chose creates the slots;
  until then nobody gets in.\<close>

definition sem_inv :: "nat \<Rightarrow> sem_state \<Rightarrow> bool" where
  "sem_inv c s \<longleftrightarrow>
     (if \<not> sem_init s then sem_tokens s = 0 \<and> holders s = 0 \<and> creators s = 0 \<and> at_pc (sem_pcs s) Waiting = 0
      else if creators s = 0 then sem_tokens s + holders s = c
      else creators s = 1 \<and> sem_tokens s = 0 \<and> holders s = 0)"

lemma move_simps [simp]:
  "sem_pcs (move i p s) = (sem_pcs s)[i := p]" "sem_init (move i p s) = sem_init s"
  "sem_tokens (move i p s) = sem_tokens s"
  by (simp_all add: move_def)

lemma is_at_pos: "is_at s i p \<Longrightarrow> 0 < at_pc (sem_pcs s) p"
  using at_pc_pos by (auto simp: is_at_def)

lemma is_at_move:
  assumes "is_at s i p" and "p \<noteq> q"
  shows "at_pc ((sem_pcs s)[i := q]) r = (if r = p then at_pc (sem_pcs s) p - 1
    else if r = q then Suc (at_pc (sem_pcs s) q) else at_pc (sem_pcs s) r)"
  using at_pc_move [of i "sem_pcs s" p q] assms by (auto simp: is_at_def)

lemma sem_inv_start: "sem_inv c (sem_start n)"
  by (simp add: sem_inv_def sem_start_def)

lemma sem_inv_step:
  assumes "sem_step c s s'" and "sem_inv c s"
  shows "sem_inv c s'"
  using assms
  by cases (use is_at_pos in \<open>fastforce simp: sem_inv_def is_at_move split: if_splits\<close>)+

interpretation tokens: invariant "sem_start n" "sem_step c" "sem_inv c" for n c
  by unfold_locales (auto intro: sem_inv_start sem_inv_step)

section \<open>With processes that die\<close>

definition sem_safe :: "nat \<Rightarrow> sem_state \<Rightarrow> bool" where
  "sem_safe c s \<longleftrightarrow>
     (if \<not> sem_init s then sem_tokens s = 0 \<and> holders s = 0 \<and> creators s = 0 \<and> at_pc (sem_pcs s) Waiting = 0
      else if creators s = 0 then sem_tokens s + holders s \<le> c
      else creators s = 1 \<and> sem_tokens s = 0 \<and> holders s = 0)"

lemma sem_safe_step:
  assumes "sem_step c s s'" and "sem_safe c s"
  shows "sem_safe c s'"
  using assms
  by cases (use is_at_pos in \<open>fastforce simp: sem_safe_def is_at_move split: if_splits\<close>)+

lemma sem_safe_death:
  assumes "process_dies s s'" and "sem_safe c s"
  shows "sem_safe c s'"
  using assms(1)
proof cases
  case (dies i)
  have i: "is_at s i (sem_pcs s ! i)" using dies(2) by (simp add: is_at_def)
  show ?thesis
  proof (cases "sem_pcs s ! i = Outside")
    case True
    then have "(sem_pcs s)[i := Outside] = sem_pcs s" by (metis list_update_id)
    then show ?thesis using assms(2) dies by (simp add: move_def)
  next
    case False
    then show ?thesis using assms(2) dies is_at_move [OF i, of Outside] is_at_pos [OF i]
      by (cases "sem_pcs s ! i") (auto simp: sem_safe_def split: if_splits)
  qed
qed

lemma sem_safe_start: "sem_safe c (sem_start n)"
  by (simp add: sem_safe_def sem_start_def)

interpretation deaths: invariant "sem_start n" "step_or_death c" "sem_safe c" for n c
  by unfold_locales (auto simp: step_or_death_def sem_safe_start dest: sem_safe_step sem_safe_death)

section \<open>A creator that dies\<close>

text \<open>The slots are announced but were never created.\<close>

definition wedged :: "sem_state \<Rightarrow> bool" where
  "wedged s \<longleftrightarrow> sem_init s \<and> creators s = 0 \<and> sem_tokens s = 0 \<and> holders s = 0"

lemma wedged_step: "sem_step c s s' \<Longrightarrow> wedged s \<Longrightarrow> wedged s'"
  by (cases rule: sem_step.cases, assumption)
    (use is_at_pos in \<open>fastforce simp: wedged_def is_at_move\<close>)+

lemma wedged_death:
  assumes "process_dies s s'" and "wedged s"
  shows "wedged s'"
  using assms(1)
proof cases
  case (dies i)
  then show ?thesis
    using assms(2) at_pc_update [of i "sem_pcs s" Outside Inside] at_pc_update [of i "sem_pcs s" Outside Claimed]
      at_pc_update [of i "sem_pcs s" Outside Deleted] by (auto simp: wedged_def)
qed

lemma wedged_reach: "reach s (step_or_death c) t \<Longrightarrow> wedged s \<Longrightarrow> wedged t"
  by (induction rule: reach.induct) (auto simp: step_or_death_def dest: wedged_step wedged_death)

section \<open>A Redis that restarts\<close>

text \<open>After each restart one more process gets in.\<close>

lemma restart_lets_one_in:
  assumes "reach s0 (step_or_restart c) s" and "is_at s i Outside" and "0 < c"
  shows "\<exists>s'. reach s0 (step_or_restart c) s' \<and> sem_pcs s' = (sem_pcs s)[i := Inside]"
proof -
  let ?s1 = "s\<lparr>sem_init := False, sem_tokens := 0\<rparr>"
  let ?s2 = "move i Claimed ?s1\<lparr>sem_init := True\<rparr>"
  let ?s3 = "move i Deleted ?s2\<lparr>sem_tokens := 0\<rparr>"
  let ?s4 = "move i Waiting ?s3\<lparr>sem_tokens := sem_tokens ?s3 + c\<rparr>"
  let ?s5 = "move i Inside ?s4\<lparr>sem_tokens := sem_tokens ?s4 - 1\<rparr>"
  have at: "is_at ?s1 i Outside" "is_at ?s2 i Claimed" "is_at ?s3 i Deleted" "is_at ?s4 i Waiting"
    using assms(2) by (auto simp: is_at_def)
  have "step_or_restart c s ?s1" by (simp add: step_or_restart_def redis_restarts.simps)
  moreover have "step_or_restart c ?s1 ?s2" using setnx_fresh [OF at(1)] by (simp add: step_or_restart_def)
  moreover have "step_or_restart c ?s2 ?s3" using delete [OF at(2)] by (simp add: step_or_restart_def)
  moreover have "step_or_restart c ?s3 ?s4" using rpush [OF at(3)] by (simp add: step_or_restart_def)
  moreover have "step_or_restart c ?s4 ?s5" using brpop [OF at(4)] assms(3) by (simp add: step_or_restart_def)
  ultimately have "reach s0 (step_or_restart c) ?s5" using assms(1) by (meson reach_step)
  moreover have "sem_pcs ?s5 = (sem_pcs s)[i := Inside]" by simp
  ultimately show ?thesis by blast
qed

lemma restarts_let_all_in:
  assumes "0 < c" and "k \<le> n"
  shows "\<exists>s. reach (sem_start n) (step_or_restart c) s \<and> sem_pcs s = replicate k Inside @ replicate (n - k) Outside"
  using assms(2)
proof (induction k)
  case 0
  have "sem_pcs (sem_start n) = replicate n Outside" by (simp add: sem_start_def)
  then show ?case using reach_start by (metis append_Nil minus_nat.diff_0 replicate_0)
next
  case (Suc k)
  then obtain s where s: "reach (sem_start n) (step_or_restart c) s"
    "sem_pcs s = replicate k Inside @ replicate (n - k) Outside" by auto
  have "is_at s k Outside" using s(2) Suc.prems by (simp add: is_at_def nth_append)
  moreover have "(replicate k Inside @ replicate (n - k) Outside)[k := Inside] =
      replicate (Suc k) Inside @ replicate (n - Suc k) Outside"
    using Suc.prems by (cases "n - k") (auto simp: list_update_append replicate_append_same Suc_diff_Suc diff_Suc)
  ultimately show ?case using restart_lets_one_in [OF s(1) _ assms(1)] s(2) by metis
qed

section \<open>The context manager in one process\<close>

text \<open>The documented behaviour of the commands it uses: \<open>SETNX\<close> touches no list, \<open>BRPOP\<close> of one
  list takes its last element, or nothing once the time is over and the list is empty.\<close>

definition sem_laws :: "'w env \<Rightarrow> ('w \<Rightarrow> string \<Rightarrow> string list) \<Rightarrow> string \<Rightarrow> bool" where
  "sem_laws E lst key \<longleftrightarrow> redis_lists E lst \<and>
     (\<forall>v t w. \<exists>b w'. r_set_nx E (init_key key) v t w = (Inr b, w') \<and> lst w' = lst w) \<and>
     (\<forall>t. answers lst (r_brpop E [key] t) (\<lambda>l. if l key = [] then None else Some (key, last (l key)))
        (\<lambda>l. l(key := butlast (l key))))"

text \<open>After the initialisation there are the slots there were, or all of them.\<close>

lemma sem_init_phase:
  assumes "sem_laws E lst key"
  obtains b w1 where "io_bind (r_set_nx E (init_key key) ''1'' None) (\<lambda>fresh.
       io_then (if fresh then io_then (r_delete E key) (r_rpush E key (replicate (nat c) token)) else io_return ()) k) w = k w1"
    and "length (lst w1 key) = (if b then nat c else length (lst w key))"
proof -
  obtain b w1 where w1: "r_set_nx E (init_key key) ''1'' None w = (Inr b, w1)" "lst w1 = lst w"
    using assms unfolding sem_laws_def by meson
  have lists: "redis_lists E lst" using assms by (simp add: sem_laws_def)
  obtain w2 where w2: "r_delete E key w1 = (Inr (), w2)" "lst w2 = (lst w1)(key := [])"
    using redis_listsD(6) [OF lists, of key] by (rule answersE)
  obtain w3 where w3: "r_rpush E key (replicate (nat c) token) w2 = (Inr (), w3)"
      "lst w3 = (lst w2)(key := lst w2 key @ replicate (nat c) token)"
    using redis_listsD(3) [OF lists, of key] by (rule answersE)
  show thesis
    by (rule that [of "if b then w3 else w1" b]) (use w1 w2 w3 in \<open>cases b; simp\<close>)+
qed

lemma with_semaphore_cases:
  assumes "sem_laws E lst key" and "with_semaphore E key c body w = (r, w')"
    and "\<And>w. fst (body w) \<noteq> Inl Diverges" and "\<And>w. length (lst (snd (body w)) key) = length (lst w key)"
  shows "\<exists>slots \<in> {length (lst w key), nat c}. length (lst w' key) = slots \<and>
    (if slots = 0 then r = Inl (RuntimeError (''Timed out waiting for '' @ key @ '' slot after 120s''))
     else (\<exists>w1. r = fst (body w1)))"
proof -
  let ?get = "io_bind (r_brpop E [key] ACQUIRE_TIMEOUT) (\<lambda>result. case result of
      None \<Rightarrow> io_raise (RuntimeError (''Timed out waiting for '' @ key @ '' slot after '' @ int_str ACQUIRE_TIMEOUT @ ''s''))
    | Some _ \<Rightarrow> io_finally body (r_lpush E key token))"
  obtain b w1 where run: "with_semaphore E key c body w = ?get w1"
    and slots: "length (lst w1 key) = (if b then nat c else length (lst w key))"
    unfolding with_semaphore_def by (rule sem_init_phase [OF assms(1)])
  obtain w2 where w2: "r_brpop E [key] ACQUIRE_TIMEOUT w1 = (Inr (if lst w1 key = [] then None else Some (key, last (lst w1 key))), w2)"
      "lst w2 = (lst w1)(key := butlast (lst w1 key))"
    using assms(1) unfolding sem_laws_def by (meson answersE)
  have limit: "int_str ACQUIRE_TIMEOUT = ''120''" by (simp add: ACQUIRE_TIMEOUT_def) code_simp
  show ?thesis
  proof (cases "lst w1 key = []")
    case True
    then have "r = Inl (RuntimeError (''Timed out waiting for '' @ key @ '' slot after 120s''))" "w' = w2"
      using assms(2) run w2(1) by (simp_all add: limit)
    then show ?thesis using True slots w2(2) by (intro bexI [of _ 0]) (auto split: if_splits)
  next
    case False
    obtain x w3 where x: "body w2 = (x, w3)" by fastforce
    obtain w4 where w4: "r_lpush E key token w3 = (Inr (), w4)" "lst w4 = (lst w3)(key := token # lst w3 key)"
      using redis_listsD(2) [of E lst key] assms(1) unfolding sem_laws_def by (meson answersE)
    have "x \<noteq> Inl Diverges" "length (lst w3 key) = length (lst w2 key)"
      using assms(3) [of w2] assms(4) [of w2] x by simp_all
    then have "r = x" "w' = w4" "length (lst w4 key) = length (lst w1 key)"
      using False assms(2) run w2 x w4 by (simp_all add: io_finally_def)
    moreover have "\<exists>w1. x = fst (body w1)" using x by (metis fst_conv)
    ultimately show ?thesis using False slots
      by (intro bexI [of _ "length (lst w1 key)"]) (auto split: if_splits)
  qed
qed

section \<open>Properties of the semaphores\<close>

text \<open>The slot is given back: whatever the body of the context manager does, the list holds as
  many tokens afterwards as at the start (or all of them, if this process created the slots); if
  there was none to take, the body is not run and the documented error is raised, otherwise the
  outcome is the body's.\<close>

lemma with_semaphore_gives_slot_back:
  assumes "sem_laws E lst key" and "with_semaphore E key c body w = (r, w')"
    and "\<And>w. fst (body w) \<noteq> Inl Diverges" and "\<And>w. length (lst (snd (body w)) key) = length (lst w key)"
  shows "\<exists>slots \<in> {length (lst w key), nat c}. length (lst w' key) = slots \<and>
    (if slots = 0 then r = Inl (RuntimeError (''Timed out waiting for '' @ key @ '' slot after 120s''))
     else (\<exists>w1. r = fst (body w1)))"
  using with_semaphore_cases [OF assms] .

lemma list_store_sem_laws: "sem_laws list_store (\<lambda>l. l) key"
  using list_store_lists by (auto simp: sem_laws_def answers_def list_store_def offline_def)

lemma with_semaphore_gives_slot_back_witness:
  "length (snd (with_semaphore list_store ''s'' 2 (io_raise (CompileError []) :: (string \<Rightarrow> string list, unit) io) (\<lambda>_. [token, token])) ''s'') = 2"
proof -
  let ?m = "with_semaphore list_store ''s'' 2 (io_raise (CompileError []) :: (string \<Rightarrow> string list, unit) io) (\<lambda>_. [token, token])"
  have "?m = (fst ?m, snd ?m)" by simp
  from with_semaphore_gives_slot_back [OF list_store_sem_laws this] show ?thesis by auto
qed

text \<open>C25. The slots bound the holders: however the processes interleave, and even if any of them die
  at any point, no more processes are inside the context manager than it has slots.\<close>

theorem semaphore_never_overbooked:
  assumes "reach (sem_start n) (step_or_death c) s"
  shows "holders s \<le> c"
  using deaths.always [OF assms] by (auto simp: sem_safe_def split: if_splits)

lemma one_inside: "reach (sem_start 1) (sem_step 1) \<lparr>sem_init = True, sem_tokens = 0, sem_pcs = [Inside]\<rparr>"
proof -
  let ?S = "\<lambda>b t p. \<lparr>sem_init = b, sem_tokens = t, sem_pcs = [p]\<rparr>"
  have "reach (sem_start 1) (sem_step 1) (?S False 0 Outside)" using reach_start by (simp add: sem_start_def)
  moreover have "sem_step 1 (?S False 0 Outside) (?S True 0 Claimed)"
    using setnx_fresh [of "?S False 0 Outside" 0 1] by (simp add: is_at_def move_def)
  moreover have "sem_step 1 (?S True 0 Claimed) (?S True 0 Deleted)"
    using delete [of "?S True 0 Claimed" 0 1] by (simp add: is_at_def move_def)
  moreover have "sem_step 1 (?S True 0 Deleted) (?S True 1 Waiting)"
    using rpush [of "?S True 0 Deleted" 0 1] by (simp add: is_at_def move_def)
  moreover have "sem_step 1 (?S True 1 Waiting) (?S True 0 Inside)"
    using brpop [of "?S True 1 Waiting" 0 1] by (simp add: is_at_def move_def)
  ultimately show ?thesis by (meson reach_step)
qed

theorem semaphore_never_overbooked_witness:
  "holders \<lparr>sem_init = True, sem_tokens = 0, sem_pcs = [Inside]\<rparr> \<le> 1"
  by (rule semaphore_never_overbooked [of 1], rule reach_mono [OF one_inside]) (simp add: step_or_death_def)

text \<open>No slot is lost or made up: as long as no process dies and Redis keeps its data, the tokens
  in the list and the processes inside always add up to the configured concurrency, once the slots
  have been created.\<close>

lemma semaphore_slots_conserved:
  assumes "reach (sem_start n) (sem_step c) s" and "sem_init s" and "creators s = 0"
  shows "sem_tokens s + holders s = c"
  using tokens.always [OF assms(1)] assms(2,3) by (auto simp: sem_inv_def)

lemma semaphore_slots_conserved_witness:
  "sem_tokens \<lparr>sem_init = True, sem_tokens = 0, sem_pcs = [Inside]\<rparr> +
    holders \<lparr>sem_init = True, sem_tokens = 0, sem_pcs = [Inside]\<rparr> = 1"
  using semaphore_slots_conserved [OF one_inside] by (simp add: at_pc_def)

text \<open>C26. A restart of Redis breaks the bound: the slots are created anew although processes still
  hold old ones, so with restarts any number of processes can be inside at once.\<close>

theorem semaphore_overbooked_after_restarts:
  assumes "0 < c"
  shows "\<exists>s. reach (sem_start n) (step_or_restart c) s \<and> holders s = n"
  using restarts_let_all_in [OF assms order_refl, of n] by auto

theorem semaphore_overbooked_after_restarts_witness:
  "\<exists>s. reach (sem_start 100) (step_or_restart 20) s \<and> holders s = 100"
  using semaphore_overbooked_after_restarts [of 20 100] by simp

text \<open>A process that dies while it creates the slots blocks everyone: \<open>SETNX\<close> has announced slots
  that nobody will create, and from then on, until Redis loses its data, no process ever gets in.\<close>

lemma semaphore_wedged_by_dead_creator:
  assumes "reach (sem_start n) (sem_step c) s" and "is_at s i Claimed \<or> is_at s i Deleted"
    and "reach (move i Outside s) (step_or_death c) t"
  shows "sem_tokens t = 0 \<and> holders t = 0"
proof -
  have "sem_inv c s" using tokens.always [OF assms(1)] .
  then have "wedged (move i Outside s)"
    using assms(2) is_at_pos [of s i]
    by (elim disjE) (fastforce simp: wedged_def sem_inv_def is_at_move split: if_splits)+
  then show ?thesis using wedged_reach [OF assms(3)] by (simp add: wedged_def)
qed

lemma semaphore_wedged_by_dead_creator_witness:
  "holders \<lparr>sem_init = True, sem_tokens = 0, sem_pcs = [Waiting]\<rparr> = 0"
proof -
  let ?S = "\<lambda>b p. \<lparr>sem_init = b, sem_tokens = 0, sem_pcs = [p]\<rparr>"
  have "reach (sem_start 1) (sem_step 1) (?S False Outside)" using reach_start by (simp add: sem_start_def)
  moreover have "sem_step 1 (?S False Outside) (?S True Claimed)"
    using setnx_fresh [of "?S False Outside" 0 1] by (simp add: is_at_def move_def)
  ultimately have s: "reach (sem_start 1) (sem_step 1) (?S True Claimed)" by (meson reach_step)
  have "sem_step 1 (?S True Outside) (?S True Waiting)"
    using setnx_known [of "?S True Outside" 0 1] by (simp add: is_at_def move_def)
  then have "reach (?S True Outside) (step_or_death 1) (?S True Waiting)"
    by (intro reach_step [OF reach_start]) (simp add: step_or_death_def)
  then show ?thesis
    using semaphore_wedged_by_dead_creator [OF s, of 0 "?S True Waiting"] by (simp add: is_at_def move_def)
qed

end
