(* ===== verification/QueueProtocol.thy ===== *)
theory QueueProtocol
  imports JobQueue Transitions "HOL-Library.Multiset"
begin

text \<open>
  One job queue of \<open>jobqueue/job.py\<close> under interleaving: API processes that enqueue (\<open>LLEN\<close>, then
  \<open>LPUSH\<close>), the slots of the workers that take a job with \<open>BRPOP\<close> and publish its result, and slots
  that die with a job.
\<close>

section \<open>States and steps\<close>

text \<open>An API handler has not yet looked at the depth, or has found room.\<close>

datatype api_pc = Asking | Admitted

text \<open>The list (young end first), the handlers, what each worker slot holds, and the history: the jobs
  submitted, taken, answered and lost, each newest first.\<close>

record 'j queue_state =
  queue :: "'j list"
  handlers :: "api_pc list"
  slots :: "'j option list"
  submitted :: "'j list"
  taken :: "'j list"
  answered :: "'j list"
  lost :: "'j list"

definition queue_start :: "nat \<Rightarrow> nat \<Rightarrow> 'j queue_state" where
  "queue_start n m = \<lparr>queue = [], handlers = replicate n Asking, slots = replicate m None,
     submitted = [], taken = [], answered = [], lost = []\<rparr>"

inductive queue_step :: "int \<Rightarrow> 'j queue_state \<Rightarrow> 'j queue_state \<Rightarrow> bool" for depth_limit where
  llen_room: "i < length (handlers s) \<Longrightarrow> handlers s ! i = Asking \<Longrightarrow> \<not> depth_limit \<le> int (length (queue s)) \<Longrightarrow>
     queue_step depth_limit s (s\<lparr>handlers := (handlers s)[i := Admitted]\<rparr>)"
| lpush: "i < length (handlers s) \<Longrightarrow> handlers s ! i = Admitted \<Longrightarrow> j \<notin> set (submitted s) \<Longrightarrow>
     queue_step depth_limit s (s\<lparr>handlers := (handlers s)[i := Asking], queue := j # queue s, submitted := j # submitted s\<rparr>)"
| brpop: "k < length (slots s) \<Longrightarrow> slots s ! k = None \<Longrightarrow> queue s \<noteq> [] \<Longrightarrow>
     queue_step depth_limit s (s\<lparr>queue := butlast (queue s), slots := (slots s)[k := Some (last (queue s))],
       taken := last (queue s) # taken s\<rparr>)"
| mark_done: "k < length (slots s) \<Longrightarrow> slots s ! k = Some j \<Longrightarrow>
     queue_step depth_limit s (s\<lparr>slots := (slots s)[k := None], answered := j # answered s\<rparr>)"
| slot_dies: "k < length (slots s) \<Longrightarrow> slots s ! k = Some j \<Longrightarrow>
     queue_step depth_limit s (s\<lparr>slots := (slots s)[k := None], lost := j # lost s\<rparr>)"

section \<open>The invariants\<close>

fun held :: "'j option list \<Rightarrow> 'j multiset" where
  "held [] = {#}"
| "held (None # xs) = held xs"
| "held (Some j # xs) = add_mset j (held xs)"

lemma held_append [simp]: "held (xs @ ys) = held xs + held ys"
  by (induction xs rule: held.induct) auto

lemma held_replicate [simp]: "held (replicate m None) = {#}"
  by (induction m) auto

lemma held_split:
  assumes "k < length xs"
  shows "held (xs[k := x]) = held (take k xs) + held [x] + held (drop (Suc k) xs)"
  unfolding upd_conv_take_nth_drop [OF assms] held_append by (cases x) simp_all

lemma held_take: "k < length xs \<Longrightarrow> xs ! k = None \<Longrightarrow> held (xs[k := Some j]) = add_mset j (held xs)"
  using held_split [of k xs "Some j"] held_split [of k xs "xs ! k", unfolded list_update_id] by simp

lemma held_free: "k < length xs \<Longrightarrow> xs ! k = Some j \<Longrightarrow> held xs = add_mset j (held (xs[k := None]))"
  using held_split [of k xs None] held_split [of k xs "xs ! k", unfolded list_update_id] by simp

text \<open>Jobs leave in the order in which they came, and a job that was taken is held by one slot,
  answered or lost, once.\<close>

definition delivery_inv :: "'j queue_state \<Rightarrow> bool" where
  "delivery_inv s \<longleftrightarrow> submitted s = queue s @ taken s \<and> distinct (submitted s) \<and>
     mset (taken s) = held (slots s) + mset (answered s) + mset (lost s)"

lemma delivery_inv_step:
  assumes "queue_step depth_limit s s'" and "delivery_inv s"
  shows "delivery_inv s'"
  using assms
proof cases
  case (brpop k)
  then show ?thesis using assms(2) held_take [OF brpop(2,3)] by (auto simp: delivery_inv_def)
next
  case (mark_done k j)
  then show ?thesis using assms(2) held_free [OF mark_done(2,3)] by (auto simp: delivery_inv_def)
next
  case (slot_dies k j)
  then show ?thesis using assms(2) held_free [OF slot_dies(2,3)] by (auto simp: delivery_inv_def)
qed (auto simp: delivery_inv_def)

lemma delivery_inv_start: "delivery_inv (queue_start n m)"
  by (simp add: delivery_inv_def queue_start_def)

interpretation delivery: invariant "queue_start n m" "queue_step depth_limit" delivery_inv for n m depth_limit
  by unfold_locales (auto simp: delivery_inv_start dest: delivery_inv_step)

text \<open>The depth check is not atomic with the push: each handler may add one.\<close>

definition depth_inv :: "nat \<Rightarrow> int \<Rightarrow> 'j queue_state \<Rightarrow> bool" where
  "depth_inv n depth_limit s \<longleftrightarrow> length (handlers s) = n \<and>
     int (length (queue s)) + int (at_pc (handlers s) Admitted) \<le> depth_limit - 1 + int n"

lemma depth_inv_step:
  assumes "queue_step depth_limit s s'" and "depth_inv n depth_limit s"
  shows "depth_inv n depth_limit s'"
  using assms
proof cases
  case (llen_room i)
  then show ?thesis using assms(2) at_pc_le [of "(handlers s)[i := Admitted]" Admitted] by (simp add: depth_inv_def)
next
  case (lpush i j)
  then show ?thesis using assms(2) at_pc_move [OF lpush(2,3), of Asking Admitted] at_pc_pos [OF lpush(2)]
    by (simp add: depth_inv_def)
qed (auto simp: depth_inv_def)

lemma depth_inv_start: "1 \<le> depth_limit \<Longrightarrow> depth_inv n depth_limit (queue_start n m)"
  by (simp add: depth_inv_def queue_start_def)

interpretation depth: invariant "queue_start n m" "queue_step MAX_QUEUE_DEPTH" "depth_inv n MAX_QUEUE_DEPTH" for n m
  by unfold_locales (auto simp: MAX_QUEUE_DEPTH_def depth_inv_start dest: depth_inv_step)

section \<open>Overshooting the depth limit\<close>

abbreviation api_at :: "nat \<Rightarrow> nat \<Rightarrow> api_pc list" where
  "api_at n i \<equiv> replicate i Admitted @ replicate (n - i) Asking"

lemma api_at_split:
  assumes "i < n"
  obtains d where "api_at n i = replicate i Admitted @ Asking # replicate d Asking"
    "api_at n (Suc i) = replicate i Admitted @ Admitted # replicate d Asking"
proof -
  obtain d where "n = i + Suc d" using assms by (metis less_imp_Suc_add add_Suc_right)
  then show thesis by (intro that [of d]) (simp_all add: replicate_app_Cons_same)
qed

lemma api_at_Suc:
  assumes "i < n"
  shows "(api_at n i)[i := Admitted] = api_at n (Suc i)" "(api_at n (Suc i))[i := Asking] = api_at n i"
  by (rule api_at_split [OF assms], simp only:, metis length_replicate list_update_length)+

lemma admit_more:
  assumes "reach q0 (queue_step L) (s :: nat queue_state)" and "handlers s = api_at n 0" and "int (length (queue s)) < L"
    and "i \<le> n"
  shows "\<exists>s'. reach q0 (queue_step L) s' \<and> handlers s' = api_at n i \<and> queue s' = queue s"
  using assms(4)
proof (induction i)
  case 0
  then show ?case using assms(1,2) by blast
next
  case (Suc i)
  then obtain s' where s': "reach q0 (queue_step L) s'" "handlers s' = api_at n i" "queue s' = queue s" by auto
  have "queue_step L s' (s'\<lparr>handlers := (handlers s')[i := Admitted]\<rparr>)"
    using Suc.prems s'(2,3) assms(3) by (intro llen_room) (auto simp: nth_append)
  from reach_step [OF s'(1) this] show ?case using s'(2,3) Suc.prems api_at_Suc(1) [of i n] by fastforce
qed

lemma push_more:
  assumes "reach q0 (queue_step L) (s :: nat queue_state)" and "handlers s = api_at n i" and "i \<le> n"
  shows "\<exists>s'. reach q0 (queue_step L) s' \<and> handlers s' = api_at n 0 \<and> length (queue s') = length (queue s) + i"
  using assms
proof (induction i arbitrary: s)
  case (Suc i)
  obtain j where j: "j \<notin> set (submitted s)" using ex_new_if_finite [OF infinite_UNIV_nat] by blast
  let ?s = "s\<lparr>handlers := (handlers s)[i := Asking], queue := j # queue s, submitted := j # submitted s\<rparr>"
  have "api_at n (Suc i) ! i = Admitted" by (simp add: nth_append del: replicate_Suc)
  then have "queue_step L s ?s" using Suc.prems(2,3) j by (intro lpush) simp_all
  then have "reach q0 (queue_step L) ?s" by (rule reach_step [OF Suc.prems(1)])
  moreover have "handlers ?s = api_at n i" using Suc.prems(2,3) api_at_Suc(2) [of i n] by simp
  ultimately show ?case using Suc.IH [of ?s] Suc.prems(3) by simp
qed auto

lemma fill_queue:
  assumes "0 < n" and "int k \<le> L"
  shows "\<exists>s :: nat queue_state. reach (queue_start n m) (queue_step L) s \<and> handlers s = api_at n 0 \<and> length (queue s) = k"
  using assms(2)
proof (induction k)
  case 0
  have "handlers (queue_start n m :: nat queue_state) = api_at n 0" "queue (queue_start n m :: nat queue_state) = []"
    by (simp_all add: queue_start_def)
  then show ?case using reach_start by fastforce
next
  case (Suc k)
  then obtain s :: "nat queue_state" where s: "reach (queue_start n m) (queue_step L) s" "handlers s = api_at n 0" "length (queue s) = k"
    by auto
  from admit_more [OF s(1,2), of 1] obtain s1 where
    "reach (queue_start n m) (queue_step L) s1" "handlers s1 = api_at n 1" "queue s1 = queue s"
    using s(3) Suc.prems assms(1) by auto
  from push_more [OF this(1,2)] this(3) s(3) assms(1) show ?case by auto
qed

section \<open>Properties of a shared queue\<close>

text \<open>C27. Jobs are delivered first in first out and at most once: however submissions and slots
  interleave, the jobs taken so far are exactly the oldest ones submitted, in that order, and each of
  them is held by one slot, was answered once or was lost with a slot that died.\<close>

theorem jobs_delivered_in_order_once:
  assumes "reach (queue_start n m) (queue_step depth_limit) s"
  shows "submitted s = queue s @ taken s \<and> distinct (submitted s) \<and>
    mset (taken s) = held (slots s) + mset (answered s) + mset (lost s)"
  using delivery.always [OF assms] unfolding delivery_inv_def .

lemma one_answered: "reach (queue_start 1 1) (queue_step 10000)
    (queue_start 1 1\<lparr>submitted := [7], taken := [7], answered := [7 :: nat]\<rparr>)"
proof -
  let ?S = "\<lambda>q h sl sub tk an. \<lparr>queue = q, handlers = [h], slots = [sl], submitted = sub, taken = tk, answered = an, lost = []\<rparr> :: nat queue_state"
  have "reach (queue_start 1 1) (queue_step 10000) (?S [] Asking None [] [] [])"
    using reach_start by (simp add: queue_start_def)
  moreover have "queue_step 10000 (?S [] Asking None [] [] []) (?S [] Admitted None [] [] [])"
    using llen_room [of 0 "?S [] Asking None [] [] []" 10000] by simp
  moreover have "queue_step 10000 (?S [] Admitted None [] [] []) (?S [7] Asking None [7] [] [])"
    using lpush [of 0 "?S [] Admitted None [] [] []" 7 10000] by simp
  moreover have "queue_step 10000 (?S [7] Asking None [7] [] []) (?S [] Asking (Some 7) [7] [7] [])"
    using brpop [of 0 "?S [7] Asking None [7] [] []" 10000] by simp
  moreover have "queue_step 10000 (?S [] Asking (Some 7) [7] [7] []) (?S [] Asking None [7] [7] [7])"
    using mark_done [of 0 "?S [] Asking (Some 7) [7] [7] []" 7 10000] by simp
  ultimately have "reach (queue_start 1 1) (queue_step 10000) (?S [] Asking None [7] [7] [7])" by (meson reach_step)
  then show ?thesis by (simp add: queue_start_def)
qed

theorem jobs_delivered_in_order_once_witness:
  "mset (taken (queue_start 1 1\<lparr>submitted := [7], taken := [7], answered := [7 :: nat]\<rparr>)) =
    held (slots (queue_start 1 1 :: nat queue_state)) + mset [7]"
  using jobs_delivered_in_order_once [OF one_answered] by (simp add: queue_start_def)

text \<open>C28. The depth of a queue is bounded, but not by \<open>MAX_QUEUE_DEPTH\<close>: the check and the push are two
  commands, so that \<open>n\<close> concurrent handlers can exceed the limit by \<open>n - 1\<close>, and no more.\<close>

theorem queue_depth_limit_exact:
  assumes "0 < n"
  shows "(\<forall>s :: nat queue_state. reach (queue_start n m) (queue_step MAX_QUEUE_DEPTH) s \<longrightarrow>
      int (length (queue s)) \<le> MAX_QUEUE_DEPTH - 1 + int n) \<and>
    (\<exists>s :: nat queue_state. reach (queue_start n m) (queue_step MAX_QUEUE_DEPTH) s \<and>
      int (length (queue s)) = MAX_QUEUE_DEPTH - 1 + int n)"
proof (intro conjI allI impI)
  fix s :: "nat queue_state" assume s: "reach (queue_start n m) (queue_step MAX_QUEUE_DEPTH) s"
  from depth.always [OF s] show "int (length (queue s)) \<le> MAX_QUEUE_DEPTH - 1 + int n" by (simp add: depth_inv_def)
next
  obtain s :: "nat queue_state" where s: "reach (queue_start n m) (queue_step MAX_QUEUE_DEPTH) s" "handlers s = api_at n 0" "length (queue s) = 9999"
    using fill_queue [OF assms, of 9999 MAX_QUEUE_DEPTH m] by (auto simp: MAX_QUEUE_DEPTH_def)
  obtain s1 where s1: "reach (queue_start n m) (queue_step MAX_QUEUE_DEPTH) s1" "handlers s1 = api_at n n" "queue s1 = queue s"
    using admit_more [OF s(1,2), of n] s(3) by (auto simp: MAX_QUEUE_DEPTH_def)
  from push_more [OF s1(1,2)] s1(3) s(3)
  show "\<exists>s :: nat queue_state. reach (queue_start n m) (queue_step MAX_QUEUE_DEPTH) s \<and> int (length (queue s)) = MAX_QUEUE_DEPTH - 1 + int n"
    by (auto simp: MAX_QUEUE_DEPTH_def)
qed

theorem queue_depth_limit_exact_witness:
  "\<exists>s :: nat queue_state. reach (queue_start 4 30) (queue_step MAX_QUEUE_DEPTH) s \<and> length (queue s) = 10003"
  using queue_depth_limit_exact [of 4 30] by (auto simp: MAX_QUEUE_DEPTH_def)

end
