(* ===== verification/QueueSpec.thy ===== *)
theory QueueSpec
  imports JobQueue RedisLaws
begin

text \<open>
  The operations of \<open>jobqueue/job.py\<close> on Redis's lists: when a job is accepted and what is stored,
  and how a result gets from the worker to the API process that waits for it.
\<close>

section \<open>What the queue relies on\<close>

text \<open>\<open>SET\<close> and \<open>EXPIRE\<close> succeed and touch no list; \<open>BLPOP\<close> takes the first element.\<close>

definition queue_laws :: "'w env \<Rightarrow> ('w \<Rightarrow> string \<Rightarrow> string list) \<Rightarrow> bool" where
  "queue_laws E lst \<longleftrightarrow> redis_lists E lst \<and>
     (\<forall>k v t. answers lst (r_set E k v t) (\<lambda>l. ()) (\<lambda>l. l)) \<and>
     (\<forall>k t. answers lst (r_expire E k t) (\<lambda>l. ()) (\<lambda>l. l)) \<and>
     (\<forall>k t. answers lst (r_blpop E k t) (\<lambda>l. if l k = [] then None else Some (hd (l k))) (\<lambda>l. l(k := tl (l k))))"

lemma queue_lawsD:
  assumes "queue_laws E lst"
  shows "redis_lists E lst" "answers lst (r_set E k v t) (\<lambda>l. ()) (\<lambda>l. l)"
    "answers lst (r_expire E k n) (\<lambda>l. ()) (\<lambda>l. l)"
    "answers lst (r_blpop E k n) (\<lambda>l. if l k = [] then None else Some (hd (l k))) (\<lambda>l. l(k := tl (l k)))"
  using assms by (simp_all add: queue_laws_def)

section \<open>Results\<close>

lemma mark_done_effect:
  assumes "queue_laws E lst"
  obtains w' where "mark_done E job_id result w = (Inr (), w')"
    and "lst w' = (lst w)(result_key job_id := dumps (VDict result) # lst w (result_key job_id))"
proof -
  let ?v = "dumps (VDict [(''status'', VStr ''done''), (''result'', VDict result)])"
  obtain w1 where w1: "r_set E (job_key job_id) ?v (Some RESULT_TTL) w = (Inr (), w1)" "lst w1 = lst w"
    using queue_lawsD(2) [OF assms] by (rule answersE)
  obtain w2 where w2: "r_lpush E (result_key job_id) (dumps (VDict result)) w1 = (Inr (), w2)"
      "lst w2 = (lst w1)(result_key job_id := dumps (VDict result) # lst w1 (result_key job_id))"
    using redis_listsD(2) [OF queue_lawsD(1) [OF assms]] by (rule answersE)
  obtain w3 where w3: "r_expire E (result_key job_id) RESULT_TTL w2 = (Inr (), w3)" "lst w3 = lst w2"
    using queue_lawsD(3) [OF assms] by (rule answersE)
  show thesis by (rule that [of w3]) (use w1 w2 w3 in \<open>simp_all add: mark_done_def del: dumps.simps\<close>)
qed

lemma list_store_queue_laws: "queue_laws list_store (\<lambda>l. l)"
  using list_store_lists by (auto simp: queue_laws_def answers_def list_store_def offline_def)

text \<open>C29. The result that a worker publishes is the result that the API receives: after
  \<open>mark_done\<close>, \<open>wait_for_job_result\<close> returns that dictionary and takes it off the list.\<close>

theorem result_handover_roundtrip:
  assumes "queue_laws E lst" and "json_ok (VDict result)"
  shows "\<exists>w1 w2. mark_done E job_id result w = (Inr (), w1) \<and>
    wait_for_job_result E job_id timeout w1 = (Inr (Some (VDict result)), w2) \<and> lst w2 = lst w"
proof -
  obtain w1 where w1: "mark_done E job_id result w = (Inr (), w1)"
      "lst w1 = (lst w)(result_key job_id := dumps (VDict result) # lst w (result_key job_id))"
    by (rule mark_done_effect [OF assms(1)])
  obtain w2 where "r_blpop E (result_key job_id) timeout w1 =
        (Inr (if lst w1 (result_key job_id) = [] then None else Some (hd (lst w1 (result_key job_id)))), w2)"
      "lst w2 = (lst w1)(result_key job_id := tl (lst w1 (result_key job_id)))"
    using queue_lawsD(4) [OF assms(1)] by (rule answersE)
  then have "wait_for_job_result E job_id timeout w1 = (Inr (Some (VDict result)), w2)" "lst w2 = lst w"
    using w1(2) loads_dumps [OF assms(2)] by (simp_all add: wait_for_job_result_def json_loads_def del: dumps.simps)
  then show ?thesis using w1(1) by blast
qed

theorem result_handover_roundtrip_witness:
  "\<exists>w1 w2. mark_done list_store ''j1'' [(''verdict'', VStr ''accepted'')] (\<lambda>_. []) = (Inr (), w1) \<and>
    wait_for_job_result list_store ''j1'' 900 w1 = (Inr (Some (VDict [(''verdict'', VStr ''accepted'')])), w2) \<and> w2 = (\<lambda>_. [])"
  using result_handover_roundtrip [OF list_store_queue_laws, of "[(''verdict'', VStr ''accepted'')]" "''j1''" "\<lambda>_. []" 900]
  by simp

section \<open>Jobs\<close>

text \<open>\<open>enqueue\<close> accepts a job exactly when its language has a queue with room: then the job record
  is pushed at the young end of that queue and its identifier returned; a queue at
  \<open>MAX_QUEUE_DEPTH\<close> raises \<open>OverflowError\<close> and an unknown language \<open>ValueError\<close>, and nothing is
  stored.\<close>

lemma enqueue_exact:
  assumes "queue_laws E lst" and "dget payload ''language'' = Some (VStr language)"
    and "\<And>w. uuid4 E w = (Inr job_id, w)" and "\<And>w. time_now E w = (Inr now, w)"
  shows "\<exists>r w'. enqueue E payload w = (r, w') \<and>
    (if language \<notin> set LANGUAGE_QUEUES then r = Inl (ValueError ''Unsupported language'') \<and> lst w' = lst w
     else if 10000 \<le> length (lst w (''exec:queue:'' @ language))
     then r = Inl (OverflowError ''Queue at capacity'') \<and> lst w' = lst w
     else r = Inr job_id \<and> lst w' = (lst w)(''exec:queue:'' @ language :=
       dumps (job_record job_id payload now) # lst w (''exec:queue:'' @ language)))"
proof (cases "language \<in> set LANGUAGE_QUEUES")
  case False
  then show ?thesis
    using assms(2) by (simp add: enqueue_def subscript_def queue_key_of_value_def queue_key_for_language_def)
next
  case True
  let ?k = "''exec:queue:'' @ language" and ?j = "dumps (job_record job_id payload now)"
  have key: "queue_key_of_value (VStr language) = Inr ?k"
    using True by (simp add: queue_key_of_value_def queue_key_for_language_def QUEUE_KEY_PREFIX_def)
  obtain w1 where w1: "r_llen E ?k w = (Inr (length (lst w ?k)), w1)" "lst w1 = lst w"
    using redis_listsD(1) [OF queue_lawsD(1) [OF assms(1)], of ?k] by (rule answersE)
  obtain w2 where w2: "r_lpush E ?k ?j w1 = (Inr (), w2)" "lst w2 = (lst w1)(?k := ?j # lst w1 ?k)"
    using redis_listsD(2) [OF queue_lawsD(1) [OF assms(1)]] by (rule answersE)
  obtain w3 where w3: "r_set E (job_key job_id) (status_record ''queued'') (Some RESULT_TTL) w2 = (Inr (), w3)" "lst w3 = lst w2"
    using queue_lawsD(2) [OF assms(1)] by (rule answersE)
  show ?thesis
    using True assms(2-4) key w1 w2 w3
    by (cases "10000 \<le> length (lst w ?k)") (auto simp: enqueue_def subscript_def MAX_QUEUE_DEPTH_def)
qed

definition queue_demo :: "(string \<Rightarrow> string list) env" where
  "queue_demo = list_store\<lparr>uuid4 := io_return ''j1''\<rparr>"

lemma enqueue_exact_witness:
  "\<exists>w'. enqueue queue_demo [(''language'', VStr ''go'')] (\<lambda>_. []) = (Inr ''j1'', w') \<and>
    w' ''exec:queue:go'' = [dumps (job_record ''j1'' [(''language'', VStr ''go'')] (Fin 0))]"
proof -
  have "queue_laws queue_demo (\<lambda>l. l)"
    by (auto simp: queue_demo_def queue_laws_def redis_lists_def answers_def list_store_def offline_def)
  moreover have "uuid4 queue_demo w = (Inr ''j1'', w)" "time_now queue_demo w = (Inr (Fin 0), w)" for w
    by (simp_all add: queue_demo_def list_store_def offline_def)
  ultimately show ?thesis
    using enqueue_exact [of queue_demo "\<lambda>l. l" "[(''language'', VStr ''go'')]" "''go''" "''j1''" "Fin 0" "\<lambda>_. []"]
    by (auto simp: dget_def LANGUAGE_QUEUES_def simp del: dumps.simps)
qed

end
