(* ===== verification/NodeHeap.thy ===== *)
theory NodeHeap
  imports Main
begin

text \<open>
  The nodes of binary trees and linked lists that the wrappers of all languages build and read
  (\<open>languages/*_wrapper.py\<close>), as objects of a heap: the loops the wrappers share, the trees and lists
  that a heap represents, and that what is built reads back. An address is the position of an object
  in the heap of its class. The type of the values is a parameter, and so is the value \<open>nl\<close> that stands
  for a missing node.
\<close>

section \<open>Objects\<close>

record 'v tree_node =
  t_val :: 'v
  t_left :: "nat option"
  t_right :: "nat option"

record 'v list_node =
  l_val :: 'v
  l_next :: "nat option"

definition TreeNode :: "'v \<Rightarrow> 'v tree_node" where
  "TreeNode v = \<lparr>t_val = v, t_left = None, t_right = None\<rparr>"

definition ListNode :: "'v \<Rightarrow> 'v list_node" where
  "ListNode v = \<lparr>l_val = v, l_next = None\<rparr>"

section \<open>Trees\<close>

text \<open>\<open>[TreeNode(val) if val is not None else None for val in values]\<close>\<close>

fun tree_nodes :: "'v \<Rightarrow> 'v list \<Rightarrow> 'v tree_node list \<Rightarrow> nat option list \<times> 'v tree_node list" where
  "tree_nodes nl [] h = ([], h)"
| "tree_nodes nl (v # vs) h =
     (if v = nl then (case tree_nodes nl vs h of (ns, h') \<Rightarrow> (None # ns, h'))
      else (case tree_nodes nl vs (h @ [TreeNode v]) of (ns, h') \<Rightarrow> (Some (length h) # ns, h')))"

text \<open>The loop that gives each node its children.\<close>

fun link_kids :: "nat option list \<Rightarrow> nat option list \<Rightarrow> 'v tree_node list \<Rightarrow> 'v tree_node list" where
  "link_kids [] kids h = h"
| "link_kids (None # ns) kids h = link_kids ns kids h"
| "link_kids (Some i # ns) [] h = link_kids ns [] h"
| "link_kids (Some i # ns) [l] h = link_kids ns [] (h[i := (h ! i)\<lparr>t_left := l\<rparr>])"
| "link_kids (Some i # ns) (l # r # kids) h = link_kids ns kids (h[i := (h ! i)\<lparr>t_left := l, t_right := r\<rparr>])"

definition make_tree :: "'v \<Rightarrow> 'v list \<Rightarrow> 'v tree_node list \<Rightarrow> nat option \<times> 'v tree_node list" where
  "make_tree nl values h =
     (if values = [] then (None, h)
      else case tree_nodes nl values h of (ns, h') \<Rightarrow> (hd ns, link_kids ns (tl ns) h'))"

text \<open>The loop of \<open>tree_to_list\<close>; it has no end on a tree that the submission made cyclic, so it has
  fuel, and \<open>None\<close> when that is used up.\<close>

fun tree_queue :: "'v \<Rightarrow> nat \<Rightarrow> 'v tree_node list \<Rightarrow> nat option list \<Rightarrow> 'v list option" where
  "tree_queue nl n h [] = Some []"
| "tree_queue nl 0 h (p # q) = None"
| "tree_queue nl (Suc n) h (None # q) = map_option (\<lambda>vs. nl # vs) (tree_queue nl n h q)"
| "tree_queue nl (Suc n) h (Some i # q) =
     map_option (\<lambda>vs. t_val (h ! i) # vs) (tree_queue nl n h (q @ [t_left (h ! i), t_right (h ! i)]))"

text \<open>\<open>while result and result[-1] is None: result.pop()\<close>\<close>

definition pop_nones :: "'v \<Rightarrow> 'v list \<Rightarrow> 'v list" where
  "pop_nones nl vs = rev (dropWhile (\<lambda>v. v = nl) (rev vs))"

definition read_tree :: "'v \<Rightarrow> nat \<Rightarrow> 'v tree_node list \<Rightarrow> nat option \<Rightarrow> 'v list option" where
  "read_tree nl n h rt = (if rt = None then Some [] else map_option (pop_nones nl) (tree_queue nl n h [rt]))"

section \<open>Lists\<close>

text \<open>The loop that appends a node for each value behind \<open>curr\<close> (here \<open>cur\<close>).\<close>

fun append_nodes :: "'v list \<Rightarrow> nat \<Rightarrow> 'v list_node list \<Rightarrow> nat list \<times> 'v list_node list" where
  "append_nodes [] cur h = ([], h)"
| "append_nodes (v # vs) cur h =
     (case append_nodes vs (length h) (h[cur := (h ! cur)\<lparr>l_next := Some (length h)\<rparr>] @ [ListNode v]) of
        (ns, h') \<Rightarrow> (length h # ns, h'))"

definition make_list :: "'v \<Rightarrow> 'v list \<Rightarrow> 'v list_node list \<Rightarrow> nat option \<times> nat list \<times> 'v list_node list" where
  "make_list z values h =
     (if values = [] then (None, [], h)
      else case append_nodes values (length h) (h @ [ListNode z]) of (ns, h') \<Rightarrow> (l_next (h' ! length h), ns, h'))"

function walk_list :: "'v list_node list \<Rightarrow> nat option \<Rightarrow> nat list \<Rightarrow> 'v list" where
  "walk_list h head visited = (case head of
      None \<Rightarrow> []
    | Some i \<Rightarrow> if i \<in> set visited \<or> \<not> i < length h then []
        else l_val (h ! i) # walk_list h (l_next (h ! i)) (i # visited))"
  by pat_completeness auto
termination
proof (relation "measure (\<lambda>(h, head, visited). card ({..<length h} - set visited))", goal_cases)
  case (2 h head visited i)
  then have "{..<length h} - set (i # visited) \<subset> {..<length h} - set visited" by auto
  then show ?case by (simp add: psubset_card_mono)
qed simp

declare walk_list.simps [simp del]

definition read_list :: "'v list_node list \<Rightarrow> nat option \<Rightarrow> 'v list" where
  "read_list h head = walk_list h head []"

section \<open>Trees in the heap\<close>

datatype 'v vtree = Empty | Branch "'v vtree" 'v "'v vtree"

fun tree_rep :: "'v tree_node list \<Rightarrow> nat option \<Rightarrow> 'v vtree \<Rightarrow> bool" where
  "tree_rep h p Empty = (p = None)"
| "tree_rep h p (Branch l v r) = (case p of None \<Rightarrow> False | Some i \<Rightarrow>
     i < length h \<and> t_val (h ! i) = v \<and> tree_rep h (t_left (h ! i)) l \<and> tree_rep h (t_right (h ! i)) r)"

fun no_none :: "'v \<Rightarrow> 'v vtree \<Rightarrow> bool" where
  "no_none nl Empty = True"
| "no_none nl (Branch l v r) = (v \<noteq> nl \<and> no_none nl l \<and> no_none nl r)"

fun weight :: "'v vtree \<Rightarrow> nat" where
  "weight Empty = 1"
| "weight (Branch l v r) = weight l + weight r + 1"

text \<open>The values of a queue of trees, level by level.\<close>

function level_order :: "'v \<Rightarrow> 'v vtree list \<Rightarrow> 'v list" where
  "level_order nl [] = []"
| "level_order nl (Empty # q) = nl # level_order nl q"
| "level_order nl (Branch l v r # q) = v # level_order nl (q @ [l, r])"
  by pat_completeness auto
termination by (relation "measure (\<lambda>(nl, q). sum_list (map weight q))") auto

lemma level_order_length: "length q \<le> length (level_order nl q)"
  by (induction nl q rule: level_order.induct) auto

text \<open>The loop of \<open>tree_to_list\<close> ends and gives the level order.\<close>

lemma tree_queue_level_order:
  "list_all2 (tree_rep h) ps ts \<Longrightarrow> sum_list (map weight ts) \<le> n \<Longrightarrow> tree_queue nl n h ps = Some (level_order nl ts)"
proof (induction nl ts arbitrary: ps n rule: level_order.induct)
  case 1
  then show ?case by simp
next
  case (2 nl q)
  then obtain ps' m where "ps = None # ps'" "n = Suc m" "list_all2 (tree_rep h) ps' q"
    by (cases n) (auto simp: list_all2_Cons2)
  then show ?case using 2 by simp
next
  case (3 nl l v r q)
  then obtain i ps' m where ps: "ps = Some i # ps'" "n = Suc m" "list_all2 (tree_rep h) ps' q"
    and i: "t_val (h ! i) = v" "tree_rep h (t_left (h ! i)) l" "tree_rep h (t_right (h ! i)) r"
    by (cases n) (auto simp: list_all2_Cons2 split: option.splits)
  have "list_all2 (tree_rep h) (ps' @ [t_left (h ! i), t_right (h ! i)]) (q @ [l, r])"
    using ps(3) i by (simp add: list_all2_appendI)
  from "3.IH" [OF this, of m] show ?case using ps i "3.prems"(2) by simp
qed

section \<open>Linking\<close>

fun refs :: "nat option list \<Rightarrow> nat list" where
  "refs [] = []"
| "refs (None # ns) = refs ns"
| "refs (Some i # ns) = i # refs ns"

definition fresh_nodes :: "'v tree_node list \<Rightarrow> nat list \<Rightarrow> bool" where
  "fresh_nodes h is \<longleftrightarrow> distinct is \<and> (\<forall>i \<in> set is. i < length h \<and> t_left (h ! i) = None \<and> t_right (h ! i) = None)"

text \<open>A reference to a node with the given value, or no reference for \<open>None\<close>.\<close>

definition holds :: "'v \<Rightarrow> 'v tree_node list \<Rightarrow> nat option \<Rightarrow> 'v \<Rightarrow> bool" where
  "holds nl h p v = (case p of None \<Rightarrow> v = nl | Some i \<Rightarrow> i < length h \<and> t_val (h ! i) = v \<and> v \<noteq> nl)"

lemma fresh_nodes_upd: "fresh_nodes h (i # is) \<Longrightarrow> fresh_nodes (h[i := x]) is"
  by (auto simp: fresh_nodes_def nth_list_update)

lemma refs_in: "Some i \<in> set ns \<longleftrightarrow> i \<in> set (refs ns)"
  by (induction ns rule: refs.induct) auto

lemma holds_upd:
  assumes "t_val x = t_val (h ! i)"
  shows "holds nl (h[i := x]) = holds nl h"
proof -
  have "t_val (h[i := x] ! j) = t_val (h ! j)" if "j < length h" for j
    using that assms by (cases "i = j") auto
  then show ?thesis by (auto simp: holds_def fun_eq_iff split: option.splits)
qed

lemma link_kids_length [simp]: "length (link_kids ns kids h) = length h"
  by (induction ns kids h rule: link_kids.induct) auto

lemma link_kids_frame: "i \<notin> set (refs ns) \<Longrightarrow> link_kids ns kids h ! i = h ! i"
  by (induction ns kids h rule: link_kids.induct) auto

text \<open>Missing entries at the end are as good as \<open>None\<close>.\<close>

lemma link_kids_nones [simp]: "link_kids (replicate a None) kids h = h"
  by (induction a) auto

lemma link_kids_pad:
  "fresh_nodes h (refs ns) \<Longrightarrow> link_kids (ns @ replicate a None) (kids @ replicate b None) h = link_kids ns kids h"
proof (induction ns kids h arbitrary: b rule: link_kids.induct)
  case (3 i ns h)
  have set: "h[i := (h ! i)\<lparr>t_left := None\<rparr>] = h" "h[i := (h ! i)\<lparr>t_left := None, t_right := None\<rparr>] = h"
    using "3.prems" by (auto simp: fresh_nodes_def intro!: nth_equalityI simp: nth_list_update)
  have rest: "link_kids (ns @ replicate a None) (replicate b None) h = link_kids ns [] h" for b
    using "3.IH" [of b] "3.prems" by (auto simp: fresh_nodes_def)
  consider "b = 0" | "b = 1" | c where "b = Suc (Suc c)" by (metis One_nat_def not0_implies_Suc)
  then show ?case by cases (use set rest in \<open>simp_all add: rest [of 0, simplified]\<close>)
next
  case (4 i ns l h)
  have set: "h[i := (h ! i)\<lparr>t_left := l, t_right := None\<rparr>] = h[i := (h ! i)\<lparr>t_left := l\<rparr>]"
    using "4.prems" by (auto simp: fresh_nodes_def intro!: nth_equalityI simp: nth_list_update)
  have rest: "link_kids (ns @ replicate a None) (replicate b None) (h[i := (h ! i)\<lparr>t_left := l\<rparr>]) =
      link_kids ns [] (h[i := (h ! i)\<lparr>t_left := l\<rparr>])" for b
    using "4.IH" [of b] fresh_nodes_upd [of h i "refs ns"] "4.prems" by simp
  show ?case by (cases b) (use set rest in \<open>simp_all add: rest [of 0, simplified]\<close>)
next
  case (5 i ns l r kids h)
  then show ?case using fresh_nodes_upd [of h i "refs ns"] by simp
qed auto

lemma holds_nl [simp]: "holds nl h p nl \<longleftrightarrow> p = None"
  by (auto simp: holds_def split: option.splits)

lemma holds_val: "v \<noteq> nl \<Longrightarrow> holds nl h p v \<longleftrightarrow> (\<exists>i. p = Some i \<and> i < length h \<and> t_val (h ! i) = v)"
  by (auto simp: holds_def split: option.splits)

lemma take_drop_two:
  assumes "drop n xs = a # b # ys"
  shows "drop (n + 2) xs = ys" "take (n + 2) xs = take n xs @ [a, b]"
  using assms drop_drop [of 2 n xs] take_add [of n 2 xs] by (simp_all add: add.commute numeral_2_eq_2)

lemma two_elements: "2 \<le> length xs \<Longrightarrow> \<exists>a b ys. xs = a # b # ys"
  by (cases xs; cases "tl xs") auto

lemma link_kids_rep:
  "list_all2 (holds nl h) ns (level_order nl q) \<Longrightarrow> fresh_nodes h (refs ns) \<Longrightarrow> \<forall>t \<in> set q. no_none nl t \<Longrightarrow>
    list_all2 (tree_rep (link_kids ns (drop (length q) ns) h)) (take (length q) ns) q"
proof (induction nl q arbitrary: ns h rule: level_order.induct)
  case 1
  then show ?case by simp
next
  case (2 nl q)
  from "2.prems"(1) obtain ns' where "ns = None # ns'" "list_all2 (holds nl h) ns' (level_order nl q)"
    by (auto simp: list_all2_Cons2)
  then show ?case using 2 by simp
next
  case (3 nl l v r q)
  have v: "v \<noteq> nl" using "3.prems"(3) by simp
  from "3.prems"(1) obtain i ns' where ns: "ns = Some i # ns'" "list_all2 (holds nl h) ns' (level_order nl (q @ [l, r]))"
    and i: "i < length h" "t_val (h ! i) = v"
    by (auto simp: list_all2_Cons2 holds_val [OF v])
  have "length q + 2 \<le> length ns'"
    using level_order_length [of "q @ [l, r]"] list_all2_lengthD [OF ns(2)] by simp
  then have "2 \<le> length (drop (length q) ns')" by simp
  from two_elements [OF this] obtain a b kids where split: "drop (length q) ns' = a # b # kids" by blast
  let ?h = "h[i := (h ! i)\<lparr>t_left := a, t_right := b\<rparr>]"
  have rest: "drop (length (q @ [l, r])) ns' = kids" "take (length (q @ [l, r])) ns' = take (length q) ns' @ [a, b]"
    using take_drop_two [OF split] by simp_all
  let ?g = "link_kids ns' kids ?h"
  have "list_all2 (holds nl ?h) ns' (level_order nl (q @ [l, r]))" using ns(2) by (simp add: holds_upd)
  from "3.IH" [OF this] have all: "list_all2 (tree_rep ?g) (take (length q) ns' @ [a, b]) (q @ [l, r])"
    using "3.prems"(2,3) ns(1) fresh_nodes_upd [of h i "refs ns'"] rest by simp
  then have kids: "list_all2 (tree_rep ?g) (take (length q) ns') q" "tree_rep ?g a l" "tree_rep ?g b r"
    using list_all2_lengthD [OF all] by (auto simp: list_all2_append)
  have "i \<notin> set (refs ns')" using "3.prems"(2) ns(1) by (simp add: fresh_nodes_def)
  then have "?g ! i = (h ! i)\<lparr>t_left := a, t_right := b\<rparr>" using i(1) by (simp add: link_kids_frame)
  then have "tree_rep ?g (Some i) (Branch l v r)" using kids i by simp
  then show ?case using ns(1) split kids(1) by simp
qed

section \<open>Building\<close>

lemma tree_nodes_spec:
  "tree_nodes nl vs h = (ns, h') \<Longrightarrow> \<exists>new. h' = h @ new \<and> list_all2 (holds nl h') ns vs \<and> fresh_nodes h' (refs ns) \<and>
    (\<forall>i \<in> set (refs ns). length h \<le> i)"
proof (induction vs arbitrary: h ns h')
  case Nil
  then show ?case by (simp add: fresh_nodes_def)
next
  case (Cons v vs)
  show ?case
  proof (cases "v = nl")
    case True
    then obtain ns1 where n: "tree_nodes nl vs h = (ns1, h')" "ns = None # ns1"
      using Cons.prems by (auto split: prod.splits)
    from Cons.IH [OF n(1)] show ?thesis using n(2) True by auto
  next
    case False
    then obtain ns1 where n: "tree_nodes nl vs (h @ [TreeNode v]) = (ns1, h')" "ns = Some (length h) # ns1"
      using Cons.prems by (auto split: prod.splits)
    from Cons.IH [OF n(1)] obtain new where new: "h' = (h @ [TreeNode v]) @ new" "list_all2 (holds nl h') ns1 vs"
      "fresh_nodes h' (refs ns1)" "\<forall>i \<in> set (refs ns1). Suc (length h) \<le> i" by auto
    have "h' ! length h = TreeNode v" "length h < length h'" using new(1) by (simp_all add: nth_append)
    then show ?thesis using new n(2) False
      by (auto simp: holds_val fresh_nodes_def TreeNode_def)
  qed
qed

lemma pop_nones_snoc: "pop_nones nl (vs @ [v]) = (if v = nl then pop_nones nl vs else vs @ [v])"
  by (simp add: pop_nones_def)

lemma pop_nones_pad: "\<exists>k. vs = pop_nones nl vs @ replicate k nl"
proof (induction vs rule: rev_induct)
  case Nil
  then show ?case by (simp add: pop_nones_def)
next
  case (snoc v vs)
  then obtain k where k: "vs = pop_nones nl vs @ replicate k nl" by blast
  show ?case
  proof (cases "v = nl")
    case True
    have "vs @ [v] = pop_nones nl vs @ replicate (Suc k) nl"
      using k True by (metis append_assoc replicate_append_same replicate_Suc)
    then show ?thesis using True by (metis pop_nones_snoc)
  next
    case False
    then show ?thesis by (intro exI [of _ 0]) (simp add: pop_nones_snoc)
  qed
qed

lemma read_tree_level_order:
  "tree_rep h p t \<Longrightarrow> weight t \<le> n \<Longrightarrow> read_tree nl n h p = Some (pop_nones nl (level_order nl [t]))"
  using tree_queue_level_order [of h "[p]" "[t]" n nl]
  by (cases t) (auto simp: read_tree_def pop_nones_def split: option.splits)

lemma make_tree_level_order:
  assumes "no_none nl t" and "make_tree nl (pop_nones nl (level_order nl [t])) h = (p, h')"
  shows "tree_rep h' p t \<and> take (length h) h' = h"
proof (cases t)
  case Empty
  then show ?thesis using assms(2) by (auto simp: make_tree_def pop_nones_def)
next
  case (Branch l v r)
  let ?vs = "pop_nones nl (level_order nl [t])"
  obtain k where k: "level_order nl [t] = ?vs @ replicate k nl" using pop_nones_pad [of "level_order nl [t]" nl] by blast
  have "v \<noteq> nl" "level_order nl [t] = v # level_order nl [l, r]" using assms(1) Branch by simp_all
  then have "?vs \<noteq> []" using k by (cases k) auto
  moreover obtain ns h1 where n: "tree_nodes nl ?vs h = (ns, h1)" by fastforce
  ultimately have b: "p = hd ns" "h' = link_kids ns (tl ns) h1" using assms(2) by (auto simp: make_tree_def)
  from tree_nodes_spec [OF n] obtain new where new: "h1 = h @ new" "list_all2 (holds nl h1) ns ?vs"
    "fresh_nodes h1 (refs ns)" "\<forall>i \<in> set (refs ns). length h \<le> i" by blast
  have ne: "ns \<noteq> []" using new(2) \<open>?vs \<noteq> []\<close> by auto
  let ?ns = "ns @ replicate k None"
  have "list_all2 (holds nl h1) ?ns (?vs @ replicate k nl)"
    using new(2) by (intro list_all2_appendI) (auto simp: list_all2_conv_all_nth)
  then have "list_all2 (holds nl h1) ?ns (level_order nl [t])" by (simp only: k [symmetric])
  moreover have "refs ?ns = refs ns" by (induction ns rule: refs.induct) (auto, induction k, auto)
  ultimately have "list_all2 (tree_rep (link_kids ?ns (drop 1 ?ns) h1)) (take 1 ?ns) [t]"
    using link_kids_rep [of nl h1 ?ns "[t]"] new(3) assms(1) by simp
  moreover have "link_kids ?ns (drop 1 ?ns) h1 = h'"
    using link_kids_pad [OF new(3), of k "tl ns" k] ne b(2) by (cases ns) auto
  ultimately have "tree_rep h' p t" using ne b(1) by (cases ns) auto
  moreover have "h' ! i = h ! i" if "i < length h" for i
  proof -
    have "i \<notin> set (refs ns)" using new(4) that by auto
    then show ?thesis using link_kids_frame [of i ns "tl ns" h1] b(2) new(1) that by (simp add: nth_append)
  qed
  then have "take (length h) h' = h" using b(2) new(1) by (intro nth_equalityI) auto
  ultimately show ?thesis by blast
qed

section \<open>Linked lists\<close>

text \<open>A chain of nodes with the given values.\<close>

fun list_chain :: "'v list_node list \<Rightarrow> nat list \<Rightarrow> 'v list \<Rightarrow> nat option \<Rightarrow> bool" where
  "list_chain h [] [] last_next = True"
| "list_chain h (i # is) (v # vs) last_next =
     (i < length h \<and> l_val (h ! i) = v \<and> l_next (h ! i) = (case is of [] \<Rightarrow> last_next | j # _ \<Rightarrow> Some j) \<and>
      list_chain h is vs last_next)"
| "list_chain h _ _ last_next = False"

lemma walk_list_chain:
  assumes "list_chain h is vs nxt" and "distinct is" and "set is \<inter> set visited = {}" and "is \<noteq> []"
    and "case nxt of None \<Rightarrow> True | Some j \<Rightarrow> j \<in> set is \<union> set visited"
  shows "walk_list h (Some (hd is)) visited = vs"
  using assms
proof (induction h "is" vs nxt arbitrary: visited rule: list_chain.induct)
  case (2 h i "is" v vs nxt)
  show ?case
  proof (cases "is")
    case Nil
    then have "vs = []" using "2.prems"(1) by (cases vs) auto
    moreover have "walk_list h nxt (i # visited) = []"
      using "2.prems"(5) Nil by (subst walk_list.simps) (auto split: option.splits)
    ultimately show ?thesis using "2.prems" Nil by (subst walk_list.simps) auto
  next
    case (Cons j js)
    have "walk_list h (Some (hd is)) (i # visited) = vs"
      using "2.IH" [of "i # visited"] "2.prems" Cons by (auto split: option.splits)
    then show ?thesis using "2.prems" Cons by (subst walk_list.simps) auto
  qed
qed auto

lemma append_nodes_spec:
  assumes "append_nodes vs cur h = (ns, h')" and "cur < length h"
  shows "list_chain h' ns vs None \<and> length h' = length h + length vs \<and> ns = [length h ..< length h'] \<and>
    (\<forall>i < length h. i \<noteq> cur \<longrightarrow> h' ! i = h ! i) \<and> l_val (h' ! cur) = l_val (h ! cur) \<and>
    l_next (h' ! cur) = (if vs = [] then l_next (h ! cur) else Some (length h))"
  using assms
proof (induction vs arbitrary: cur h ns h')
  case Nil
  then show ?case by simp
next
  case (Cons v vs)
  let ?g = "h[cur := (h ! cur)\<lparr>l_next := Some (length h)\<rparr>] @ [ListNode v]"
  obtain ns1 where n: "append_nodes vs (length h) ?g = (ns1, h')" "ns = length h # ns1"
    using Cons.prems(1) by (auto split: prod.splits)
  have g: "?g ! length h = ListNode v" "length ?g = Suc (length h)" by (simp_all add: nth_append)
  from Cons.IH [OF n(1)] have ih: "length h' = Suc (length h) + length vs" "ns1 = [Suc (length h) ..< length h']"
    "\<forall>i < Suc (length h). i \<noteq> length h \<longrightarrow> h' ! i = ?g ! i" "l_val (h' ! length h) = v"
    "l_next (h' ! length h) = (if vs = [] then None else Some (Suc (length h)))" "list_chain h' ns1 vs None"
    unfolding g by (auto simp: ListNode_def simp del: upt_Suc)
  have link: "l_next (h' ! length h) = (case ns1 of [] \<Rightarrow> None | j # _ \<Rightarrow> Some j)"
    using ih(1,2,5) by (cases vs) (auto simp: upt_conv_Cons simp del: upt_Suc)
  have "list_chain h' ns (v # vs) None" unfolding n(2) using ih(1,4,6) link by simp
  moreover have "ns = [length h ..< length h']" using n(2) ih(1,2) by (simp add: upt_conv_Cons del: upt_Suc)
  moreover have "h' ! i = ?g ! i" if "i < length h" for i using ih(3) that by simp
  ultimately show ?case using ih(1) Cons.prems(2) by (simp add: nth_append del: upt_Suc)
qed

lemma list_chain_close:
  assumes "list_chain h is vs nxt" and "distinct is" and "is \<noteq> []"
  shows "list_chain (h[last is := (h ! last is)\<lparr>l_next := q\<rparr>]) is vs q"
  using assms
proof (induction h "is" vs nxt rule: list_chain.induct)
  case (2 h i "is" v vs nxt)
  have ne: "i \<noteq> last is" if "is \<noteq> []" using "2.prems"(2) that last_in_set by fastforce
  show ?case
  proof (cases "is")
    case Nil
    then show ?thesis using "2.prems" by (cases vs) auto
  next
    case (Cons j js)
    then show ?thesis using 2 ne by auto
  qed
qed auto

text \<open>What \<open>make_list\<close> builds.\<close>

lemma make_list_chain:
  assumes "make_list z vs h = (p, ns, h')" and "vs \<noteq> []"
  shows "p = Some (hd ns) \<and> ns \<noteq> [] \<and> distinct ns \<and> length ns = length vs \<and> list_chain h' ns vs None"
proof -
  obtain ns1 h1 where a: "append_nodes vs (length h) (h @ [ListNode z]) = (ns1, h1)" by fastforce
  then have b: "p = l_next (h1 ! length h)" "ns = ns1" "h' = h1" using assms by (auto simp: make_list_def)
  from append_nodes_spec [OF a] have "length h' = Suc (length h) + length vs" "ns = [Suc (length h) ..< length h']"
    "p = Some (Suc (length h))" "list_chain h' ns vs None" using assms(2) b by (auto simp del: upt_Suc)
  then show ?thesis using assms(2) by (cases vs) (simp_all add: upt_conv_Cons del: upt_Suc)
qed

end
