(* ===== verification/TreeWire.thy ===== *)
theory TreeWire
  imports NodeHeap
begin

text \<open>
  The three ways in which the wrappers build a tree from its list of values: linking allocated nodes in
  the order of the list (Python, JavaScript, TypeScript, Go; \<open>link_kids\<close>), linking allocated nodes
  through a queue of nodes and \<open>null\<close>s (Java, Kotlin, C#), and allocating a node when its parent is
  taken from a queue (Rust, C++). The contract \<open>tree_wire\<close> is what a test case and the judge rely on.
\<close>

section \<open>The contract\<close>

locale tree_wire =
  fixes nl :: 'v
    and build :: "'v list \<Rightarrow> 'v tree_node list \<Rightarrow> nat option \<times> 'v tree_node list"
    and flatten :: "nat \<Rightarrow> 'v tree_node list \<Rightarrow> nat option \<Rightarrow> 'v list option"
  assumes build_rep: "no_none nl t \<Longrightarrow> build (pop_nones nl (level_order nl [t])) h = (p, h') \<Longrightarrow>
      tree_rep h' p t \<and> take (length h) h' = h"
    and flatten_level: "tree_rep h p t \<Longrightarrow> weight t \<le> n \<Longrightarrow> flatten n h p = Some (pop_nones nl (level_order nl [t]))"
begin

lemma roundtrip:
  assumes "tree_rep h p t" and "no_none nl t" and "weight t \<le> n"
  shows "\<exists>vs. flatten n h p = Some vs \<and> tree_rep (snd (build vs h0)) (fst (build vs h0)) t \<and>
    take (length h0) (snd (build vs h0)) = h0"
  using flatten_level [OF assms(1,3)] build_rep [OF assms(2), of h0] by (metis prod.collapse)

end

lemma tree_wire_make_tree: "tree_wire nl (make_tree nl) (read_tree nl)"
  by unfold_locales (rule make_tree_level_order, assumption+, rule read_tree_level_order)

section \<open>Through a queue of allocated nodes\<close>

text \<open>\<open>while (!queue.isEmpty() && i < nodes.size())\<close>: the queue, the nodes from index \<open>i\<close> on, the heap.\<close>

function queue_kids :: "nat option list \<Rightarrow> nat option list \<Rightarrow> 'v tree_node list \<Rightarrow> 'v tree_node list" where
  "queue_kids q [] h = h"
| "queue_kids [] (k # ks) h = h"
| "queue_kids (None # q) (k # ks) h = queue_kids q (k # ks) h"
| "queue_kids (Some i # q) [l] h =
     queue_kids (q @ [l, t_right (h ! i)]) [] (h[i := (h ! i)\<lparr>t_left := l\<rparr>])"
| "queue_kids (Some i # q) (l # r # ks) h =
     queue_kids (q @ [l, r]) ks (h[i := (h ! i)\<lparr>t_left := l, t_right := r\<rparr>])"
  by pat_completeness auto
termination by (relation "measures [\<lambda>(q, ks, h). length ks, \<lambda>(q, ks, h). length q]") auto

definition queue_tree :: "'v \<Rightarrow> 'v list \<Rightarrow> 'v tree_node list \<Rightarrow> nat option \<times> 'v tree_node list" where
  "queue_tree nl values h =
     (if values = [] then (None, h)
      else case tree_nodes nl values h of (ns, h') \<Rightarrow> (hd ns, queue_kids [hd ns] (tl ns) h'))"

lemma link_kids_Nil [simp]: "link_kids ns [] h = h"
  by (induction ns "[] :: nat option list" h rule: link_kids.induct) auto

lemma two_or_more: "xs = [] \<or> (\<exists>a. xs = [a]) \<or> (\<exists>a b ys. xs = a # b # ys)"
  by (cases xs; cases "tl xs") auto

lemma queue_kids_link:
  "list_all2 (holds nl h) (q @ rest @ replicate k None) (level_order nl ts) \<Longrightarrow> length q = length ts \<Longrightarrow>
    \<forall>t \<in> set ts. no_none nl t \<Longrightarrow> queue_kids q rest h = link_kids (q @ rest) rest h"
proof (induction nl ts arbitrary: q rest h rule: level_order.induct)
  case (1 nl)
  then show ?case by (cases rest) auto
next
  case (2 nl ts)
  then obtain q' where q: "q = None # q'" "list_all2 (holds nl h) (q' @ rest @ replicate k None) (level_order nl ts)"
    by (cases q) auto
  have "queue_kids q' rest h = link_kids (q' @ rest) rest h"
    by (rule "2.IH" [OF q(2)]) (use q(1) "2.prems"(2,3) in simp_all)
  then show ?case using q(1) by (cases rest) auto
next
  case (3 nl l v r ts)
  have v: "v \<noteq> nl" using "3.prems"(3) by simp
  obtain i q' where q: "q = Some i # q'" "t_val (h ! i) = v"
      "list_all2 (holds nl h) (q' @ rest @ replicate k None) (level_order nl (ts @ [l, r]))"
    using "3.prems"(1,2) by (cases q) (auto simp: holds_val [OF v])
  show ?case
  proof (cases "\<exists>a b ks. rest = a # b # ks")
    case True
    then obtain a b ks where rest: "rest = a # b # ks" by blast
    let ?h = "h[i := (h ! i)\<lparr>t_left := a, t_right := b\<rparr>]"
    have "queue_kids (q' @ [a, b]) ks ?h = link_kids ((q' @ [a, b]) @ ks) ks ?h"
    proof (rule "3.IH")
      show "list_all2 (holds nl ?h) ((q' @ [a, b]) @ ks @ replicate k None) (level_order nl (ts @ [l, r]))"
        using q(3) rest by (simp add: holds_upd)
    qed (use "3.prems"(2,3) q(1) in auto)
    then show ?thesis using q(1) rest by simp
  next
    case False
    then show ?thesis using two_or_more [of rest] q(1) by auto
  qed
qed

lemma queue_tree_rep:
  assumes "no_none nl t" and "queue_tree nl (pop_nones nl (level_order nl [t])) h = (p, h')"
  shows "tree_rep h' p t \<and> take (length h) h' = h"
proof (rule make_tree_level_order [OF assms(1)])
  let ?vs = "pop_nones nl (level_order nl [t])"
  obtain k where k: "level_order nl [t] = ?vs @ replicate k nl" using pop_nones_pad [of "level_order nl [t]" nl] by blast
  obtain ns h1 where n: "tree_nodes nl ?vs h = (ns, h1)" by fastforce
  have all: "list_all2 (holds nl h1) ns ?vs" using tree_nodes_spec [OF n] by blast
  have "list_all2 (holds nl h1) (ns @ replicate k None) (?vs @ replicate k nl)"
    using all by (intro list_all2_appendI) (auto simp: list_all2_conv_all_nth)
  then have "list_all2 (holds nl h1) (ns @ replicate k None) (level_order nl [t])" by (simp only: k [symmetric])
  then have "queue_kids [hd ns] (tl ns) h1 = link_kids ([hd ns] @ tl ns) (tl ns) h1" if "ns \<noteq> []"
    using queue_kids_link [of nl h1 "[hd ns]" "tl ns" k "[t]"] assms(1) that by (cases ns) auto
  moreover have "ns \<noteq> []" if "?vs \<noteq> []" using all that by auto
  ultimately show "make_tree nl ?vs h = (p, h')"
    using assms(2) n by (auto simp: queue_tree_def make_tree_def)
qed

lemma tree_wire_queue_tree: "tree_wire nl (queue_tree nl) (read_tree nl)"
  by unfold_locales (rule queue_tree_rep, assumption+, rule read_tree_level_order)

section \<open>Allocating on demand\<close>

text \<open>A child of node \<open>i\<close>, allocated unless its value is missing, and what goes into the queue for it.\<close>

definition place_left :: "'v \<Rightarrow> nat \<Rightarrow> 'v \<Rightarrow> 'v tree_node list \<Rightarrow> nat list \<times> 'v tree_node list" where
  "place_left nl i v h = (if v = nl then ([], h)
     else ([length h], h[i := (h ! i)\<lparr>t_left := Some (length h)\<rparr>] @ [TreeNode v]))"

definition place_right :: "'v \<Rightarrow> nat \<Rightarrow> 'v \<Rightarrow> 'v tree_node list \<Rightarrow> nat list \<times> 'v tree_node list" where
  "place_right nl i v h = (if v = nl then ([], h)
     else ([length h], h[i := (h ! i)\<lparr>t_right := Some (length h)\<rparr>] @ [TreeNode v]))"

fun grow :: "'v \<Rightarrow> nat list \<Rightarrow> 'v list \<Rightarrow> 'v tree_node list \<Rightarrow> 'v tree_node list" where
  "grow nl [] vs h = h"
| "grow nl (i # q) [] h = h"
| "grow nl (i # q) [a] h = snd (place_left nl i a h)"
| "grow nl (i # q) (a # b # vs) h = (case place_left nl i a h of (l, h1) \<Rightarrow>
     case place_right nl i b h1 of (r, h2) \<Rightarrow> grow nl (q @ l @ r) vs h2)"

definition demand_tree :: "'v \<Rightarrow> 'v list \<Rightarrow> 'v tree_node list \<Rightarrow> nat option \<times> 'v tree_node list" where
  "demand_tree nl values h = (case values of
      [] \<Rightarrow> (None, h)
    | v # vs \<Rightarrow> if v = nl then (None, h) else (Some (length h), grow nl [length h] vs (h @ [TreeNode v])))"

text \<open>The values below the roots of a queue of trees, in the order in which they are read.\<close>

fun root_val :: "'v \<Rightarrow> 'v vtree \<Rightarrow> 'v" where
  "root_val nl Empty = nl"
| "root_val nl (Branch l v r) = v"

function kids_order :: "'v \<Rightarrow> 'v vtree list \<Rightarrow> 'v list" where
  "kids_order nl [] = []"
| "kids_order nl (Empty # q) = kids_order nl q"
| "kids_order nl (Branch l v r # q) = root_val nl l # root_val nl r # kids_order nl (q @ [l, r])"
  by pat_completeness auto
termination by (relation "measure (\<lambda>(nl, q). sum_list (map weight q))") auto

lemma level_order_kids: "level_order nl q = map (root_val nl) q @ kids_order nl q"
  by (induction nl q rule: kids_order.induct) auto

lemma grow_missing: "grow nl q (replicate k nl) h = h"
proof (induction k arbitrary: q rule: less_induct)
  case (less k)
  show ?case
  proof (cases q)
    case (Cons i q')
    consider "k = 0" | "k = 1" | m where "k = Suc (Suc m)" by (metis One_nat_def not0_implies_Suc)
    then show ?thesis using less [of "k - 2" q'] Cons
      by cases (auto simp: place_left_def place_right_def)
  qed simp
qed

lemma grow_pad: "grow nl q (vs @ replicate k nl) h = grow nl q vs h"
proof (induction nl q vs h rule: grow.induct)
  case (2 nl i q h)
  then show ?case using grow_missing [of nl "i # q" k h] by simp
next
  case (3 nl i q a h)
  have "grow nl (i # q) ([a] @ replicate k nl) h = snd (place_left nl i a h)"
  proof (cases k)
    case (Suc m)
    then show ?thesis by (simp add: place_right_def grow_missing split: prod.splits)
  qed simp
  then show ?case by simp
qed (auto split: prod.splits)

definition sits :: "'v tree_node list \<Rightarrow> nat \<Rightarrow> 'v vtree \<Rightarrow> bool" where
  "sits h i t = (case t of Empty \<Rightarrow> False
     | Branch l v r \<Rightarrow> i < length h \<and> h ! i = TreeNode v)"

abbreviation branches :: "'v vtree list \<Rightarrow> 'v vtree list" where
  "branches ts \<equiv> filter (\<lambda>t. t \<noteq> Empty) ts"

lemma sits_less: "sits h i t \<Longrightarrow> i < length h"
  by (auto simp: sits_def split: vtree.splits)

lemma list_all2_ex1: "list_all2 P xs ys \<Longrightarrow> x \<in> set xs \<Longrightarrow> \<exists>y \<in> set ys. P x y"
  by (induction rule: list_all2_induct) auto

lemma sits_frame: "sits h i t \<Longrightarrow> h' ! i = h ! i \<Longrightarrow> length h \<le> length h' \<Longrightarrow> sits h' i t"
  by (auto simp: sits_def split: vtree.splits)

text \<open>Placing the two children of a node.\<close>

lemma place_kids:
  assumes "sits h i (Branch l v r)" and "no_none nl l" and "no_none nl r"
    and "place_left nl i (root_val nl l) h = (ls, h1)" and "place_right nl i (root_val nl r) h1 = (rs, h2)"
  shows "list_all2 (sits h2) (ls @ rs) (branches [l, r]) \<and> length h \<le> length h2 \<and>
    (\<forall>j < length h. j \<noteq> i \<longrightarrow> h2 ! j = h ! j) \<and> distinct (ls @ rs) \<and> (\<forall>j \<in> set (ls @ rs). length h \<le> j) \<and>
    t_val (h2 ! i) = v \<and> t_left (h2 ! i) = (if l = Empty then None else Some (hd ls)) \<and>
    t_right (h2 ! i) = (if r = Empty then None else Some (hd rs)) \<and>
    (ls = [] \<longleftrightarrow> l = Empty) \<and> length ls \<le> 1 \<and> (rs = [] \<longleftrightarrow> r = Empty) \<and> length rs \<le> 1"
  using assms
  by (cases l; cases r) (auto simp: sits_def place_left_def place_right_def nth_append TreeNode_def)

lemma grow_rep:
  "list_all2 (sits h) q (branches ts) \<Longrightarrow> distinct q \<Longrightarrow> \<forall>t \<in> set ts. no_none nl t \<Longrightarrow>
    list_all2 (\<lambda>i. tree_rep (grow nl q (kids_order nl ts) h) (Some i)) q (branches ts) \<and>
    length h \<le> length (grow nl q (kids_order nl ts) h) \<and>
    (\<forall>j < length h. j \<notin> set q \<longrightarrow> grow nl q (kids_order nl ts) h ! j = h ! j)"
proof (induction nl ts arbitrary: q h rule: kids_order.induct)
  case (1 nl)
  then show ?case by simp
next
  case (2 nl ts)
  then show ?case by simp
next
  case (3 nl l v r ts)
  from "3.prems"(1) obtain i q' where q: "q = i # q'" "sits h i (Branch l v r)" "list_all2 (sits h) q' (branches ts)"
    by (auto simp: list_all2_Cons2)
  obtain ls h1 where l: "place_left nl i (root_val nl l) h = (ls, h1)" by fastforce
  obtain rs h2 where r: "place_right nl i (root_val nl r) h1 = (rs, h2)" by fastforce
  have none: "no_none nl l" "no_none nl r" using "3.prems"(3) by simp_all
  note p = place_kids [OF q(2) none l r]
  then have kids: "list_all2 (sits h2) (ls @ rs) (branches [l, r])" and new: "\<And>j. j \<in> set (ls @ rs) \<Longrightarrow> length h \<le> j"
    and dist: "distinct (ls @ rs)" by blast+
  have old: "j < length h" if "j \<in> set q'" for j using list_all2_ex1 [OF q(3) that] sits_less by blast
  let ?q = "q' @ ls @ rs" and ?ts = "ts @ [l, r]" and ?h = "grow nl q (kids_order nl (Branch l v r # ts)) h"
  have grow: "?h = grow nl ?q (kids_order nl ?ts) h2" using q(1) l r by simp
  have "list_all2 (sits h2) q' (branches ts)"
  proof (rule list.rel_mono_strong [OF q(3)])
    fix j t assume "j \<in> set q'" "t \<in> set (branches ts)" "sits h j t"
    then show "sits h2 j t" using p old [of j] "3.prems"(2) q(1) sits_frame by (metis distinct.simps(2))
  qed
  from list_all2_appendI [OF this kids] have "list_all2 (sits h2) ?q (branches ?ts)" by (simp only: filter_append)
  moreover have "set q' \<inter> set (ls @ rs) = {}" using old new by fastforce
  then have "distinct ?q" using "3.prems"(2) q(1) dist by simp
  ultimately have ih: "list_all2 (\<lambda>i. tree_rep ?h (Some i)) ?q (branches ?ts)" "length h2 \<le> length ?h"
      "\<And>j. j < length h2 \<Longrightarrow> j \<notin> set ?q \<Longrightarrow> ?h ! j = h2 ! j"
    unfolding grow using "3.IH" [of h2 ?q] "3.prems"(3) by auto
  have i: "i < length h" "i \<notin> set ?q" using q sits_less [OF q(2)] "3.prems"(2) new by fastforce+
  then have hi: "?h ! i = h2 ! i" using ih(3) p by auto
  have split: "list_all2 (\<lambda>i. tree_rep ?h (Some i)) q' (branches ts)" "list_all2 (\<lambda>i. tree_rep ?h (Some i)) (ls @ rs) (branches [l, r])"
    using ih(1) list_all2_lengthD [OF q(3)] by (simp_all add: list_all2_append)
  have "tree_rep ?h (t_left (?h ! i)) l" "tree_rep ?h (t_right (?h ! i)) r"
    using split(2) p hi by (cases ls; cases rs; cases l; cases r; auto)+
  then have "tree_rep ?h (Some i) (Branch l v r)" using p hi i ih(2) by auto
  moreover have "?h ! j = h ! j" if "j < length h" "j \<notin> set q" for j
  proof -
    have "j \<notin> set ?q" using that q(1) new by fastforce
    then show ?thesis using ih(3) [of j] p that q(1) by auto
  qed
  ultimately show ?case using split(1) q(1) ih(2) p by auto
qed

lemma demand_tree_rep:
  assumes "no_none nl t" and "demand_tree nl (pop_nones nl (level_order nl [t])) h = (p, h')"
  shows "tree_rep h' p t \<and> take (length h) h' = h"
proof (cases t)
  case Empty
  then show ?thesis using assms(2) by (auto simp: demand_tree_def pop_nones_def)
next
  case (Branch l v r)
  have v: "v \<noteq> nl" using assms(1) Branch by simp
  define ps where "ps = pop_nones nl (level_order nl [t])"
  have "level_order nl [t] = v # kids_order nl [t]" using level_order_kids [of nl "[t]"] Branch by simp
  then obtain k where "v # kids_order nl [t] = ps @ replicate k nl"
    using pop_nones_pad [of "level_order nl [t]" nl] ps_def by metis
  then obtain vs where vs: "ps = v # vs" "kids_order nl [t] = vs @ replicate k nl"
    using v by (cases ps; cases k) auto
  have "p = Some (length h)" "h' = grow nl [length h] (kids_order nl [t]) (h @ [TreeNode v])"
    using assms(2) vs v grow_pad [of nl "[length h]" vs k] ps_def by (auto simp: demand_tree_def)
  moreover have "list_all2 (sits (h @ [TreeNode v])) [length h] (branches [t])" using Branch by (simp add: sits_def)
  ultimately show ?thesis
    using grow_rep [of "h @ [TreeNode v]" "[length h]" "[t]" nl] assms(1) Branch
    by (auto simp: nth_append intro!: nth_equalityI simp del: kids_order.simps)
qed

lemma tree_wire_demand_tree: "tree_wire nl (demand_tree nl) (read_tree nl)"
  by unfold_locales (rule demand_tree_rep, assumption+, rule read_tree_level_order)

end
