(* ===== verification/ListWire.thy ===== *)
theory ListWire
  imports NodeHeap
begin

text \<open>
  The linked lists that the wrappers build from the values of a test case and the \<open>pos\<close> of the node
  that the last one links back to. The contract \<open>list_wire\<close> is what a test case and the judge rely
  on: the list has the shape asked for, and reading it, cyclic or not, gives its values.
\<close>

section \<open>Lists in the heap\<close>

text \<open>The list at \<open>p\<close> has the values \<open>vs\<close>, and its last node links to the node with index \<open>back\<close>.\<close>

definition list_rep :: "'v list_node list \<Rightarrow> nat option \<Rightarrow> 'v list \<Rightarrow> nat option \<Rightarrow> bool" where
  "list_rep h p vs back \<longleftrightarrow> (\<exists>ns. distinct ns \<and> length ns = length vs \<and> list_chain h ns vs (map_option (nth ns) back) \<and>
     p = (if vs = [] then None else Some (hd ns)) \<and> (case back of None \<Rightarrow> True | Some k \<Rightarrow> k < length vs))"

lemma read_list_rep:
  assumes "list_rep h p vs back"
  shows "read_list h p = vs"
proof (cases "vs = []")
  case True
  then show ?thesis using assms by (auto simp: list_rep_def read_list_def walk_list.simps)
next
  case False
  from assms obtain ns where ns: "distinct ns" "length ns = length vs" "list_chain h ns vs (map_option (nth ns) back)"
      "p = Some (hd ns)" "case back of None \<Rightarrow> True | Some k \<Rightarrow> k < length vs"
    using False by (auto simp: list_rep_def)
  have "ns \<noteq> []" using ns(2) False by auto
  then show ?thesis
    using walk_list_chain [OF ns(3,1), of "[]"] ns(2,4,5) by (auto simp: read_list_def split: option.splits)
qed

lemma list_rep_None: "list_rep h p vs back \<Longrightarrow> p = None \<longleftrightarrow> vs = []"
  by (auto simp: list_rep_def split: if_splits)

definition cycle_target :: "int \<Rightarrow> nat \<Rightarrow> nat option" where
  "cycle_target pos n = (if 0 \<le> pos \<and> pos < int n then Some (nat pos) else None)"

section \<open>The contract\<close>

locale list_wire =
  fixes build :: "'v list \<Rightarrow> int \<Rightarrow> 'v list_node list \<Rightarrow> 'e + nat option \<times> 'v list_node list"
  assumes built: "- 1 \<le> pos \<Longrightarrow> \<exists>p h'. build vs pos h = Inr (p, h') \<and> list_rep h' p vs (cycle_target pos (length vs))"
begin

lemma reads_back: "- 1 \<le> pos \<Longrightarrow> \<exists>p h'. build vs pos h = Inr (p, h') \<and> read_list h' p = vs"
  using built [of pos vs h] read_list_rep by blast

end

section \<open>The common construction\<close>

text \<open>\<open>nodes[-1].next = nodes[pos]\<close>\<close>

definition tie :: "nat list \<Rightarrow> nat \<Rightarrow> 'v list_node list \<Rightarrow> 'v list_node list" where
  "tie ns k h = h[last ns := (h ! last ns)\<lparr>l_next := Some (ns ! k)\<rparr>]"

definition ring :: "'v \<Rightarrow> 'v list \<Rightarrow> int \<Rightarrow> 'v list_node list \<Rightarrow> nat option \<times> 'v list_node list" where
  "ring z vs pos h = (case make_list z vs h of (p, ns, h') \<Rightarrow>
     (p, if 0 \<le> pos \<and> pos < int (length ns) then tie ns (nat pos) h' else h'))"

lemma tie_rep:
  assumes "list_chain h ns vs None" and "distinct ns" and "p = Some (hd ns)" and "k < length vs" and "length ns = length vs"
  shows "list_rep (tie ns k h) p vs (Some k)"
proof -
  have "ns \<noteq> []" "vs \<noteq> []" using assms(4,5) by auto
  then show ?thesis
    using list_chain_close [OF assms(1,2), of "Some (ns ! k)"] assms
    by (auto simp: list_rep_def tie_def intro!: exI [of _ ns])
qed

lemma make_list_rep:
  assumes "make_list z vs h = (p, ns, h')"
  shows "list_rep h' p vs None"
proof (cases "vs = []")
  case True
  then show ?thesis using assms by (auto simp: make_list_def list_rep_def intro: exI [of _ "[]"])
next
  case False
  then show ?thesis using make_list_chain [OF assms False] by (auto simp: list_rep_def)
qed

lemma make_list_length: "make_list z vs h = (p, ns, h') \<Longrightarrow> length ns = length vs"
  using make_list_chain [of z vs h p ns h'] by (cases "vs = []") (auto simp: make_list_def)

lemma make_list_tie:
  assumes "make_list z vs h = (p, ns, h')" and "k < length vs"
  shows "list_rep (tie ns k h') p vs (Some k)"
proof -
  have "vs \<noteq> []" using assms(2) by auto
  from make_list_chain [OF assms(1) this] show ?thesis using assms(2) by (intro tie_rep) auto
qed

lemma ring_rep: "ring z vs pos h = (p, h') \<Longrightarrow> list_rep h' p vs (cycle_target pos (length vs))"
  using make_list_rep [of z vs h] make_list_tie [of z vs h _ _ _ "nat pos"] make_list_length [of z vs h]
  by (cases "make_list z vs h") (auto simp: ring_def cycle_target_def)

lemma list_wire_ring: "list_wire (\<lambda>vs pos h. Inr (ring z vs pos h))"
proof
  fix pos vs h
  obtain p h' where "ring z vs pos h = (p, h')" by (cases "ring z vs pos h")
  then show "\<exists>p h'. Inr (ring z vs pos h) = Inr (p, h') \<and> list_rep h' p vs (cycle_target pos (length vs))"
    using ring_rep [of z vs pos h p h'] by simp
qed

end
