(* ===== verification/WrapperHeap.thy ===== *)
theory WrapperHeap
  imports TreeWire ListWire PyValue
begin

text \<open>
  The trees and linked lists of the Python wrapper (\<open>languages/python_wrapper.py\<close>): its nodes hold
  Python values, and \<open>None\<close> is the missing node.
\<close>

definition build_tree :: "pyval list \<Rightarrow> pyval tree_node list \<Rightarrow> nat option \<times> pyval tree_node list" where
  "build_tree = make_tree VNone"

definition tree_to_list :: "nat \<Rightarrow> pyval tree_node list \<Rightarrow> nat option \<Rightarrow> pyval list option" where
  "tree_to_list = read_tree VNone"

definition build_linked_list ::
  "pyval list \<Rightarrow> pyval list_node list \<Rightarrow> nat option \<times> nat list \<times> pyval list_node list" where
  "build_linked_list = make_list (VInt 0)"

definition linked_list_to_list :: "pyval list_node list \<Rightarrow> nat option \<Rightarrow> pyval list" where
  "linked_list_to_list = read_list"

interpretation py_tree: tree_wire VNone build_tree tree_to_list
  unfolding build_tree_def tree_to_list_def by (rule tree_wire_make_tree)

section \<open>Properties\<close>

text \<open>C7. The tree a submission returns survives the way to the judge and back: for every tree in the
  heap that holds no \<open>None\<close> value, \<open>tree_to_list\<close> ends (with one unit of fuel per node and empty
  place) and \<open>build_tree\<close> makes of the list it gives, in whatever heap, a tree of the same shape and
  values, leaving every object that was there alone.\<close>

theorem tree_list_roundtrip:
  assumes "tree_rep h p t" and "no_none VNone t" and "weight t \<le> n"
  shows "\<exists>vs. tree_to_list n h p = Some vs \<and>
    tree_rep (snd (build_tree vs h0)) (fst (build_tree vs h0)) t \<and> take (length h0) (snd (build_tree vs h0)) = h0"
  by (rule py_tree.roundtrip [OF assms])

definition small_tree :: "pyval tree_node list" where
  "small_tree = [\<lparr>t_val = VInt 1, t_left = None, t_right = Some 1\<rparr>, TreeNode (VInt 2)]"

theorem tree_list_roundtrip_witness:
  "\<exists>vs. tree_to_list 5 small_tree (Some 0) = Some vs \<and>
    tree_rep (snd (build_tree vs [TreeNode VNone])) (fst (build_tree vs [TreeNode VNone]))
      (Branch Empty (VInt 1) (Branch Empty (VInt 2) Empty)) \<and>
    take (length [TreeNode VNone]) (snd (build_tree vs [TreeNode VNone])) = [TreeNode VNone]"
  by (rule tree_list_roundtrip) (simp_all add: small_tree_def TreeNode_def)

end
