(* ===== verification/WrapperGraph.thy ===== *)
theory WrapperGraph
  imports WrapperHeap
begin

text \<open>
  The graph nodes of the Python wrapper (\<open>languages/python_wrapper.py\<close>): \<open>build_graph\<close>,
  \<open>graph_to_adjlist\<close> with its breadth-first search, and the errors that malformed adjacency lists
  raise. The value of a node is an integer, as \<open>build_graph\<close> makes it.
\<close>

section \<open>Objects\<close>

record graph_node =
  g_val :: int
  g_neighbors :: "nat list"

definition GraphNode :: "int \<Rightarrow> graph_node" where
  "GraphNode v = \<lparr>g_val = v, g_neighbors = []\<rparr>"

section \<open>Graphs\<close>

text \<open>An exception inside the wrapper: the name of its class and its text.\<close>

type_synonym pyexn = "string \<times> string"

fun type_name :: "pyval \<Rightarrow> string" where
  "type_name VNone = ''NoneType''"
| "type_name (VBool b) = ''bool''"
| "type_name (VInt n) = ''int''"
| "type_name (VFloat x) = ''float''"
| "type_name (VStr s) = ''str''"
| "type_name (VList xs) = ''list''"
| "type_name (VDict d) = ''dict''"

definition quoted :: "string \<Rightarrow> string" where
  "quoted s = [squote] @ s @ [squote]"

text \<open>\<open>for x in v\<close> and \<open>nodes[v]\<close> for \<open>nodes = {1: ..., n: ...}\<close>, whose first node is at \<open>base\<close>.\<close>

definition iter_values :: "pyval \<Rightarrow> pyexn + pyval list" where
  "iter_values v = (case v of
      VList xs \<Rightarrow> Inr xs
    | VStr s \<Rightarrow> Inr (map (\<lambda>c. VStr [c]) s)
    | VDict d \<Rightarrow> Inr (map (\<lambda>p. VStr (fst p)) d)
    | _ \<Rightarrow> Inl (''TypeError'', quoted (type_name v) @ '' object is not iterable''))"

definition node_of :: "nat \<Rightarrow> nat \<Rightarrow> pyval \<Rightarrow> pyexn + nat" where
  "node_of base n v =
     (if type_name v = ''list'' \<or> type_name v = ''dict'' then Inl (''TypeError'', ''unhashable type: '' @ quoted (type_name v))
      else case List.find (\<lambda>k. py_eq v (VInt (int (Suc k)))) [0..<n] of
          None \<Rightarrow> Inl (''KeyError'', py_repr v)
        | Some k \<Rightarrow> Inr (base + k))"

text \<open>\<open>nodes[i + 1].neighbors.append(nodes[neighbor])\<close> for the neighbours of one node, and for every node.\<close>

fun link_row :: "nat \<Rightarrow> nat \<Rightarrow> nat \<Rightarrow> pyval list \<Rightarrow> graph_node list \<Rightarrow> pyexn + graph_node list" where
  "link_row base n i [] h = Inr h"
| "link_row base n i (v # vs) h = (case node_of base n v of
      Inl e \<Rightarrow> Inl e
    | Inr j \<Rightarrow> link_row base n i vs (h[base + i := (h ! (base + i))\<lparr>g_neighbors := g_neighbors (h ! (base + i)) @ [j]\<rparr>]))"

fun link_rows :: "nat \<Rightarrow> nat \<Rightarrow> nat \<Rightarrow> pyval list \<Rightarrow> graph_node list \<Rightarrow> pyexn + graph_node list" where
  "link_rows base n i [] h = Inr h"
| "link_rows base n i (row # rows) h = (case iter_values row of
      Inl e \<Rightarrow> Inl e
    | Inr vs \<Rightarrow> (case link_row base n i vs h of Inl e \<Rightarrow> Inl e | Inr h' \<Rightarrow> link_rows base n (Suc i) rows h'))"

definition build_graph :: "pyval list \<Rightarrow> graph_node list \<Rightarrow> pyexn + nat option \<times> graph_node list" where
  "build_graph adjList h =
     (if adjList = [] then Inr (None, h)
      else let n = length adjList in
        case link_rows (length h) n 0 adjList (h @ map (\<lambda>i. GraphNode (int (Suc i))) [0..<n]) of
          Inl e \<Rightarrow> Inl e
        | Inr h' \<Rightarrow> Inr (Some (length h), h'))"

text \<open>The loop over the queue: the nodes in the order in which they are visited.\<close>

function graph_queue :: "graph_node list \<Rightarrow> nat list \<Rightarrow> nat list \<Rightarrow> nat list" where
  "graph_queue h [] visited = []"
| "graph_queue h (i # queue) visited =
     (if i \<in> set visited \<or> \<not> i < length h then graph_queue h queue visited
      else i # graph_queue h (queue @ filter (\<lambda>j. j \<notin> set (i # visited)) (g_neighbors (h ! i))) (i # visited))"
  by pat_completeness auto
termination
proof (relation "measures [\<lambda>(h, queue, visited). card ({..<length h} - set visited), \<lambda>(h, queue, visited). length queue]", goal_cases)
  case (3 h i queue visited)
  then have "{..<length h} - set (i # visited) \<subset> {..<length h} - set visited" by auto
  then show ?case by (simp add: psubset_card_mono)
qed simp_all

text \<open>\<open>xs[i]\<close> counts from the end for a negative index.\<close>

definition py_index :: "int \<Rightarrow> nat \<Rightarrow> nat option" where
  "py_index i n = (if 0 \<le> i \<and> i < int n then Some (nat i)
     else if i < 0 \<and> - int n \<le> i then Some (nat (int n + i)) else None)"

text \<open>\<open>result[curr.val - 1].append(neighbor.val)\<close> for every neighbour of every node.\<close>

fun fill_rows :: "graph_node list \<Rightarrow> nat list \<Rightarrow> int list list \<Rightarrow> pyexn + int list list" where
  "fill_rows h [] res = Inr res"
| "fill_rows h (i # is) res =
     (let ns = map (\<lambda>j. g_val (h ! j)) (g_neighbors (h ! i)) in
      if ns = [] then fill_rows h is res
      else case py_index (g_val (h ! i) - 1) (length res) of
          None \<Rightarrow> Inl (''IndexError'', ''list index out of range'')
        | Some k \<Rightarrow> fill_rows h is (res[k := res ! k @ ns]))"

definition graph_to_adjlist :: "graph_node list \<Rightarrow> nat option \<Rightarrow> pyexn + int list list" where
  "graph_to_adjlist h node = (case node of
      None \<Rightarrow> Inr []
    | Some i \<Rightarrow>
        let nodes = sort_key (\<lambda>j. g_val (h ! j)) (graph_queue h [i] []);
            max_val = Max (set (map (\<lambda>j. g_val (h ! j)) nodes))
        in fill_rows h nodes (replicate (nat max_val) []))"

section \<open>The search\<close>

lemma graph_queue_distinct: "distinct (graph_queue h q vis) \<and> set (graph_queue h q vis) \<inter> set vis = {}"
  by (induction h q vis rule: graph_queue.induct) auto

lemma graph_queue_within:
  "\<forall>i \<in> S. set (g_neighbors (h ! i)) \<subseteq> S \<Longrightarrow> set q \<subseteq> S \<Longrightarrow> set (graph_queue h q vis) \<subseteq> S"
  by (induction h q vis rule: graph_queue.induct) auto

lemma graph_queue_closed:
  "\<forall>i \<in> set vis. set (g_neighbors (h ! i)) \<subseteq> set vis \<union> set q \<Longrightarrow>
   \<forall>i \<in> S. set (g_neighbors (h ! i)) \<subseteq> S \<Longrightarrow> S \<subseteq> {..<length h} \<Longrightarrow> set q \<subseteq> S \<Longrightarrow>
   R = set (graph_queue h q vis) \<union> set vis \<Longrightarrow> set q \<subseteq> R \<and> (\<forall>i \<in> R. set (g_neighbors (h ! i)) \<subseteq> R)"
proof (induction h q vis arbitrary: R rule: graph_queue.induct)
  case (1 h vis)
  then show ?case by simp
next
  case (2 h i q vis)
  show ?case
  proof (cases "i \<in> set vis")
    case True
    then show ?thesis using 2 by auto
  next
    case False
    let ?q = "q @ filter (\<lambda>j. j \<notin> set (i # vis)) (g_neighbors (h ! i))"
    have i: "i < length h" "i \<in> S" using "2.prems"(3,4) by auto
    have "set ?q \<subseteq> R \<and> (\<forall>i \<in> R. set (g_neighbors (h ! i)) \<subseteq> R)"
    proof (rule "2.IH"(2))
      show "\<forall>j \<in> set (i # vis). set (g_neighbors (h ! j)) \<subseteq> set (i # vis) \<union> set ?q"
        using "2.prems"(1) by auto
      show "set ?q \<subseteq> S" using "2.prems"(2,4) i by auto
    qed (use False i "2.prems" in auto)
    then show ?thesis using False i "2.prems"(5) by auto
  qed
qed

section \<open>Graphs in the heap\<close>

text \<open>An adjacency list over the nodes \<open>1..n\<close>, as the values of a test case, and the graph in the heap.\<close>

definition adj_values :: "int list list \<Rightarrow> pyval list" where
  "adj_values adj = map (\<lambda>r. VList (map VInt r)) adj"

definition adj_ok :: "int list list \<Rightarrow> bool" where
  "adj_ok adj \<longleftrightarrow> (\<forall>r \<in> set adj. \<forall>k \<in> set r. 1 \<le> k \<and> k \<le> int (length adj))"

definition graph_rep :: "graph_node list \<Rightarrow> nat \<Rightarrow> int list list \<Rightarrow> bool" where
  "graph_rep h base adj \<longleftrightarrow> base + length adj \<le> length h \<and> (\<forall>i < length adj.
     h ! (base + i) = \<lparr>g_val = int (Suc i), g_neighbors = map (\<lambda>k. base + nat (k - 1)) (adj ! i)\<rparr>)"

definition edge :: "int list list \<Rightarrow> nat \<Rightarrow> nat \<Rightarrow> bool" where
  "edge adj i j \<longleftrightarrow> i < length adj \<and> int (Suc j) \<in> set (adj ! i)"

definition connected :: "int list list \<Rightarrow> bool" where
  "connected adj \<longleftrightarrow> (\<forall>i < length adj. (edge adj)\<^sup>*\<^sup>* 0 i)"

lemma find_index:
  assumes "p k" and "k < n" and "\<And>i. p i \<Longrightarrow> i = k"
  shows "List.find p [0..<n] = Some k"
proof -
  have "\<not> p j" if "j < k" for j using assms(3) [of j] that by blast
  then show ?thesis using assms(1,2) by (simp add: find_Some_iff) (intro exI [of _ k], simp)
qed

lemma py_eq_VInt: "py_eq (VInt a) (VInt b) \<longleftrightarrow> a = b"
  by (auto simp: feq_def)

lemma node_of_VInt:
  assumes "1 \<le> k" and "k \<le> int n"
  shows "node_of base n (VInt k) = Inr (base + nat (k - 1))"
proof -
  have "List.find (\<lambda>j. py_eq (VInt k) (VInt (int (Suc j)))) [0..<n] = Some (nat (k - 1))"
    using assms by (intro find_index) (auto simp only: py_eq_VInt)
  then show ?thesis unfolding node_of_def by (simp del: py_eq.simps)
qed

lemma link_row_spec:
  "\<forall>k \<in> set r. 1 \<le> k \<and> k \<le> int n \<Longrightarrow> base + i < length h \<Longrightarrow> link_row base n i (map VInt r) h =
    Inr (h[base + i := (h ! (base + i))\<lparr>g_neighbors := g_neighbors (h ! (base + i)) @ map (\<lambda>k. base + nat (k - 1)) r\<rparr>])"
  by (induction r arbitrary: h) (auto simp: node_of_VInt)

lemma link_rows_spec:
  "\<forall>r \<in> set rows. \<forall>k \<in> set r. 1 \<le> k \<and> k \<le> int n \<Longrightarrow> base + i + length rows \<le> length h \<Longrightarrow>
   \<exists>h'. link_rows base n i (adj_values rows) h = Inr h' \<and> length h' = length h \<and>
     (\<forall>j. (j < base + i \<or> base + i + length rows \<le> j \<longrightarrow> h' ! j = h ! j)) \<and>
     (\<forall>j < length rows. h' ! (base + i + j) = (h ! (base + i + j))\<lparr>g_neighbors :=
       g_neighbors (h ! (base + i + j)) @ map (\<lambda>k. base + nat (k - 1)) (rows ! j)\<rparr>)"
proof (induction rows arbitrary: i h)
  case Nil
  then show ?case by (simp add: adj_values_def)
next
  case (Cons r rows)
  let ?h = "h[base + i := (h ! (base + i))\<lparr>g_neighbors := g_neighbors (h ! (base + i)) @ map (\<lambda>k. base + nat (k - 1)) r\<rparr>]"
  have row: "link_row base n i (map VInt r) h = Inr ?h" using Cons.prems by (intro link_row_spec) auto
  from Cons.IH [of "Suc i" ?h] Cons.prems obtain h' where
    h': "link_rows base n (Suc i) (adj_values rows) ?h = Inr h'" "length h' = length h"
      "\<forall>j. (j < base + Suc i \<or> base + Suc i + length rows \<le> j \<longrightarrow> h' ! j = ?h ! j)"
      "\<forall>j < length rows. h' ! (base + Suc i + j) = (?h ! (base + Suc i + j))\<lparr>g_neighbors :=
       g_neighbors (?h ! (base + Suc i + j)) @ map (\<lambda>k. base + nat (k - 1)) (rows ! j)\<rparr>" by auto
  have "link_rows base n i (adj_values (r # rows)) h = Inr h'"
    using row h'(1) by (simp add: adj_values_def iter_values_def)
  moreover have "h' ! (base + i + j) = (h ! (base + i + j))\<lparr>g_neighbors :=
       g_neighbors (h ! (base + i + j)) @ map (\<lambda>k. base + nat (k - 1)) ((r # rows) ! j)\<rparr>" if "j < length (r # rows)" for j
  proof (cases j)
    case 0
    then show ?thesis using h'(3) Cons.prems(2) by auto
  next
    case (Suc m)
    then show ?thesis using h'(4) that by auto
  qed
  moreover have "h' ! j = h ! j" if "j < base + i \<or> base + i + length (r # rows) \<le> j" for j
  proof -
    have "j < base + Suc i \<or> base + Suc i + length rows \<le> j" "j \<noteq> base + i" using that by auto
    then show ?thesis using spec [OF h'(3), of j] by auto
  qed
  ultimately show ?case using h'(2) by blast
qed

lemma build_graph_rep:
  assumes "adj_ok adj" and "adj \<noteq> []"
  shows "\<exists>h'. build_graph (adj_values adj) h = Inr (Some (length h), h') \<and> graph_rep h' (length h) adj"
proof -
  let ?h = "h @ map (\<lambda>i. GraphNode (int (Suc i))) [0..<length adj]"
  from link_rows_spec [of adj "length adj" "length h" 0 ?h] assms(1) obtain h' where
    h': "link_rows (length h) (length adj) 0 (adj_values adj) ?h = Inr h'" "length h' = length h + length adj"
      "\<forall>j < length adj. h' ! (length h + j) = (?h ! (length h + j))\<lparr>g_neighbors :=
       g_neighbors (?h ! (length h + j)) @ map (\<lambda>k. length h + nat (k - 1)) (adj ! j)\<rparr>"
    by (auto simp: adj_ok_def)
  have "graph_rep h' (length h) adj"
    using h'(2,3) by (auto simp: graph_rep_def nth_append GraphNode_def)
  moreover have "build_graph (adj_values adj) h = Inr (Some (length h), h')"
    using h'(1) assms(2) by (auto simp: build_graph_def adj_values_def)
  ultimately show ?thesis by blast
qed

lemma adj_okD: "adj_ok adj \<Longrightarrow> i < length adj \<Longrightarrow> k \<in> set (adj ! i) \<Longrightarrow> 1 \<le> k \<and> k \<le> int (length adj)"
  using nth_mem by (fastforce simp: adj_ok_def)

lemma edge_neighbour: "adj_ok adj \<Longrightarrow> edge adj i j \<Longrightarrow> j < length adj"
  using adj_okD [of adj i "int (Suc j)"] by (simp add: edge_def)

lemma graph_rep_nth:
  "graph_rep h base adj \<Longrightarrow> i \<in> {base..<base + length adj} \<Longrightarrow> h ! i =
    \<lparr>g_val = int (Suc (i - base)), g_neighbors = map (\<lambda>k. base + nat (k - 1)) (adj ! (i - base))\<rparr>"
  by (auto simp: graph_rep_def dest!: spec [of _ "i - base"])

lemma graph_rep_neighbours:
  "graph_rep h base adj \<Longrightarrow> i < length adj \<Longrightarrow> adj_ok adj \<Longrightarrow>
    set (g_neighbors (h ! (base + i))) = (\<lambda>j. base + j) ` {j. edge adj i j}"
proof -
  assume a: "graph_rep h base adj" "i < length adj" "adj_ok adj"
  have "(\<lambda>k. nat (k - 1)) ` set (adj ! i) = {j. edge adj i j}"
    using a(2) adj_okD [OF a(3,2)] by (force simp: edge_def image_iff)
  moreover have "set (g_neighbors (h ! (base + i))) = (\<lambda>j. base + j) ` (\<lambda>k. nat (k - 1)) ` set (adj ! i)"
    using a by (simp add: graph_rep_def image_image)
  ultimately show ?thesis by simp
qed

lemma graph_queue_all:
  assumes "graph_rep h base adj" and "adj_ok adj" and "adj \<noteq> []" and "connected adj"
  shows "set (graph_queue h [base] []) = {base..<base + length adj}"
proof
  let ?S = "{base..<base + length adj}"
  have closed: "\<forall>i \<in> ?S. set (g_neighbors (h ! i)) \<subseteq> ?S"
  proof
    fix i assume "i \<in> ?S"
    then show "set (g_neighbors (h ! i)) \<subseteq> ?S"
      using graph_rep_neighbours [OF assms(1) _ assms(2), of "i - base"] edge_neighbour [OF assms(2)] by auto
  qed
  then show "set (graph_queue h [base] []) \<subseteq> ?S"
    using graph_queue_within [of ?S h "[base]" "[]"] assms(3) by auto
  let ?R = "set (graph_queue h [base] [])"
  have "?S \<subseteq> {..<length h}" using assms(1) by (auto simp: graph_rep_def)
  then have R: "base \<in> ?R" "\<forall>i \<in> ?R. set (g_neighbors (h ! i)) \<subseteq> ?R"
    using graph_queue_closed [of "[]" h "[base]" ?S ?R] closed assms(3)
    by (auto simp del: graph_queue.simps)
  have "base + i \<in> ?R" if "(edge adj)\<^sup>*\<^sup>* 0 i" for i
    using that
  proof (induction rule: rtranclp_induct)
    case base
    then show ?case using R(1) by simp
  next
    case (step i j)
    then have "base + j \<in> set (g_neighbors (h ! (base + i)))"
      using graph_rep_neighbours [OF assms(1) _ assms(2), of i] by (auto simp: edge_def)
    then show ?case using R(2) step.IH by blast
  qed
  then have "base + i \<in> ?R" if "i < length adj" for i using assms(4) that by (simp add: connected_def)
  then have "i \<in> ?R" if "i \<in> ?S" for i
    using that le_Suc_ex [of base i] by (auto simp del: graph_queue.simps)
  then show "?S \<subseteq> ?R" by blast
qed

lemma sort_key_interval:
  assumes "distinct xs" and "set xs = {a..<b}" and "\<And>i. i \<in> {a..<b} \<Longrightarrow> f i = int i + c"
  shows "sort_key f xs = [a..<b]"
proof -
  have inj: "inj_on f {a..<b}" using assms(3) by (auto simp: inj_on_def)
  have "map f (sort_key f xs) = map f [a..<b]"
  proof (rule sorted_distinct_set_unique)
    show "distinct (map f (sort_key f xs))" using assms(1,2) inj by (simp add: distinct_map)
    show "sorted (map f [a..<b])" using assms(3) by (auto simp: sorted_iff_nth_mono)
    show "distinct (map f [a..<b])" using inj by (simp add: distinct_map)
  qed (use assms(2) in simp_all)
  then show ?thesis using inj assms(2) by (auto intro: map_inj_on)
qed

lemma graph_row:
  assumes "graph_rep h base adj" and "adj_ok adj" and "i < length adj"
  shows "map (\<lambda>j. g_val (h ! j)) (g_neighbors (h ! (base + i))) = adj ! i"
proof -
  have "g_val (h ! (base + nat (k - 1))) = k" if "k \<in> set (adj ! i)" for k
  proof -
    have "1 \<le> k" "nat (k - 1) < length adj" using adj_okD [OF assms(2,3) that] by auto
    then show ?thesis using assms(1) by (simp add: graph_rep_def)
  qed
  then show ?thesis using assms(1,3) by (auto simp: graph_rep_def intro: map_idI)
qed

lemma fill_rows_spec:
  assumes "graph_rep h base adj" and "adj_ok adj"
  shows "i \<le> length adj \<Longrightarrow>
    fill_rows h [base + i..<base + length adj] (take i adj @ replicate (length adj - i) []) = Inr adj"
proof (induction "length adj - i" arbitrary: i)
  case 0
  then show ?case by simp
next
  case (Suc m)
  then have i: "i < length adj" by simp
  have hi: "h ! (base + i) = \<lparr>g_val = int (Suc i), g_neighbors = map (\<lambda>k. base + nat (k - 1)) (adj ! i)\<rparr>"
    using assms(1) i by (simp add: graph_rep_def)
  note ns = graph_row [OF assms i]
  have rep: "replicate (length adj - i) [] = [] # replicate (length adj - Suc i) []"
    using i by (metis Suc_diff_Suc replicate_Suc)
  have row: "(take i adj @ replicate (length adj - i) [])[i := adj ! i] =
      take (Suc i) adj @ replicate (length adj - Suc i) []"
    unfolding rep using i by (simp add: list_update_append take_Suc_conv_app_nth)
  have "fill_rows h [base + Suc i..<base + length adj] (take (Suc i) adj @ replicate (length adj - Suc i) []) = Inr adj"
    using Suc.hyps(1) [of "Suc i"] Suc.hyps(2) i by simp
  moreover have "py_index (g_val (h ! (base + i)) - 1) (length (take i adj @ replicate (length adj - i) [])) = Some i"
    using i hi by (simp add: py_index_def)
  moreover have "take i adj @ replicate (length adj - i) [] = take (Suc i) adj @ replicate (length adj - Suc i) []" if "adj ! i = []"
    unfolding rep using that i by (simp add: take_Suc_conv_app_nth)
  moreover have "[base + i..<base + length adj] = (base + i) # [base + Suc i..<base + length adj]"
    using i by (simp add: upt_conv_Cons)
  ultimately show ?case using ns row i by (simp add: Let_def nth_append)
qed

text \<open>The nodes that are found, in the order of their numbers, and the greatest number.\<close>

lemma graph_sorted:
  assumes "graph_rep h base adj" and "adj_ok adj" and "adj \<noteq> []" and "connected adj"
  shows "sort_key (\<lambda>j. g_val (h ! j)) (graph_queue h [base] []) = [base..<base + length adj]"
    and "Max ((\<lambda>j. g_val (h ! j)) ` {base..<base + length adj}) = int (length adj)"
proof -
  let ?f = "\<lambda>j. g_val (h ! j)"
  have f: "?f i = int i + (1 - int base)" if "i \<in> {base..<base + length adj}" for i
    using graph_rep_nth [OF assms(1) that] that by (simp add: of_nat_diff)
  show "sort_key ?f (graph_queue h [base] []) = [base..<base + length adj]"
    using graph_queue_all [OF assms] graph_queue_distinct [of h "[base]" "[]"] f by (intro sort_key_interval) auto
  have last: "base + length adj - 1 \<in> {base..<base + length adj}" using assms(3) by (cases adj) auto
  have "?f (base + length adj - 1) = int (length adj)" using f [OF last] assms(3) by (cases adj) auto
  then have "int (length adj) \<in> ?f ` {base..<base + length adj}" using imageI [OF last, of ?f] by simp
  then show "Max (?f ` {base..<base + length adj}) = int (length adj)" using f by (intro Max_eqI) auto
qed

lemma graph_roundtrip:
  assumes "graph_rep h base adj" and "adj_ok adj" and "adj \<noteq> []" and "connected adj"
  shows "graph_to_adjlist h (Some base) = Inr adj"
  using fill_rows_spec [OF assms(1,2), of 0] graph_sorted [OF assms] by (simp add: graph_to_adjlist_def Let_def)

section \<open>The contract\<close>

text \<open>What a test case and the judge rely on: an adjacency list all of whose nodes can be reached from the
  first comes back as it was, duplicates and the order of the neighbours included. \<open>fits\<close> bounds the
  number of nodes where a language needs it.\<close>

locale graph_wire =
  fixes build :: "int list list \<Rightarrow> 'g list \<Rightarrow> 'e + nat option \<times> 'g list"
    and flatten :: "'g list \<Rightarrow> nat option \<Rightarrow> 'f + int list list"
    and fits :: "nat \<Rightarrow> bool"
  assumes build_empty: "build [] h = Inr (None, h)"
    and flatten_empty: "flatten h None = Inr []"
    and reads_back: "adj_ok adj \<Longrightarrow> adj \<noteq> [] \<Longrightarrow> connected adj \<Longrightarrow> fits (length adj) \<Longrightarrow>
      \<exists>p h'. build adj h = Inr (p, h') \<and> flatten h' p = Inr adj"
begin

lemma graph_returns:
  assumes "adj_ok adj" and "connected adj" and "fits (length adj)"
  shows "\<exists>p h'. build adj h = Inr (p, h') \<and> flatten h' p = Inr adj"
  using assms reads_back [of adj h] build_empty flatten_empty by (cases "adj = []") auto

end

interpretation py_graph: graph_wire "\<lambda>adj. build_graph (adj_values adj)" graph_to_adjlist "\<lambda>n. True"
proof
  fix adj h
  assume "adj_ok adj" "adj \<noteq> []" "connected adj"
  then show "\<exists>p h'. build_graph (adj_values adj) h = Inr (p, h') \<and> graph_to_adjlist h' p = Inr adj"
    using build_graph_rep [of adj h] graph_roundtrip [of _ _ adj] by blast
qed (simp_all add: build_graph_def adj_values_def graph_to_adjlist_def)

section \<open>Properties\<close>

text \<open>C8. Graphs survive the wrapper: for an adjacency list whose entries are nodes and all of whose nodes
  can be reached from the first, \<open>build_graph\<close> succeeds in whatever heap, the search of
  \<open>graph_to_adjlist\<close> ends, and the adjacency list comes back unchanged, duplicates and order of the
  neighbours included.\<close>

theorem graph_adjlist_roundtrip:
  assumes "adj_ok adj" and "connected adj"
  shows "\<exists>p h'. build_graph (adj_values adj) h = Inr (p, h') \<and> graph_to_adjlist h' p = Inr adj"
  by (rule py_graph.graph_returns [OF assms]) simp

theorem graph_adjlist_roundtrip_witness:
  "\<exists>p h'. build_graph (adj_values [[2, 2], [1, 2]]) [GraphNode 7] = Inr (p, h') \<and>
    graph_to_adjlist h' p = Inr [[2, 2], [1, 2]]"
proof (rule graph_adjlist_roundtrip)
  have "edge [[2, 2], [1, 2]] 0 1" by (simp add: edge_def)
  then have "(edge [[2, 2], [1, 2]])\<^sup>*\<^sup>* 0 i" if "i < 2" for i
    using that by (cases i) auto
  then show "connected [[2, 2], [1, 2]]" by (simp add: connected_def)
qed (simp_all add: adj_ok_def)

end
