(* ===== verification/Harness.thy ===== *)
theory Harness
  imports Process
begin

text \<open>
  The contract between the wrappers of \<open>languages/*_wrapper.py\<close> and the process runner
  (\<open>execution/process.py\<close>): what a wrapper's \<open>main\<close> prints for a test case and with which code it
  exits, and what the judge makes of it. Every wrapper is an instance.
\<close>

text \<open>A function on the result of a computation that may fail.\<close>

definition fmap_r :: "('a \<Rightarrow> 'b) \<Rightarrow> 'e + 'a \<Rightarrow> 'e + 'b" where
  "fmap_r f r = (case r of Inl e \<Rightarrow> Inl e | Inr x \<Rightarrow> Inr (f x))"

lemma fmap_r_simps [simp]: "fmap_r f (Inl e) = Inl e" "fmap_r f (Inr x) = Inr (f x)"
  by (simp_all add: fmap_r_def)

lemma fmap_r_Inr [simp]: "fmap_r f r = Inr y \<longleftrightarrow> (\<exists>x. r = Inr x \<and> f x = y)"
  by (cases r) auto

lemma fmap_r_Inl [simp]: "fmap_r f r = Inl e \<longleftrightarrow> r = Inl e"
  by (cases r) auto

text \<open>A computation for every element of a list, up to the first that fails.\<close>

fun map_r :: "('a \<Rightarrow> 'e + 'b) \<Rightarrow> 'a list \<Rightarrow> 'e + 'b list" where
  "map_r f [] = Inr []"
| "map_r f (x # xs) = (case f x of Inl e \<Rightarrow> Inl e | Inr y \<Rightarrow> fmap_r (Cons y) (map_r f xs))"

lemma map_r_cong [fundef_cong]: "xs = ys \<Longrightarrow> (\<And>x. x \<in> set ys \<Longrightarrow> f x = g x) \<Longrightarrow> map_r f xs = map_r g ys"
  by (induction xs arbitrary: ys) (auto split: sum.split)

lemma map_r_map: "(\<And>x. x \<in> set xs \<Longrightarrow> f (v x) = Inr (g x)) \<Longrightarrow> map_r f (map v xs) = Inr (map g xs)"
  by (induction xs) auto

text \<open>A text that reports a failure to the judge.\<close>

definition reports :: "string \<Rightarrow> string \<Rightarrow> bool" where
  "reports t m \<longleftrightarrow> m \<noteq> [] \<and> (\<exists>d. document t d \<and> dget d ''error'' = Some (VStr m))"

text \<open>A text that gives the judge an answer: a result, or a changed first argument, and no error.\<close>

definition answers :: "string \<Rightarrow> pydict \<Rightarrow> bool" where
  "answers t d \<longleftrightarrow> document t d \<and> \<not> dhas ''error'' d \<and> (dhas ''result'' d \<or> dhas ''mutated'' d)"

lemma answer_keys:
  assumes "fst ` set d \<subseteq> {''result'', ''mutated''}" and "d \<noteq> []"
  shows "\<not> dhas ''error'' d \<and> (dhas ''result'' d \<or> dhas ''mutated'' d)"
proof -
  have "''error'' \<notin> fst ` set d" using assms(1) by auto
  moreover have "fst (hd d) = ''result'' \<or> fst (hd d) = ''mutated''" "fst (hd d) \<in> fst ` set d"
    using assms by (cases d; auto)+
  ultimately show ?thesis unfolding dhas_def dget_def map_of_eq_None_iff by metis
qed

text \<open>The object with a result, and with the changed first argument of a call in place, and what the judge makes
  of it.\<close>

definition answer_object :: "bool \<Rightarrow> pyval \<Rightarrow> pyval \<Rightarrow> pydict" where
  "answer_object in_place v m = (''result'', v) # (if in_place then [(''mutated'', m)] else [])"

lemma answer_object_keys: "fst ` set (answer_object b v m) \<subseteq> {''result'', ''mutated''}" "answer_object b v m \<noteq> []"
  by (auto simp: answer_object_def)

lemma answer_object_value [simp]: "result_value (answer_object b v m) = (if b then InPlaceResult v m else Plain v)"
  by (simp add: answer_object_def result_value_def dget_def)

lemma answer_object_answers: "document t (answer_object b v m) \<Longrightarrow> answers t (answer_object b v m)"
  using answer_keys [OF answer_object_keys] by (simp add: answers_def)

lemma wrapper_result_answers: "answers t d \<Longrightarrow> wrapper_result (noise @ emit_block t) err 0 = Inr (result_value d)"
  using parse_wrapper_output_emitted [of t d noise] by (simp add: answers_def wrapper_result_def)

lemma error_message_reports:
  "m \<noteq> [] \<Longrightarrow> dget d ''error'' = Some (VStr m) \<Longrightarrow> error_message (Some d) err rc = truncate_message m"
  by (simp add: error_message_def reported_error_def py_str_def)

lemma wrapper_result_reports:
  "reports t m \<Longrightarrow> wrapper_result (noise @ emit_block t) err rc = Inl (RuntimeExecutionError (truncate_message m) VNone)"
  using parse_wrapper_output_emitted [of t _ noise] error_message_reports
  by (fastforce simp: reports_def wrapper_result_def dhas_def)

text \<open>The interface: \<open>run\<close> gives, for a program and its standard input, the text of the last block (\<open>Inl\<close>
  for a failure) and what was printed before it, or \<open>None\<close> if the program prints no block; \<open>main\<close> gives
  the standard output and the exit code, which need not tell a failure.\<close>

locale harness =
  fixes run :: "'p \<Rightarrow> string \<Rightarrow> ((string + string) \<times> string) option"
    and main :: "'p \<Rightarrow> string \<Rightarrow> (string \<times> int) option"
  assumes prints: "run p stdin = Some (Inr t, noise) \<Longrightarrow> main p stdin = Some (noise @ emit_block t, 0)"
    and prints_failure: "run p stdin = Some (Inl t, noise) \<Longrightarrow> \<exists>rc. main p stdin = Some (noise @ emit_block t, rc)"
begin

lemma answer_judged:
  assumes "run p payload = Some (Inr t, noise)" and "answers t d"
    and "communicate E cmd payload (Some limit) w = (Inr (Finished proc), w')"
    and "main p payload = Some (utf8 E (p_stdout proc), p_returncode proc)"
    and "int (length (p_stdout proc)) \<le> MAX_STDOUT_BYTES E"
  shows "run_wrapper E cmd payload limit w = (Inr (result_value d), w')"
  using run_wrapper_finished [OF assms(3,5)] prints [OF assms(1)] wrapper_result_answers [OF assms(2)] assms(4) by simp

lemma failure_judged:
  assumes "run p payload = Some (Inl t, noise)" and "reports t m"
    and "communicate E cmd payload (Some limit) w = (Inr (Finished proc), w')"
    and "main p payload = Some (utf8 E (p_stdout proc), p_returncode proc)"
    and "int (length (p_stdout proc)) \<le> MAX_STDOUT_BYTES E"
  shows "run_wrapper E cmd payload limit w = (Inl (RuntimeExecutionError (truncate_message m) VNone), w')"
  using run_wrapper_finished [OF assms(3,5)] prints_failure [OF assms(1)] wrapper_result_reports [OF assms(2)] assms(4)
  by auto

end

text \<open>The way in which a \<open>main\<close> with a single block turns an outcome into output and exit code.\<close>

definition print_block :: "((string + string) \<times> string) option \<Rightarrow> (string \<times> int) option" where
  "print_block r = map_option (\<lambda>(out, noise). case out of
      Inr t \<Rightarrow> (noise @ emit_block t, 0) | Inl t \<Rightarrow> (noise @ emit_block t, 1)) r"

lemma harness_print_block: "(\<And>p i. main p i = print_block (run p i)) \<Longrightarrow> harness run main"
  by unfold_locales (simp_all add: print_block_def)

text \<open>The same for a process that may write no block, or report a failure without telling by its exit code: the
  block, \<open>Inl\<close> for a failure, the exit code and what was printed before.\<close>

definition block_of :: "((string + string) option \<times> int \<times> string) option \<Rightarrow> ((string + string) \<times> string) option" where
  "block_of r = (case r of Some (Some b, rc, printed) \<Rightarrow> Some (b, printed) | _ \<Rightarrow> None)"

definition print_process :: "((string + string) option \<times> int \<times> string) option \<Rightarrow> (string \<times> int) option" where
  "print_process r = map_option (\<lambda>(b, rc, printed).
     (printed @ (case b of None \<Rightarrow> [] | Some (Inl t) \<Rightarrow> emit_block t | Some (Inr t) \<Rightarrow> emit_block t), rc)) r"

lemma harness_process:
  assumes "\<And>p i t rc printed. process p i = Some (Some (Inr t), rc, printed) \<Longrightarrow> rc = 0"
  shows "harness (\<lambda>p i. block_of (process p i)) (\<lambda>p i. print_process (process p i))"
proof
  fix p stdin t noise
  show "print_process (process p stdin) = Some (noise @ emit_block t, 0)" if "block_of (process p stdin) = Some (Inr t, noise)"
    using that assms [of p stdin t] by (auto simp: block_of_def print_process_def split: option.split_asm prod.split_asm)
  show "\<exists>rc. print_process (process p stdin) = Some (noise @ emit_block t, rc)" if "block_of (process p stdin) = Some (Inl t, noise)"
    using that by (auto simp: block_of_def print_process_def split: option.split_asm prod.split_asm)
qed

section \<open>Batches\<close>

text \<open>The interface of a wrapper that runs all test cases in one process: the blocks it printed, with
  the noise before each, what was printed after the last one, and whether the last block is a failure.\<close>

record batch_run =
  br_blocks :: "(string \<times> string) list"
  br_failure :: "(string \<times> string) option"

definition batch_output :: "batch_run \<Rightarrow> string \<times> int" where
  "batch_output r = (case br_failure r of
      None \<Rightarrow> (stream_text (br_blocks r) [], 0)
    | Some (noise, t) \<Rightarrow> (stream_text (br_blocks r) (noise @ emit_block t), 1))"

text \<open>Blocks that are answers.\<close>

definition answer_blocks :: "(string \<times> string) list \<Rightarrow> pydict list \<Rightarrow> bool" where
  "answer_blocks bs ds \<longleftrightarrow> stream_ok bs ds \<and> (\<forall>d \<in> set ds. \<not> dhas ''error'' d)"

lemma batch_output_answers:
  assumes "br_failure r = None" and "answer_blocks (br_blocks r) ds"
  shows "batch_result (fst (batch_output r)) err (snd (batch_output r)) (length ds) = Inr (map result_value ds)"
proof -
  have "stream_ok (br_blocks r) ds" "\<forall>d \<in> set ds. \<not> dhas ''error'' d" using assms(2) by (auto simp: answer_blocks_def)
  moreover have "parse_all_wrapper_outputs [] = []" by (rule parse_all_none) (simp add: RESULT_START_def)
  ultimately have "collect_results err 0 [] (parse_all_wrapper_outputs (stream_text (br_blocks r) [])) = Inr (map result_value ds)"
    using parse_all_stream [of "br_blocks r" ds "[]"] collect_results_ok [of ds err 0 "[]"] by simp
  then show ?thesis using assms(1) by (simp add: batch_output_def batch_result_def)
qed

lemma batch_output_failure:
  assumes "br_failure r = Some (noise, t)" and "answer_blocks (br_blocks r) ds" and "quiet noise"
    and "document t d" and "dget d ''error'' = Some (VStr m)" and "m \<noteq> []"
  shows "batch_result (fst (batch_output r)) err (snd (batch_output r)) count =
    Inl (RuntimeExecutionError (truncate_message m) (block_index d (length ds)))"
proof -
  have ok: "stream_ok (br_blocks r) ds" "\<forall>d \<in> set ds. \<not> dhas ''error'' d" using assms(2) by (auto simp: answer_blocks_def)
  have "parse_all_wrapper_outputs (noise @ emit_block t) = d # parse_all_wrapper_outputs [newline]"
    using parse_all_emitted [OF assms(3,4), of "[]"] by simp
  then have "parse_all_wrapper_outputs (stream_text (br_blocks r) (noise @ emit_block t)) =
      ds @ d # parse_all_wrapper_outputs [newline]"
    using parse_all_stream [OF ok(1)] by simp
  moreover have "dhas ''error'' d" using assms(5) by (simp add: dhas_def)
  ultimately show ?thesis
    using collect_results_error [OF ok(2), of d err 1 "[]" "parse_all_wrapper_outputs [newline]"] assms(1,5,6)
    by (simp add: batch_output_def batch_result_def error_message_reports)
qed

text \<open>A process of a batch that ends within the output limit, with all it wrote.\<close>

definition finishes ::
  "'w env \<Rightarrow> string list \<Rightarrow> string \<Rightarrow> int \<Rightarrow> 'w \<Rightarrow> string \<Rightarrow> string \<Rightarrow> int \<Rightarrow> 'w \<Rightarrow> bool" where
  "finishes E cmd payload limit w out err rc w' \<longleftrightarrow> (\<exists>p. stream_proc E cmd payload limit w = (Inr p, w') \<and>
     concat (out_chunks p) = out \<and> concat (err_chunks p) = err \<and> exit_code p = Some rc \<and>
     int (length out) \<le> MAX_STDOUT_BYTES E \<and> int (length err) \<le> MAX_STDOUT_BYTES E)"

lemma run_batch_finished:
  assumes "finishes E cmd payload limit w out err rc w'"
  shows "run_batch_wrapper E cmd payload limit count w = (batch_result (utf8 E out) (utf8 E err) rc count, w')"
proof -
  from assms obtain p where p: "stream_proc E cmd payload limit w = (Inr p, w')" "exit_code p = Some rc"
      "concat (out_chunks p) = out" "concat (err_chunks p) = err"
    and len: "int (length out) \<le> MAX_STDOUT_BYTES E" "int (length err) \<le> MAX_STDOUT_BYTES E"
    by (auto simp: finishes_def)
  have "0 \<le> MAX_STDOUT_BYTES E" using len(1) by simp
  then have "drain (MAX_STDOUT_BYTES E) [] (out_chunks p) = Inr out" "drain (MAX_STDOUT_BYTES E) [] (err_chunks p) = Inr err"
    using drain_iff [of "[]" "MAX_STDOUT_BYTES E"] p(3,4) len by auto
  then show ?thesis using p(1,2) by (auto simp: run_batch_wrapper_def io_of_sum_def split: sum.splits)
qed

locale batch_harness =
  fixes run_all :: "'p \<Rightarrow> string \<Rightarrow> batch_run option"
    and main :: "'p \<Rightarrow> string \<Rightarrow> (string \<times> int) option"
  assumes prints_all: "run_all p stdin = Some r \<Longrightarrow> main p stdin = Some (batch_output r)"
begin

lemma batch_judged:
  assumes "run_all p payload = Some r" and "br_failure r = None" and "answer_blocks (br_blocks r) ds"
    and "finishes E cmd payload limit w out err rc w'" and "main p payload = Some (utf8 E out, rc)"
  shows "run_batch_wrapper E cmd payload limit (length ds) w = (Inr (map result_value ds), w')"
  using batch_output_answers [OF assms(2,3)] prints_all [OF assms(1)] run_batch_finished [OF assms(4)] assms(5)
  by (metis fst_conv option.sel snd_conv)

lemma batch_failure_judged:
  assumes "run_all p payload = Some r" and "br_failure r = Some (noise, t)" and "answer_blocks (br_blocks r) ds"
    and "quiet noise" and "document t d" and "dget d ''error'' = Some (VStr m)" and "m \<noteq> []"
    and "finishes E cmd payload limit w out err rc w'" and "main p payload = Some (utf8 E out, rc)"
  shows "run_batch_wrapper E cmd payload limit count w =
    (Inl (RuntimeExecutionError (truncate_message m) (block_index d (length ds))), w')"
  using batch_output_failure [OF assms(2-7)] prints_all [OF assms(1)] run_batch_finished [OF assms(8)] assms(9)
  by (metis fst_conv option.sel snd_conv)

end

end
