(* ===== verification/PyWrapper.thy ===== *)
theory PyWrapper
  imports WrapperGraph Harness ExecutorBase
begin

text \<open>
  The execution logic of the Python wrapper (\<open>languages/python_wrapper.py\<close>): the conversion of a test
  case's input, the choice and the call of the submitted function, the conversion of its result, and the
  block that \<open>main\<close> prints. The submission and what Python says of its exceptions are parameters; a call
  that does not return is \<open>None\<close>.
\<close>

section \<open>Objects and the submission\<close>

text \<open>A value of the wrapper: one that JSON can express, a reference to a node, or an object that
  \<open>json.dumps\<close> rejects, of which only the class it names matters.\<close>

datatype pyobj = OVal pyval | OTree nat | OList nat | OGraph nat | OOther string

record heap =
  trees :: "pyval tree_node list"
  chains :: "pyval list_node list"
  graphs :: "graph_node list"

definition empty_heap :: heap where
  "empty_heap = \<lparr>trees = [], chains = [], graphs = []\<rparr>"

text \<open>The outcome of a call: the result or exception, the arguments as the call leaves them, the heap and
  what was printed.\<close>

type_synonym call_result = "(pyexn + pyobj) \<times> pyobj list \<times> heap \<times> string"

text \<open>A callable of the submission: its number of parameters, or the exception \<open>inspect.signature\<close>
  raises, and its behaviour on positional and on keyword arguments.\<close>

record callee =
  param_count :: "pyexn + nat"
  call_args :: "pyobj list \<Rightarrow> heap \<Rightarrow> call_result option"
  call_kwargs :: "(string \<times> pyobj) list \<Rightarrow> heap \<Rightarrow> call_result option"

record global_entry =
  is_function :: bool
  in_module :: bool
  entry_callee :: callee

text \<open>The loaded submission: what its top level and its constructor printed, the outcome of \<open>Solution()\<close> if it has that class,
  the attributes of the instance that are not \<open>None\<close>, the other globals, and what Python answers for a name that is no string.\<close>

record submission =
  top_output :: string
  solution_class :: "(pyexn option) option"
  solution_attr :: "string \<Rightarrow> callee option"
  global_names :: "string \<Rightarrow> global_entry option"
  bad_name :: "pyval \<Rightarrow> pyexn"

text \<open>The text of a \<open>JSONDecodeError\<close> and of \<open>traceback.format_exc()\<close>, and whether a class is
  \<open>RecursionError\<close> or derived from it.\<close>

record messages =
  decode_text :: "string \<Rightarrow> string"
  format_exc :: "pyexn \<Rightarrow> string"
  is_recursion :: "string \<Rightarrow> bool"

section \<open>Inputs\<close>

definition not_supported :: "pyval \<Rightarrow> pyexn" where
  "not_supported v = (''TypeError'', quoted ''<='' @ '' not supported between instances of '' @ quoted ''int'' @ '' and '' @ quoted (type_name v))"

definition set_next :: "nat list \<Rightarrow> int \<Rightarrow> pyval list_node list \<Rightarrow> pyval list_node list" where
  "set_next nodes pos h =
     (if 0 \<le> pos \<and> pos < int (length nodes)
      then tie nodes (nat pos) h else h)"

text \<open>\<open>if pos != -1 and nodes: if 0 <= pos < len(nodes): nodes[-1].next = nodes[pos]\<close>\<close>

definition close_cycle :: "pyval \<Rightarrow> nat list \<Rightarrow> pyval list_node list \<Rightarrow> pyexn + pyval list_node list" where
  "close_cycle pos nodes h =
     (if py_eq pos (VInt (- 1)) \<or> nodes = [] then Inr h
      else case pos of
          VInt i \<Rightarrow> Inr (set_next nodes i h)
        | VBool b \<Rightarrow> Inr (set_next nodes (if b then 1 else 0) h)
        | VFloat x \<Rightarrow>
            if fle (Fin 0) x \<and> flt x (Fin (of_nat (length nodes)))
            then Inl (''TypeError'', ''list indices must be integers or slices, not float'') else Inr h
        | _ \<Rightarrow> Inl (not_supported pos))"

definition of_ref :: "(nat \<Rightarrow> pyobj) \<Rightarrow> nat option \<Rightarrow> pyobj" where
  "of_ref mk p = (case p of None \<Rightarrow> OVal VNone | Some i \<Rightarrow> mk i)"

text \<open>\<open>str.isdigit\<close> for code points below 256.\<close>

definition py_isdigit :: "string \<Rightarrow> bool" where
  "py_isdigit s \<longleftrightarrow> s \<noteq> [] \<and> list_all (\<lambda>c. is_digit c \<or> code c = 178 \<or> code c = 179 \<or> code c = 185) s"

definition operation_lines :: "string \<Rightarrow> string list" where
  "operation_lines value =
     (let lines = filter (\<lambda>l. l \<noteq> []) (map strip (split_on newline (strip value)))
      in if lines \<noteq> [] \<and> py_isdigit (hd lines) then tl lines else lines)"

text \<open>One turn of the loop of \<open>auto_convert_inputs\<close>; \<open>None\<close> skips the key.\<close>

definition convert_input :: "pydict \<Rightarrow> string \<Rightarrow> pyval \<Rightarrow> heap \<Rightarrow> pyexn + pyobj option \<times> heap" where
  "convert_input test_input key value h =
     (let low = map to_lower key in
      case value of
        VList vs \<Rightarrow>
          if starts_with ''root'' low then
            (case build_tree vs (trees h) of (p, ts) \<Rightarrow> Inr (Some (of_ref OTree p), h\<lparr>trees := ts\<rparr>))
          else if starts_with ''head'' low then
            (let pos = (case dget test_input ''pos'' of None \<Rightarrow> VInt (- 1) | Some v \<Rightarrow> v) in
             case build_linked_list vs (chains h) of (p, nodes, ls) \<Rightarrow>
               (case close_cycle pos nodes ls of
                  Inl e \<Rightarrow> Inl e
                | Inr ls' \<Rightarrow> Inr (Some (of_ref OList p), h\<lparr>chains := ls'\<rparr>)))
          else if starts_with ''adj'' low then
            (case build_graph vs (graphs h) of
               Inl e \<Rightarrow> Inl e
             | Inr (p, gs) \<Rightarrow> Inr (Some (of_ref OGraph p), h\<lparr>graphs := gs\<rparr>))
          else if key = ''pos'' then Inr (None, h) else Inr (Some (OVal value), h)
      | VStr s \<Rightarrow>
          if key = ''pos'' then Inr (None, h)
          else if newline \<in> set s then Inr (Some (OVal (VList (map VStr (operation_lines s)))), h)
          else Inr (Some (OVal value), h)
      | _ \<Rightarrow> if key = ''pos'' then Inr (None, h) else Inr (Some (OVal value), h))"

fun convert_items :: "pydict \<Rightarrow> pydict \<Rightarrow> heap \<Rightarrow> pyexn + (string \<times> pyobj) list \<times> heap" where
  "convert_items test_input [] h = Inr ([], h)"
| "convert_items test_input ((key, value) # items) h = (case convert_input test_input key value h of
      Inl e \<Rightarrow> Inl e
    | Inr (ob, h') \<Rightarrow> (case convert_items test_input items h' of
          Inl e \<Rightarrow> Inl e
        | Inr (obs, h'') \<Rightarrow> Inr ((case ob of None \<Rightarrow> obs | Some x \<Rightarrow> (key, x) # obs), h'')))"

definition auto_convert_inputs :: "pyval \<Rightarrow> heap \<Rightarrow> pyexn + (string \<times> pyobj) list \<times> heap" where
  "auto_convert_inputs test_input h = (case test_input of
      VDict d \<Rightarrow> convert_items d d h
    | _ \<Rightarrow> Inl (''AttributeError'', quoted (type_name test_input) @ '' object has no attribute '' @ quoted ''items''))"

section \<open>Outputs\<close>

definition auto_convert_output :: "nat \<Rightarrow> heap \<Rightarrow> pyobj \<Rightarrow> (pyexn + pyobj) option" where
  "auto_convert_output n h ob = (case ob of
      OTree i \<Rightarrow> map_option (\<lambda>vs. Inr (OVal (VList vs))) (tree_to_list n (trees h) (Some i))
    | OList i \<Rightarrow> Some (Inr (OVal (VList (linked_list_to_list (chains h) (Some i)))))
    | OGraph i \<Rightarrow> Some (case graph_to_adjlist (graphs h) (Some i) of
          Inl e \<Rightarrow> Inl e | Inr rows \<Rightarrow> Inr (OVal (VList (adj_values rows))))
    | _ \<Rightarrow> Some (Inr ob))"

section \<open>The call\<close>

definition call_function :: "callee \<Rightarrow> (string \<times> pyobj) list \<Rightarrow> heap \<Rightarrow> call_result option" where
  "call_function func converted_input h = (case param_count func of
      Inl e \<Rightarrow> Some (Inl e, map snd converted_input, h, [])
    | Inr n \<Rightarrow>
        if n = length converted_input then call_args func (map snd converted_input) h
        else call_kwargs func converted_input h)"

definition user_function :: "submission \<Rightarrow> string \<Rightarrow> callee option" where
  "user_function sub function_name = (case global_names sub function_name of
      Some g \<Rightarrow> if is_function g \<and> in_module g then Some (entry_callee g) else None
    | None \<Rightarrow> None)"

text \<open>The choice of the function: a method of \<open>Solution\<close> first.\<close>

definition not_found :: "string \<Rightarrow> pyexn" where
  "not_found function_name = (''Exception'', ''Function '' @ quoted function_name @ '' not found'')"

definition select_function :: "submission \<Rightarrow> string \<Rightarrow> pyexn + callee" where
  "select_function sub function_name =
     (let fallback = (case user_function sub function_name of
            Some f \<Rightarrow> Inr f | None \<Rightarrow> Inl (not_found function_name)) in
      case solution_class sub of
        None \<Rightarrow> fallback
      | Some (Some e) \<Rightarrow> Inl e
      | Some None \<Rightarrow> (case solution_attr sub function_name of Some f \<Rightarrow> Inr f | None \<Rightarrow> fallback))"

text \<open>The dictionary of a finished call; objects in it may not be serialisable yet.\<close>

definition answer_dict :: "nat \<Rightarrow> heap \<Rightarrow> pyobj \<Rightarrow> pyobj list \<Rightarrow> (pyexn + (string \<times> pyobj) list) option" where
  "answer_dict n h res args = (case auto_convert_output n h res of
      None \<Rightarrow> None
    | Some (Inl e) \<Rightarrow> Some (Inl e)
    | Some (Inr r) \<Rightarrow>
        if res = OVal VNone \<and> args \<noteq> [] then
          (case auto_convert_output n h (hd args) of
             None \<Rightarrow> None
           | Some (Inl e) \<Rightarrow> Some (Inl e)
           | Some (Inr m) \<Rightarrow> Some (Inr [(''result'', r), (''mutated'', m)]))
        else Some (Inr [(''result'', r)]))"

definition execute_function ::
  "nat \<Rightarrow> submission \<Rightarrow> pyval \<Rightarrow> pyval \<Rightarrow> ((pyexn + (string \<times> pyobj) list) \<times> string) option" where
  "execute_function n sub function_name test_input =
     (case auto_convert_inputs test_input empty_heap of
        Inl e \<Rightarrow> Some (Inl e, [])
      | Inr (converted_input, h) \<Rightarrow>
          (case function_name of
             VStr name \<Rightarrow>
               (case select_function sub name of
                  Inl e \<Rightarrow> Some (Inl e, [])
                | Inr func \<Rightarrow> (case call_function func converted_input h of
                      None \<Rightarrow> None
                    | Some (Inl e, args, h', printed) \<Rightarrow> Some (Inl e, printed)
                    | Some (Inr res, args, h', printed) \<Rightarrow>
                        map_option (\<lambda>out. (out, printed)) (answer_dict n h' res args)))
           | _ \<Rightarrow> Some (Inl (bad_name sub function_name), [])))"

section \<open>The printed block\<close>

text \<open>\<open>json.dumps\<close> of the answer: the first object that is not serialisable raises.\<close>

fun serialise :: "(string \<times> pyobj) list \<Rightarrow> pyexn + pydict" where
  "serialise [] = Inr []"
| "serialise ((k, ob) # obs) =
     (let reject = (\<lambda>name. Inl (''TypeError'', ''Object of type '' @ name @ '' is not JSON serializable'')) in
      case ob of
        OVal v \<Rightarrow> (case serialise obs of Inl e \<Rightarrow> Inl e | Inr d \<Rightarrow> Inr ((k, v) # d))
      | OTree i \<Rightarrow> reject ''TreeNode''
      | OList i \<Rightarrow> reject ''ListNode''
      | OGraph i \<Rightarrow> reject ''Node''
      | OOther name \<Rightarrow> reject name)"

text \<open>The two \<open>except\<close> clauses.\<close>

definition failure_dict :: "messages \<Rightarrow> pyexn \<Rightarrow> pydict" where
  "failure_dict M e =
     (if is_recursion M (fst e) then [(''error'', VStr ''RecursionError: maximum recursion depth exceeded'')]
      else [(''error'', VStr (if snd e = [] then fst e else fst e @ '': '' @ snd e)), (''trace'', VStr (format_exc M e))])"

text \<open>\<open>payload[key]\<close>\<close>

definition payload_field :: "pyval \<Rightarrow> string \<Rightarrow> pyexn + pyval" where
  "payload_field payload key = (case payload of
      VDict d \<Rightarrow> (case dget d key of Some v \<Rightarrow> Inr v | None \<Rightarrow> Inl (''KeyError'', repr_str key))
    | VList _ \<Rightarrow> Inl (''TypeError'', ''list indices must be integers or slices, not str'')
    | VStr _ \<Rightarrow> Inl (''TypeError'', ''string indices must be integers, not '' @ quoted ''str'')
    | _ \<Rightarrow> Inl (''TypeError'', quoted (type_name payload) @ '' object is not subscriptable''))"

text \<open>The body of the \<open>try\<close> block up to the block it prints, and what was printed before.\<close>

definition run_payload :: "nat \<Rightarrow> messages \<Rightarrow> submission \<Rightarrow> string \<Rightarrow> ((pyexn + pydict) \<times> string) option" where
  "run_payload n M sub raw_input = (case loads raw_input of
      None \<Rightarrow> Some (Inl (''JSONDecodeError'', decode_text M raw_input), [])
    | Some payload \<Rightarrow> (case payload_field payload ''function_name'' of
          Inl e \<Rightarrow> Some (Inl e, [])
        | Inr function_name \<Rightarrow> (case payload_field payload ''input'' of
              Inl e \<Rightarrow> Some (Inl e, [])
            | Inr test_input \<Rightarrow> (case execute_function n sub function_name test_input of
                  None \<Rightarrow> None
                | Some (Inl e, printed) \<Rightarrow> Some (Inl e, printed)
                | Some (Inr obs, printed) \<Rightarrow> Some (serialise obs, printed)))))"

text \<open>\<open>main\<close>: the standard output and the exit code of the process.\<close>

definition py_main :: "nat \<Rightarrow> messages \<Rightarrow> submission \<Rightarrow> string \<Rightarrow> (string \<times> int) option" where
  "py_main n M sub raw_input =
     map_option (\<lambda>(r, printed). case r of
         Inr d \<Rightarrow> (top_output sub @ printed @ emit_text d, 0)
       | Inl e \<Rightarrow> (top_output sub @ printed @ emit_text (failure_dict M e), 1))
       (run_payload n M sub raw_input)"

section \<open>What the judge reads\<close>

lemma run_payload_named:
  "json_ok (VDict inp) \<Longrightarrow> run_payload n M sub (named_payload f inp) =
     (case execute_function n sub (VStr f) (VDict inp) of
        None \<Rightarrow> None
      | Some (Inl e, printed) \<Rightarrow> Some (Inl e, printed)
      | Some (Inr obs, printed) \<Rightarrow> Some (serialise obs, printed))"
  using loads_dumps [of "VDict [(''function_name'', VStr f), (''input'', VDict inp)]"]
  by (simp add: run_payload_def named_payload_def payload_field_def dget_def del: dumps.simps)

text \<open>The wrapper is a harness.\<close>

definition py_run :: "nat \<times> messages \<times> submission \<Rightarrow> string \<Rightarrow> ((string + string) \<times> string) option" where
  "py_run = (\<lambda>(n, M, sub) raw_input. map_option (\<lambda>(r, printed).
     (case r of Inr d \<Rightarrow> Inr (dumps (VDict d)) | Inl e \<Rightarrow> Inl (dumps (VDict (failure_dict M e))), top_output sub @ printed))
     (run_payload n M sub raw_input))"

interpretation py_harness: harness py_run "\<lambda>(n, M, sub). py_main n M sub"
  by unfold_locales (auto simp: py_run_def py_main_def emit_text_block split: sum.splits)


section \<open>What a submission does\<close>

text \<open>The function that a name stands for: the method of \<open>Solution\<close>, or else the submission's own function of
  that name.\<close>

inductive py_function :: "submission \<Rightarrow> string \<Rightarrow> callee \<Rightarrow> bool" for sub f where
  solution_method: "solution_class sub = Some None \<Longrightarrow> solution_attr sub f = Some g \<Longrightarrow> py_function sub f g"
| own_function: "solution_class sub = None \<or> solution_class sub = Some None \<and> solution_attr sub f = None \<Longrightarrow>
    global_names sub f = Some g \<Longrightarrow> is_function g \<Longrightarrow> in_module g \<Longrightarrow> py_function sub f (entry_callee g)"

text \<open>The call that a test case makes, with its outcome.\<close>

inductive py_calls :: "submission \<Rightarrow> string \<Rightarrow> pydict \<Rightarrow> call_result \<Rightarrow> bool" for sub f inp where
  by_position: "auto_convert_inputs (VDict inp) empty_heap = Inr (args, h) \<Longrightarrow> py_function sub f g \<Longrightarrow>
    param_count g = Inr (length args) \<Longrightarrow> call_args g (map snd args) h = Some r \<Longrightarrow> py_calls sub f inp r"
| by_keyword: "auto_convert_inputs (VDict inp) empty_heap = Inr (args, h) \<Longrightarrow> py_function sub f g \<Longrightarrow>
    param_count g = Inr k \<Longrightarrow> k \<noteq> length args \<Longrightarrow> call_kwargs g args h = Some r \<Longrightarrow> py_calls sub f inp r"

text \<open>The JSON value that stands for an object: a tree by its values in level order without the missing ones at
  the end (for which \<open>n\<close> must be enough fuel), a linked list, cyclic or not, by its values, a graph by its
  adjacency list.\<close>

inductive py_shows :: "nat \<Rightarrow> heap \<Rightarrow> pyobj \<Rightarrow> pyval \<Rightarrow> bool" for n h where
  shows_value: "py_shows n h (OVal v) v"
| shows_tree: "tree_rep (trees h) (Some i) t \<Longrightarrow> weight t \<le> n \<Longrightarrow>
    py_shows n h (OTree i) (VList (pop_nones VNone (level_order VNone [t])))"
| shows_list: "list_rep (chains h) (Some i) vs back \<Longrightarrow> py_shows n h (OList i) (VList vs)"
| shows_graph: "graph_to_adjlist (graphs h) (Some i) = Inr rows \<Longrightarrow> py_shows n h (OGraph i) (VList (adj_values rows))"

inductive_cases py_shows_valueE: "py_shows n h (OVal v) w"


lemma select_function_iff: "select_function sub f = Inr g \<longleftrightarrow> py_function sub f g"
  by (auto simp: select_function_def user_function_def py_function.simps Let_def split: option.splits if_splits)


lemma execute_function_calls:
  assumes "py_calls sub f inp (res, args, h, printed)"
  shows "execute_function n sub (VStr f) (VDict inp) = (case res of
      Inl e \<Rightarrow> Some (Inl e, printed) | Inr r \<Rightarrow> map_option (\<lambda>out. (out, printed)) (answer_dict n h r args))"
  using assms by cases (simp_all add: execute_function_def call_function_def select_function_iff [symmetric] split: sum.split)

lemma py_shows_output: "py_shows n h ob v \<Longrightarrow> auto_convert_output n h ob = Some (Inr (OVal v))"
  by (induction rule: py_shows.induct)
    (auto simp: auto_convert_output_def py_tree.flatten_level linked_list_to_list_def dest: read_list_rep)

lemma answer_dict_shows:
  assumes "py_shows n h res v" and "res \<noteq> OVal VNone \<or> args = [] \<or> py_shows n h (hd args) m"
  shows "\<exists>obs. answer_dict n h res args = Some (Inr obs) \<and> serialise obs = Inr (answer_object (res = OVal VNone \<and> args \<noteq> []) v m)"
  using assms py_shows_output [of n h res v] py_shows_output [of n h "hd args" m]
  by (auto simp: answer_dict_def answer_object_def elim: py_shows_valueE)

lemma run_payload_answers:
  assumes "json_ok (VDict inp)" and "py_calls sub f inp (Inr res, args, h, printed)"
    and "py_shows n h res v" and "res \<noteq> OVal VNone \<or> args = [] \<or> py_shows n h (hd args) m"
  shows "run_payload n M sub (named_payload f inp) = Some (Inr (answer_object (res = OVal VNone \<and> args \<noteq> []) v m), printed)"
  using run_payload_named [OF assms(1)] execute_function_calls [OF assms(2), of n] answer_dict_shows [OF assms(3,4)] by auto



section \<open>Linked lists\<close>

lemma close_cycle_rep:
  assumes "build_linked_list vs h = (p, ns, h')"
  shows "\<exists>h''. close_cycle (VInt i) ns h' = Inr h'' \<and> list_rep h'' p vs (cycle_target i (length vs))"
proof -
  note l = assms [unfolded build_linked_list_def]
  have len: "length ns = length vs" by (rule make_list_length [OF l])
  show ?thesis
  proof (cases "0 \<le> i \<and> i < int (length vs)")
    case True
    then have "ns \<noteq> []" using len by auto
    then show ?thesis using make_list_tie [OF l, of "nat i"] True len
      by (auto simp: close_cycle_def set_next_def py_eq_VInt cycle_target_def simp del: py_eq.simps)
  next
    case False
    then show ?thesis using make_list_rep [OF l] len
      by (auto simp: close_cycle_def set_next_def cycle_target_def simp del: py_eq.simps)
  qed
qed

interpretation py_list: list_wire "\<lambda>vs pos h. case build_linked_list vs h of (p, ns, h') \<Rightarrow>
    (case close_cycle (VInt pos) ns h' of Inl e \<Rightarrow> Inl e | Inr h'' \<Rightarrow> Inr (p, h''))"
proof (unfold_locales, goal_cases)
  case (1 pos vs h)
  obtain p ns h' where b: "build_linked_list vs h = (p, ns, h')" by (cases "build_linked_list vs h")
  from close_cycle_rep [OF b, of pos] show ?case using b by auto
qed

section \<open>Properties\<close>

text \<open>C5. What the submitted function returns is what the judge gets: let the payload that the engine sends for
  a test case make the call of the method of \<open>Solution\<close>, or else of the submission's own function, with the
  converted input, and let that call return \<open>res\<close> and leave its arguments as \<open>args\<close>. If \<open>v\<close> is the JSON
  value of \<open>res\<close> (and \<open>m\<close> that of the first argument, if \<open>res\<close> is \<open>None\<close> and there are arguments) and
  the answer holds no marker, then the wrapper's process, whatever the submission printed, makes
  \<open>run_wrapper\<close> return \<open>v\<close>, and with it the changed first argument \<open>m\<close> exactly when the function
  returned \<open>None\<close> and has one.\<close>

theorem python_answer_reaches_judge:
  assumes "json_ok (VDict test_input)"
    and "py_calls sub function_name test_input (Inr res, args, h, printed)"
    and "py_shows n h res v" and "res \<noteq> OVal VNone \<or> args = [] \<or> py_shows n h (hd args) m"
    and "d = answer_object (res = OVal VNone \<and> args \<noteq> []) v m" and "json_ok (VDict d)" and "unmarked d"
    and "communicate E cmd (named_payload function_name test_input) (Some t) w = (Inr (Finished p), w')"
    and "py_main n M sub (named_payload function_name test_input) = Some (utf8 E (p_stdout p), p_returncode p)"
    and "int (length (p_stdout p)) \<le> MAX_STDOUT_BYTES E"
  shows "run_wrapper E cmd (named_payload function_name test_input) t w =
    (Inr (if res = OVal VNone \<and> args \<noteq> [] then InPlaceResult v m else Plain v), w')"
proof -
  have "py_run (n, M, sub) (named_payload function_name test_input) = Some (Inr (dumps (VDict d)), top_output sub @ printed)"
    using run_payload_answers [OF assms(1-4), of M] assms(5) by (simp add: py_run_def)
  moreover have "answers (dumps (VDict d)) d" using document_dumps [OF assms(6,7)] assms(5) answer_object_answers by blast
  ultimately have "run_wrapper E cmd (named_payload function_name test_input) t w = (Inr (result_value d), w')"
    using assms(8-10) by (intro py_harness.answer_judged [of "(n, M, sub)"]) simp_all
  then show ?thesis using assms(5) by simp
qed

text \<open>A submission with a function \<open>rotate\<close> that prints, changes its first argument and returns nothing.\<close>

definition rotate_callee :: callee where
  "rotate_callee = \<lparr>param_count = Inr 2,
     call_args = (\<lambda>args h. Some (Inr (OVal VNone), OVal (VList [VInt 1, VInt 0]) # tl args, h, ''debug'')),
     call_kwargs = (\<lambda>args h. None)\<rparr>"

definition rotate_submission :: submission where
  "rotate_submission = \<lparr>top_output = [], solution_class = None, solution_attr = (\<lambda>_. None),
     global_names = [''rotate'' \<mapsto> \<lparr>is_function = True, in_module = True, entry_callee = rotate_callee\<rparr>],
     bad_name = (\<lambda>_. (''TypeError'', []))\<rparr>"

definition rotate_input :: pydict where
  "rotate_input = [(''nums'', VList [VInt 0, VInt 1]), (''k'', VInt 1)]"

definition plain_messages :: messages where
  "plain_messages = \<lparr>decode_text = \<lambda>_. [], format_exc = \<lambda>_. ''Traceback'', is_recursion = \<lambda>c. c = ''RecursionError''\<rparr>"

definition rotate_run :: "unit env" where
  "rotate_run = offline\<lparr>communicate := (\<lambda>_ _ _. io_return (Finished
     \<lparr>p_stdout = ''debug'' @ emit_text [(''result'', VNone), (''mutated'', VList [VInt 1, VInt 0])], p_stderr = [],
      p_returncode = 0\<rparr>))\<rparr>"

lemma rotate_calls:
  "py_calls rotate_submission ''rotate'' rotate_input
     (Inr (OVal VNone), [OVal (VList [VInt 1, VInt 0]), OVal (VInt 1)], empty_heap, ''debug'')"
proof (rule by_position)
  show "auto_convert_inputs (VDict rotate_input) empty_heap =
      Inr ([(''nums'', OVal (VList [VInt 0, VInt 1])), (''k'', OVal (VInt 1))], empty_heap)"
    by (simp add: rotate_input_def auto_convert_inputs_def convert_input_def starts_with_def to_lower_def code_def)
  show "py_function rotate_submission ''rotate'' rotate_callee"
    using own_function [of rotate_submission "''rotate''"] by (simp add: rotate_submission_def)
qed (simp_all add: rotate_callee_def)

theorem python_answer_reaches_judge_witness:
  "run_wrapper rotate_run [''docker''] (named_payload ''rotate'' rotate_input) 10 () =
     (Inr (InPlaceResult VNone (VList [VInt 1, VInt 0])), ())"
proof -
  let ?d = "[(''result'', VNone), (''mutated'', VList [VInt 1, VInt 0])]"
  let ?p = "\<lparr>p_stdout = ''debug'' @ emit_text ?d, p_stderr = [], p_returncode = 0\<rparr>"
  have ok: "json_ok (VDict rotate_input)" by (simp add: rotate_input_def)
  have "unmarked ?d" by code_simp
  moreover have "int (length (''debug'' @ emit_text ?d)) \<le> 1000000" by code_simp
  moreover have "py_main 0 plain_messages rotate_submission (named_payload ''rotate'' rotate_input) = Some (''debug'' @ emit_text ?d, 0)"
    using run_payload_answers [OF ok rotate_calls shows_value, of 0 "VList [VInt 1, VInt 0]" plain_messages]
    by (simp add: py_main_def shows_value answer_object_def) (simp add: rotate_submission_def)
  ultimately show ?thesis
    using python_answer_reaches_judge [OF ok rotate_calls shows_value, of 0 "VList [VInt 1, VInt 0]" ?d rotate_run "[''docker'']" 10 "()" ?p "()"]
    by (simp add: rotate_run_def offline_def MAX_STDOUT_BYTES_def int_env_def shows_value answer_object_def)
qed





text \<open>C9. Linked lists survive the wrapper, cyclic ones too: the list made of a \<open>head\<close> input has its values,
  its last node links back to the node that an integer \<open>pos\<close> names, if there is one, and it converts
  back to its values; an empty one is \<open>None\<close>.\<close>

theorem head_input_roundtrip:
  assumes "starts_with ''head'' (map to_lower key)"
    and "dget test_input ''pos'' = Some (VInt i) \<or> dget test_input ''pos'' = None \<and> i = - 1"
  shows "\<exists>p h'. convert_input test_input key (VList vs) h = Inr (Some (of_ref OList p), h') \<and>
    list_rep (chains h') p vs (cycle_target i (length vs)) \<and>
    auto_convert_output n h' (of_ref OList p) = Some (Inr (if vs = [] then OVal VNone else OVal (VList vs)))"
proof -
  have root: "\<not> starts_with ''root'' (map to_lower key)" using assms(1) by (auto simp: starts_with_def)
  have pos: "(case dget test_input ''pos'' of None \<Rightarrow> VInt (- 1) | Some v \<Rightarrow> v) = VInt i" using assms(2) by auto
  obtain p ns ls where b: "build_linked_list vs (chains h) = (p, ns, ls)" by (cases "build_linked_list vs (chains h)")
  from close_cycle_rep [OF b, of i] obtain ls' where
    c: "close_cycle (VInt i) ns ls = Inr ls'" "list_rep ls' p vs (cycle_target i (length vs))" by blast
  have "convert_input test_input key (VList vs) h = Inr (Some (of_ref OList p), h\<lparr>chains := ls'\<rparr>)"
    using assms(1) root b c(1) pos by (simp add: convert_input_def)
  moreover have "linked_list_to_list ls' p = vs" using read_list_rep [OF c(2)] by (simp add: linked_list_to_list_def)
  moreover have "p = None \<longleftrightarrow> vs = []" by (rule list_rep_None [OF c(2)])
  ultimately show ?thesis using c(2) by (auto simp: of_ref_def auto_convert_output_def)
qed

theorem head_input_roundtrip_witness:
  "\<exists>p h'. convert_input [(''head'', VList [VInt 3, VInt 2]), (''pos'', VInt 1)] ''head'' (VList [VInt 3, VInt 2]) empty_heap =
      Inr (Some (of_ref OList p), h') \<and>
    list_rep (chains h') p [VInt 3, VInt 2] (cycle_target 1 (length [VInt 3, VInt 2])) \<and>
    auto_convert_output 0 h' (of_ref OList p) =
      Some (Inr (if [VInt 3, VInt 2] = [] then OVal VNone else OVal (VList [VInt 3, VInt 2])))"
proof (rule head_input_roundtrip)
  show "starts_with ''head'' (map to_lower ''head'')" by code_simp
  show "dget [(''head'', VList [VInt 3, VInt 2]), (''pos'', VInt 1)] ''pos'' = Some (VInt 1) \<or>
      dget [(''head'', VList [VInt 3, VInt 2]), (''pos'', VInt 1)] ''pos'' = None \<and> (1::int) = - 1" by (simp add: dget_def)
qed

end
