(* ===== verification/JsValue.thy ===== *)
theory JsValue
  imports JsonText
begin

text \<open>
  The JavaScript values that the JavaScript and TypeScript wrappers handle (\<open>languages/js_wrapper.py\<close>,
  \<open>languages/ts_wrapper.py\<close>), and what the language does with them: \<open>JSON.parse\<close>, the number texts of
  \<open>JSON.stringify\<close>, the conversions to string and to number. Every number is a double, so that only the
  integers up to \<open>2^53\<close> survive the trip exactly (\<open>safe_integer_number\<close>).
\<close>

section \<open>Values\<close>

text \<open>An object is the list of its properties in enumeration order. \<^term>\<open>JTree i\<close>, \<^term>\<open>JList i\<close> and
  \<^term>\<open>JGraph i\<close> are references to nodes, \<open>JFun\<close> is a function or symbol, \<open>JBigInt\<close> a \<open>bigint\<close>.\<close>

datatype jsval =
    JUndef
  | JNull
  | JBool bool
  | JNum pyfloat
  | JStr string
  | JArr "jsval list"
  | JObj "(string \<times> jsval) list"
  | JTree nat
  | JList nat
  | JGraph nat
  | JFun
  | JBigInt int

section \<open>Numbers as text\<close>

text \<open>\<open>Number::toString\<close> of a positive number: the shortest digits that read back, in decimal notation
  between \<open>1e-6\<close> and \<open>1e21\<close>, with an exponent elsewhere.\<close>

definition js_exponent :: "int \<Rightarrow> string" where
  "js_exponent e = ''e'' @ (if e < 0 then CHR ''-'' # nat_str (- e) else CHR ''+'' # nat_str e)"

definition js_mag :: "rat \<Rightarrow> string" where
  "js_mag x = (case shortest_digits x of (n, v) \<Rightarrow>
     (let full = (v = 10 ^ n);
          ds = (if full then ''1'' else nat_str v);
          p = dec_point x + (if full then 1 else 0);
          m = int (length ds)
      in if m \<le> p \<and> p \<le> 21 then ds @ replicate (nat (p - m)) CHR ''0''
         else if 0 < p \<and> p \<le> 21 then take (nat p) ds @ ''.'' @ drop (nat p) ds
         else if - 6 < p \<and> p \<le> 0 then ''0.'' @ replicate (nat (- p)) CHR ''0'' @ ds
         else take 1 ds @ (if m = 1 then [] else CHR ''.'' # drop 1 ds) @ js_exponent (p - 1)))"

definition js_float :: "pyfloat \<Rightarrow> string" where
  "js_float x = (case x of
      Fin q \<Rightarrow> if q = 0 then ''0'' else if q < 0 then CHR ''-'' # js_mag (- q) else js_mag q
    | NegZero \<Rightarrow> ''0'' | PosInf \<Rightarrow> ''Infinity'' | NegInf \<Rightarrow> ''-Infinity'' | NaN \<Rightarrow> ''NaN'')"

definition integral :: "rat \<Rightarrow> bool" where
  "integral q \<longleftrightarrow> of_int \<lfloor>q\<rfloor> = q"

text \<open>The number that \<open>JSON.stringify\<close> writes for a double, as a reader of JSON sees it: an integer below
  \<open>1e21\<close> has no point and no exponent, its digits are exact up to \<open>2^53\<close> and padded with zeros
  beyond; \<open>NaN\<close> and the infinities are \<open>null\<close>.\<close>

definition js_number :: "pyfloat \<Rightarrow> pyval" where
  "js_number x = (case x of
      Fin q \<Rightarrow>
        if integral q \<and> \<bar>q\<bar> \<le> 2 ^ 53 then VInt \<lfloor>q\<rfloor>
        else if integral q \<and> \<bar>q\<bar> < 10 ^ 21 then VInt ((if q < 0 then - 1 else 1) * digits_val (js_mag \<bar>q\<bar>))
        else VFloat x
    | NegZero \<Rightarrow> VInt 0
    | _ \<Rightarrow> VNone)"

text \<open>\<open>String(x)\<close> of a number.\<close>

definition js_number_str :: "pyfloat \<Rightarrow> string" where
  "js_number_str x = (case js_number x of VInt n \<Rightarrow> int_str n | _ \<Rightarrow> js_float x)"

section \<open>JSON\<close>

text \<open>The escapes of \<open>JSON.stringify\<close>: it leaves every other character as it is.\<close>

definition js_esc :: "char \<Rightarrow> string" where
  "js_esc c =
     (if c = dquote \<or> c = backslash then [backslash, c]
      else if c = newline then [backslash, CHR ''n'']
      else if c = CHR 0x0D then [backslash, CHR ''r'']
      else if c = CHR 0x09 then [backslash, CHR ''t'']
      else if c = CHR 0x0C then [backslash, CHR ''f'']
      else if c = CHR 0x08 then [backslash, CHR ''b'']
      else if 32 \<le> code c then [c]
      else [backslash, CHR ''u'', CHR ''0'', CHR ''0''] @ hex2 c)"

lemma parse_chars_js_esc: "parse_chars (js_esc c @ t) = map_option (\<lambda>(x, u). (c # x, u)) (parse_chars t)"
  by (auto simp: js_esc_def hex2_def hex4_hex2 split: option.splits)

interpretation js_json: json_printer js_esc js_float "[]"
  by unfold_locales (simp_all add: parse_chars_js_esc)

text \<open>Integer-like keys are enumerated first, in ascending order.\<close>

definition array_index :: "string \<Rightarrow> bool" where
  "array_index k \<longleftrightarrow> k \<noteq> [] \<and> list_all is_digit k \<and> (k = ''0'' \<or> hd k \<noteq> CHR ''0'') \<and> digits_val k < 2 ^ 32 - 1"

definition js_order :: "(string \<times> 'a) list \<Rightarrow> (string \<times> 'a) list" where
  "js_order d = sort_key (\<lambda>p. digits_val (fst p)) (filter (\<lambda>p. array_index (fst p)) d) @
     filter (\<lambda>p. \<not> array_index (fst p)) d"

fun js_of :: "pyval \<Rightarrow> jsval" where
  "js_of VNone = JNull"
| "js_of (VBool b) = JBool b"
| "js_of (VInt n) = JNum (rnd (of_int n))"
| "js_of (VFloat x) = JNum x"
| "js_of (VStr s) = JStr s"
| "js_of (VList xs) = JArr (map js_of xs)"
| "js_of (VDict d) = JObj (js_order (map (\<lambda>(k, v). (k, js_of v)) d))"

text \<open>JSON has no \<open>NaN\<close> and no infinities, though Python writes them.\<close>

fun strict :: "pyval \<Rightarrow> bool" where
  "strict (VFloat x) = (fval x \<noteq> None)"
| "strict (VList xs) = (\<forall>x \<in> set xs. strict x)"
| "strict (VDict d) = (\<forall>p \<in> set d. strict (snd p))"
| "strict _ = True"

text \<open>\<open>JSON.parse\<close> of what \<open>json.dumps\<close> writes, the only texts the executors send; \<open>None\<close> is the
  \<open>SyntaxError\<close>.\<close>

definition js_parse :: "string \<Rightarrow> jsval option" where
  "js_parse s = (case loads s of Some v \<Rightarrow> if strict v then Some (js_of v) else None | None \<Rightarrow> None)"

lemma js_parse_dumps: "json_ok v \<Longrightarrow> strict v \<Longrightarrow> js_parse (dumps v) = Some (js_of v)"
  by (simp add: js_parse_def loads_dumps)

section \<open>Conversions\<close>

definition js_space :: "char \<Rightarrow> bool" where
  "js_space c \<longleftrightarrow> (let n = code c in 9 \<le> n \<and> n \<le> 13 \<or> n = 32 \<or> n = 160)"

definition js_trim :: "string \<Rightarrow> string" where
  "js_trim s = rev (dropWhile js_space (rev (dropWhile js_space s)))"

text \<open>\<open>String(v)\<close>; an array is the texts of its elements with commas, those of \<open>null\<close> and \<open>undefined\<close> empty.\<close>

fun js_string :: "jsval \<Rightarrow> string" where
  "js_string JUndef = ''undefined''"
| "js_string JNull = ''null''"
| "js_string (JBool b) = (if b then ''true'' else ''false'')"
| "js_string (JNum x) = js_number_str x"
| "js_string (JStr s) = s"
| "js_string (JArr vs) = join '','' (map (\<lambda>v. if v = JNull \<or> v = JUndef then [] else js_string v) vs)"
| "js_string (JBigInt n) = int_str n"
| "js_string JFun = ''function''"
| "js_string _ = ''[object Object]''"

text \<open>\<open>Number(text)\<close>: decimal, and hexadecimal, octal and binary with a prefix.\<close>

definition radix_value :: "nat \<Rightarrow> string \<Rightarrow> pyfloat" where
  "radix_value b ds =
     (if ds \<noteq> [] \<and> list_all (\<lambda>c. case hex_val c of Some d \<Rightarrow> d < b | None \<Rightarrow> False) ds
      then rnd (of_nat (foldl (\<lambda>a c. b * a + the (hex_val c)) 0 ds)) else NaN)"

definition plain_digits :: "string \<Rightarrow> bool" where
  "plain_digits s \<longleftrightarrow> list_all (\<lambda>c. is_digit c \<or> c \<in> set ''+-.eE'') s"

definition js_number_of :: "string \<Rightarrow> pyfloat" where
  "js_number_of text = (let s = js_trim text; low = map to_lower (take 2 s) in
     if s = [] then Fin 0
     else if low = ''0x'' then radix_value 16 (drop 2 s)
     else if low = ''0o'' then radix_value 8 (drop 2 s)
     else if low = ''0b'' then radix_value 2 (drop 2 s)
     else if s = ''Infinity'' \<or> s = ''+Infinity'' then PosInf
     else if s = ''-Infinity'' then NegInf
     else if plain_digits s then (case parse_float s of Some x \<Rightarrow> x | None \<Rightarrow> NaN)
     else NaN)"

definition js_to_number :: "jsval \<Rightarrow> pyfloat" where
  "js_to_number v = (case v of
      JNull \<Rightarrow> Fin 0
    | JBool b \<Rightarrow> Fin (if b then 1 else 0)
    | JNum x \<Rightarrow> x
    | JStr s \<Rightarrow> js_number_of s
    | JArr vs \<Rightarrow> js_number_of (js_string v)
    | _ \<Rightarrow> NaN)"

text \<open>\<open>v.key\<close> of a value that is neither \<open>null\<close> nor \<open>undefined\<close>, for a name that no prototype has.\<close>

definition js_get :: "jsval \<Rightarrow> string \<Rightarrow> jsval" where
  "js_get v k = (case v of JObj d \<Rightarrow> (case map_of d k of Some x \<Rightarrow> x | None \<Rightarrow> JUndef) | _ \<Rightarrow> JUndef)"

text \<open>The keys and values that \<open>for (key in v)\<close> runs through.\<close>

definition js_entries :: "jsval \<Rightarrow> (string \<times> jsval) list" where
  "js_entries v = (case v of
      JObj d \<Rightarrow> d
    | JArr vs \<Rightarrow> zip (map (\<lambda>i. nat_str (int i)) [0..<length vs]) vs
    | JStr s \<Rightarrow> zip (map (\<lambda>i. nat_str (int i)) [0..<length s]) (map (\<lambda>c. JStr [c]) s)
    | _ \<Rightarrow> [])"

section \<open>Laws\<close>

text \<open>Integers up to \<open>2^53\<close> are doubles.\<close>

lemma round_mag_int:
  assumes "0 < x" and "x = of_int k * ulp x"
  shows "round_mag x = x"
  using round_mag_le [of x k] round_mag_ge [of x k] assms by simp

lemma int_times_ulp:
  assumes "0 < n" and "n \<le> 2 ^ 53"
  shows "\<exists>k. (of_int n :: rat) = of_int k * ulp (of_int n)"
proof -
  let ?x = "of_int n :: rat"
  define e where "e = rat_exp2 ?x"
  have x: "0 < ?x" using assms(1) by simp
  have up: "pow2 e \<le> ?x" "?x < pow2 (e + 1)" using rat_exp2_bounds [OF x] by (simp_all add: e_def)
  have lim: "?x \<le> pow2 53" using assms(2) by (simp add: pow2_def)
  have "e \<le> 53" using up(1) lim pow2_less [of 53 e] by (metis not_le order_trans)
  have "0 \<le> e"
  proof (rule ccontr)
    assume "\<not> 0 \<le> e"
    then have "pow2 (e + 1) \<le> pow2 0" by (intro pow2_mono) simp
    moreover have "1 \<le> ?x" using assms(1) by simp
    ultimately show False using up(2) by (simp add: pow2_def)
  qed
  show ?thesis
  proof (cases "e = 53")
    case True
    then have "?x = pow2 53" using up(1) lim by simp
    moreover have "pow2 53 = of_int (2 ^ 52) * pow2 1" by (simp add: pow2_def)
    ultimately show ?thesis using True by (intro exI [of _ "2 ^ 52"]) (simp add: ulp_def e_def)
  next
    case False
    then have u: "ulp ?x = pow2 (e - 52)" "e \<le> 52" using \<open>0 \<le> e\<close> \<open>e \<le> 53\<close> by (simp_all add: ulp_def e_def)
    have "pow2 (52 - e) = of_int (2 ^ nat (52 - e))" using u(2) by (simp add: pow2_def)
    moreover have "pow2 (52 - e) * pow2 (e - 52) = 1" by (simp flip: pow2_add) (simp add: pow2_def)
    ultimately have "?x = of_int (n * 2 ^ nat (52 - e)) * ulp ?x" using u(1) by (simp add: mult.assoc)
    then show ?thesis by blast
  qed
qed

lemma rnd_int:
  assumes "\<bar>n\<bar> \<le> 2 ^ 53"
  shows "rnd (of_int n) = Fin (of_int n)"
proof -
  have *: "of_mag (round_mag (of_int m)) = Fin (of_int m)" if m: "0 \<le> m" "m \<le> 2 ^ 53" for m :: int
  proof -
    have "round_mag (of_int m) = of_int m"
    proof (cases "m = 0")
      case False
      then show ?thesis using int_times_ulp [of m] m round_mag_int [of "of_int m"] by force
    qed (simp add: round_mag_def)
    moreover have "(of_int m :: rat) \<le> of_int (2 ^ 53)" using m(2) by (simp only: of_int_le_iff)
    moreover have "(of_int (2 ^ 53) :: rat) < pow2 1024" by (simp add: pow2_def)
    ultimately show ?thesis by (auto simp: of_mag_def)
  qed
  show ?thesis
  proof (cases "n < 0")
    case True
    then show ?thesis using * [of "- n"] assms by (simp add: rnd_def fneg_def)
  next
    case False
    then show ?thesis using * [of n] assms by (simp add: rnd_def)
  qed
qed

text \<open>An integer up to \<open>2^53\<close> comes through \<open>JSON.parse\<close> and \<open>JSON.stringify\<close> as it was.\<close>

lemma safe_integer_number:
  assumes "\<bar>n\<bar> \<le> 2 ^ 53"
  shows "js_number (rnd (of_int n)) = VInt n"
proof -
  have "\<bar>of_int n :: rat\<bar> \<le> of_int (2 ^ 53)" using assms by (simp only: of_int_le_iff flip: of_int_abs)
  then show ?thesis by (simp add: rnd_int [OF assms] js_number_def integral_def)
qed

end
