(* ===== verification/NullGraph.thy ===== *)
theory NullGraph
  imports WrapperGraph
begin

text \<open>
  The graph nodes of the wrappers whose builders do not reject an unknown neighbour: a reference to a
  neighbour may be \<open>null\<close> (\<open>undefined\<close> in JavaScript). The searches differ in what they do with it:
  \<open>null_queue\<close> fails on it, \<open>skip_queue\<close> passes over it. An adjacency list without unknown neighbours
  comes back as it was.
\<close>

section \<open>Objects\<close>

record null_node =
  n_val :: int
  n_neighbors :: "nat option list"

text \<open>\<open>nodes.get(neighbor)\<close>: a node by its number, \<open>null\<close> for an unknown one.\<close>

definition look_up :: "nat \<Rightarrow> nat \<Rightarrow> int \<Rightarrow> nat option" where
  "look_up base n k = (if 1 \<le> k \<and> k \<le> int n then Some (base + nat (k - 1)) else None)"

text \<open>The nodes \<open>1..n\<close>, each with what \<open>f\<close> makes of the row of its neighbours.\<close>

definition new_nodes :: "('r \<Rightarrow> nat option list) \<Rightarrow> 'r list \<Rightarrow> null_node list" where
  "new_nodes f rows = map (\<lambda>i. \<lparr>n_val = int (Suc i), n_neighbors = f (rows ! i)\<rparr>) [0..<length rows]"

section \<open>Searching\<close>

text \<open>The loop over the queue; \<open>None\<close> is the access to a field of a missing node.\<close>

function null_queue :: "null_node list \<Rightarrow> nat option list \<Rightarrow> nat list \<Rightarrow> nat list option" where
  "null_queue h [] visited = Some []"
| "null_queue h (None # queue) visited = None"
| "null_queue h (Some i # queue) visited =
     (if i \<in> set visited \<or> \<not> i < length h then null_queue h queue visited
      else map_option (Cons i) (null_queue h
        (queue @ filter (\<lambda>p. p \<notin> Some ` set (i # visited)) (n_neighbors (h ! i))) (i # visited)))"
  by pat_completeness auto
termination
proof (relation "measures [\<lambda>(h, queue, visited). card ({..<length h} - set visited), \<lambda>(h, queue, visited). length queue]", goal_cases)
  case (3 h i queue visited)
  then have "{..<length h} - set (i # visited) \<subset> {..<length h} - set visited" by auto
  then show ?case by (simp add: psubset_card_mono)
qed simp_all

text \<open>The rows of the result; \<open>None\<close> is an index out of range.\<close>

fun null_rows :: "null_node list \<Rightarrow> nat list \<Rightarrow> int list list \<Rightarrow> int list list option" where
  "null_rows h [] res = Some res"
| "null_rows h (i # is) res =
     (let ns = n_neighbors (h ! i); v = n_val (h ! i) in
      if ns = [] then null_rows h is res
      else if None \<notin> set ns \<and> 1 \<le> v \<and> v \<le> int (length res)
      then null_rows h is (res[nat (v - 1) := res ! nat (v - 1) @ map (\<lambda>p. n_val (h ! the p)) ns])
      else None)"

definition null_adjlist :: "null_node list \<Rightarrow> nat option \<Rightarrow> int list list option" where
  "null_adjlist h node = (case node of
      None \<Rightarrow> Some []
    | Some i \<Rightarrow> (case null_queue h [Some i] [] of
          None \<Rightarrow> None
        | Some found \<Rightarrow>
            (let nodes = sort_key (\<lambda>j. n_val (h ! j)) found;
                 max_val = Max (set (map (\<lambda>j. n_val (h ! j)) nodes))
             in null_rows h nodes (replicate (nat max_val) []))))"

section \<open>Graphs without missing nodes\<close>

definition plain :: "null_node \<Rightarrow> graph_node" where
  "plain n = \<lparr>g_val = n_val n, g_neighbors = map the (n_neighbors n)\<rparr>"

lemma plain_simps [simp]:
  "i < length h \<Longrightarrow> g_val (map plain h ! i) = n_val (h ! i)"
  "i < length h \<Longrightarrow> g_neighbors (map plain h ! i) = map the (n_neighbors (h ! i))"
  by (simp_all add: plain_def)

lemma filter_the: "set ns \<subseteq> Some ` S \<Longrightarrow> map the (filter (\<lambda>p. p \<notin> Some ` V) ns) = filter (\<lambda>j. j \<notin> V) (map the ns)"
  by (induction ns) auto

lemma null_queue_plain:
  "\<forall>i \<in> S. i < length h \<and> set (n_neighbors (h ! i)) \<subseteq> Some ` S \<Longrightarrow> set q \<subseteq> Some ` S \<Longrightarrow>
    null_queue h q vis = Some (graph_queue (map plain h) (map the q) vis)"
proof (induction h q vis rule: null_queue.induct)
  case (3 h i q vis)
  have i: "i \<in> S" "i < length h" using "3.prems" by auto
  let ?ns = "n_neighbors (h ! i)" and ?keep = "\<lambda>p. p \<notin> Some ` set (i # vis)"
  have some: "set ?ns \<subseteq> Some ` S" using i(1) "3.prems"(1) by blast
  note filter_the [OF some, of "set (i # vis)"]
  moreover have "set (q @ filter ?keep ?ns) \<subseteq> Some ` S" using some "3.prems"(2) by auto
  ultimately show ?case using 3 i by (auto simp del: nth_map)
qed auto

lemma null_rows_plain:
  "\<forall>i \<in> set is. i < length h \<and> None \<notin> set (n_neighbors (h ! i)) \<and> 1 \<le> n_val (h ! i) \<and>
     the ` set (n_neighbors (h ! i)) \<subseteq> {..<length h} \<Longrightarrow>
    fill_rows (map plain h) is res = Inr rows \<Longrightarrow> null_rows h is res = Some rows"
proof (induction "is" arbitrary: res)
  case (Cons i "is")
  let ?ns = "n_neighbors (h ! i)" and ?v = "n_val (h ! i)"
  have i: "i < length h" "None \<notin> set ?ns" "1 \<le> ?v" "the ` set ?ns \<subseteq> {..<length h}" using Cons.prems(1) by auto
  have vals: "map (\<lambda>j. g_val (map plain h ! j)) (map the ?ns) = map (\<lambda>p. n_val (h ! the p)) ?ns"
    using i(4) by (auto simp del: nth_map)
  show ?case
  proof (cases "?ns = []")
    case True
    then show ?thesis using Cons i(1) by (simp add: Let_def del: nth_map)
  next
    case False
    have "?v \<le> int (length res)"
      using Cons.prems(2) False i(1,3) by (auto simp: Let_def py_index_def simp del: nth_map split: if_splits)
    moreover from this have "py_index (?v - 1) (length res) = Some (nat (?v - 1))" using i(3) by (simp add: py_index_def)
    ultimately show ?thesis
      using Cons False i vals by (simp add: Let_def del: nth_map map_map)
  qed
qed simp

lemma insort_key_eq: "\<forall>y \<in> insert x (set ys). f y = g y \<Longrightarrow> insort_key f x ys = insort_key g x ys"
  by (induction ys) auto

lemma sort_key_eq: "\<forall>y \<in> set ys. f y = g y \<Longrightarrow> sort_key f ys = sort_key g ys"
proof (induction ys)
  case (Cons y ys)
  then show ?case using insort_key_eq [of y "sort_key g ys" f g] by simp
qed simp

lemma null_adjlist_plain:
  assumes "\<forall>i \<in> S. i < length h \<and> set (n_neighbors (h ! i)) \<subseteq> Some ` S \<and> 1 \<le> n_val (h ! i)" and "b \<in> S"
    and "graph_to_adjlist (map plain h) (Some b) = Inr rows"
  shows "null_adjlist h (Some b) = Some rows"
proof -
  note [simp del] = graph_queue.simps nth_map
  let ?q = "graph_queue (map plain h) [b] []" and ?f = "\<lambda>j. g_val (map plain h ! j)" and ?g = "\<lambda>j. n_val (h ! j)"
  have q: "null_queue h [Some b] [] = Some ?q" using null_queue_plain [of S h "[Some b]" "[]"] assms(1,2) by auto
  have "\<forall>i \<in> S. set (g_neighbors (map plain h ! i)) \<subseteq> S" using assms(1) by fastforce
  then have in_S: "set ?q \<subseteq> S" using graph_queue_within [of S "map plain h" "[b]" "[]"] assms(2) by simp
  have "\<forall>j \<in> set ?q. ?f j = ?g j" using in_S assms(1) by auto
  then have key: "sort_key ?f ?q = sort_key ?g ?q" "?f ` set ?q = ?g ` set ?q" using sort_key_eq [of ?q ?f ?g] by auto
  have "\<forall>i \<in> set (sort_key ?g ?q). i < length h \<and> None \<notin> set (n_neighbors (h ! i)) \<and> 1 \<le> ?g i \<and>
      the ` set (n_neighbors (h ! i)) \<subseteq> {..<length h}"
  proof
    fix i assume "i \<in> set (sort_key ?g ?q)"
    then have "i \<in> S" using in_S by auto
    then have i: "i < length h" "set (n_neighbors (h ! i)) \<subseteq> Some ` S" "1 \<le> ?g i" using assms(1) by auto
    have "the ` set (n_neighbors (h ! i)) \<subseteq> the ` Some ` S" using i(2) by (rule image_mono)
    also have "\<dots> \<subseteq> {..<length h}" using assms(1) by auto
    finally show "i < length h \<and> None \<notin> set (n_neighbors (h ! i)) \<and> 1 \<le> ?g i \<and>
      the ` set (n_neighbors (h ! i)) \<subseteq> {..<length h}" using i by auto
  qed
  from null_rows_plain [OF this] show ?thesis
    using assms(3) q key by (simp add: graph_to_adjlist_def null_adjlist_def Let_def)
qed

text \<open>What is built of an adjacency list without unknown neighbours reads back.\<close>

lemma new_nodes_rep:
  assumes "adj_ok adj"
  shows "graph_rep (map plain (h @ new_nodes (map (look_up (length h) (length adj))) adj)) (length h) adj"
proof -
  have "map the (map (look_up (length h) (length adj)) (adj ! i)) = map (\<lambda>k. length h + nat (k - 1)) (adj ! i)"
    if "i < length adj" for i
    using adj_okD [OF assms that] by (auto simp: look_up_def)
  then show ?thesis by (auto simp: graph_rep_def new_nodes_def nth_append plain_def)
qed

lemma null_graph_roundtrip:
  assumes "adj_ok adj" and "adj \<noteq> []" and "connected adj"
  shows "null_adjlist (h @ new_nodes (map (look_up (length h) (length adj))) adj) (Some (length h)) = Some adj"
proof (rule null_adjlist_plain)
  let ?h = "h @ new_nodes (map (look_up (length h) (length adj))) adj"
  let ?S = "{length h..<length h + length adj}"
  show "graph_to_adjlist (map plain ?h) (Some (length h)) = Inr adj"
    by (rule graph_roundtrip [OF new_nodes_rep [OF assms(1)] assms])
  have "look_up (length h) (length adj) k \<in> Some ` ?S" if "i < length adj" "k \<in> set (adj ! i)" for i k
    using adj_okD [OF assms(1) that] by (auto simp: look_up_def)
  then have row: "look_up (length h) (length adj) ` set (adj ! i) \<subseteq> Some ` ?S" if "i < length adj" for i
    using that by blast
  show "\<forall>i \<in> ?S. i < length ?h \<and> set (n_neighbors (?h ! i)) \<subseteq> Some ` ?S \<and> 1 \<le> n_val (?h ! i)"
  proof
    fix i assume "i \<in> ?S"
    then show "i < length ?h \<and> set (n_neighbors (?h ! i)) \<subseteq> Some ` ?S \<and> 1 \<le> n_val (?h ! i)"
      using row [of "i - length h"] by (simp add: new_nodes_def nth_append less_diff_conv2)
  qed
  show "length h \<in> ?S" using assms(2) by simp
qed

end
