(* ===== verification/JsWrapper.thy ===== *)
theory JsWrapper
  imports JsValue NullGraph TreeWire ListWire Harness ExecutorBase
begin

text \<open>
  The JavaScript wrapper (\<open>languages/js_wrapper.py\<close>) and the TypeScript wrapper
  (\<open>languages/ts_wrapper.py\<close>), which differs from it in one rule of the input conversion. The submission
  and the texts of the engine's own errors are parameters; a call that does not return is \<open>None\<close>. As in
  the Python wrapper, the value of a graph node is an integer.
\<close>

section \<open>Objects and the submission\<close>

record js_heap =
  js_trees :: "jsval tree_node list"
  js_chains :: "jsval list_node list"
  js_graphs :: "null_node list"

definition js_empty_heap :: js_heap where
  "js_empty_heap = \<lparr>js_trees = [], js_chains = [], js_graphs = []\<rparr>"

text \<open>What can be thrown: an \<open>Error\<close> with its name and message, or another value with its text.\<close>

datatype js_exn = JsError string string | JsThrown string

text \<open>The outcome of a call: the result or what was thrown, the arguments as the call leaves them, the heap
  and what was printed.\<close>

type_synonym js_call = "(js_exn + jsval) \<times> jsval list \<times> js_heap \<times> string"
type_synonym js_function = "jsval list \<Rightarrow> js_heap \<Rightarrow> js_call option"

text \<open>The loaded submission: what its top level printed, what \<open>eval\<close> finds for a name unless it is
  no function or a built-in one, and the methods of \<open>new Solution()\<close>, if there is such a class, or what its constructor throws.\<close>

record js_submission =
  js_top_output :: string
  js_eval :: "jsval \<Rightarrow> js_function option"
  js_solution :: "(js_exn + (jsval \<Rightarrow> js_function option)) option"

text \<open>The messages of the engine: for a text that is no JSON, a value that is not iterable, a property of
  \<open>undefined\<close> or \<open>null\<close>, a circular structure and a \<open>bigint\<close>.\<close>

record js_engine =
  syntax_text :: "string \<Rightarrow> string"
  not_iterable :: "jsval \<Rightarrow> string"
  no_property :: "string \<Rightarrow> string"
  circular_text :: string
  bigint_text :: string

definition type_error :: "string \<Rightarrow> js_exn" where
  "type_error m = JsError ''TypeError'' m"

text \<open>An integer of the program as a number.\<close>

definition js_int :: "int \<Rightarrow> jsval" where
  "js_int k = JNum (rnd (of_int k))"

section \<open>Trees and lists\<close>

definition js_buildTree :: "jsval list \<Rightarrow> jsval tree_node list \<Rightarrow> nat option \<times> jsval tree_node list" where
  "js_buildTree = make_tree JNull"

definition js_treeToList :: "nat \<Rightarrow> jsval tree_node list \<Rightarrow> nat option \<Rightarrow> jsval list option" where
  "js_treeToList = read_tree JNull"

definition js_buildLinkedList ::
  "jsval list \<Rightarrow> jsval list_node list \<Rightarrow> nat option \<times> nat list \<times> jsval list_node list" where
  "js_buildLinkedList = make_list (JNum (Fin 0))"

definition js_linkedListToArray :: "jsval list_node list \<Rightarrow> nat option \<Rightarrow> jsval list" where
  "js_linkedListToArray = read_list"

interpretation js_tree: tree_wire JNull js_buildTree js_treeToList
  unfolding js_buildTree_def js_treeToList_def by (rule tree_wire_make_tree)

section \<open>Graphs\<close>

text \<open>\<open>nodes[neighbor - 1]\<close>: \<open>undefined\<close> unless the difference is the index of a node.\<close>

definition js_neighbor :: "nat \<Rightarrow> nat \<Rightarrow> jsval \<Rightarrow> nat option" where
  "js_neighbor base n v = (case fval (fsub (js_to_number v) (Fin 1)) of
      None \<Rightarrow> None
    | Some q \<Rightarrow> if integral q then look_up base n (\<lfloor>q\<rfloor> + 1) else None)"

text \<open>\<open>for (const neighbor of row)\<close>\<close>

definition js_iterate :: "js_engine \<Rightarrow> jsval \<Rightarrow> js_exn + jsval list" where
  "js_iterate R row = (case row of
      JArr vs \<Rightarrow> Inr vs
    | JStr s \<Rightarrow> Inr (map (\<lambda>c. JStr [c]) s)
    | _ \<Rightarrow> Inl (type_error (not_iterable R row)))"

definition js_buildGraph :: "js_engine \<Rightarrow> jsval list \<Rightarrow> null_node list \<Rightarrow> js_exn + nat option \<times> null_node list" where
  "js_buildGraph R adjList h =
     (if adjList = [] then Inr (None, h)
      else case map_r (js_iterate R) adjList of
          Inl e \<Rightarrow> Inl e
        | Inr rows \<Rightarrow> Inr (Some (length h), h @ new_nodes (map (js_neighbor (length h) (length rows))) rows))"

definition js_graphToAdjList :: "js_engine \<Rightarrow> null_node list \<Rightarrow> nat option \<Rightarrow> js_exn + int list list" where
  "js_graphToAdjList R h node = (case null_adjlist h node of
      None \<Rightarrow> Inl (type_error (no_property R ''neighbors'')) | Some rows \<Rightarrow> Inr rows)"

section \<open>Inputs\<close>

definition js_of_ref :: "(nat \<Rightarrow> jsval) \<Rightarrow> nat option \<Rightarrow> jsval" where
  "js_of_ref mk p = (case p of None \<Rightarrow> JNull | Some i \<Rightarrow> mk i)"

text \<open>\<open>if (pos !== -1 && nodes.length > 0 && pos >= 0 && pos < nodes.length) nodes[nodes.length - 1].next = nodes[pos]\<close>;
  a \<open>pos\<close> between two indices assigns \<open>undefined\<close>, and the list ends as before.\<close>

definition js_close_cycle :: "pyfloat \<Rightarrow> nat list \<Rightarrow> jsval list_node list \<Rightarrow> jsval list_node list" where
  "js_close_cycle pos nodes h = (case fval pos of
      None \<Rightarrow> h
    | Some q \<Rightarrow> if q \<noteq> - 1 \<and> nodes \<noteq> [] \<and> 0 \<le> q \<and> q < of_nat (length nodes) then
          (if integral q then tie nodes (nat \<lfloor>q\<rfloor>) h
           else h[last nodes := (h ! last nodes)\<lparr>l_next := None\<rparr>])
        else h)"

definition js_pos :: "jsval \<Rightarrow> pyfloat" where
  "js_pos input = (case js_get input ''pos'' of JNum x \<Rightarrow> x | _ \<Rightarrow> Fin (- 1))"

text \<open>\<open>value.trim().split("\n").map(l => l.trim()).filter(l => l.length > 0)\<close>, without a leading count.\<close>

definition js_operation_lines :: "string \<Rightarrow> string list" where
  "js_operation_lines value =
     (let lines = filter (\<lambda>l. l \<noteq> []) (map js_trim (split_on newline (js_trim value)))
      in if lines \<noteq> [] \<and> list_all is_digit (hd lines) then tl lines else lines)"

text \<open>One turn of the loop of \<open>autoConvertInput\<close>; \<open>None\<close> skips the key. The JavaScript wrapper splits
  texts of several lines (\<open>multiline\<close>), the TypeScript wrapper does not.\<close>

definition js_convert ::
  "js_engine \<Rightarrow> bool \<Rightarrow> jsval \<Rightarrow> string \<Rightarrow> jsval \<Rightarrow> js_heap \<Rightarrow> js_exn + jsval option \<times> js_heap" where
  "js_convert R multiline input key value h =
     (let low = map to_lower key in
      case value of
        JArr vs \<Rightarrow>
          if starts_with ''root'' low then
            (case js_buildTree vs (js_trees h) of (p, ts) \<Rightarrow> Inr (Some (js_of_ref JTree p), h\<lparr>js_trees := ts\<rparr>))
          else if starts_with ''head'' low then
            (case js_buildLinkedList vs (js_chains h) of (p, nodes, ls) \<Rightarrow>
               Inr (Some (js_of_ref JList p), h\<lparr>js_chains := js_close_cycle (js_pos input) nodes ls\<rparr>))
          else if starts_with ''adj'' low then
            (case js_buildGraph R vs (js_graphs h) of
               Inl e \<Rightarrow> Inl e
             | Inr (p, gs) \<Rightarrow> Inr (Some (js_of_ref JGraph p), h\<lparr>js_graphs := gs\<rparr>))
          else if key = ''pos'' then Inr (None, h) else Inr (Some value, h)
      | JStr s \<Rightarrow>
          if key = ''pos'' then Inr (None, h)
          else if multiline \<and> newline \<in> set s then Inr (Some (JArr (map JStr (js_operation_lines s))), h)
          else Inr (Some value, h)
      | _ \<Rightarrow> if key = ''pos'' then Inr (None, h) else Inr (Some value, h))"

text \<open>The loop; assigning to \<open>__proto__\<close> makes no property.\<close>

fun js_convert_items ::
  "js_engine \<Rightarrow> bool \<Rightarrow> jsval \<Rightarrow> (string \<times> jsval) list \<Rightarrow> js_heap \<Rightarrow> js_exn + (string \<times> jsval) list \<times> js_heap" where
  "js_convert_items R multiline input [] h = Inr ([], h)"
| "js_convert_items R multiline input ((key, value) # items) h = (case js_convert R multiline input key value h of
      Inl e \<Rightarrow> Inl e
    | Inr (ob, h') \<Rightarrow> (case js_convert_items R multiline input items h' of
          Inl e \<Rightarrow> Inl e
        | Inr (obs, h'') \<Rightarrow>
            Inr ((case ob of None \<Rightarrow> obs | Some x \<Rightarrow> if key = ''__proto__'' then obs else (key, x) # obs), h'')))"

definition js_autoConvertInput :: "js_engine \<Rightarrow> bool \<Rightarrow> jsval \<Rightarrow> js_heap \<Rightarrow> js_exn + (string \<times> jsval) list \<times> js_heap" where
  "js_autoConvertInput R multiline input h = js_convert_items R multiline input (js_entries input) h"

section \<open>Outputs\<close>

definition js_autoConvertOutput :: "nat \<Rightarrow> js_engine \<Rightarrow> js_heap \<Rightarrow> jsval \<Rightarrow> (js_exn + jsval) option" where
  "js_autoConvertOutput n R h result = (case result of
      JTree i \<Rightarrow> map_option (\<lambda>vs. Inr (JArr vs)) (js_treeToList n (js_trees h) (Some i))
    | JList i \<Rightarrow> Some (Inr (JArr (js_linkedListToArray (js_chains h) (Some i))))
    | JGraph i \<Rightarrow> Some (fmap_r (\<lambda>rows. JArr (map (\<lambda>r. JArr (map js_int r)) rows))
        (js_graphToAdjList R (js_graphs h) (Some i)))
    | _ \<Rightarrow> Some (Inr result))"

section \<open>The call\<close>

text \<open>A function at the top level first, then a method of \<open>Solution\<close>.\<close>

definition js_resolveFunction :: "js_submission \<Rightarrow> jsval \<Rightarrow> js_exn + js_function option" where
  "js_resolveFunction sub functionName = (case js_eval sub functionName of
      Some fn \<Rightarrow> Inr (Some fn)
    | None \<Rightarrow> (case js_solution sub of
          None \<Rightarrow> Inr None
        | Some (Inl e) \<Rightarrow> Inl e
        | Some (Inr instance_method) \<Rightarrow> Inr (instance_method functionName)))"

definition js_not_found :: "jsval \<Rightarrow> js_exn" where
  "js_not_found functionName =
     JsError ''Error'' (''Function '' @ [squote] @ js_string functionName @ [squote] @ '' not found'')"

text \<open>The object of a finished call.\<close>

definition js_output :: "nat \<Rightarrow> js_engine \<Rightarrow> js_heap \<Rightarrow> jsval \<Rightarrow> jsval list \<Rightarrow> (js_exn + (string \<times> jsval) list) option" where
  "js_output n R h result args = (case js_autoConvertOutput n R h result of
      None \<Rightarrow> None
    | Some (Inl e) \<Rightarrow> Some (Inl e)
    | Some (Inr r) \<Rightarrow>
        if result = JUndef \<and> args \<noteq> [] then
          (case js_autoConvertOutput n R h (hd args) of
             None \<Rightarrow> None
           | Some (Inl e) \<Rightarrow> Some (Inl e)
           | Some (Inr m) \<Rightarrow> Some (Inr [(''result'', JNull), (''mutated'', m)]))
        else Some (Inr [(''result'', if r = JUndef then JNull else r)]))"

definition js_executeFunction ::
  "nat \<Rightarrow> js_engine \<Rightarrow> bool \<Rightarrow> js_submission \<Rightarrow> jsval \<Rightarrow> jsval \<Rightarrow>
    ((js_exn + (string \<times> jsval) list \<times> js_heap) \<times> string) option" where
  "js_executeFunction n R multiline sub functionName input =
     (case js_autoConvertInput R multiline input js_empty_heap of
        Inl e \<Rightarrow> Some (Inl e, [])
      | Inr (convertedInput, h) \<Rightarrow> (case js_resolveFunction sub functionName of
            Inl e \<Rightarrow> Some (Inl e, [])
          | Inr None \<Rightarrow> Some (Inl (js_not_found functionName), [])
          | Inr (Some fn) \<Rightarrow> (case fn (map snd convertedInput) h of
                None \<Rightarrow> None
              | Some (Inl e, args, h', printed) \<Rightarrow> Some (Inl e, printed)
              | Some (Inr result, args, h', printed) \<Rightarrow>
                  map_option (\<lambda>out. (fmap_r (\<lambda>obj. (obj, h')) out, printed))
                    (js_output n R h' result args))))"

section \<open>The printed block\<close>

text \<open>\<open>JSON.stringify\<close>: \<open>undefined\<close> and functions are left out of objects and are \<open>null\<close> in arrays; an
  object that contains itself and a \<open>bigint\<close> raise. \<open>path\<close> is the stack of the nodes around the value;
  the fuel bounds the depth.\<close>

fun js_json :: "nat \<Rightarrow> js_engine \<Rightarrow> js_heap \<Rightarrow> jsval list \<Rightarrow> jsval \<Rightarrow> (js_exn + pyval option) option"
  and js_json_list :: "nat \<Rightarrow> js_engine \<Rightarrow> js_heap \<Rightarrow> jsval list \<Rightarrow> jsval list \<Rightarrow> (js_exn + pyval list) option"
  and js_json_items :: "nat \<Rightarrow> js_engine \<Rightarrow> js_heap \<Rightarrow> jsval list \<Rightarrow> (string \<times> jsval) list \<Rightarrow> (js_exn + pydict) option" where
  "js_json 0 R h path v = None"
| "js_json (Suc n) R h path v =
     (let dict = map_option (fmap_r (\<lambda>d. Some (VDict d)));
          node = (\<lambda>items. if v \<in> set path then Some (Inl (type_error (circular_text R)))
            else dict (js_json_items n R h (v # path) items))
      in case v of
        JUndef \<Rightarrow> Some (Inr None)
      | JFun \<Rightarrow> Some (Inr None)
      | JNull \<Rightarrow> Some (Inr (Some VNone))
      | JBool b \<Rightarrow> Some (Inr (Some (VBool b)))
      | JNum x \<Rightarrow> Some (Inr (Some (js_number x)))
      | JStr s \<Rightarrow> Some (Inr (Some (VStr s)))
      | JBigInt i \<Rightarrow> Some (Inl (type_error (bigint_text R)))
      | JArr vs \<Rightarrow> map_option (fmap_r (\<lambda>ws. Some (VList ws))) (js_json_list n R h path vs)
      | JObj d \<Rightarrow> dict (js_json_items n R h path d)
      | JTree i \<Rightarrow> node [(''val'', t_val (js_trees h ! i)), (''left'', js_of_ref JTree (t_left (js_trees h ! i))),
          (''right'', js_of_ref JTree (t_right (js_trees h ! i)))]
      | JList i \<Rightarrow> node [(''val'', l_val (js_chains h ! i)), (''next'', js_of_ref JList (l_next (js_chains h ! i)))]
      | JGraph i \<Rightarrow> node [(''val'', js_int (n_val (js_graphs h ! i))),
          (''neighbors'', JArr (map (\<lambda>p. case p of None \<Rightarrow> JUndef | Some j \<Rightarrow> JGraph j) (n_neighbors (js_graphs h ! i))))])"
| "js_json_list n R h path [] = Some (Inr [])"
| "js_json_list 0 R h path (v # vs) = None"
| "js_json_list (Suc n) R h path (v # vs) = (case js_json n R h path v of
      None \<Rightarrow> None
    | Some (Inl e) \<Rightarrow> Some (Inl e)
    | Some (Inr ov) \<Rightarrow> map_option (fmap_r (Cons (case ov of None \<Rightarrow> VNone | Some w \<Rightarrow> w))) (js_json_list n R h path vs))"
| "js_json_items n R h path [] = Some (Inr [])"
| "js_json_items 0 R h path (p # d) = None"
| "js_json_items (Suc n) R h path ((k, v) # d) = (case js_json n R h path v of
      None \<Rightarrow> None
    | Some (Inl e) \<Rightarrow> Some (Inl e)
    | Some (Inr ov) \<Rightarrow> map_option (fmap_r (\<lambda>d'. case ov of None \<Rightarrow> d' | Some w \<Rightarrow> (k, w) # d')) (js_json_items n R h path d))"

definition js_text :: "pydict \<Rightarrow> string" where
  "js_text d = text_of js_esc js_float [] (VDict d)"

text \<open>The message of the \<open>catch\<close> clause.\<close>

definition js_message :: "js_exn \<Rightarrow> string" where
  "js_message e = (case e of JsError name msg \<Rightarrow> name @ '': '' @ msg | JsThrown text \<Rightarrow> text)"

text \<open>The body of the \<open>try\<close> block up to the object it prints. \<open>payload.function_name\<close> raises for \<open>null\<close>.\<close>

definition js_run_payload ::
  "nat \<Rightarrow> js_engine \<Rightarrow> bool \<Rightarrow> js_submission \<Rightarrow> string \<Rightarrow> ((js_exn + pydict) \<times> string) option" where
  "js_run_payload n R multiline sub rawInput = (case js_parse rawInput of
      None \<Rightarrow> Some (Inl (JsError ''SyntaxError'' (syntax_text R rawInput)), [])
    | Some payload \<Rightarrow>
        if payload = JNull then Some (Inl (type_error (no_property R ''function_name'')), [])
        else (case js_executeFunction n R multiline sub (js_get payload ''function_name'') (js_get payload ''input'') of
            None \<Rightarrow> None
          | Some (Inl e, printed) \<Rightarrow> Some (Inl e, printed)
          | Some (Inr (obj, h), printed) \<Rightarrow> map_option (\<lambda>r. (r, printed)) (js_json_items n R h [] obj)))"

text \<open>A program of this harness: fuel, engine and submission.\<close>

definition js_run :: "nat \<times> js_engine \<times> js_submission \<Rightarrow> bool \<Rightarrow> string \<Rightarrow> ((string + string) \<times> string) option" where
  "js_run = (\<lambda>(n, R, sub) multiline rawInput. map_option (\<lambda>(r, printed).
     (case r of Inr d \<Rightarrow> Inr (js_text d) | Inl e \<Rightarrow> Inl (js_text [(''error'', VStr (js_message e))]),
      js_top_output sub @ printed)) (js_run_payload n R multiline sub rawInput))"

definition js_main :: "nat \<times> js_engine \<times> js_submission \<Rightarrow> string \<Rightarrow> (string \<times> int) option" where
  "js_main prog rawInput = print_block (js_run prog True rawInput)"

interpretation js_harness: harness "\<lambda>prog. js_run prog True" js_main
  by (rule harness_print_block) (simp add: js_main_def)


section \<open>What the judge reads\<close>

lemma js_document:
  "text_ok js_float (VDict d) \<Longrightarrow> find_sub RESULT_START (js_text d) = None \<Longrightarrow> find_sub RESULT_END (js_text d) = None \<Longrightarrow>
    document (js_text d) d"
  using js_json.loads_text [of "VDict d"] by (auto simp: document_def load_object_def js_text_def ends_with_def)

definition js_unmarked :: "pydict \<Rightarrow> bool" where
  "js_unmarked d \<longleftrightarrow> find_sub RESULT_START (js_text d) = None \<and> find_sub RESULT_END (js_text d) = None"

lemma js_reports: "js_message e \<noteq> [] \<Longrightarrow> js_unmarked [(''error'', VStr (js_message e))] \<Longrightarrow>
    reports (js_text [(''error'', VStr (js_message e))]) (js_message e)"
  using js_document [of "[(''error'', VStr (js_message e))]"] unfolding reports_def
  by (intro conjI exI [of _ "[(''error'', VStr (js_message e))]"]) (simp_all add: js_unmarked_def dget_def)

lemma js_parse_named:
  assumes "json_ok (VDict inp)" and "strict (VDict inp)"
  shows "js_parse (named_payload f inp) = Some (JObj [(''function_name'', JStr f), (''input'', js_of (VDict inp))])"
proof -
  have "\<not> array_index ''function_name''" "\<not> array_index ''input''" by code_simp+
  then show ?thesis
    using js_parse_dumps [of "VDict [(''function_name'', VStr f), (''input'', VDict inp)]"] assms
    by (simp add: named_payload_def js_order_def del: dumps.simps)
qed

lemma js_run_named:
  assumes "json_ok (VDict inp)" and "strict (VDict inp)"
  shows "js_run_payload n R m sub (named_payload f inp) =
    (case js_executeFunction n R m sub (JStr f) (js_of (VDict inp)) of
       None \<Rightarrow> None
     | Some (Inl e, printed) \<Rightarrow> Some (Inl e, printed)
     | Some (Inr (obj, h), printed) \<Rightarrow> map_option (\<lambda>r. (r, printed)) (js_json_items n R h [] obj))"
  by (simp add: js_run_payload_def js_parse_named [OF assms] js_get_def)

lemma js_run_failure:
  assumes "json_ok (VDict inp)" and "strict (VDict inp)"
    and "js_executeFunction n R m sub (JStr f) (js_of (VDict inp)) = Some (Inl e, printed)"
    and "js_message e \<noteq> []" and "js_unmarked [(''error'', VStr (js_message e))]"
  shows "js_run (n, R, sub) m (named_payload f inp) =
      Some (Inl (js_text [(''error'', VStr (js_message e))]), js_top_output sub @ printed) \<and>
    reports (js_text [(''error'', VStr (js_message e))]) (js_message e)"
  using js_reports [OF assms(4,5)] js_run_named [OF assms(1,2)] assms(3) by (simp add: js_run_def)


section \<open>Inputs that survive\<close>

lemma fsub_int:
  assumes "\<bar>a\<bar> \<le> 2 ^ 53" and "\<bar>a - 1\<bar> \<le> 2 ^ 53"
  shows "fsub (rnd (of_int a)) (Fin 1) = Fin (of_int (a - 1))"
  using rnd_int [OF assms(1)] rnd_int [OF assms(2)] by simp

lemma js_neighbor_int:
  assumes "1 \<le> k" and "k \<le> 2 ^ 53"
  shows "js_neighbor base n (js_int k) = look_up base n k"
proof -
  have "fsub (rnd (of_int k)) (Fin 1) = Fin (of_int (k - 1))" using assms by (intro fsub_int) auto
  then show ?thesis unfolding js_neighbor_def js_int_def js_to_number_def by (simp add: integral_def)
qed

lemma js_iterate_rows: "map_r (js_iterate R) (map (\<lambda>r. JArr (map js_int r)) adj) = Inr (map (map js_int) adj)"
  by (induction adj) (simp_all add: js_iterate_def)

lemma js_new_nodes:
  assumes "adj_ok adj" and "int (length adj) \<le> 2 ^ 53"
  shows "new_nodes (map (js_neighbor base (length adj))) (map (map js_int) adj) = new_nodes (map (look_up base (length adj))) adj"
proof -
  have "js_neighbor base (length adj) (js_int k) = look_up base (length adj) k" if "i < length adj" "k \<in> set (adj ! i)" for i k
    using adj_okD [OF assms(1) that] assms(2) by (intro js_neighbor_int) auto
  then show ?thesis by (auto simp: new_nodes_def)
qed

interpretation js_graph: graph_wire "\<lambda>adj. js_buildGraph R (map (\<lambda>r. JArr (map js_int r)) adj)" "js_graphToAdjList R'"
    "\<lambda>n. int n \<le> 2 ^ 53"
proof
  fix adj h
  assume adj: "adj_ok adj" "adj \<noteq> []" "connected adj" "int (length adj) \<le> 2 ^ 53"
  show "\<exists>p h'. js_buildGraph R (map (\<lambda>r. JArr (map js_int r)) adj) h = Inr (p, h') \<and> js_graphToAdjList R' h' p = Inr adj"
    using adj null_graph_roundtrip [OF adj(1-3), of h] js_new_nodes [OF adj(1,4), of "length h"]
    by (simp add: js_buildGraph_def js_iterate_rows js_graphToAdjList_def)
qed (simp_all add: js_buildGraph_def js_graphToAdjList_def null_adjlist_def)

lemma js_close_cycle_rep:
  assumes "js_buildLinkedList vs h = (p, ns, h')"
  shows "list_rep (js_close_cycle (Fin (of_int pos)) ns h') p vs (cycle_target pos (length vs))"
proof -
  note l = assms [unfolded js_buildLinkedList_def]
  have len: "length ns = length vs" by (rule make_list_length [OF l])
  have lt: "(of_int pos :: rat) < of_nat n \<longleftrightarrow> pos < int n" for n by (metis of_int_less_iff of_int_of_nat_eq)
  have "js_close_cycle (Fin (of_int pos)) ns h' = (if 0 \<le> pos \<and> pos < int (length ns) then tie ns (nat pos) h' else h')"
    by (auto simp: js_close_cycle_def integral_def lt)
  then show ?thesis using make_list_tie [OF l, of "nat pos"] make_list_rep [OF l] len by (auto simp: cycle_target_def)
qed

interpretation js_list: list_wire "\<lambda>vs pos h. case js_buildLinkedList vs h of (p, ns, h') \<Rightarrow>
    Inr (p, js_close_cycle (Fin (of_int pos)) ns h')"
proof (unfold_locales, goal_cases)
  case (1 pos vs h)
  obtain p ns h' where b: "js_buildLinkedList vs h = (p, ns, h')" by (cases "js_buildLinkedList vs h")
  from js_close_cycle_rep [OF b, of pos] show ?case using b by auto
qed

section \<open>What a submission does\<close>

text \<open>The function that a name stands for: the submission's own at the top level, or else the method of
  \<open>Solution\<close>.\<close>

inductive js_function_of :: "js_submission \<Rightarrow> jsval \<Rightarrow> js_function \<Rightarrow> bool" for sub name where
  js_top_level: "js_eval sub name = Some fn \<Longrightarrow> js_function_of sub name fn"
| js_method: "js_eval sub name = None \<Longrightarrow> js_solution sub = Some (Inr methods) \<Longrightarrow> methods name = Some fn \<Longrightarrow> js_function_of sub name fn"

text \<open>The call that a test case makes, with its outcome: the function gets the converted values in their order.\<close>

inductive js_calls :: "js_engine \<Rightarrow> js_submission \<Rightarrow> string \<Rightarrow> pydict \<Rightarrow> js_call \<Rightarrow> bool" for R sub f inp where
  js_called: "js_autoConvertInput R True (js_of (VDict inp)) js_empty_heap = Inr (converted, h) \<Longrightarrow>
    js_function_of sub (JStr f) fn \<Longrightarrow> fn (map snd converted) h = Some r \<Longrightarrow> js_calls R sub f inp r"

text \<open>What stands for a value in an answer: for a tree its values in level order without the missing ones at the
  end, for a linked list, cyclic or not, its values, for a graph its adjacency list, and every other value
  for itself.\<close>

inductive js_converts :: "nat \<Rightarrow> js_engine \<Rightarrow> js_heap \<Rightarrow> jsval \<Rightarrow> jsval \<Rightarrow> bool" for n R h where
  converts_tree: "tree_rep (js_trees h) (Some i) t \<Longrightarrow> weight t \<le> n \<Longrightarrow>
    js_converts n R h (JTree i) (JArr (pop_nones JNull (level_order JNull [t])))"
| converts_list: "list_rep (js_chains h) (Some i) vs back \<Longrightarrow> js_converts n R h (JList i) (JArr vs)"
| converts_graph: "js_graphToAdjList R (js_graphs h) (Some i) = Inr rows \<Longrightarrow>
    js_converts n R h (JGraph i) (JArr (map (\<lambda>r. JArr (map js_int r)) rows))"
| converts_plain: "\<forall>i. v \<noteq> JTree i \<and> v \<noteq> JList i \<and> v \<noteq> JGraph i \<Longrightarrow> js_converts n R h v v"

text \<open>The JSON value of a value: what \<open>JSON.stringify\<close> writes for what stands for it; \<open>undefined\<close> and functions
  have none.\<close>

inductive js_shows :: "nat \<Rightarrow> js_engine \<Rightarrow> js_heap \<Rightarrow> jsval \<Rightarrow> pyval \<Rightarrow> bool" for n R h where
  js_shown: "js_converts n R h ob v \<Longrightarrow> js_json k R h [] v = Some (Inr (Some w)) \<Longrightarrow> k + 2 \<le> n \<Longrightarrow> js_shows n R h ob w"

lemma js_resolve_function_of: "js_function_of sub name fn \<Longrightarrow> js_resolveFunction sub name = Inr (Some fn)"
  by (auto simp: js_function_of.simps js_resolveFunction_def)

lemma js_executeFunction_calls:
  assumes "js_calls R sub f inp (Inr result, args, h, printed)"
  shows "js_executeFunction n R True sub (JStr f) (js_of (VDict inp)) =
    map_option (\<lambda>out. (fmap_r (\<lambda>obj. (obj, h)) out, printed)) (js_output n R h result args)"
  using assms by cases (simp add: js_executeFunction_def js_resolve_function_of)

lemma js_converts_output: "js_converts n R h ob v \<Longrightarrow> js_autoConvertOutput n R h ob = Some (Inr v)"
proof (induction rule: js_converts.induct)
  case (converts_plain v)
  then show ?case by (cases v) (auto simp: js_autoConvertOutput_def)
qed (auto simp: js_autoConvertOutput_def js_tree.flatten_level js_linkedListToArray_def dest: read_list_rep)

text \<open>More fuel does not change what is written.\<close>

lemma js_json_Suc:
  "js_json n R h path v = Some x \<Longrightarrow> js_json (Suc n) R h path v = Some x"
  "js_json_list n R h path vs = Some y \<Longrightarrow> js_json_list (Suc n) R h path vs = Some y"
  "js_json_items n R h path d = Some z \<Longrightarrow> js_json_items (Suc n) R h path d = Some z"
proof (induction n R h path v and n R h path vs and n R h path d arbitrary: x and y and z
    rule: js_json_js_json_list_js_json_items.induct)
  case (2 n R h path v)
  then show ?case
    by (cases v) (auto simp: Let_def split: if_splits simp del: js_json_items.simps js_json_list.simps)
qed (auto split: option.splits sum.splits)

lemma js_json_fuel: "k \<le> n \<Longrightarrow> js_json k R h path v = Some x \<Longrightarrow> js_json n R h path v = Some x"
  by (induction n rule: dec_induct) (blast intro: js_json_Suc(1))+

text \<open>The written object of a finished call.\<close>

lemma js_output_shows:
  assumes "res = JUndef \<and> v = VNone \<or> js_shows n R h res v"
    and "res \<noteq> JUndef \<or> args = [] \<or> js_shows n R h (hd args) m" and "3 \<le> n"
  shows "\<exists>obj. js_output n R h res args = Some (Inr obj) \<and>
    js_json_items n R h [] obj = Some (Inr (answer_object (res = JUndef \<and> args \<noteq> []) v m))"
proof -
  obtain k where n: "n = Suc (Suc (Suc k))" using assms(3) by (metis add_2_eq_Suc le_Suc_ex numeral_3_eq_3 plus_nat.simps(2))
  have written: "\<exists>r. js_autoConvertOutput n R h ob = Some (Inr r) \<and> r \<noteq> JUndef \<and>
      js_json (Suc (Suc k)) R h [] r = Some (Inr (Some w)) \<and> js_json (Suc k) R h [] r = Some (Inr (Some w))"
    if "js_shows n R h ob w" for ob w
    using that
  proof cases
    case (js_shown r j)
    have "r \<noteq> JUndef" using js_shown(2) by (cases j) auto
    then show ?thesis
      using js_converts_output [OF js_shown(1)] js_json_fuel [OF _ js_shown(2), of "Suc k"] js_json_fuel [OF _ js_shown(2), of "Suc (Suc k)"]
        js_shown(3) n by auto
  qed
  have undef: "js_autoConvertOutput n R h JUndef = Some (Inr JUndef)" by (simp add: js_autoConvertOutput_def)
  show ?thesis
  proof (cases "res = JUndef")
    case True
    then have v: "v = VNone" using assms(1) written [of JUndef v] undef by auto
    show ?thesis using True v undef n assms(2) written [of "hd args" m]
      by (auto simp: js_output_def answer_object_def)
  next
    case False
    then show ?thesis using assms(1) written [of res v] n by (auto simp: js_output_def answer_object_def)
  qed
qed

lemma js_run_answers:
  assumes "json_ok (VDict inp)" and "strict (VDict inp)" and "js_calls R sub f inp (Inr res, args, h, printed)"
    and "res = JUndef \<and> v = VNone \<or> js_shows n R h res v"
    and "res \<noteq> JUndef \<or> args = [] \<or> js_shows n R h (hd args) m" and "3 \<le> n"
    and "d = answer_object (res = JUndef \<and> args \<noteq> []) v m"
  shows "js_run (n, R, sub) True (named_payload f inp) = Some (Inr (js_text d), js_top_output sub @ printed)"
  using js_run_named [OF assms(1,2)] js_executeFunction_calls [OF assms(3), of n] js_output_shows [OF assms(4-6)] assms(7)
  by (auto simp: js_run_def)

section \<open>Properties\<close>

text \<open>C10. What a JavaScript function returns is what the judge gets: let the payload that the engine sends for a
  test case that JSON can express make the call of the submission's function of that name, or else of the
  method of \<open>Solution\<close>, with the converted input, and let that call return \<open>res\<close> and leave its arguments as
  \<open>args\<close>. If \<open>v\<close> is the JSON value of \<open>res\<close> (\<open>null\<close> for \<open>undefined\<close>), and \<open>m\<close> that of the first argument
  if \<open>res\<close> is \<open>undefined\<close> and there is one, and the answer holds no marker, then the wrapper's process,
  whatever the submission printed, makes \<open>run_wrapper\<close> return \<open>v\<close>, and with it the changed first argument
  \<open>m\<close> exactly when the function returned \<open>undefined\<close> and has one.\<close>

theorem js_answer_reaches_judge:
  assumes "json_ok (VDict test_input)" and "strict (VDict test_input)"
    and "js_calls R sub function_name test_input (Inr res, args, h, printed)"
    and "res = JUndef \<and> v = VNone \<or> js_shows n R h res v"
    and "res \<noteq> JUndef \<or> args = [] \<or> js_shows n R h (hd args) m" and "3 \<le> n"
    and "d = answer_object (res = JUndef \<and> args \<noteq> []) v m" and "text_ok js_float (VDict d)" and "js_unmarked d"
    and "communicate E cmd (named_payload function_name test_input) (Some t) w = (Inr (Finished p), w')"
    and "js_main (n, R, sub) (named_payload function_name test_input) = Some (utf8 E (p_stdout p), p_returncode p)"
    and "int (length (p_stdout p)) \<le> MAX_STDOUT_BYTES E"
  shows "run_wrapper E cmd (named_payload function_name test_input) t w =
    (Inr (if res = JUndef \<and> args \<noteq> [] then InPlaceResult v m else Plain v), w')"
proof -
  have "document (js_text d) d" using js_document assms(8,9) by (simp add: js_unmarked_def)
  then have "answers (js_text d) d" unfolding assms(7) by (rule answer_object_answers)
  then show ?thesis
    using js_harness.answer_judged [OF js_run_answers [OF assms(1-7)] _ assms(10-12)] assms(7) by simp
qed

text \<open>A submission whose function changes the first of its two arguments in place and returns nothing.\<close>

definition js_sort_colors :: js_submission where
  "js_sort_colors = \<lparr>js_top_output = [],
     js_eval = (\<lambda>f. if f = JStr ''sortColors''
       then Some (\<lambda>args h. Some (Inr JUndef, JArr [js_int 0, js_int 2] # tl args, h, ''debug'')) else None),
     js_solution = None\<rparr>"

definition js_test_engine :: js_engine where
  "js_test_engine = \<lparr>syntax_text = (\<lambda>_. []), not_iterable = (\<lambda>_. []), no_property = (\<lambda>_. []), circular_text = [], bigint_text = []\<rparr>"

definition js_colors_input :: pydict where
  "js_colors_input = [(''nums'', VList [VInt 2, VInt 0]), (''up'', VBool True)]"

definition js_colors_run :: "unit env" where
  "js_colors_run = offline\<lparr>communicate := (\<lambda>_ _ _. io_return (Finished
     \<lparr>p_stdout = ''debug'' @ emit_block (js_text [(''result'', VNone), (''mutated'', VList [VInt 0, VInt 2])]), p_stderr = [],
      p_returncode = 0\<rparr>))\<rparr>"

lemma js_colors_calls:
  "js_calls js_test_engine js_sort_colors ''sortColors'' js_colors_input
     (Inr JUndef, [JArr [js_int 0, js_int 2], JBool True], js_empty_heap, ''debug'')"
proof (rule js_called)
  have "\<not> array_index ''nums''" "\<not> array_index ''up''" by code_simp+
  then show "js_autoConvertInput js_test_engine True (js_of (VDict js_colors_input)) js_empty_heap =
      Inr ([(''nums'', JArr [js_int 2, js_int 0]), (''up'', JBool True)], js_empty_heap)"
    by (simp add: js_colors_input_def js_autoConvertInput_def js_entries_def js_order_def js_convert_def starts_with_def
        to_lower_def code_def js_int_def)
  show "js_function_of js_sort_colors (JStr ''sortColors'') (\<lambda>args h. Some (Inr JUndef, JArr [js_int 0, js_int 2] # tl args, h, ''debug''))"
    by (rule js_top_level) (simp add: js_sort_colors_def)
qed simp

lemma js_colors_shows: "js_shows 9 js_test_engine js_empty_heap (JArr [js_int 0, js_int 2]) (VList [VInt 0, VInt 2])"
proof (rule js_shown [OF converts_plain, where k = 5])
  show "js_json 5 js_test_engine js_empty_heap [] (JArr [js_int 0, js_int 2]) = Some (Inr (Some (VList [VInt 0, VInt 2])))"
    using safe_integer_number [of 0] safe_integer_number [of 2] by (simp add: eval_nat_numeral js_int_def)
qed simp_all

theorem js_answer_reaches_judge_witness:
  "run_wrapper js_colors_run [''docker''] (named_payload ''sortColors'' js_colors_input) 10 () =
     (Inr (InPlaceResult VNone (VList [VInt 0, VInt 2])), ())"
proof -
  let ?d = "[(''result'', VNone), (''mutated'', VList [VInt 0, VInt 2])]"
  let ?p = "\<lparr>p_stdout = ''debug'' @ emit_block (js_text ?d), p_stderr = [], p_returncode = 0\<rparr>"
  have ok: "json_ok (VDict js_colors_input)" "strict (VDict js_colors_input)" by (simp_all add: js_colors_input_def)
  have "js_unmarked ?d" by code_simp
  moreover have "int (length (''debug'' @ emit_block (js_text ?d))) \<le> 1000000" by code_simp
  moreover have "js_main (9, js_test_engine, js_sort_colors) (named_payload ''sortColors'' js_colors_input) =
      Some (''debug'' @ emit_block (js_text ?d), 0)"
    using js_run_answers [OF ok js_colors_calls, of VNone 9 "VList [VInt 0, VInt 2]" ?d] js_colors_shows
    by (simp add: js_main_def print_block_def answer_object_def) (simp add: js_sort_colors_def)
  ultimately show ?thesis
    using js_answer_reaches_judge [OF ok js_colors_calls, of VNone 9 "VList [VInt 0, VInt 2]" ?d js_colors_run "[''docker'']" 10 "()" ?p "()"]
      js_colors_shows
    by (simp add: js_colors_run_def offline_def MAX_STDOUT_BYTES_def int_env_def answer_object_def)
qed

text \<open>Integers up to \<open>2^53\<close> in magnitude survive the double-precision numbers of JavaScript: one that
  \<open>JSON.parse\<close> reads from a test case is written by \<open>JSON.stringify\<close> as it was.\<close>

lemma js_safe_integers:
  assumes "\<bar>k\<bar> \<le> 2 ^ 53"
  shows "js_json (Suc n) R h path (js_of (VInt k)) = Some (Inr (Some (VInt k)))"
  using safe_integer_number [OF assms] by simp

lemma js_safe_integers_witness:
  "js_json 1 js_test_engine js_empty_heap [] (js_of (VInt (- 9007199254740992))) = Some (Inr (Some (VInt (- 9007199254740992))))"
  using js_safe_integers [of "- 9007199254740992" 0 js_test_engine js_empty_heap "[]"] by simp

end
