(* ===== verification/TsWrapper.thy ===== *)
theory TsWrapper
  imports JsWrapper
begin

text \<open>
  The TypeScript wrapper (\<open>languages/ts_wrapper.py\<close>): the JavaScript wrapper with type annotations, which
  have no effect at run time, and without the rule that splits a text of several lines into a list. The two
  agree on every test case without such a text.
\<close>

section \<open>The wrapper\<close>

definition ts_buildTree :: "jsval list \<Rightarrow> jsval tree_node list \<Rightarrow> nat option \<times> jsval tree_node list" where
  "ts_buildTree = make_tree JNull"

definition ts_treeToList :: "nat \<Rightarrow> jsval tree_node list \<Rightarrow> nat option \<Rightarrow> jsval list option" where
  "ts_treeToList = read_tree JNull"

interpretation ts_tree: tree_wire JNull ts_buildTree ts_treeToList
  unfolding ts_buildTree_def ts_treeToList_def by (rule tree_wire_make_tree)

definition ts_buildLinkedList ::
  "jsval list \<Rightarrow> jsval list_node list \<Rightarrow> nat option \<times> nat list \<times> jsval list_node list" where
  "ts_buildLinkedList = make_list (JNum (Fin 0))"

definition ts_linkedListToArray :: "jsval list_node list \<Rightarrow> nat option \<Rightarrow> jsval list" where
  "ts_linkedListToArray = read_list"

definition ts_buildGraph :: "js_engine \<Rightarrow> jsval list \<Rightarrow> null_node list \<Rightarrow> js_exn + nat option \<times> null_node list" where
  "ts_buildGraph = js_buildGraph"

definition ts_graphToAdjList :: "js_engine \<Rightarrow> null_node list \<Rightarrow> nat option \<Rightarrow> js_exn + int list list" where
  "ts_graphToAdjList = js_graphToAdjList"

text \<open>One turn of the loop of \<open>autoConvertInput\<close>.\<close>

definition ts_convert :: "js_engine \<Rightarrow> jsval \<Rightarrow> string \<Rightarrow> jsval \<Rightarrow> js_heap \<Rightarrow> js_exn + jsval option \<times> js_heap" where
  "ts_convert R input key value h =
     (let low = map to_lower key in
      case value of
        JArr vs \<Rightarrow>
          if starts_with ''root'' low then
            (case ts_buildTree vs (js_trees h) of (p, ts) \<Rightarrow> Inr (Some (js_of_ref JTree p), h\<lparr>js_trees := ts\<rparr>))
          else if starts_with ''head'' low then
            (case ts_buildLinkedList vs (js_chains h) of (p, nodes, ls) \<Rightarrow>
               Inr (Some (js_of_ref JList p), h\<lparr>js_chains := js_close_cycle (js_pos input) nodes ls\<rparr>))
          else if starts_with ''adj'' low then
            (case ts_buildGraph R vs (js_graphs h) of
               Inl e \<Rightarrow> Inl e
             | Inr (p, gs) \<Rightarrow> Inr (Some (js_of_ref JGraph p), h\<lparr>js_graphs := gs\<rparr>))
          else if key = ''pos'' then Inr (None, h) else Inr (Some value, h)
      | _ \<Rightarrow> if key = ''pos'' then Inr (None, h) else Inr (Some value, h))"

fun ts_convert_items ::
  "js_engine \<Rightarrow> jsval \<Rightarrow> (string \<times> jsval) list \<Rightarrow> js_heap \<Rightarrow> js_exn + (string \<times> jsval) list \<times> js_heap" where
  "ts_convert_items R input [] h = Inr ([], h)"
| "ts_convert_items R input ((key, value) # items) h = (case ts_convert R input key value h of
      Inl e \<Rightarrow> Inl e
    | Inr (ob, h') \<Rightarrow> (case ts_convert_items R input items h' of
          Inl e \<Rightarrow> Inl e
        | Inr (obs, h'') \<Rightarrow>
            Inr ((case ob of None \<Rightarrow> obs | Some x \<Rightarrow> if key = ''__proto__'' then obs else (key, x) # obs), h'')))"

definition ts_autoConvertInput :: "js_engine \<Rightarrow> jsval \<Rightarrow> js_heap \<Rightarrow> js_exn + (string \<times> jsval) list \<times> js_heap" where
  "ts_autoConvertInput R input h = ts_convert_items R input (js_entries input) h"

definition ts_autoConvertOutput :: "nat \<Rightarrow> js_engine \<Rightarrow> js_heap \<Rightarrow> jsval \<Rightarrow> (js_exn + jsval) option" where
  "ts_autoConvertOutput n R h result = (case result of
      JTree i \<Rightarrow> map_option (\<lambda>vs. Inr (JArr vs)) (ts_treeToList n (js_trees h) (Some i))
    | JList i \<Rightarrow> Some (Inr (JArr (ts_linkedListToArray (js_chains h) (Some i))))
    | JGraph i \<Rightarrow> Some (fmap_r (\<lambda>rows. JArr (map (\<lambda>r. JArr (map js_int r)) rows)) (ts_graphToAdjList R (js_graphs h) (Some i)))
    | _ \<Rightarrow> Some (Inr result))"

text \<open>The class is looked up with \<open>eval("Solution")\<close>, which finds what \<open>typeof Solution\<close> sees.\<close>

definition ts_resolveFunction :: "js_submission \<Rightarrow> jsval \<Rightarrow> js_exn + js_function option" where
  "ts_resolveFunction = js_resolveFunction"

definition ts_output :: "nat \<Rightarrow> js_engine \<Rightarrow> js_heap \<Rightarrow> jsval \<Rightarrow> jsval list \<Rightarrow> (js_exn + (string \<times> jsval) list) option" where
  "ts_output n R h result args = (case ts_autoConvertOutput n R h result of
      None \<Rightarrow> None
    | Some (Inl e) \<Rightarrow> Some (Inl e)
    | Some (Inr r) \<Rightarrow>
        if result = JUndef \<and> args \<noteq> [] then
          (case ts_autoConvertOutput n R h (hd args) of
             None \<Rightarrow> None
           | Some (Inl e) \<Rightarrow> Some (Inl e)
           | Some (Inr m) \<Rightarrow> Some (Inr [(''result'', JNull), (''mutated'', m)]))
        else Some (Inr [(''result'', if r = JUndef then JNull else r)]))"

definition ts_executeFunction ::
  "nat \<Rightarrow> js_engine \<Rightarrow> js_submission \<Rightarrow> jsval \<Rightarrow> jsval \<Rightarrow> ((js_exn + (string \<times> jsval) list \<times> js_heap) \<times> string) option" where
  "ts_executeFunction n R sub functionName input =
     (case ts_autoConvertInput R input js_empty_heap of
        Inl e \<Rightarrow> Some (Inl e, [])
      | Inr (convertedInput, h) \<Rightarrow> (case ts_resolveFunction sub functionName of
            Inl e \<Rightarrow> Some (Inl e, [])
          | Inr None \<Rightarrow> Some (Inl (js_not_found functionName), [])
          | Inr (Some fn) \<Rightarrow> (case fn (map snd convertedInput) h of
                None \<Rightarrow> None
              | Some (Inl e, args, h', printed) \<Rightarrow> Some (Inl e, printed)
              | Some (Inr result, args, h', printed) \<Rightarrow>
                  map_option (\<lambda>out. (fmap_r (\<lambda>obj. (obj, h')) out, printed)) (ts_output n R h' result args))))"

definition ts_run_payload :: "nat \<Rightarrow> js_engine \<Rightarrow> js_submission \<Rightarrow> string \<Rightarrow> ((js_exn + pydict) \<times> string) option" where
  "ts_run_payload n R sub rawInput = (case js_parse rawInput of
      None \<Rightarrow> Some (Inl (JsError ''SyntaxError'' (syntax_text R rawInput)), [])
    | Some payload \<Rightarrow>
        if payload = JNull then Some (Inl (type_error (no_property R ''function_name'')), [])
        else (case ts_executeFunction n R sub (js_get payload ''function_name'') (js_get payload ''input'') of
            None \<Rightarrow> None
          | Some (Inl e, printed) \<Rightarrow> Some (Inl e, printed)
          | Some (Inr (obj, h), printed) \<Rightarrow> map_option (\<lambda>r. (r, printed)) (js_json_items n R h [] obj)))"

definition ts_main :: "nat \<times> js_engine \<times> js_submission \<Rightarrow> string \<Rightarrow> (string \<times> int) option" where
  "ts_main = (\<lambda>(n, R, sub) rawInput. print_block (map_option (\<lambda>(r, printed).
     (case r of Inr d \<Rightarrow> Inr (js_text d) | Inl e \<Rightarrow> Inl (js_text [(''error'', VStr (js_message e))]),
      js_top_output sub @ printed)) (ts_run_payload n R sub rawInput)))"

section \<open>Agreement with JavaScript\<close>

lemma ts_convert_js: "ts_convert R input key v h = js_convert R False input key v h"
  by (cases v)
    (simp_all add: ts_convert_def js_convert_def ts_buildTree_def js_buildTree_def ts_buildLinkedList_def
      js_buildLinkedList_def ts_buildGraph_def Let_def)

lemma ts_convert_items_js: "ts_convert_items R input items h = js_convert_items R False input items h"
  by (induction items arbitrary: h) (auto simp: ts_convert_js split: sum.splits prod.splits)

lemma ts_autoConvertOutput_js: "ts_autoConvertOutput n R h v = js_autoConvertOutput n R h v"
  by (cases v) (simp_all add: ts_autoConvertOutput_def js_autoConvertOutput_def ts_treeToList_def js_treeToList_def
      ts_linkedListToArray_def js_linkedListToArray_def ts_graphToAdjList_def)

lemma ts_output_js: "ts_output n R h result args = js_output n R h result args"
  unfolding ts_output_def js_output_def ts_autoConvertOutput_js ..

lemma ts_executeFunction_js: "ts_executeFunction n R sub f inp = js_executeFunction n R False sub f inp"
  unfolding ts_executeFunction_def js_executeFunction_def ts_autoConvertInput_def js_autoConvertInput_def
    ts_convert_items_js ts_resolveFunction_def ts_output_js ..

lemma ts_main_js: "ts_main prog rawInput = print_block (js_run prog False rawInput)"
proof -
  have "ts_run_payload n R sub rawInput = js_run_payload n R False sub rawInput" for n R sub
    unfolding ts_run_payload_def js_run_payload_def ts_executeFunction_js ..
  then show ?thesis by (cases prog) (simp add: ts_main_def js_run_def)
qed

interpretation ts_harness: harness "\<lambda>prog. js_run prog False" ts_main
  by (rule harness_print_block) (rule ts_main_js)

text \<open>Values of the top level that are no texts of several lines.\<close>

definition single_lines :: "(string \<times> jsval) list \<Rightarrow> bool" where
  "single_lines items \<longleftrightarrow> (\<forall>(k, v) \<in> set items. case v of JStr s \<Rightarrow> newline \<notin> set s | _ \<Rightarrow> True)"

lemma js_convert_single:
  "(case v of JStr s \<Rightarrow> newline \<notin> set s | _ \<Rightarrow> True) \<Longrightarrow> js_convert R True input k v h = js_convert R False input k v h"
  by (cases v) (simp_all add: js_convert_def)

lemma js_convert_items_single:
  "single_lines items \<Longrightarrow> js_convert_items R True input items h = js_convert_items R False input items h"
proof (induction items arbitrary: h)
  case (Cons p items)
  then show ?case
    by (cases p) (auto simp: single_lines_def js_convert_single split: sum.splits prod.splits)
qed simp

section \<open>Properties\<close>

text \<open>C11. The two wrappers are interchangeable where no text has several lines: on every test case none of
  whose values is such a text, the TypeScript wrapper prints what the JavaScript wrapper prints and exits
  with the same code, whatever the submission.\<close>

theorem ts_agrees_with_js:
  assumes "json_ok (VDict test_input)" and "strict (VDict test_input)" and "single_lines (js_entries (js_of (VDict test_input)))"
  shows "ts_main prog (named_payload function_name test_input) = js_main prog (named_payload function_name test_input)"
proof -
  have "js_executeFunction n R True sub f (js_of (VDict test_input)) = js_executeFunction n R False sub f (js_of (VDict test_input))"
    for n R sub f
    unfolding js_executeFunction_def js_autoConvertInput_def js_convert_items_single [OF assms(3)] ..
  then show ?thesis
    by (cases prog) (simp add: ts_main_js js_main_def js_run_def js_run_named [OF assms(1,2)] del: js_of.simps)
qed

theorem ts_agrees_with_js_witness:
  "ts_main (9, js_test_engine, js_sort_colors) (named_payload ''f'' [(''nums'', VList [VInt 2]), (''s'', VStr ''ab'')]) =
   js_main (9, js_test_engine, js_sort_colors) (named_payload ''f'' [(''nums'', VList [VInt 2]), (''s'', VStr ''ab'')])"
proof (rule ts_agrees_with_js)
  show "single_lines (js_entries (js_of (VDict [(''nums'', VList [VInt 2]), (''s'', VStr ''ab'')])))" by code_simp
qed simp_all

text \<open>Where a text has several lines they do differ: JavaScript passes a list of operations, TypeScript the text.\<close>

lemma ts_differs_from_js:
  "js_autoConvertInput R True (JObj [(''ops'', JStr [CHR ''2'', newline, CHR ''a'', newline, CHR ''b''])]) h =
     Inr ([(''ops'', JArr [JStr ''a'', JStr ''b''])], h)"
  "ts_autoConvertInput R (JObj [(''ops'', JStr [CHR ''2'', newline, CHR ''a'', newline, CHR ''b''])]) h =
     Inr ([(''ops'', JStr [CHR ''2'', newline, CHR ''a'', newline, CHR ''b''])], h)"
proof -
  have "js_operation_lines [CHR ''2'', newline, CHR ''a'', newline, CHR ''b''] = [''a'', ''b'']" by code_simp
  then show "js_autoConvertInput R True (JObj [(''ops'', JStr [CHR ''2'', newline, CHR ''a'', newline, CHR ''b''])]) h =
     Inr ([(''ops'', JArr [JStr ''a'', JStr ''b''])], h)"
    by (simp add: js_autoConvertInput_def js_entries_def js_convert_def)
  show "ts_autoConvertInput R (JObj [(''ops'', JStr [CHR ''2'', newline, CHR ''a'', newline, CHR ''b''])]) h =
     Inr ([(''ops'', JStr [CHR ''2'', newline, CHR ''a'', newline, CHR ''b''])], h)"
    by (simp add: ts_autoConvertInput_def js_entries_def ts_convert_def)
qed

end
