(* ===== verification/JsonLine.thy ===== *)
theory JsonLine
  imports JsonText
begin

text \<open>
  JSON documents are single lines: the text of a document has no control character, so that wrappers which
  read their input line by line see all of it.
\<close>

section \<open>Visible characters\<close>

definition visible :: "char \<Rightarrow> bool" where
  "visible c \<longleftrightarrow> 32 \<le> code c"

lemma digits_visible: "list_all visible (takeWhile is_digit s)"
  by (induction s) (auto simp: visible_def is_digit_def)

lemma parse_int_part_visible: "parse_int_part s = Some (ip, r) \<Longrightarrow> \<exists>u. s = u @ r \<and> list_all visible u"
  using digits_visible [of s] takeWhile_dropWhile_id [of is_digit s]
  by (cases s) (auto simp: parse_int_part_def visible_def code_def split: if_splits intro!: exI [of _ ip])

lemma parse_frac_visible:
  assumes "parse_frac s = (fp, r)"
  shows "\<exists>u. s = u @ r \<and> list_all visible u"
proof (cases "r = s")
  case False
  with assms obtain d t where "s = CHR ''.'' # d # t" "r = dropWhile is_digit (d # t)"
    by (auto simp: parse_frac_def split: list.splits if_splits)
  then have "s = (CHR ''.'' # takeWhile is_digit (d # t)) @ r" using takeWhile_dropWhile_id [of is_digit "d # t"] by simp
  moreover have "list_all visible (CHR ''.'' # takeWhile is_digit (d # t))"
    using digits_visible [of "d # t"] by (simp add: visible_def code_def)
  ultimately show ?thesis by blast
qed (auto intro: exI [of _ "[]"])

lemma strip_sign_visible: "strip_sign s = (b, r) \<Longrightarrow> \<exists>u. s = u @ r \<and> list_all visible u"
  by (cases s) (auto simp: strip_sign_def visible_def code_def split: if_splits)

lemma parse_exp_visible:
  assumes "parse_exp s = (ex, r)"
  shows "\<exists>u. s = u @ r \<and> list_all visible u"
proof (cases "r = s")
  case False
  with assms obtain e t b ds where s: "s = e # t" "e = CHR ''e'' \<or> e = CHR ''E''" "strip_sign t = (b, ds)" "r = dropWhile is_digit ds"
    by (auto simp: parse_exp_def split: list.splits if_splits prod.splits)
  obtain u where u: "t = u @ ds" "list_all visible u" using strip_sign_visible [OF s(3)] by blast
  have "s = (e # u @ takeWhile is_digit ds) @ r" using s(1,4) u(1) takeWhile_dropWhile_id [of is_digit ds] by simp
  moreover have "list_all visible (e # u @ takeWhile is_digit ds)"
    using s(2) u(2) digits_visible [of ds] by (auto simp: visible_def code_def)
  ultimately show ?thesis by blast
qed (auto intro: exI [of _ "[]"])

lemma parse_number_visible:
  assumes "parse_number s = Some (v, [])"
  shows "list_all visible s"
proof -
  define s1 where "s1 = (if starts_with ''-'' s then tl s else s)"
  obtain ip s2 fp s3 ex where p: "parse_int_part s1 = Some (ip, s2)" "parse_frac s2 = (fp, s3)" "parse_exp s3 = (ex, [])"
    using assms by (auto simp: parse_number_def Let_def s1_def split: option.splits prod.splits)
  from parse_int_part_visible [OF p(1)] parse_frac_visible [OF p(2)] parse_exp_visible [OF p(3)]
  have "list_all visible s1" by auto
  then show ?thesis
    by (cases s) (auto simp: s1_def visible_def code_def split: if_splits)
qed

lemma join_visible: "list_all visible sep \<Longrightarrow> list_all (list_all visible) ss \<Longrightarrow> list_all visible (join sep ss)"
  by (induction sep ss rule: join.induct) auto

lemma visible_chars [simp]: "list_all visible ''[]{},: nultrefas''" "visible dquote"
  by (simp_all add: visible_def code_def)

context json_printer
begin

lemma gap_visible: "list_all visible gap"
  using gap visible_chars by auto

lemma quote_visible: "(\<And>c. list_all visible (esc c)) \<Longrightarrow> list_all visible (quote_str esc s)"
  by (induction s) (auto simp: quote_str_def)

text \<open>A printer whose escapes have no control characters writes its documents on one line.\<close>

lemma text_visible:
  assumes esc: "\<And>c. list_all visible (esc c)"
  shows "text_ok num v \<Longrightarrow> list_all visible (text_of esc num gap v)"
    "\<forall>x \<in> set xs. text_ok num x \<Longrightarrow> list_all (list_all visible) (text_list esc num gap xs)"
    "\<forall>p \<in> set d. text_ok num (snd p) \<Longrightarrow> list_all (list_all visible) (text_items esc num gap d)"
proof (induction v and xs and d rule: dumps_dumps_list_dumps_items.induct)
  case (3 i)
  show ?case using parse_number_visible [OF parse_number_int_str [of i]] by simp
next
  case (4 x)
  then show ?case using parse_number_visible [of "num x" "VFloat x"] by simp
next
  case (6 xs)
  then show ?case using gap_visible visible_chars join_visible [of "'','' @ gap" "text_list esc num gap xs"] by simp
next
  case (7 d)
  then show ?case using gap_visible visible_chars join_visible [of "'','' @ gap" "text_items esc num gap d"] by simp
next
  case (11 k v d)
  then show ?case using gap_visible visible_chars quote_visible [OF esc, of k] by simp
qed (use visible_chars quote_visible [OF esc] in simp_all)

end

lemma dump_char_visible: "list_all visible (dump_char c)"
proof -
  have "visible (hex_digit n)" if "n < 16" for n
    using that hex_val_hex_digit [OF that] by (auto simp: hex_val_def visible_def Let_def split: if_splits)
  moreover have "code c div 16 < 16" using code_less [of c] by auto
  ultimately show ?thesis by (simp add: dump_char_def hex2_def) (simp add: visible_def code_def)
qed

lemma dumps_single_line:
  assumes "json_ok v" and "code c < 32"
  shows "c \<notin> set (dumps v)"
proof -
  have "list_all visible (dumps v)"
    using py_json.text_visible(1) [OF dump_char_visible] assms(1) by (simp add: dumps_text json_ok_text)
  then show ?thesis using assms(2) by (auto simp: list_all_iff visible_def)
qed

end
