(* ===== verification/Managed.thy ===== *)
theory Managed
  imports NullGraph TreeWire ListWire Harness JsonLine ExecutorBase "HOL-Library.Word"
begin

text \<open>
  What the wrappers of Java, Kotlin and C# share (\<open>languages/java_wrapper.py\<close>,
  \<open>languages/kotlin_wrapper.py\<close>, \<open>languages/csharp_wrapper.py\<close>): objects with 32-bit values, submissions
  as classes with typed methods that are found and called by reflection, and a JSON library. The library
  (Jackson, \<open>System.Text.Json\<close>), the runtime's own exceptions and the submission are parameters.
\<close>

section \<open>Objects\<close>

type_synonym int32 = "32 word"
type_synonym int64 = "64 word"

text \<open>The objects of a process, and the static fields of the submission, which outlive a test case. A
  tree node holds \<open>Some v\<close>; \<open>None\<close> is the \<open>null\<close> among the values of a tree.\<close>

record node_heap =
  mh_trees :: "int32 option tree_node list"
  mh_chains :: "int32 list_node list"
  mh_graphs :: "null_node list"
  mh_static :: pyval

definition fresh_heap :: "pyval \<Rightarrow> node_heap" where
  "fresh_heap v = \<lparr>mh_trees = [], mh_chains = [], mh_graphs = [], mh_static = v\<rparr>"

text \<open>A value of the program. \<^term>\<open>ObData c v\<close> is an object of another class \<open>c\<close>, which the JSON library
  writes as \<open>v\<close>.\<close>

datatype vmobj =
    ObNull
  | ObBool bool
  | ObInt int32
  | ObLong int64
  | ObDouble pyfloat
  | ObChar char
  | ObStr string
  | ObChars string
  | ObArray "vmobj list"
  | ObCollection "vmobj list"
  | ObTree nat
  | ObList nat
  | ObGraph nat
  | ObData string pyval

text \<open>The type of a parameter; a list and any other type carry the full generic type.\<close>

datatype vmtype =
    TInt | TLong | TDouble | TBoolean | TChar | TString
  | TList string
  | TChars | TCharGrid
  | TTree | TListNode | TGraph
  | TOther string

text \<open>An exception: the simple name of its class, its message, whether it is an \<open>Exception\<close> (and no \<open>Error\<close>).\<close>

record throwable =
  th_name :: string
  th_message :: "string option"
  th_exception :: bool

definition exception :: "string \<Rightarrow> throwable" where
  "exception m = \<lparr>th_name = ''Exception'', th_message = Some m, th_exception = True\<rparr>"

section \<open>Submissions\<close>

text \<open>The outcome of a call by reflection: it returned, it threw, or the arguments were rejected. A call also
  leaves the arguments, the heap and what was printed; \<open>None\<close> is a call that does not return.\<close>

datatype invocation = Returned vmobj | Threw throwable | Rejected throwable

record vm_method =
  m_name :: string
  m_params :: "vmtype list"
  m_void :: bool
  m_static :: bool
  m_invoke :: "vmobj list \<Rightarrow> node_heap \<Rightarrow> (invocation \<times> vmobj list \<times> node_heap \<times> string) option"

text \<open>A class: the exception that loading it raises or its methods in the order of reflection, and the
  creation of an instance, with the exception it raises.\<close>

record vm_class =
  c_methods :: "throwable + vm_method list"
  c_new :: "node_heap \<Rightarrow> throwable option \<times> node_heap \<times> string"

section \<open>The JSON library and the runtime\<close>

record vm_runtime =
  lib_read :: "string \<Rightarrow> throwable + pydict"
  lib_convert :: "string \<Rightarrow> pyval \<Rightarrow> throwable + vmobj"
  lib_write :: "(string \<times> vmobj) list \<Rightarrow> throwable + string"
  cast_error :: "string \<Rightarrow> pyval \<Rightarrow> throwable"
  null_error :: "string \<Rightarrow> throwable"
  index_error :: "int \<Rightarrow> nat \<Rightarrow> throwable"
  key_error :: "string \<Rightarrow> throwable"
  graph_error :: throwable
  target_error :: "throwable \<Rightarrow> throwable"
  double_text :: "pyfloat \<Rightarrow> string"

text \<open>What a value is in JSON, where every library agrees: numbers, texts, booleans, \<open>null\<close>, lists and
  the objects that it writes itself.\<close>

fun vm_json :: "vmobj \<Rightarrow> pyval option"
  and vm_json_list :: "vmobj list \<Rightarrow> pyval list option" where
  "vm_json ObNull = Some VNone"
| "vm_json (ObBool b) = Some (VBool b)"
| "vm_json (ObInt w) = Some (VInt (sint w))"
| "vm_json (ObLong w) = Some (VInt (sint w))"
| "vm_json (ObDouble x) = (if fval x = None then None else Some (VFloat x))"
| "vm_json (ObStr s) = Some (VStr s)"
| "vm_json (ObArray obs) = map_option VList (vm_json_list obs)"
| "vm_json (ObCollection obs) = map_option VList (vm_json_list obs)"
| "vm_json (ObData c v) = Some v"
| "vm_json _ = None"
| "vm_json_list [] = Some []"
| "vm_json_list (ob # obs) = (case vm_json ob of None \<Rightarrow> None | Some v \<Rightarrow> map_option (Cons v) (vm_json_list obs))"

fun vm_items :: "(string \<times> vmobj) list \<Rightarrow> pydict option" where
  "vm_items [] = Some []"
| "vm_items ((k, ob) # obs) = (case vm_json ob of None \<Rightarrow> None | Some v \<Rightarrow> map_option (Cons (k, v)) (vm_items obs))"

text \<open>The documented behaviour that the wrappers rely on: the library reads the JSON objects that Python
  writes, and writes a map as a JSON object with its entries, in whatever order.\<close>

definition reads_json :: "vm_runtime \<Rightarrow> bool" where
  "reads_json R \<longleftrightarrow> (\<forall>d. json_ok (VDict d) \<longrightarrow> lib_read R (dumps (VDict d)) = Inr d)"

definition object_text :: "string \<Rightarrow> pydict \<Rightarrow> bool" where
  "object_text t d \<longleftrightarrow> starts_with ''{'' t \<and> ends_with ''}'' t \<and> (\<exists>d'. load_object t = Some d' \<and> dget d' = dget d)"

definition writes_json :: "vm_runtime \<Rightarrow> bool" where
  "writes_json R \<longleftrightarrow> (\<forall>out d. vm_items out = Some d \<and> json_ok (VDict d) \<longrightarrow> (\<exists>t. lib_write R out = Inr t \<and> object_text t d))"

definition no_marker :: "string \<Rightarrow> bool" where
  "no_marker t \<longleftrightarrow> find_sub RESULT_START t = None \<and> find_sub RESULT_END t = None"

lemma object_document:
  "object_text t d \<Longrightarrow> no_marker t \<Longrightarrow> \<exists>d'. document t d' \<and> dget d' = dget d"
  by (auto simp: object_text_def document_def no_marker_def)

lemma writes_jsonD: "writes_json R \<Longrightarrow> vm_items out = Some d \<Longrightarrow> json_ok (VDict d) \<Longrightarrow> lib_write R out = Inr t \<Longrightarrow> object_text t d"
  unfolding writes_json_def by (metis sum.inject(2))

text \<open>A library with this behaviour: the one that writes like Python.\<close>

definition plain_library :: "vm_runtime \<Rightarrow> vm_runtime" where
  "plain_library R = R\<lparr>
     lib_read := (\<lambda>s. case load_object s of None \<Rightarrow> Inl (exception ''parse error'') | Some d \<Rightarrow> Inr d),
     lib_write := (\<lambda>out. case vm_items out of None \<Rightarrow> Inl (exception ''no serializer'') | Some d \<Rightarrow> Inr (dumps (VDict d)))\<rparr>"

lemma plain_library_reads: "reads_json (plain_library R)"
  using loads_dumps by (auto simp: reads_json_def plain_library_def load_object_def simp del: dumps.simps json_ok.simps)

lemma plain_library_writes: "writes_json (plain_library R)"
proof -
  have "object_text (dumps (VDict d)) d" if "json_ok (VDict d)" for d
    using loads_dumps [OF that] by (simp add: object_text_def load_object_def ends_with_def)
  then show ?thesis by (auto simp: writes_json_def plain_library_def simp del: dumps.simps)
qed

lemma vm_items_keys: "vm_items out = Some d \<Longrightarrow> map fst d = map fst out"
  by (induction out arbitrary: d rule: vm_items.induct) (auto split: option.splits)

text \<open>The Java and Kotlin wrappers read their input line by line and join the lines without their ends.\<close>

definition join_lines :: "string \<Rightarrow> string" where
  "join_lines s = filter (\<lambda>c. c \<noteq> newline \<and> c \<noteq> CHR 0x0D) s"

lemma join_lines_dumps: "json_ok v \<Longrightarrow> join_lines (dumps v) = dumps v"
proof -
  assume "json_ok v"
  then have "newline \<notin> set (dumps v)" "CHR 0x0D \<notin> set (dumps v)" by (simp_all add: dumps_single_line code_def)
  then show ?thesis by (auto simp: join_lines_def filter_id_conv)
qed

lemma lib_read_lines: "reads_json R \<Longrightarrow> json_ok (VDict d) \<Longrightarrow> lib_read R (join_lines (dumps (VDict d))) = Inr d"
  unfolding reads_json_def using join_lines_dumps [of "VDict d"] by simp

section \<open>Numbers\<close>

text \<open>The conversions of a floating-point number to an integer truncate and saturate.\<close>

definition truncate_float :: "int \<Rightarrow> pyfloat \<Rightarrow> int" where
  "truncate_float bound x = (case fval x of
      Some q \<Rightarrow> max (- bound) (min (bound - 1) (if q < 0 then \<lceil>q\<rceil> else \<lfloor>q\<rfloor>))
    | None \<Rightarrow> if x = PosInf then bound - 1 else if x = NegInf then - bound else 0)"

text \<open>\<open>((Number) value).intValue()\<close>, \<open>longValue()\<close> and \<open>doubleValue()\<close>; integers of any size lose their high bits.\<close>

definition int_value :: "vm_runtime \<Rightarrow> pyval \<Rightarrow> throwable + int32" where
  "int_value R v = (case v of
      VInt n \<Rightarrow> Inr (word_of_int n)
    | VFloat x \<Rightarrow> Inr (word_of_int (truncate_float (2 ^ 31) x))
    | _ \<Rightarrow> Inl (cast_error R ''Number'' v))"

definition long_value :: "vm_runtime \<Rightarrow> pyval \<Rightarrow> throwable + int64" where
  "long_value R v = (case v of
      VInt n \<Rightarrow> Inr (word_of_int n)
    | VFloat x \<Rightarrow> Inr (word_of_int (truncate_float (2 ^ 63) x))
    | _ \<Rightarrow> Inl (cast_error R ''Number'' v))"

definition double_value :: "vm_runtime \<Rightarrow> pyval \<Rightarrow> throwable + pyfloat" where
  "double_value R v = (case v of
      VInt n \<Rightarrow> Inr (rnd (of_int n))
    | VFloat x \<Rightarrow> Inr x
    | _ \<Rightarrow> Inl (cast_error R ''Number'' v))"

definition in_int32 :: "int \<Rightarrow> bool" where
  "in_int32 n \<longleftrightarrow> - (2 ^ 31) \<le> n \<and> n < 2 ^ 31"

text \<open>An element of a \<open>List<Integer>\<close>: integers out of range are read as objects of other classes.\<close>

definition boxed_int :: "vm_runtime \<Rightarrow> pyval \<Rightarrow> throwable + int32 option" where
  "boxed_int R v = (case v of
      VNone \<Rightarrow> Inr None
    | VInt n \<Rightarrow> if in_int32 n then Inr (Some (word_of_int n)) else Inl (cast_error R ''Integer'' v)
    | _ \<Rightarrow> Inl (cast_error R ''Integer'' v))"

definition unboxed_int :: "vm_runtime \<Rightarrow> pyval \<Rightarrow> throwable + int32" where
  "unboxed_int R v = (case boxed_int R v of
      Inl e \<Rightarrow> Inl e | Inr None \<Rightarrow> Inl (null_error R ''intValue'') | Inr (Some w) \<Rightarrow> Inr w)"

lemma sint_of_int32: "in_int32 n \<Longrightarrow> sint (word_of_int n :: int32) = n"
  by (simp add: in_int32_def sint_sbintrunc' signed_take_bit_int_eq_self)

section \<open>Lists\<close>

text \<open>\<open>if (pos != -1 && pos < nodes.size()) curr.next = nodes.get(pos)\<close>: a negative \<open>pos\<close> other than \<open>-1\<close> raises.\<close>

definition vm_list ::
  "vm_runtime \<Rightarrow> int32 list \<Rightarrow> int \<Rightarrow> int32 list_node list \<Rightarrow> throwable + nat option \<times> int32 list_node list" where
  "vm_list R values pos h = (case make_list 0 values h of (p, nodes, h') \<Rightarrow>
     if nodes \<noteq> [] \<and> pos \<noteq> - 1 \<and> pos < int (length nodes) then
       (if pos < 0 then Inl (index_error R pos (length nodes)) else Inr (p, tie nodes (nat pos) h'))
     else Inr (p, h'))"

lemma vm_list_rep:
  assumes "- 1 \<le> pos"
  shows "\<exists>p h'. vm_list R vs pos h = Inr (p, h') \<and> list_rep h' p vs (cycle_target pos (length vs))"
proof -
  obtain p ns h' where m: "make_list 0 vs h = (p, ns, h')" by (cases "make_list 0 vs h")
  have "length ns = length vs" by (rule make_list_length [OF m])
  then show ?thesis
    using assms m make_list_rep [OF m] make_list_tie [OF m, of "nat pos"] by (auto simp: vm_list_def cycle_target_def)
qed

interpretation vm_lists: list_wire "vm_list R"
  by unfold_locales (rule vm_list_rep)

section \<open>Graphs\<close>

text \<open>The nodes of a graph; a neighbour that is no node is \<open>null\<close>.\<close>

definition open_graph :: "int32 option list list \<Rightarrow> null_node list \<Rightarrow> nat option \<times> null_node list" where
  "open_graph adj h =
     (if adj = [] then (None, h)
      else (Some (length h), h @ new_nodes (map (\<lambda>x. case x of None \<Rightarrow> None | Some w \<Rightarrow> look_up (length h) (length adj) (sint w))) adj))"

text \<open>The variant that raises for such a neighbour.\<close>

definition closed_graph ::
  "(int32 \<Rightarrow> throwable) \<Rightarrow> int32 list list \<Rightarrow> null_node list \<Rightarrow> throwable + nat option \<times> null_node list" where
  "closed_graph err adj h =
     (case List.find (\<lambda>w. look_up 0 (length adj) (sint w) = None) (concat adj) of
        Some w \<Rightarrow> Inl (err w)
      | None \<Rightarrow> Inr (open_graph (map (map Some) adj) h))"

definition vm_adjlist :: "vm_runtime \<Rightarrow> null_node list \<Rightarrow> nat option \<Rightarrow> throwable + int list list" where
  "vm_adjlist R h node = (case null_adjlist h node of None \<Rightarrow> Inl (graph_error R) | Some rows \<Rightarrow> Inr rows)"

definition as_int32 :: "int list list \<Rightarrow> int32 list list" where
  "as_int32 adj = map (map word_of_int) adj"

lemma open_graph_new_nodes:
  assumes "adj_ok adj" and "adj \<noteq> []" and "length adj < 2 ^ 31"
  shows "open_graph (map (map Some) (as_int32 adj)) h =
    (Some (length h), h @ new_nodes (map (look_up (length h) (length adj))) adj)"
proof -
  have "look_up b (length adj) (sint (word_of_int k :: int32)) = look_up b (length adj) k"
    if "i < length adj" "k \<in> set (adj ! i)" for i k b
    using adj_okD [OF assms(1) that] assms(3) sint_of_int32 [of k] by (simp add: in_int32_def)
  then show ?thesis using assms(2) by (auto simp: open_graph_def as_int32_def new_nodes_def)
qed

lemma closed_graph_open:
  assumes "adj_ok adj" and "length adj < 2 ^ 31"
  shows "closed_graph err (as_int32 adj) h = Inr (open_graph (map (map Some) (as_int32 adj)) h)"
proof -
  have "look_up 0 (length adj) (sint (word_of_int k :: int32)) \<noteq> None" if "r \<in> set adj" "k \<in> set r" for r k
  proof -
    have k: "1 \<le> k" "k \<le> int (length adj)" using assms(1) that by (auto simp: adj_ok_def)
    then have "in_int32 k" using assms(2) by (simp add: in_int32_def)
    then show ?thesis using k by (simp add: sint_of_int32 look_up_def)
  qed
  then have "List.find (\<lambda>w. look_up 0 (length adj) (sint w) = None) (concat (as_int32 adj)) = None"
    by (auto simp: find_None_iff as_int32_def)
  then show ?thesis by (simp add: closed_graph_def as_int32_def)
qed

lemma open_graph_wire:
  "graph_wire (\<lambda>adj h. Inr (open_graph (map (map Some) (as_int32 adj)) h)) (vm_adjlist R) (\<lambda>n. n < 2 ^ 31)"
proof
  fix adj h
  assume "adj_ok adj" "adj \<noteq> []" "connected adj" "length adj < 2 ^ 31"
  then show "\<exists>p h'. Inr (open_graph (map (map Some) (as_int32 adj)) h) = Inr (p, h') \<and> vm_adjlist R h' p = Inr adj"
    using open_graph_new_nodes [of adj h] null_graph_roundtrip [of adj h] by (simp add: vm_adjlist_def)
qed (simp_all add: open_graph_def as_int32_def vm_adjlist_def null_adjlist_def)

lemma closed_graph_wire:
  "graph_wire (\<lambda>adj. closed_graph err (as_int32 adj)) (vm_adjlist R) (\<lambda>n. n < 2 ^ 31)"
proof
  fix adj h
  assume adj: "adj_ok adj" "adj \<noteq> []" "connected adj" "length adj < 2 ^ 31"
  then show "\<exists>p h'. closed_graph err (as_int32 adj) h = Inr (p, h') \<and> vm_adjlist R h' p = Inr adj"
    using open_graph_new_nodes [of adj h] null_graph_roundtrip [of adj h] closed_graph_open [OF adj(1,4), of err h]
    by (simp add: vm_adjlist_def)
qed (simp_all add: closed_graph_def open_graph_def as_int32_def vm_adjlist_def null_adjlist_def)

section \<open>Values of an answer\<close>

definition ob_ref :: "(nat \<Rightarrow> vmobj) \<Rightarrow> nat option \<Rightarrow> vmobj" where
  "ob_ref mk p = (case p of None \<Rightarrow> ObNull | Some i \<Rightarrow> mk i)"

definition ob_tree_list :: "int32 option list \<Rightarrow> vmobj" where
  "ob_tree_list vs = ObCollection (map (\<lambda>x. case x of None \<Rightarrow> ObNull | Some w \<Rightarrow> ObInt w) vs)"

definition ob_rows :: "int list list \<Rightarrow> vmobj" where
  "ob_rows rows = ObCollection (map (\<lambda>r. ObCollection (map (\<lambda>k. ObInt (word_of_int k)) r)) rows)"

text \<open>\<open>toString()\<close> of a value that was read from JSON.\<close>

fun vm_string :: "vm_runtime \<Rightarrow> pyval \<Rightarrow> string" where
  "vm_string R VNone = ''null''"
| "vm_string R (VBool b) = (if b then ''true'' else ''false'')"
| "vm_string R (VInt n) = int_str n"
| "vm_string R (VFloat x) = double_text R x"
| "vm_string R (VStr s) = s"
| "vm_string R (VList vs) = ''['' @ join '', '' (map (vm_string R) vs) @ '']''"
| "vm_string R (VDict d) = ''{'' @ join '', '' (map (\<lambda>(k, v). k @ ''='' @ vm_string R v) d) @ ''}''"

text \<open>\<open>toChar\<close>: a number is a code, any other value gives the first character of its text.\<close>

definition first_char :: "string \<Rightarrow> char" where
  "first_char s = (case s of [] \<Rightarrow> CHR 0x00 | c # _ \<Rightarrow> c)"

definition code_char :: "int32 \<Rightarrow> char" where
  "code_char w = char_of (unat w mod 65536)"

text \<open>\<open>describe\<close>: the class and the message.\<close>

definition describe :: "throwable \<Rightarrow> string" where
  "describe t = (case th_message t of None \<Rightarrow> th_name t | Some m \<Rightarrow> th_name t @ '': '' @ m)"

section \<open>What the judge reads\<close>

lemma result_value_dget: "dget d = dget e \<Longrightarrow> result_value d = result_value e"
  by (simp add: result_value_def)

lemma dhas_dget: "dget d = dget e \<Longrightarrow> dhas k d = dhas k e"
  by (simp add: dhas_def)

lemma lib_write_answers:
  assumes "writes_json R" and "vm_items out = Some d" and "json_ok (VDict d)"
    and "fst ` set out \<subseteq> {''result'', ''mutated''}" and "out \<noteq> []"
    and "lib_write R out = Inr t" and "no_marker t"
  shows "\<exists>d'. answers t d' \<and> result_value d' = result_value d"
proof -
  have "object_text t d" by (rule writes_jsonD [OF assms(1,2,3,6)])
  from object_document [OF this assms(7)] obtain d' where d': "document t d'" "dget d' = dget d" by blast
  have keys: "map fst d = map fst out" by (rule vm_items_keys [OF assms(2)])
  then have "fst ` set d \<subseteq> {''result'', ''mutated''}" "d \<noteq> []" using assms(4,5) by (metis set_map, auto)
  then have "\<not> dhas ''error'' d \<and> (dhas ''result'' d \<or> dhas ''mutated'' d)" by (rule answer_keys)
  then show ?thesis using d' result_value_dget [OF d'(2)] by (auto simp: answers_def dhas_dget [OF d'(2)])
qed

lemma lib_write_reports:
  assumes "writes_json R" and "vm_items out = Some d" and "json_ok (VDict d)" and "dget d ''error'' = Some (VStr m)"
    and "m \<noteq> []" and "lib_write R out = Inr t" and "no_marker t"
  shows "\<exists>d'. document t d' \<and> dget d' = dget d \<and> reports t m"
proof -
  have "object_text t d" by (rule writes_jsonD [OF assms(1-3,6)])
  from object_document [OF this assms(7)] obtain d' where "document t d'" "dget d' = dget d" by blast
  then show ?thesis using assms(4,5) unfolding reports_def by metis
qed

section \<open>A process with one test case\<close>

text \<open>The outcome of a call as a block, \<open>Inl\<close> for a failure: a failure to write the answer is one too, and
  \<open>None\<close> means that not even the failure can be written. \<open>err\<close> is the map that reports an exception.\<close>

definition vm_block ::
  "vm_runtime \<Rightarrow> (throwable \<Rightarrow> (string \<times> vmobj) list) \<Rightarrow> throwable + (string \<times> vmobj) list \<Rightarrow> (string + string) option" where
  "vm_block R err r =
     (let fail = (\<lambda>e. case lib_write R (err e) of Inl _ \<Rightarrow> None | Inr t \<Rightarrow> Some (Inl t)) in
      case r of
        Inl e \<Rightarrow> fail e
      | Inr out \<Rightarrow> (case lib_write R out of Inl e \<Rightarrow> fail e | Inr t \<Rightarrow> Some (Inr t)))"

definition vm_run ::
  "vm_runtime \<Rightarrow> (throwable \<Rightarrow> (string \<times> vmobj) list) \<Rightarrow> ((throwable + (string \<times> vmobj) list) \<times> string) option \<Rightarrow>
    ((string + string) \<times> string) option" where
  "vm_run R err r = (case r of None \<Rightarrow> None | Some (out, printed) \<Rightarrow> map_option (\<lambda>b. (b, printed)) (vm_block R err out))"

text \<open>The output and the exit code; \<open>crash\<close> is the code of a process that cannot report its failure.\<close>

definition vm_print ::
  "vm_runtime \<Rightarrow> (throwable \<Rightarrow> (string \<times> vmobj) list) \<Rightarrow> int \<Rightarrow> ((throwable + (string \<times> vmobj) list) \<times> string) option \<Rightarrow>
    (string \<times> int) option" where
  "vm_print R err crash r = map_option (\<lambda>(out, printed). case vm_block R err out of
      None \<Rightarrow> (printed, crash)
    | Some (Inr t) \<Rightarrow> (printed @ emit_block t, 0)
    | Some (Inl t) \<Rightarrow> (printed @ emit_block t, 1)) r"

lemma harness_vm:
  "(\<And>p i. run p i = vm_run (rt p) err (body p i)) \<Longrightarrow> (\<And>p i. main p i = vm_print (rt p) err crash (body p i)) \<Longrightarrow> harness run main"
  by unfold_locales (auto simp: vm_run_def vm_print_def split: option.split_asm prod.split_asm)

lemma vm_run_answer: "r = Some (Inr out, printed) \<Longrightarrow> lib_write R out = Inr t \<Longrightarrow> vm_run R err r = Some (Inr t, printed)"
  by (simp add: vm_run_def vm_block_def)

lemma vm_run_failure: "r = Some (Inl e, printed) \<Longrightarrow> lib_write R (err e) = Inr t \<Longrightarrow> vm_run R err r = Some (Inl t, printed)"
  by (simp add: vm_run_def vm_block_def)

end
