(* ===== verification/JavaWrapper.thy ===== *)
theory JavaWrapper
  imports Managed
begin

text \<open>
  The Java wrapper (\<open>languages/java_wrapper.py\<close>): its builders, the conversion of a test case's values to
  the types of the parameters, the choice and the call of a method of \<open>Solution\<close>, and a \<open>main\<close> that runs
  one test case or all test cases of a batch in one process.
\<close>

section \<open>Builders\<close>

definition java_buildTree :: "int32 option list \<Rightarrow> int32 option tree_node list \<Rightarrow> nat option \<times> int32 option tree_node list" where
  "java_buildTree = queue_tree None"

definition java_treeToList :: "nat \<Rightarrow> int32 option tree_node list \<Rightarrow> nat option \<Rightarrow> int32 option list option" where
  "java_treeToList = read_tree None"

interpretation java_tree: tree_wire None java_buildTree java_treeToList
  unfolding java_buildTree_def java_treeToList_def by (rule tree_wire_queue_tree)

definition java_buildLinkedList ::
  "vm_runtime \<Rightarrow> int32 list \<Rightarrow> int \<Rightarrow> int32 list_node list \<Rightarrow> throwable + nat option \<times> int32 list_node list" where
  "java_buildLinkedList = vm_list"

definition java_linkedListToList :: "int32 list_node list \<Rightarrow> nat option \<Rightarrow> int32 list" where
  "java_linkedListToList = read_list"

definition java_buildGraph :: "int32 option list list \<Rightarrow> null_node list \<Rightarrow> nat option \<times> null_node list" where
  "java_buildGraph = open_graph"

definition java_graphToAdjList :: "vm_runtime \<Rightarrow> null_node list \<Rightarrow> nat option \<Rightarrow> throwable + int list list" where
  "java_graphToAdjList = vm_adjlist"

interpretation java_graph: graph_wire "\<lambda>adj h. Inr (java_buildGraph (map (map Some) (as_int32 adj)) h)"
    "java_graphToAdjList R" "\<lambda>n. n < 2 ^ 31"
  unfolding java_buildGraph_def java_graphToAdjList_def by (rule open_graph_wire)

section \<open>Outputs\<close>

fun java_autoConvertOutput :: "nat \<Rightarrow> vm_runtime \<Rightarrow> node_heap \<Rightarrow> vmobj \<Rightarrow> (throwable + vmobj) option"
  and java_convertAll :: "nat \<Rightarrow> vm_runtime \<Rightarrow> node_heap \<Rightarrow> vmobj list \<Rightarrow> (throwable + vmobj list) option" where
  "java_autoConvertOutput n R h (ObTree i) = map_option (\<lambda>vs. Inr (ob_tree_list vs)) (java_treeToList n (mh_trees h) (Some i))"
| "java_autoConvertOutput n R h (ObList i) =
     Some (Inr (ObCollection (map ObInt (java_linkedListToList (mh_chains h) (Some i)))))"
| "java_autoConvertOutput n R h (ObGraph i) = Some (fmap_r ob_rows (java_graphToAdjList R (mh_graphs h) (Some i)))"
| "java_autoConvertOutput n R h (ObChar c) = Some (Inr (ObStr [c]))"
| "java_autoConvertOutput n R h (ObChars s) = Some (Inr (ObCollection (map (\<lambda>c. ObStr [c]) s)))"
| "java_autoConvertOutput n R h (ObArray obs) = map_option (fmap_r ObCollection) (java_convertAll n R h obs)"
| "java_autoConvertOutput n R h (ObCollection obs) = map_option (fmap_r ObCollection) (java_convertAll n R h obs)"
| "java_autoConvertOutput n R h ob = Some (Inr ob)"
| "java_convertAll n R h [] = Some (Inr [])"
| "java_convertAll n R h (ob # obs) = (case java_autoConvertOutput n R h ob of
      None \<Rightarrow> None
    | Some (Inl e) \<Rightarrow> Some (Inl e)
    | Some (Inr x) \<Rightarrow> map_option (fmap_r (Cons x)) (java_convertAll n R h obs))"

section \<open>Inputs\<close>

definition java_toChar :: "vm_runtime \<Rightarrow> pyval \<Rightarrow> throwable + char" where
  "java_toChar R v = (case v of
      VNone \<Rightarrow> Inl (null_error R ''toString'')
    | VInt n \<Rightarrow> fmap_r code_char (int_value R v)
    | VFloat x \<Rightarrow> fmap_r code_char (int_value R v)
    | _ \<Rightarrow> Inr (first_char (vm_string R v)))"

text \<open>\<open>String.trim\<close> and \<open>Integer.parseInt\<close>.\<close>

definition java_trim :: "string \<Rightarrow> string" where
  "java_trim s = rev (dropWhile (\<lambda>c. code c \<le> 32) (rev (dropWhile (\<lambda>c. code c \<le> 32) s)))"

definition parses_int :: "string \<Rightarrow> bool" where
  "parses_int s = (case strip_sign s of (neg, ds) \<Rightarrow>
     ds \<noteq> [] \<and> list_all is_digit ds \<and> in_int32 (if neg then - digits_val ds else digits_val ds))"

definition java_lines :: "string \<Rightarrow> string list" where
  "java_lines s = (let lines = split_on newline (java_trim s);
      rest = (if lines \<noteq> [] \<and> parses_int (java_trim (hd lines)) then tl lines else lines)
    in filter (\<lambda>l. l \<noteq> []) (map java_trim rest))"

text \<open>A value as the library reads it, passed on as it is.\<close>

fun java_object :: "pyval \<Rightarrow> vmobj" where
  "java_object VNone = ObNull"
| "java_object (VBool b) = ObBool b"
| "java_object (VInt n) = (if in_int32 n then ObInt (word_of_int n)
     else if - (2 ^ 63) \<le> n \<and> n < 2 ^ 63 then ObLong (word_of_int n) else ObData ''BigInteger'' (VInt n))"
| "java_object (VFloat x) = ObDouble x"
| "java_object (VStr s) = ObStr s"
| "java_object (VList vs) = ObCollection (map java_object vs)"
| "java_object (VDict d) = ObData ''LinkedHashMap'' (VDict d)"

definition java_chars :: "vm_runtime \<Rightarrow> pyval \<Rightarrow> throwable + vmobj" where
  "java_chars R v = (case v of
      VNone \<Rightarrow> Inr ObNull
    | VList vs \<Rightarrow> fmap_r ObChars (map_r (java_toChar R) vs)
    | _ \<Rightarrow> Inr (ObChars (vm_string R v)))"

text \<open>\<open>(List<...>) value\<close> for a value that is not \<open>null\<close>.\<close>

definition java_list :: "vm_runtime \<Rightarrow> pyval \<Rightarrow> throwable + pyval list" where
  "java_list R v = (case v of VList vs \<Rightarrow> Inr vs | _ \<Rightarrow> Inl (cast_error R ''List'' v))"

definition java_pos :: "vm_runtime \<Rightarrow> pydict \<Rightarrow> throwable + int" where
  "java_pos R fullInput = (case dget fullInput ''pos'' of
      None \<Rightarrow> Inr (- 1)
    | Some VNone \<Rightarrow> Inl (null_error R ''intValue'')
    | Some v \<Rightarrow> fmap_r sint (int_value R v))"

definition java_row :: "vm_runtime \<Rightarrow> pyval \<Rightarrow> throwable + int32 option list" where
  "java_row R row = (case row of
      VList vs \<Rightarrow> map_r (boxed_int R) vs
    | VNone \<Rightarrow> Inl (null_error R ''iterator'')
    | _ \<Rightarrow> Inl (cast_error R ''List'' row))"

definition java_tree_arg :: "vm_runtime \<Rightarrow> pyval list \<Rightarrow> node_heap \<Rightarrow> throwable + vmobj \<times> node_heap" where
  "java_tree_arg R vs h = fmap_r (\<lambda>xs. case java_buildTree xs (mh_trees h) of (p, ts) \<Rightarrow> (ob_ref ObTree p, h\<lparr>mh_trees := ts\<rparr>))
     (map_r (boxed_int R) vs)"

definition java_list_arg :: "vm_runtime \<Rightarrow> int \<Rightarrow> pyval list \<Rightarrow> node_heap \<Rightarrow> throwable + vmobj \<times> node_heap" where
  "java_list_arg R pos vs h = (case map_r (unboxed_int R) vs of
      Inl e \<Rightarrow> Inl e
    | Inr xs \<Rightarrow> fmap_r (\<lambda>(p, ls). (ob_ref ObList p, h\<lparr>mh_chains := ls\<rparr>)) (java_buildLinkedList R xs pos (mh_chains h)))"

definition java_graph_arg :: "vm_runtime \<Rightarrow> pyval list \<Rightarrow> node_heap \<Rightarrow> throwable + vmobj \<times> node_heap" where
  "java_graph_arg R rows h = fmap_r (\<lambda>adj. case java_buildGraph adj (mh_graphs h) of (p, gs) \<Rightarrow> (ob_ref ObGraph p, h\<lparr>mh_graphs := gs\<rparr>))
     (map_r (java_row R) rows)"

definition java_convertValue :: "vm_runtime \<Rightarrow> pydict \<Rightarrow> pyval \<Rightarrow> vmtype \<Rightarrow> node_heap \<Rightarrow> throwable + vmobj \<times> node_heap" where
  "java_convertValue R fullInput v t h =
     (let plain = fmap_r (\<lambda>ob. (ob, h)) in
      if v = VNone then Inr (ObNull, h)
      else case t of
        TInt \<Rightarrow> plain (fmap_r ObInt (int_value R v))
      | TLong \<Rightarrow> plain (fmap_r ObLong (long_value R v))
      | TDouble \<Rightarrow> plain (fmap_r ObDouble (double_value R v))
      | TBoolean \<Rightarrow> Inr (java_object v, h)
      | TChar \<Rightarrow> plain (fmap_r ObChar (java_toChar R v))
      | TString \<Rightarrow> Inr (ObStr (vm_string R v), h)
      | TList g \<Rightarrow> (case v of
            VList vs \<Rightarrow> plain (lib_convert R g v)
          | _ \<Rightarrow> Inr (ObCollection (map ObStr (java_lines (vm_string R v))), h))
      | TChars \<Rightarrow> plain (java_chars R v)
      | TCharGrid \<Rightarrow> (case java_list R v of Inl e \<Rightarrow> Inl e | Inr vs \<Rightarrow> plain (fmap_r ObArray (map_r (java_chars R) vs)))
      | TTree \<Rightarrow> (case java_list R v of Inl e \<Rightarrow> Inl e | Inr vs \<Rightarrow> java_tree_arg R vs h)
      | TListNode \<Rightarrow> (case java_pos R fullInput of
            Inl e \<Rightarrow> Inl e
          | Inr pos \<Rightarrow> (case java_list R v of Inl e \<Rightarrow> Inl e | Inr vs \<Rightarrow> java_list_arg R pos vs h))
      | TGraph \<Rightarrow> (case java_list R v of Inl e \<Rightarrow> Inl e | Inr rows \<Rightarrow> java_graph_arg R rows h)
      | TOther g \<Rightarrow> plain (lib_convert R g v))"

text \<open>\<open>args[i] = convertValue(i < values.size() ? values.get(i) : null, ...)\<close>\<close>

fun java_args :: "vm_runtime \<Rightarrow> pydict \<Rightarrow> pyval list \<Rightarrow> vmtype list \<Rightarrow> node_heap \<Rightarrow> throwable + vmobj list \<times> node_heap" where
  "java_args R fullInput values [] h = Inr ([], h)"
| "java_args R fullInput values (t # ts) h =
     (case java_convertValue R fullInput (case values of [] \<Rightarrow> VNone | v # _ \<Rightarrow> v) t h of
        Inl e \<Rightarrow> Inl e
      | Inr (ob, h') \<Rightarrow> fmap_r (\<lambda>(obs, h''). (ob # obs, h'')) (java_args R fullInput (tl values) ts h'))"

section \<open>The call\<close>

text \<open>The first method of that name, or a later one with as many parameters as there are values.\<close>

fun java_pick_method :: "string \<Rightarrow> nat \<Rightarrow> vm_method option \<Rightarrow> vm_method list \<Rightarrow> vm_method option" where
  "java_pick_method functionName n found [] = found"
| "java_pick_method functionName n found (m # ms) =
     (if m_name m \<noteq> functionName then java_pick_method functionName n found ms
      else case found of
          None \<Rightarrow> java_pick_method functionName n (Some m) ms
        | Some f \<Rightarrow> java_pick_method functionName n (Some (if length (m_params m) = n then m else f)) ms)"

definition values_without_pos :: "pydict \<Rightarrow> pyval list" where
  "values_without_pos input = map snd (filter (\<lambda>p. fst p \<noteq> ''pos'') input)"

definition method_values :: "pydict \<Rightarrow> vm_method \<Rightarrow> pyval list" where
  "method_values input m =
     (if length (values_without_pos input) < length (m_params m) then map snd input else values_without_pos input)"

definition function_not_found :: "string \<Rightarrow> throwable" where
  "function_not_found functionName = exception (''Function '' @ [squote] @ functionName @ [squote] @ '' not found'')"

definition class_not_found :: throwable where
  "class_not_found = exception (''Class '' @ [squote] @ ''Solution'' @ [squote] @ '' not found'')"

text \<open>The map of an answer.\<close>

definition java_output ::
  "nat \<Rightarrow> vm_runtime \<Rightarrow> vm_method \<Rightarrow> node_heap \<Rightarrow> vmobj \<Rightarrow> vmobj list \<Rightarrow> (throwable + (string \<times> vmobj) list) option" where
  "java_output n R m h result args = (case java_autoConvertOutput n R h result of
      None \<Rightarrow> None
    | Some (Inl e) \<Rightarrow> Some (Inl e)
    | Some (Inr r) \<Rightarrow>
        if m_void m \<and> args \<noteq> [] then
          map_option (fmap_r (\<lambda>mu. [(''result'', r), (''mutated'', mu)])) (java_autoConvertOutput n R h (hd args))
        else Some (Inr [(''result'', r)]))"

text \<open>The outcome, the heap and what was printed.\<close>

type_synonym vm_outcome = "(throwable + (string \<times> vmobj) list) \<times> node_heap \<times> string"

definition java_call ::
  "nat \<Rightarrow> vm_runtime \<Rightarrow> vm_class \<Rightarrow> vm_method \<Rightarrow> vmobj list \<Rightarrow> node_heap \<Rightarrow> vm_outcome option" where
  "java_call n R cls m args h = (case c_new cls h of
      (Some e, h', printed) \<Rightarrow> Some (Inl (target_error R e), h', printed)
    | (None, h', printed) \<Rightarrow> (case m_invoke m args h' of
          None \<Rightarrow> None
        | Some (res, args', h'', printed') \<Rightarrow> (case res of
              Threw e \<Rightarrow> Some (Inl (exception (describe e)), h'', printed @ printed')
            | Rejected e \<Rightarrow> Some (Inl e, h'', printed @ printed')
            | Returned r \<Rightarrow> map_option (\<lambda>out. (out, h'', printed @ printed')) (java_output n R m h'' r args'))))"

definition java_executeFunction ::
  "nat \<Rightarrow> vm_runtime \<Rightarrow> vm_class option \<Rightarrow> string \<Rightarrow> pydict \<Rightarrow> node_heap \<Rightarrow> vm_outcome option" where
  "java_executeFunction n R solution functionName input h = (case solution of
      None \<Rightarrow> Some (Inl class_not_found, h, [])
    | Some cls \<Rightarrow> (case c_methods cls of
          Inl e \<Rightarrow> Some (Inl e, h, [])
        | Inr methods \<Rightarrow> (case java_pick_method functionName (length (values_without_pos input)) None methods of
              None \<Rightarrow> Some (Inl (function_not_found functionName), h, [])
            | Some m \<Rightarrow> (case java_args R input (method_values input m) (m_params m) h of
                  Inl e \<Rightarrow> Some (Inl e, h, [])
                | Inr (args, h') \<Rightarrow> java_call n R cls m args h'))))"

section \<open>The process\<close>

text \<open>The message of the \<open>catch\<close> clause, and the map it prints.\<close>

definition java_message :: "throwable \<Rightarrow> string" where
  "java_message e = (case th_message e of Some m \<Rightarrow> if th_exception e then m else describe e | None \<Rightarrow> describe e)"

definition java_error :: "throwable \<Rightarrow> nat \<Rightarrow> (string \<times> vmobj) list" where
  "java_error e index = [(''error'', ObStr (java_message e)), (''failed_test_case_index'', ObInt (word_of_nat index))]"

text \<open>\<open>(Map<String, Object>) value\<close>, used as an input.\<close>

definition java_map :: "vm_runtime \<Rightarrow> pyval \<Rightarrow> throwable + pydict" where
  "java_map R v = (case v of
      VDict d \<Rightarrow> Inr d | VNone \<Rightarrow> Inl (null_error R ''entrySet'') | _ \<Rightarrow> Inl (cast_error R ''Map'' v))"

definition java_case_input :: "vm_runtime \<Rightarrow> pyval \<Rightarrow> throwable + pydict" where
  "java_case_input R tc = (case java_map R tc of
      Inl e \<Rightarrow> Inl e
    | Inr d \<Rightarrow> java_map R (case dget d ''input'' of None \<Rightarrow> VNone | Some v \<Rightarrow> v))"

text \<open>The loop over the test cases: the blocks it prints with what was printed before each, and the exception
  that ends it with what was printed before that and the index of the test case.\<close>

type_synonym vm_stream = "(string \<times> string) list \<times> (throwable \<times> string \<times> nat) option"

fun java_cases ::
  "nat \<Rightarrow> vm_runtime \<Rightarrow> vm_class option \<Rightarrow> string \<Rightarrow> nat \<Rightarrow> pyval list \<Rightarrow> node_heap \<Rightarrow> vm_stream option" where
  "java_cases n R solution functionName index [] h = Some ([], None)"
| "java_cases n R solution functionName index (tc # tcs) h = (case java_case_input R tc of
      Inl e \<Rightarrow> Some ([], Some (e, [], index))
    | Inr input \<Rightarrow> (case java_executeFunction n R solution functionName input h of
          None \<Rightarrow> None
        | Some (Inl e, h', printed) \<Rightarrow> Some ([], Some (e, printed, index))
        | Some (Inr out, h', printed) \<Rightarrow> (case lib_write R (out @ [(''index'', ObInt (word_of_nat index))]) of
              Inl e \<Rightarrow> Some ([], Some (e, printed, index))
            | Inr t \<Rightarrow> map_option (\<lambda>(bs, f). ((printed, t) # bs, f))
                (java_cases n R solution functionName (Suc index) tcs h'))))"

text \<open>A single test case prints one block.\<close>

definition java_single ::
  "nat \<Rightarrow> vm_runtime \<Rightarrow> vm_class option \<Rightarrow> string \<Rightarrow> pyval \<Rightarrow> node_heap \<Rightarrow> vm_stream option" where
  "java_single n R solution functionName v h = (case java_map R v of
      Inl e \<Rightarrow> Some ([], Some (e, [], 0))
    | Inr input \<Rightarrow> (case java_executeFunction n R solution functionName input h of
          None \<Rightarrow> None
        | Some (Inl e, h', printed) \<Rightarrow> Some ([], Some (e, printed, 0))
        | Some (Inr out, h', printed) \<Rightarrow> (case lib_write R out of
              Inl e \<Rightarrow> Some ([], Some (e, printed, 0))
            | Inr t \<Rightarrow> Some ([(printed, t)], None))))"

text \<open>\<open>main\<close> up to its output.\<close>

definition java_stream :: "nat \<times> vm_runtime \<times> vm_class option \<times> pyval \<Rightarrow> string \<Rightarrow> vm_stream option" where
  "java_stream = (\<lambda>(n, R, solution, statics) stdin.
     (case lib_read R (join_lines stdin) of
        Inl e \<Rightarrow> Some ([], Some (e, [], 0))
      | Inr payload \<Rightarrow>
          (let name = (case dget payload ''function_name'' of None \<Rightarrow> VNone | Some v \<Rightarrow> v);
               go = (\<lambda>functionName. case dget payload ''test_cases'' of
                   Some (VList tcs) \<Rightarrow> java_cases n R solution functionName 0 tcs (fresh_heap statics)
                 | Some VNone \<Rightarrow> Some ([], Some (null_error R ''size'', [], 0))
                 | Some v \<Rightarrow> Some ([], Some (cast_error R ''List'' v, [], 0))
                 | None \<Rightarrow> java_single n R solution functionName
                     (case dget payload ''input'' of None \<Rightarrow> VNone | Some v \<Rightarrow> v) (fresh_heap statics))
           in case name of
                VStr f \<Rightarrow> go f
              | VNone \<Rightarrow> go ''null''
              | v \<Rightarrow> Some ([], Some (cast_error R ''String'' v, [], 0)))))"

text \<open>The output and the exit code; an error that cannot be written is ignored.\<close>

definition java_print :: "nat \<times> vm_runtime \<times> vm_class option \<times> pyval \<Rightarrow> vm_stream \<Rightarrow> string \<times> int" where
  "java_print prog r = (case r of
      (bs, None) \<Rightarrow> (stream_text bs [], 0)
    | (bs, Some (e, printed, index)) \<Rightarrow> (case lib_write (fst (snd prog)) (java_error e index) of
          Inl e' \<Rightarrow> (stream_text bs printed, 1)
        | Inr t \<Rightarrow> (stream_text bs (printed @ emit_block t), 1)))"

definition java_main :: "nat \<times> vm_runtime \<times> vm_class option \<times> pyval \<Rightarrow> string \<Rightarrow> (string \<times> int) option" where
  "java_main prog stdin = map_option (java_print prog) (java_stream prog stdin)"

section \<open>The harness\<close>

definition java_failure_text :: "nat \<times> vm_runtime \<times> vm_class option \<times> pyval \<Rightarrow> throwable \<Rightarrow> nat \<Rightarrow> string option" where
  "java_failure_text prog e index = (case lib_write (fst (snd prog)) (java_error e index) of Inl _ \<Rightarrow> None | Inr t \<Rightarrow> Some t)"

definition java_run_single :: "nat \<times> vm_runtime \<times> vm_class option \<times> pyval \<Rightarrow> string \<Rightarrow> ((string + string) \<times> string) option" where
  "java_run_single prog stdin = (case java_stream prog stdin of
      Some ([(noise, t)], None) \<Rightarrow> Some (Inr t, noise)
    | Some ([], Some (e, noise, index)) \<Rightarrow> map_option (\<lambda>t. (Inl t, noise)) (java_failure_text prog e index)
    | _ \<Rightarrow> None)"

definition java_run_all :: "nat \<times> vm_runtime \<times> vm_class option \<times> pyval \<Rightarrow> string \<Rightarrow> batch_run option" where
  "java_run_all prog stdin = (case java_stream prog stdin of
      None \<Rightarrow> None
    | Some (bs, None) \<Rightarrow> Some \<lparr>br_blocks = bs, br_failure = None\<rparr>
    | Some (bs, Some (e, noise, index)) \<Rightarrow>
        map_option (\<lambda>t. \<lparr>br_blocks = bs, br_failure = Some (noise, t)\<rparr>) (java_failure_text prog e index))"

interpretation java_harness: harness java_run_single java_main
  by unfold_locales (auto simp: java_run_single_def java_main_def java_failure_text_def java_print_def
      split: option.split_asm prod.split_asm list.split_asm sum.split_asm)

interpretation java_batch: batch_harness java_run_all java_main
  by unfold_locales (auto simp: java_run_all_def java_main_def java_failure_text_def java_print_def batch_output_def
      split: option.split_asm prod.split_asm sum.split_asm)

section \<open>Batches of test cases\<close>

lemma java_output_keys: "java_output n R m h r args = Some (Inr out) \<Longrightarrow> map fst out = [''result''] \<or> map fst out = [''result'', ''mutated'']"
  by (auto simp: java_output_def split: option.splits sum.splits if_splits)

lemma java_call_keys:
  "java_call n R cls m args h = Some (Inr out, h', printed) \<Longrightarrow> map fst out = [''result''] \<or> map fst out = [''result'', ''mutated'']"
  by (auto simp: java_call_def split: option.splits prod.splits invocation.splits dest!: java_output_keys)

lemma java_executeFunction_keys:
  "java_executeFunction n R sol f inp h = Some (Inr out, h', printed) \<Longrightarrow>
    map fst out = [''result''] \<or> map fst out = [''result'', ''mutated'']"
  by (auto simp: java_executeFunction_def split: option.splits prod.splits sum.splits dest!: java_call_keys)

text \<open>All test cases answer: their maps and what each printed, and the heap they leave.\<close>

fun java_runs ::
  "nat \<Rightarrow> vm_runtime \<Rightarrow> vm_class option \<Rightarrow> string \<Rightarrow> pydict list \<Rightarrow> node_heap \<Rightarrow> (((string \<times> vmobj) list \<times> string) list \<times> node_heap) option" where
  "java_runs n R sol f [] h = Some ([], h)"
| "java_runs n R sol f (inp # inps) h = (case java_executeFunction n R sol f inp h of
      Some (Inr out, h', printed) \<Rightarrow> map_option (\<lambda>(outs, h''). ((out, printed) # outs, h'')) (java_runs n R sol f inps h')
    | _ \<Rightarrow> None)"

text \<open>The answers can be written, their texts and the debug output do not disturb the markers.\<close>

fun java_clean :: "vm_runtime \<Rightarrow> nat \<Rightarrow> ((string \<times> vmobj) list \<times> string) list \<Rightarrow> pydict list \<Rightarrow> bool" where
  "java_clean R i [] ds = (ds = [])"
| "java_clean R i ((out, printed) # outs) ds = (case ds of [] \<Rightarrow> False | d # ds' \<Rightarrow>
     vm_items out = Some d \<and> json_ok (VDict d) \<and> quiet printed \<and>
     (case lib_write R (out @ [(''index'', ObInt (word_of_nat i))]) of Inl _ \<Rightarrow> True | Inr t \<Rightarrow> no_marker t) \<and>
     java_clean R (Suc i) outs ds')"

lemma vm_items_append: "vm_items xs = Some d \<Longrightarrow> vm_items ys = Some e \<Longrightarrow> vm_items (xs @ ys) = Some (d @ e)"
  by (induction xs arbitrary: d rule: vm_items.induct) (auto split: option.splits)

lemma java_block:
  assumes "writes_json R" and "vm_items out = Some d" and "json_ok (VDict d)"
    and "map fst out = [''result''] \<or> map fst out = [''result'', ''mutated'']"
    and "case lib_write R (out @ [(''index'', ObInt w)]) of Inl _ \<Rightarrow> True | Inr t \<Rightarrow> no_marker t"
  shows "\<exists>t d'. lib_write R (out @ [(''index'', ObInt w)]) = Inr t \<and> document t d' \<and> \<not> dhas ''error'' d' \<and>
    result_value d' = result_value d"
proof -
  let ?d = "d @ [(''index'', VInt (sint w))]"
  have keys: "map fst d = map fst out" by (rule vm_items_keys [OF assms(2)])
  have items: "vm_items (out @ [(''index'', ObInt w)]) = Some ?d" using vm_items_append [OF assms(2)] by simp
  have "''index'' \<notin> set (map fst d)" using assms(4) keys by auto
  then have ok: "json_ok (VDict ?d)" using assms(3) by auto
  then obtain t where t: "lib_write R (out @ [(''index'', ObInt w)]) = Inr t" "object_text t ?d"
    using assms(1) items unfolding writes_json_def by blast
  moreover have "no_marker t" using assms(5) t(1) by simp
  ultimately obtain d' where d': "document t d'" "dget d' = dget ?d" using object_document by blast
  have "''error'' \<notin> set (map fst ?d)" using assms(4) keys by auto
  then have "\<not> dhas ''error'' d'" using d'(2) by (simp add: dhas_def dget_def map_of_eq_None_iff)
  moreover have "dget d' k = dget d k" if "k \<noteq> ''index''" for k
    using d'(2) that by (simp add: dget_def map_add_def split: option.splits)
  ultimately show ?thesis using t(1) d'(1) by (auto simp: result_value_def)
qed

lemma java_cases_runs:
  assumes "writes_json R"
  shows "java_runs n R sol f inps h = Some (outs, h') \<Longrightarrow> java_clean R i outs ds \<Longrightarrow>
    \<exists>bs ds'. java_cases n R sol f i (map (\<lambda>inp. VDict [(''input'', VDict inp)]) inps @ rest) h =
        map_option (\<lambda>(cs, g). (bs @ cs, g)) (java_cases n R sol f (i + length inps) rest h') \<and>
      answer_blocks bs ds' \<and> length ds' = length inps \<and> map result_value ds' = map result_value ds"
proof (induction inps arbitrary: i h outs ds)
  case Nil
  then show ?case by (intro exI [of _ "[]"]) (auto simp: answer_blocks_def stream_ok_def option.map_ident)
next
  case (Cons inp inps)
  from Cons.prems(1) obtain out h1 printed outs' where
    ex: "java_executeFunction n R sol f inp h = Some (Inr out, h1, printed)"
    and rs: "java_runs n R sol f inps h1 = Some (outs', h')" "outs = (out, printed) # outs'"
    by (auto split: option.splits sum.splits prod.splits)
  from Cons.prems(2) rs(2) obtain d ds1 where ds: "ds = d # ds1" "vm_items out = Some d" "json_ok (VDict d)" "quiet printed"
    "case lib_write R (out @ [(''index'', ObInt (word_of_nat i))]) of Inl _ \<Rightarrow> True | Inr t \<Rightarrow> no_marker t"
    "java_clean R (Suc i) outs' ds1"
    by (auto split: list.splits)
  from java_block [OF assms ds(2,3) java_executeFunction_keys [OF ex] ds(5)] obtain t d' where
    t: "lib_write R (out @ [(''index'', ObInt (word_of_nat i))]) = Inr t" "document t d'" "\<not> dhas ''error'' d'"
      "result_value d' = result_value d" by blast
  from Cons.IH [OF rs(1) ds(6)] obtain bs ds' where
    IH: "java_cases n R sol f (Suc i) (map (\<lambda>inp. VDict [(''input'', VDict inp)]) inps @ rest) h1 =
        map_option (\<lambda>(cs, g). (bs @ cs, g)) (java_cases n R sol f (Suc i + length inps) rest h')"
      "answer_blocks bs ds'" "length ds' = length inps" "map result_value ds' = map result_value ds1" by blast
  have "java_cases n R sol f i (map (\<lambda>inp. VDict [(''input'', VDict inp)]) (inp # inps) @ rest) h =
      map_option (\<lambda>(cs, g). (((printed, t) # bs) @ cs, g)) (java_cases n R sol f (i + length (inp # inps)) rest h')"
    using ex t(1) IH(1) by (simp add: java_case_input_def java_map_def dget_def option.map_comp comp_def case_prod_unfold)
  moreover have "answer_blocks ((printed, t) # bs) (d' # ds')"
    using IH(2) ds(4) t(2,3) by (simp add: answer_blocks_def stream_ok_def)
  ultimately show ?case using IH(3,4) t(4) ds(1) by (intro exI [of _ "(printed, t) # bs"] exI [of _ "d' # ds'"]) auto
qed

text \<open>The payload of a batch reaches the loop.\<close>

lemma java_stream_batch:
  assumes "reads_json R" and "\<forall>inp \<in> set inps. json_ok (VDict inp)"
  shows "java_stream (n, R, sol, st) (batch_payload f inps) =
    java_cases n R sol f 0 (map (\<lambda>inp. VDict [(''input'', VDict inp)]) inps) (fresh_heap st)"
proof -
  have "json_ok (VDict [(''function_name'', VStr f), (''test_cases'', VList (map (\<lambda>inp. VDict [(''input'', VDict inp)]) inps))])"
    using assms(2) by auto
  from lib_read_lines [OF assms(1) this] show ?thesis
    by (simp add: java_stream_def batch_payload_def dget_def del: dumps.simps)
qed

section \<open>Properties\<close>

text \<open>C12. A batch of Java test cases gives the judge every answer: if the submission answers each of the test
  cases, run one after the other in one process (which keeps its static fields), then, whatever it printed,
  as long as markers are left alone, \<open>run_batch_wrapper\<close> returns all the answers in order. The JSON library
  is only required to read and write JSON.\<close>

theorem java_batch_reaches_judge:
  assumes "reads_json R" and "writes_json R" and "\<forall>inp \<in> set inps. json_ok (VDict inp)"
    and "java_runs n R sol f inps (fresh_heap st) = Some (outs, h')" and "java_clean R 0 outs ds"
    and "finishes E cmd (batch_payload f inps) limit w out err rc w'"
    and "java_main (n, R, sol, st) (batch_payload f inps) = Some (utf8 E out, rc)"
  shows "run_batch_wrapper E cmd (batch_payload f inps) limit (length inps) w = (Inr (map result_value ds), w')"
proof -
  from java_cases_runs [OF assms(2,4,5), of "[]"] obtain bs ds' where
    bs: "java_stream (n, R, sol, st) (batch_payload f inps) = Some (bs, None)" "answer_blocks bs ds'"
      "length ds' = length inps" "map result_value ds' = map result_value ds"
    using java_stream_batch [OF assms(1,3), of n sol st f] by auto
  have "java_run_all (n, R, sol, st) (batch_payload f inps) = Some \<lparr>br_blocks = bs, br_failure = None\<rparr>"
    using bs(1) by (simp add: java_run_all_def)
  from java_batch.batch_judged [OF this _ _ assms(6,7), of ds'] show ?thesis using bs(2-4) by simp
qed

text \<open>A library that writes like Python, and a class with one method.\<close>

definition demo_runtime :: vm_runtime where
  "demo_runtime = plain_library \<lparr>lib_read = (\<lambda>_. Inr []), lib_convert = (\<lambda>_ v. Inr (ObData [] v)), lib_write = (\<lambda>_. Inr []),
     cast_error = (\<lambda>c v. exception ''cast''), null_error = (\<lambda>_. exception ''null''), index_error = (\<lambda>_ _. exception ''index''),
     key_error = (\<lambda>_. exception ''key''), graph_error = exception ''graph'', target_error = (\<lambda>e. e), double_text = (\<lambda>_. [])\<rparr>"

definition demo_method :: vm_method where
  "demo_method = \<lparr>m_name = ''twice'', m_params = [TInt], m_void = False, m_static = False,
     m_invoke = (\<lambda>args h. case args of
         [ObInt x] \<Rightarrow> Some (if x = 0 then Threw (exception ''zero'') else Returned (ObInt (x + x)), args, h, ''debug'')
       | _ \<Rightarrow> Some (Rejected (exception ''arguments''), args, h, []))\<rparr>"

definition demo_class :: vm_class where
  "demo_class = \<lparr>c_methods = Inr [demo_method], c_new = (\<lambda>h. (None, h, []))\<rparr>"

lemma demo_execute:
  "java_executeFunction n demo_runtime (Some demo_class) ''twice'' [(''n'', VInt k)] h =
     Some (if word_of_int k = (0 :: int32) then (Inl (exception ''Exception: zero''), h, ''debug'')
       else (Inr [(''result'', ObInt (word_of_int k + word_of_int k))], h, ''debug''))"
  by (simp add: java_executeFunction_def demo_class_def demo_method_def values_without_pos_def method_values_def
      java_convertValue_def int_value_def java_call_def java_output_def describe_def exception_def)

lemma demo_write: "vm_items out = Some d \<Longrightarrow> lib_write demo_runtime out = Inr (dumps (VDict d))"
  by (simp add: demo_runtime_def plain_library_def)

lemma demo_runtime_json: "reads_json demo_runtime" "writes_json demo_runtime"
  unfolding demo_runtime_def by (rule plain_library_reads plain_library_writes)+

lemma demo_runs:
  "java_runs n demo_runtime (Some demo_class) ''twice'' [[(''n'', VInt 3)], [(''n'', VInt 4)]] h =
     Some ([([(''result'', ObInt 6)], ''debug''), ([(''result'', ObInt 8)], ''debug'')], h)"
  by (simp add: demo_execute)

definition demo_answer :: "int \<Rightarrow> int \<Rightarrow> string" where
  "demo_answer v i = dumps (VDict [(''result'', VInt v), (''index'', VInt i)])"

lemma demo_clean:
  "java_clean demo_runtime 0 [([(''result'', ObInt 6)], ''debug''), ([(''result'', ObInt 8)], ''debug'')]
     [[(''result'', VInt 6)], [(''result'', VInt 8)]]"
proof -
  have "no_marker (demo_answer 6 0)" "no_marker (demo_answer 8 1)" "quiet ''debug''" by code_simp+
  then show ?thesis by (simp add: demo_write demo_answer_def del: dumps.simps)
qed

lemma demo_cases:
  "java_cases n demo_runtime (Some demo_class) ''twice'' 0 (map (\<lambda>inp. VDict [(''input'', VDict inp)])
      ([[(''n'', VInt 3)], [(''n'', VInt 4)]] @ rest)) h =
    map_option (\<lambda>(bs, f). ([(''debug'', demo_answer 6 0), (''debug'', demo_answer 8 1)] @ bs, f))
      (java_cases n demo_runtime (Some demo_class) ''twice'' (Suc (Suc 0)) (map (\<lambda>inp. VDict [(''input'', VDict inp)]) rest) h)"
  by (simp add: java_case_input_def java_map_def dget_def demo_execute demo_write demo_answer_def option.map_comp comp_def
      case_prod_unfold del: dumps.simps)

definition demo_run :: "string \<Rightarrow> int \<Rightarrow> unit env" where
  "demo_run out rc = offline\<lparr>stream_proc := (\<lambda>_ _ _. io_return \<lparr>out_chunks = [out], err_chunks = [], exit_code = Some rc\<rparr>)\<rparr>"

theorem java_batch_reaches_judge_witness:
  "run_batch_wrapper (demo_run (stream_text [(''debug'', demo_answer 6 0), (''debug'', demo_answer 8 1)] []) 0) [''docker'']
      (batch_payload ''twice'' [[(''n'', VInt 3)], [(''n'', VInt 4)]]) 10 (length [[(''n'', VInt 3)], [(''n'', VInt 4)]]) () =
    (Inr (map result_value [[(''result'', VInt 6)], [(''result'', VInt 8)]]), ())"
proof (rule java_batch_reaches_judge [OF demo_runtime_json _ demo_runs demo_clean])
  let ?out = "stream_text [(''debug'', demo_answer 6 0), (''debug'', demo_answer 8 1)] []"
  have "int (length ?out) \<le> 1000000" by code_simp
  then show "finishes (demo_run ?out 0) [''docker''] (batch_payload ''twice'' [[(''n'', VInt 3)], [(''n'', VInt 4)]]) 10 () ?out [] 0 ()"
    by (simp add: finishes_def demo_run_def offline_def MAX_STDOUT_BYTES_def int_env_def io_return_def)
  show "java_main (0, demo_runtime, Some demo_class, VNone) (batch_payload ''twice'' [[(''n'', VInt 3)], [(''n'', VInt 4)]]) =
      Some (utf8 (demo_run ?out 0) ?out, 0)"
    using demo_cases [of 0 "[]" "fresh_heap VNone"]
    by (simp add: java_main_def java_stream_batch [OF demo_runtime_json(1)] java_print_def demo_run_def offline_def
        del: java_cases.simps(2))
qed simp

text \<open>C13. A failing Java test case is reported with its index: if the first test cases of a batch answer and the
  next one fails, whatever comes after it, the judge gets a runtime error with the message that the wrapper
  gives to the exception and the index of that test case.\<close>

theorem java_batch_failure_index:
  assumes "reads_json R" and "writes_json R" and "\<forall>inp \<in> set (inps @ inp # later). json_ok (VDict inp)"
    and "java_runs n R sol f inps (fresh_heap st) = Some (outs, h')" and "java_clean R 0 outs ds"
    and "java_executeFunction n R sol f inp h' = Some (Inl e, h'', printed)" and "quiet printed"
    and "java_message e \<noteq> []" and "length inps < 2 ^ 31"
    and "lib_write R (java_error e (length inps)) = Inr t" and "no_marker t"
    and "finishes E cmd (batch_payload f (inps @ inp # later)) limit w out err rc w'"
    and "java_main (n, R, sol, st) (batch_payload f (inps @ inp # later)) = Some (utf8 E out, rc)"
  shows "run_batch_wrapper E cmd (batch_payload f (inps @ inp # later)) limit count w =
    (Inl (RuntimeExecutionError (truncate_message (java_message e)) (VInt (int (length inps)))), w')"
proof -
  let ?case = "\<lambda>inp. VDict [(''input'', VDict inp)]" and ?err = "[(''error'', VStr (java_message e)),
    (''failed_test_case_index'', VInt (int (length inps)))]"
  from java_cases_runs [OF assms(2,4,5), of "map ?case (inp # later)"] obtain bs ds' where
    bs: "java_stream (n, R, sol, st) (batch_payload f (inps @ inp # later)) = Some (bs, Some (e, printed, length inps))"
      "answer_blocks bs ds'" "length ds' = length inps"
    using java_stream_batch [OF assms(1,3), of n sol st f] assms(6) by (auto simp: java_case_input_def java_map_def dget_def)
  have "sint (word_of_nat (length inps) :: int32) = int (length inps)"
    using sint_of_int32 [of "int (length inps)"] assms(9) by (simp add: in_int32_def)
  then have "vm_items (java_error e (length inps)) = Some ?err" by (simp add: java_error_def)
  from lib_write_reports [OF assms(2) this _ _ assms(8,10,11)] obtain d where
    d: "document t d" "dget d = dget ?err" by (auto simp: dget_def)
  have run: "java_run_all (n, R, sol, st) (batch_payload f (inps @ inp # later)) =
      Some \<lparr>br_blocks = bs, br_failure = Some (printed, t)\<rparr>"
    using bs(1) assms(10) by (simp add: java_run_all_def java_failure_text_def)
  have "block_index d (length ds') = VInt (int (length inps))" "dget d ''error'' = Some (VStr (java_message e))"
    using d(2) by (simp_all add: block_index_def dget_def)
  then show ?thesis
    using java_batch.batch_failure_judged [OF run _ _ assms(7) d(1) _ assms(8,12,13), of ds' count] bs(2) by simp
qed

theorem java_batch_failure_index_witness:
  "run_batch_wrapper (demo_run (stream_text [(''debug'', demo_answer 6 0), (''debug'', demo_answer 8 1)]
        (''debug'' @ emit_block (dumps (VDict [(''error'', VStr ''Exception: zero''), (''failed_test_case_index'', VInt 2)])))) 1) [''docker'']
      (batch_payload ''twice'' ([[(''n'', VInt 3)], [(''n'', VInt 4)]] @ [(''n'', VInt 0)] # [[]])) 10 4 () =
    (Inl (RuntimeExecutionError (truncate_message (java_message (exception ''Exception: zero'')))
      (VInt (int (length [[(''n'', VInt 3)], [(''n'', VInt 4)]])))), ())"
proof (rule java_batch_failure_index [OF demo_runtime_json _ demo_runs demo_clean])
  let ?t = "dumps (VDict [(''error'', VStr ''Exception: zero''), (''failed_test_case_index'', VInt 2)])"
  let ?out = "stream_text [(''debug'', demo_answer 6 0), (''debug'', demo_answer 8 1)] (''debug'' @ emit_block ?t)"
  let ?inps = "[[(''n'', VInt 3)], [(''n'', VInt 4)]] @ [(''n'', VInt 0)] # [[]]"
  show "java_executeFunction 0 demo_runtime (Some demo_class) ''twice'' [(''n'', VInt 0)] (fresh_heap VNone) =
      Some (Inl (exception ''Exception: zero''), fresh_heap VNone, ''debug'')" by (simp add: demo_execute)
  have err: "lib_write demo_runtime (java_error (exception ''Exception: zero'') (Suc (Suc 0))) = Inr ?t"
    by (rule demo_write) (simp add: java_error_def java_message_def exception_def)
  then show "lib_write demo_runtime (java_error (exception ''Exception: zero'') (length [[(''n'', VInt 3)], [(''n'', VInt 4)]])) = Inr ?t"
    by simp
  show "no_marker ?t" "quiet ''debug''" by code_simp+
  have "int (length ?out) \<le> 1000000" by code_simp
  then show "finishes (demo_run ?out 1) [''docker''] (batch_payload ''twice'' ?inps) 10 () ?out [] 1 ()"
    by (simp add: finishes_def demo_run_def offline_def MAX_STDOUT_BYTES_def int_env_def io_return_def)
  have "java_cases 0 demo_runtime (Some demo_class) ''twice'' (Suc (Suc 0)) (map (\<lambda>inp. VDict [(''input'', VDict inp)]) [[(''n'', VInt 0)], []])
      (fresh_heap VNone) = Some ([], Some (exception ''Exception: zero'', ''debug'', Suc (Suc 0)))"
    by (simp add: java_case_input_def java_map_def dget_def demo_execute)
  then show "java_main (0, demo_runtime, Some demo_class, VNone) (batch_payload ''twice'' ?inps) = Some (utf8 (demo_run ?out 1) ?out, 1)"
    using demo_cases [of 0 "[[(''n'', VInt 0)], []]" "fresh_heap VNone"] err
    by (simp add: java_main_def java_stream_batch [OF demo_runtime_json(1)] java_print_def demo_run_def offline_def
        del: java_cases.simps(2))
qed (simp_all add: java_message_def exception_def)

text \<open>The wrapper calls the right overload: a method is found exactly if one has the name, and if one of that
  name takes as many parameters as the test case has values (\<open>pos\<close> not counted), the method it calls does.\<close>

lemma java_method_choice:
  "case java_pick_method f n None ms of
     None \<Rightarrow> list_all (\<lambda>m. m_name m \<noteq> f) ms
   | Some m \<Rightarrow> m \<in> set ms \<and> m_name m = f \<and>
       (list_ex (\<lambda>m'. m_name m' = f \<and> length (m_params m') = n) ms \<longrightarrow> length (m_params m) = n)"
proof -
  have keep: "\<exists>m. java_pick_method f n (Some m0) ms = Some m \<and> (m = m0 \<or> m \<in> set ms \<and> m_name m = f) \<and>
      (length (m_params m0) = n \<or> list_ex (\<lambda>m'. m_name m' = f \<and> length (m_params m') = n) ms \<longrightarrow> length (m_params m) = n)"
    for m0 ms
  proof (induction ms arbitrary: m0)
    case (Cons m ms)
    show ?case
      using Cons.IH [of m0] Cons.IH [of m] by (cases "m_name m = f \<and> length (m_params m) = n") auto
  qed simp
  show ?thesis
  proof (induction ms)
    case (Cons m ms)
    then show ?case using keep [of m ms] by (auto split: option.splits)
  qed simp
qed

lemma java_method_choice_witness:
  "case java_pick_method ''twice'' 1 None [demo_method\<lparr>m_params := []\<rparr>, demo_method] of
     None \<Rightarrow> list_all (\<lambda>m. m_name m \<noteq> ''twice'') [demo_method\<lparr>m_params := []\<rparr>, demo_method]
   | Some m \<Rightarrow> m \<in> set [demo_method\<lparr>m_params := []\<rparr>, demo_method] \<and> m_name m = ''twice'' \<and>
       (list_ex (\<lambda>m'. m_name m' = ''twice'' \<and> length (m_params m') = 1) [demo_method\<lparr>m_params := []\<rparr>, demo_method] \<longrightarrow>
         length (m_params m) = 1)"
  by (rule java_method_choice)

text \<open>An \<open>int\<close> parameter gets the value of the test case modulo \<open>2^32\<close>, as a signed number: the value itself
  exactly if it fits 32 bits, and no exception otherwise.\<close>

lemma java_int_argument:
  "\<exists>x. java_convertValue R input (VInt k) TInt h = Inr (ObInt x, h) \<and>
     sint x = (k + 2 ^ 31) mod 2 ^ 32 - 2 ^ 31 \<and> (sint x = k \<longleftrightarrow> in_int32 k)"
proof -
  have "sint (word_of_int k :: int32) = (k + 2 ^ 31) mod 2 ^ 32 - 2 ^ 31" using int_word_sint [where 'a = 32, of k] by simp
  moreover have "sint (word_of_int k :: int32) = k \<longleftrightarrow> in_int32 k"
    using sint_of_int32 [of k] sint_ge [of "word_of_int k :: int32"] sint_lt [of "word_of_int k :: int32"]
    by (auto simp: in_int32_def)
  ultimately show ?thesis by (simp add: java_convertValue_def int_value_def)
qed

text \<open>A negative \<open>pos\<close> other than \<open>-1\<close> ends in an exception, where Python ignores it.\<close>

lemma java_negative_pos:
  assumes "values \<noteq> []" and "pos < - 1"
  shows "java_buildLinkedList R values pos h = Inl (index_error R pos (length values))"
proof -
  obtain p ns h' where m: "make_list 0 values h = (p, ns, h')" by (cases "make_list 0 values h")
  then show ?thesis using assms make_list_length [OF m] by (auto simp: java_buildLinkedList_def vm_list_def)
qed

end
