(* ===== verification/KotlinWrapper.thy ===== *)
theory KotlinWrapper
  imports JavaWrapper
begin

text \<open>
  The Kotlin wrapper (\<open>languages/kotlin_wrapper.py\<close>). It shares the runtime, the JSON library and most rules
  with the Java wrapper; it also finds functions outside a class, rejects unknown neighbours in a graph and
  \<open>null\<close> rows in a grid of characters, leaves a text of several lines to the library, and runs one test case
  per process.
\<close>

section \<open>Builders\<close>

definition kotlin_buildTree :: "int32 option list \<Rightarrow> int32 option tree_node list \<Rightarrow> nat option \<times> int32 option tree_node list" where
  "kotlin_buildTree = queue_tree None"

definition kotlin_treeToList :: "nat \<Rightarrow> int32 option tree_node list \<Rightarrow> nat option \<Rightarrow> int32 option list option" where
  "kotlin_treeToList = read_tree None"

interpretation kotlin_tree: tree_wire None kotlin_buildTree kotlin_treeToList
  unfolding kotlin_buildTree_def kotlin_treeToList_def by (rule tree_wire_queue_tree)

definition kotlin_buildLinkedList ::
  "vm_runtime \<Rightarrow> int32 list \<Rightarrow> int \<Rightarrow> int32 list_node list \<Rightarrow> throwable + nat option \<times> int32 list_node list" where
  "kotlin_buildLinkedList = vm_list"

definition kotlin_linkedListToList :: "int32 list_node list \<Rightarrow> nat option \<Rightarrow> int32 list" where
  "kotlin_linkedListToList = read_list"

text \<open>\<open>nodes[n]!!\<close>\<close>

definition kotlin_neighbor :: "vm_runtime \<Rightarrow> nat \<Rightarrow> pyval \<Rightarrow> throwable + int32" where
  "kotlin_neighbor R n v = (case unboxed_int R v of
      Inl e \<Rightarrow> Inl e
    | Inr x \<Rightarrow> if look_up 0 n (sint x) = None then Inl (null_error R ''nodes'') else Inr x)"

definition kotlin_row :: "vm_runtime \<Rightarrow> nat \<Rightarrow> pyval \<Rightarrow> throwable + int32 list" where
  "kotlin_row R n row = (case row of
      VList vs \<Rightarrow> map_r (kotlin_neighbor R n) vs
    | VNone \<Rightarrow> Inl (null_error R ''iterator'')
    | _ \<Rightarrow> Inl (cast_error R ''List'' row))"

definition kotlin_buildGraph :: "vm_runtime \<Rightarrow> pyval list \<Rightarrow> null_node list \<Rightarrow> throwable + nat option \<times> null_node list" where
  "kotlin_buildGraph R rows h =
     fmap_r (\<lambda>adj. open_graph (map (map Some) adj) h) (map_r (kotlin_row R (length rows)) rows)"

definition kotlin_graphToAdjList :: "vm_runtime \<Rightarrow> null_node list \<Rightarrow> nat option \<Rightarrow> throwable + int list list" where
  "kotlin_graphToAdjList = vm_adjlist"

section \<open>Outputs\<close>

fun kotlin_autoConvertOutput :: "nat \<Rightarrow> vm_runtime \<Rightarrow> node_heap \<Rightarrow> vmobj \<Rightarrow> (throwable + vmobj) option"
  and kotlin_convertAll :: "nat \<Rightarrow> vm_runtime \<Rightarrow> node_heap \<Rightarrow> vmobj list \<Rightarrow> (throwable + vmobj list) option" where
  "kotlin_autoConvertOutput n R h (ObTree i) = map_option (\<lambda>vs. Inr (ob_tree_list vs)) (kotlin_treeToList n (mh_trees h) (Some i))"
| "kotlin_autoConvertOutput n R h (ObList i) =
     Some (Inr (ObCollection (map ObInt (kotlin_linkedListToList (mh_chains h) (Some i)))))"
| "kotlin_autoConvertOutput n R h (ObGraph i) = Some (fmap_r ob_rows (kotlin_graphToAdjList R (mh_graphs h) (Some i)))"
| "kotlin_autoConvertOutput n R h (ObChar c) = Some (Inr (ObStr [c]))"
| "kotlin_autoConvertOutput n R h (ObChars s) = Some (Inr (ObCollection (map (\<lambda>c. ObStr [c]) s)))"
| "kotlin_autoConvertOutput n R h (ObArray obs) = map_option (fmap_r ObCollection) (kotlin_convertAll n R h obs)"
| "kotlin_autoConvertOutput n R h (ObCollection obs) = map_option (fmap_r ObCollection) (kotlin_convertAll n R h obs)"
| "kotlin_autoConvertOutput n R h ob = Some (Inr ob)"
| "kotlin_convertAll n R h [] = Some (Inr [])"
| "kotlin_convertAll n R h (ob # obs) = (case kotlin_autoConvertOutput n R h ob of
      None \<Rightarrow> None
    | Some (Inl e) \<Rightarrow> Some (Inl e)
    | Some (Inr x) \<Rightarrow> map_option (fmap_r (Cons x)) (kotlin_convertAll n R h obs))"

section \<open>Inputs\<close>

definition kotlin_toChar :: "vm_runtime \<Rightarrow> pyval \<Rightarrow> throwable + char" where
  "kotlin_toChar R v = (case v of
      VNone \<Rightarrow> Inl (null_error R ''it'')
    | VInt n \<Rightarrow> fmap_r code_char (int_value R v)
    | VFloat x \<Rightarrow> fmap_r code_char (int_value R v)
    | _ \<Rightarrow> Inr (first_char (vm_string R v)))"

definition kotlin_chars :: "vm_runtime \<Rightarrow> pyval \<Rightarrow> throwable + vmobj" where
  "kotlin_chars R v = (case v of
      VList vs \<Rightarrow> fmap_r ObChars (map_r (kotlin_toChar R) vs)
    | _ \<Rightarrow> Inr (ObChars (vm_string R v)))"

text \<open>A row of a grid of characters: \<open>null as CharArray\<close> raises.\<close>

definition kotlin_char_row :: "vm_runtime \<Rightarrow> pyval \<Rightarrow> throwable + vmobj" where
  "kotlin_char_row R v = (if v = VNone then Inl (null_error R ''CharArray'') else kotlin_chars R v)"

definition kotlin_list :: "vm_runtime \<Rightarrow> pyval \<Rightarrow> throwable + pyval list" where
  "kotlin_list R v = (case v of VList vs \<Rightarrow> Inr vs | _ \<Rightarrow> Inl (cast_error R ''List'' v))"

text \<open>\<open>(fullInput["pos"] as? Number)?.toInt() ?: -1\<close>\<close>

definition kotlin_pos :: "vm_runtime \<Rightarrow> pydict \<Rightarrow> int" where
  "kotlin_pos R fullInput = (case dget fullInput ''pos'' of
      None \<Rightarrow> - 1
    | Some v \<Rightarrow> (case int_value R v of Inl _ \<Rightarrow> - 1 | Inr x \<Rightarrow> sint x))"

definition kotlin_tree_arg :: "vm_runtime \<Rightarrow> pyval list \<Rightarrow> node_heap \<Rightarrow> throwable + vmobj \<times> node_heap" where
  "kotlin_tree_arg R vs h = fmap_r (\<lambda>xs. case kotlin_buildTree xs (mh_trees h) of (p, ts) \<Rightarrow> (ob_ref ObTree p, h\<lparr>mh_trees := ts\<rparr>))
     (map_r (boxed_int R) vs)"

definition kotlin_list_arg :: "vm_runtime \<Rightarrow> int \<Rightarrow> pyval list \<Rightarrow> node_heap \<Rightarrow> throwable + vmobj \<times> node_heap" where
  "kotlin_list_arg R pos vs h = (case map_r (unboxed_int R) vs of
      Inl e \<Rightarrow> Inl e
    | Inr xs \<Rightarrow> fmap_r (\<lambda>(p, ls). (ob_ref ObList p, h\<lparr>mh_chains := ls\<rparr>)) (kotlin_buildLinkedList R xs pos (mh_chains h)))"

definition kotlin_convertValue :: "vm_runtime \<Rightarrow> pydict \<Rightarrow> pyval \<Rightarrow> vmtype \<Rightarrow> node_heap \<Rightarrow> throwable + vmobj \<times> node_heap" where
  "kotlin_convertValue R fullInput v t h =
     (let plain = fmap_r (\<lambda>ob. (ob, h)) in
      if v = VNone then Inr (ObNull, h)
      else case t of
        TInt \<Rightarrow> plain (fmap_r ObInt (int_value R v))
      | TLong \<Rightarrow> plain (fmap_r ObLong (long_value R v))
      | TDouble \<Rightarrow> plain (fmap_r ObDouble (double_value R v))
      | TBoolean \<Rightarrow> Inr (java_object v, h)
      | TChar \<Rightarrow> plain (fmap_r ObChar (kotlin_toChar R v))
      | TString \<Rightarrow> Inr (ObStr (vm_string R v), h)
      | TList g \<Rightarrow> plain (lib_convert R g v)
      | TChars \<Rightarrow> plain (kotlin_chars R v)
      | TCharGrid \<Rightarrow> (case kotlin_list R v of Inl e \<Rightarrow> Inl e | Inr vs \<Rightarrow> plain (fmap_r ObArray (map_r (kotlin_char_row R) vs)))
      | TTree \<Rightarrow> (case kotlin_list R v of Inl e \<Rightarrow> Inl e | Inr vs \<Rightarrow> kotlin_tree_arg R vs h)
      | TListNode \<Rightarrow> (case kotlin_list R v of Inl e \<Rightarrow> Inl e | Inr vs \<Rightarrow> kotlin_list_arg R (kotlin_pos R fullInput) vs h)
      | TGraph \<Rightarrow> (case kotlin_list R v of
            Inl e \<Rightarrow> Inl e
          | Inr rows \<Rightarrow> fmap_r (\<lambda>(p, gs). (ob_ref ObGraph p, h\<lparr>mh_graphs := gs\<rparr>)) (kotlin_buildGraph R rows (mh_graphs h)))
      | TOther g \<Rightarrow> plain (lib_convert R g v))"

fun kotlin_args :: "vm_runtime \<Rightarrow> pydict \<Rightarrow> pyval list \<Rightarrow> vmtype list \<Rightarrow> node_heap \<Rightarrow> throwable + vmobj list \<times> node_heap" where
  "kotlin_args R fullInput values [] h = Inr ([], h)"
| "kotlin_args R fullInput values (t # ts) h =
     (case kotlin_convertValue R fullInput (case values of [] \<Rightarrow> VNone | v # _ \<Rightarrow> v) t h of
        Inl e \<Rightarrow> Inl e
      | Inr (ob, h') \<Rightarrow> fmap_r (\<lambda>(obs, h''). (ob # obs, h'')) (kotlin_args R fullInput (tl values) ts h'))"

section \<open>The call\<close>

text \<open>The first of the classes that can be loaded (\<open>Solution\<close>, \<open>MainKt\<close>) with a method of the name.\<close>

definition kotlin_class :: "vm_class list \<Rightarrow> string \<Rightarrow> throwable + (vm_class \<times> vm_method list) option" where
  "kotlin_class classes functionName =
     fmap_r (\<lambda>mss. List.find (\<lambda>(c, ms). list_ex (\<lambda>m. m_name m = functionName) ms) (zip classes mss)) (map_r c_methods classes)"

definition kotlin_output ::
  "nat \<Rightarrow> vm_runtime \<Rightarrow> vm_method \<Rightarrow> node_heap \<Rightarrow> vmobj \<Rightarrow> vmobj list \<Rightarrow> (throwable + (string \<times> vmobj) list) option" where
  "kotlin_output n R m h result args = (case kotlin_autoConvertOutput n R h result of
      None \<Rightarrow> None
    | Some (Inl e) \<Rightarrow> Some (Inl e)
    | Some (Inr r) \<Rightarrow>
        if m_void m \<and> args \<noteq> [] then
          map_option (fmap_r (\<lambda>mu. [(''result'', r), (''mutated'', mu)])) (kotlin_autoConvertOutput n R h (hd args))
        else Some (Inr [(''result'', r)]))"

text \<open>A static method needs no instance.\<close>

definition kotlin_instance :: "vm_class \<Rightarrow> vm_method \<Rightarrow> node_heap \<Rightarrow> throwable option \<times> node_heap \<times> string" where
  "kotlin_instance cls m h = (if m_static m then (None, h, []) else c_new cls h)"

definition kotlin_call ::
  "nat \<Rightarrow> vm_runtime \<Rightarrow> vm_class \<Rightarrow> vm_method \<Rightarrow> vmobj list \<Rightarrow> node_heap \<Rightarrow> ((throwable + (string \<times> vmobj) list) \<times> string) option" where
  "kotlin_call n R cls m args h = (case kotlin_instance cls m h of
      (Some e, h', printed) \<Rightarrow> Some (Inl (target_error R e), printed)
    | (None, h', printed) \<Rightarrow> (case m_invoke m args h' of
          None \<Rightarrow> None
        | Some (res, args', h'', printed') \<Rightarrow> (case res of
              Threw e \<Rightarrow> Some (Inl (exception (describe e)), printed @ printed')
            | Rejected e \<Rightarrow> Some (Inl e, printed @ printed')
            | Returned r \<Rightarrow> map_option (\<lambda>out. (out, printed @ printed')) (kotlin_output n R m h'' r args'))))"

definition kotlin_executeFunction ::
  "nat \<Rightarrow> vm_runtime \<Rightarrow> vm_class list \<Rightarrow> string \<Rightarrow> pydict \<Rightarrow> node_heap \<Rightarrow> ((throwable + (string \<times> vmobj) list) \<times> string) option" where
  "kotlin_executeFunction n R classes functionName input h = (case kotlin_class classes functionName of
      Inl e \<Rightarrow> Some (Inl e, [])
    | Inr None \<Rightarrow> Some (Inl (function_not_found functionName), [])
    | Inr (Some (cls, methods)) \<Rightarrow>
        (case java_pick_method functionName (length (values_without_pos input)) None methods of
           None \<Rightarrow> Some (Inl (function_not_found functionName), [])
         | Some m \<Rightarrow> (case kotlin_args R input (method_values input m) (m_params m) h of
               Inl e \<Rightarrow> Some (Inl e, [])
             | Inr (args, h') \<Rightarrow> kotlin_call n R cls m args h')))"

section \<open>The process\<close>

definition kotlin_error :: "throwable \<Rightarrow> (string \<times> vmobj) list" where
  "kotlin_error e = [(''error'', ObStr (java_message e))]"

text \<open>\<open>payload["function_name"] as String\<close> and \<open>payload["input"] as Map<String, Any?>\<close>.\<close>

definition kotlin_body ::
  "nat \<times> vm_runtime \<times> vm_class list \<times> pyval \<Rightarrow> string \<Rightarrow> ((throwable + (string \<times> vmobj) list) \<times> string) option" where
  "kotlin_body = (\<lambda>(n, R, classes, statics) stdin. (case lib_read R (join_lines stdin) of
      Inl e \<Rightarrow> Some (Inl e, [])
    | Inr payload \<Rightarrow> (case dget payload ''function_name'' of
          Some (VStr f) \<Rightarrow> (case dget payload ''input'' of
              Some (VDict input) \<Rightarrow> kotlin_executeFunction n R classes f input (fresh_heap statics)
            | None \<Rightarrow> Some (Inl (null_error R ''input''), [])
            | Some VNone \<Rightarrow> Some (Inl (null_error R ''input''), [])
            | Some v \<Rightarrow> Some (Inl (cast_error R ''Map'' v), []))
        | None \<Rightarrow> Some (Inl (null_error R ''function_name''), [])
        | Some VNone \<Rightarrow> Some (Inl (null_error R ''function_name''), [])
        | Some v \<Rightarrow> Some (Inl (cast_error R ''String'' v), []))))"

definition kotlin_main :: "nat \<times> vm_runtime \<times> vm_class list \<times> pyval \<Rightarrow> string \<Rightarrow> (string \<times> int) option" where
  "kotlin_main prog stdin = vm_print (fst (snd prog)) kotlin_error 1 (kotlin_body prog stdin)"

interpretation kotlin_harness: harness "\<lambda>prog stdin. vm_run (fst (snd prog)) kotlin_error (kotlin_body prog stdin)" kotlin_main
  by (rule harness_vm [OF refl]) (rule kotlin_main_def)

section \<open>Graphs\<close>

lemma kotlin_rows:
  assumes "adj_ok adj" and "length adj < 2 ^ 31"
  shows "map_r (kotlin_row R (length adj)) (adj_values adj) = Inr (as_int32 adj)"
proof -
  have "kotlin_neighbor R (length adj) (VInt k) = Inr (word_of_int k)" if "r \<in> set adj" "k \<in> set r" for r k
  proof -
    have k: "1 \<le> k" "k \<le> int (length adj)" using assms(1) that by (auto simp: adj_ok_def)
    then have "in_int32 k" using assms(2) by (simp add: in_int32_def)
    then show ?thesis using k by (simp add: kotlin_neighbor_def unboxed_int_def boxed_int_def sint_of_int32 look_up_def)
  qed
  then have "kotlin_row R (length adj) (VList (map VInt r)) = Inr (map word_of_int r)" if "r \<in> set adj" for r
    using that by (simp add: kotlin_row_def map_r_map)
  then show ?thesis by (simp add: adj_values_def as_int32_def map_r_map)
qed

interpretation kotlin_graph: graph_wire "\<lambda>adj. kotlin_buildGraph R (adj_values adj)" "kotlin_graphToAdjList R'" "\<lambda>n. n < 2 ^ 31"
proof
  fix adj h
  assume adj: "adj_ok adj" "adj \<noteq> []" "connected adj" "length adj < 2 ^ 31"
  have "map_r (kotlin_row R (length (adj_values adj))) (adj_values adj) = Inr (as_int32 adj)"
    using kotlin_rows [OF adj(1,4)] by (simp add: adj_values_def)
  then show "\<exists>p h'. kotlin_buildGraph R (adj_values adj) h = Inr (p, h') \<and> kotlin_graphToAdjList R' h' p = Inr adj"
    using open_graph_new_nodes [OF adj(1,2,4), of h] null_graph_roundtrip [OF adj(1-3), of h]
    by (simp add: kotlin_buildGraph_def kotlin_graphToAdjList_def vm_adjlist_def)
qed (simp_all add: kotlin_buildGraph_def adj_values_def open_graph_def kotlin_graphToAdjList_def vm_adjlist_def null_adjlist_def)

section \<open>What the judge reads\<close>

lemma kotlin_body_named:
  assumes "reads_json R" and "json_ok (VDict inp)"
  shows "kotlin_body (n, R, classes, st) (named_payload f inp) = kotlin_executeFunction n R classes f inp (fresh_heap st)"
  using lib_read_lines [OF assms(1), of "[(''function_name'', VStr f), (''input'', VDict inp)]"] assms(2)
  by (simp add: kotlin_body_def named_payload_def dget_def del: dumps.simps)

section \<open>What a submission does\<close>

text \<open>The call that a test case makes, with its outcome: in the first class with a method of the name, the method
  chosen by its number of parameters, on a new instance unless it is static, with the converted values.\<close>

inductive kotlin_calls ::
  "vm_runtime \<Rightarrow> vm_class list \<Rightarrow> pyval \<Rightarrow> string \<Rightarrow> pydict \<Rightarrow> vm_method \<Rightarrow> invocation \<times> vmobj list \<times> node_heap \<times> string \<Rightarrow> bool"
  for R classes st f inp where
  kotlin_called: "kotlin_class classes f = Inr (Some (cls, methods)) \<Longrightarrow>
    java_pick_method f (length (values_without_pos inp)) None methods = Some m \<Longrightarrow>
    kotlin_args R inp (method_values inp m) (m_params m) (fresh_heap st) = Inr (args, h) \<Longrightarrow>
    (if m_static m then (None, h, []) else c_new cls h) = (None, h', created) \<Longrightarrow>
    m_invoke m args h' = Some (r, args', h'', printed) \<Longrightarrow>
    kotlin_calls R classes st f inp m (r, args', h'', created @ printed)"

text \<open>The JSON value of an object: a tree by its values in level order without the missing ones at the end, a
  linked list, cyclic or not, by its values, a graph by its adjacency list, a character by a text, arrays and
  collections by the list of the values of their elements.\<close>

inductive kotlin_shows :: "nat \<Rightarrow> vm_runtime \<Rightarrow> node_heap \<Rightarrow> vmobj \<Rightarrow> pyval \<Rightarrow> bool" for n R h where
  kt_tree: "tree_rep (mh_trees h) (Some i) t \<Longrightarrow> weight t \<le> n \<Longrightarrow> kotlin_shows n R h (ObTree i)
    (VList (map (\<lambda>x. case x of None \<Rightarrow> VNone | Some w \<Rightarrow> VInt (sint w)) (pop_nones None (level_order None [t]))))"
| kt_list: "list_rep (mh_chains h) (Some i) vs back \<Longrightarrow> kotlin_shows n R h (ObList i) (VList (map (\<lambda>w. VInt (sint w)) vs))"
| kt_graph: "kotlin_graphToAdjList R (mh_graphs h) (Some i) = Inr rows \<Longrightarrow>
    kotlin_shows n R h (ObGraph i) (VList (map (\<lambda>r. VList (map (\<lambda>k. VInt (sint (word_of_int k :: int32))) r)) rows))"
| kt_char: "kotlin_shows n R h (ObChar c) (VStr [c])"
| kt_chars: "kotlin_shows n R h (ObChars s) (VList (map (\<lambda>c. VStr [c]) s))"
| kt_array: "list_all2 (kotlin_shows n R h) obs vs \<Longrightarrow> kotlin_shows n R h (ObArray obs) (VList vs)"
| kt_collection: "list_all2 (kotlin_shows n R h) obs vs \<Longrightarrow> kotlin_shows n R h (ObCollection obs) (VList vs)"
| kt_null: "kotlin_shows n R h ObNull VNone"
| kt_bool: "kotlin_shows n R h (ObBool b) (VBool b)"
| kt_int: "kotlin_shows n R h (ObInt w) (VInt (sint w))"
| kt_long: "kotlin_shows n R h (ObLong l) (VInt (sint l))"
| kt_double: "fval x \<noteq> None \<Longrightarrow> kotlin_shows n R h (ObDouble x) (VFloat x)"
| kt_str: "kotlin_shows n R h (ObStr s) (VStr s)"
| kt_data: "kotlin_shows n R h (ObData c v) v"
monos list_all2_mono

lemma vm_json_list_map: "(\<And>x. x \<in> set xs \<Longrightarrow> vm_json (f x) = Some (g x)) \<Longrightarrow> vm_json_list (map f xs) = Some (map g xs)"
  by (induction xs) auto

lemma kotlin_convertAll_all:
  assumes "list_all2 (\<lambda>ob v. \<exists>x. kotlin_autoConvertOutput n R h ob = Some (Inr x) \<and> vm_json x = Some v) obs vs"
  shows "\<exists>xs. kotlin_convertAll n R h obs = Some (Inr xs) \<and> vm_json_list xs = Some vs"
  using assms by (induction rule: list_all2_induct) auto

lemma kotlin_shows_output:
  "kotlin_shows n R h ob v \<Longrightarrow> \<exists>x. kotlin_autoConvertOutput n R h ob = Some (Inr x) \<and> vm_json x = Some v"
proof (induction rule: kotlin_shows.induct)
  case (kt_tree i t)
  have "vm_json (ob_tree_list xs) = Some (VList (map (\<lambda>x. case x of None \<Rightarrow> VNone | Some w \<Rightarrow> VInt (sint w)) xs))" for xs
    unfolding ob_tree_list_def by (auto intro!: vm_json_list_map split: option.split)
  then show ?case using kotlin_tree.flatten_level [OF kt_tree] by simp
next
  case (kt_list i vs k)
  then show ?case by (auto simp: kotlin_linkedListToList_def read_list_rep [OF kt_list] intro!: vm_json_list_map)
next
  case (kt_graph i rows)
  have "vm_json (ob_rows rows) = Some (VList (map (\<lambda>r. VList (map (\<lambda>k. VInt (sint (word_of_int k :: int32))) r)) rows))"
    unfolding ob_rows_def by (auto intro!: vm_json_list_map)
  then show ?case using kt_graph by simp
next
  case (kt_array obs vs)
  have "list_all2 (\<lambda>ob v. \<exists>x. kotlin_autoConvertOutput n R h ob = Some (Inr x) \<and> vm_json x = Some v) obs vs"
    using kt_array by (rule list_all2_mono) blast
  from kotlin_convertAll_all [OF this] show ?case by auto
next
  case (kt_collection obs vs)
  have "list_all2 (\<lambda>ob v. \<exists>x. kotlin_autoConvertOutput n R h ob = Some (Inr x) \<and> vm_json x = Some v) obs vs"
    using kt_collection by (rule list_all2_mono) blast
  from kotlin_convertAll_all [OF this] show ?case by auto
qed (auto intro!: vm_json_list_map)

lemma kotlin_output_shows:
  assumes "kotlin_shows n R h res v" and "\<not> m_void m \<or> args = [] \<or> kotlin_shows n R h (hd args) mu"
  shows "\<exists>out. kotlin_output n R m h res args = Some (Inr out) \<and> vm_items out = Some (answer_object (m_void m \<and> args \<noteq> []) v mu)"
  using kotlin_shows_output [OF assms(1)] kotlin_shows_output [of n R h "hd args" mu] assms(2)
  by (auto simp: kotlin_output_def answer_object_def)

lemma kotlin_executeFunction_calls:
  assumes "kotlin_calls R classes st f inp m (Returned res, args, h, printed)"
  shows "kotlin_executeFunction n R classes f inp (fresh_heap st) = map_option (\<lambda>out. (out, printed)) (kotlin_output n R m h res args)"
  using assms by cases (simp add: kotlin_executeFunction_def kotlin_call_def kotlin_instance_def)

text \<open>The library writes no marker into the object \<open>d\<close>.\<close>

definition writes_unmarked :: "vm_runtime \<Rightarrow> pydict \<Rightarrow> bool" where
  "writes_unmarked R d \<longleftrightarrow> (\<forall>out t. vm_items out = Some d \<and> lib_write R out = Inr t \<longrightarrow> no_marker t)"

lemma kotlin_body_answers:
  assumes "reads_json R" and "writes_json R" and "json_ok (VDict inp)"
    and "kotlin_calls R classes st f inp m (Returned res, args, h, printed)"
    and "kotlin_shows n R h res v" and "\<not> m_void m \<or> args = [] \<or> kotlin_shows n R h (hd args) mu"
    and "d = answer_object (m_void m \<and> args \<noteq> []) v mu" and "json_ok (VDict d)"
  shows "\<exists>out t. kotlin_body (n, R, classes, st) (named_payload f inp) = Some (Inr out, printed) \<and>
    vm_items out = Some d \<and> lib_write R out = Inr t"
proof -
  from kotlin_output_shows [OF assms(5,6)] obtain out where
    out: "kotlin_output n R m h res args = Some (Inr out)" "vm_items out = Some d" using assms(7) by blast
  obtain t where "lib_write R out = Inr t" using assms(2,8) out(2) unfolding writes_json_def by blast
  then show ?thesis
    using out kotlin_body_named [OF assms(1,3)] kotlin_executeFunction_calls [OF assms(4), of n] by simp
qed

section \<open>Properties\<close>

text \<open>C39. What a Kotlin function returns is what the judge gets: let the JSON library read the payload that the
  engine sends for a test case and write documents as JSON, let the payload make the call of the chosen
  method \<open>m\<close> with its converted arguments, and let that call return \<open>res\<close> and leave its arguments as
  \<open>args\<close>. If \<open>v\<close> is the JSON value of \<open>res\<close>, and \<open>mu\<close> that of the first argument if the method is void and
  has one, and the library writes no marker into the answer, then the wrapper's process, whatever the
  submission printed, makes \<open>run_wrapper\<close> return \<open>v\<close>, and with it the changed first argument \<open>mu\<close>
  exactly when the method is void and has one.\<close>

theorem kotlin_answer_reaches_judge:
  assumes "reads_json R" and "writes_json R" and "json_ok (VDict test_input)"
    and "kotlin_calls R classes st function_name test_input m (Returned res, args, h, printed)"
    and "kotlin_shows n R h res v" and "\<not> m_void m \<or> args = [] \<or> kotlin_shows n R h (hd args) mu"
    and "d = answer_object (m_void m \<and> args \<noteq> []) v mu" and "json_ok (VDict d)" and "writes_unmarked R d"
    and "communicate E cmd (named_payload function_name test_input) (Some limit) w = (Inr (Finished p), w')"
    and "kotlin_main (n, R, classes, st) (named_payload function_name test_input) = Some (utf8 E (p_stdout p), p_returncode p)"
    and "int (length (p_stdout p)) \<le> MAX_STDOUT_BYTES E"
  shows "run_wrapper E cmd (named_payload function_name test_input) limit w =
    (Inr (if m_void m \<and> args \<noteq> [] then InPlaceResult v mu else Plain v), w')"
proof -
  from kotlin_body_answers [OF assms(1-8)] obtain out t where
    out: "kotlin_body (n, R, classes, st) (named_payload function_name test_input) = Some (Inr out, printed)"
      "vm_items out = Some d" "lib_write R out = Inr t" by blast
  have mark: "no_marker t" using assms(9) out(2,3) by (auto simp: writes_unmarked_def)
  have "map fst out = map fst d" using vm_items_keys [OF out(2)] by simp
  then have "fst ` set out \<subseteq> {''result'', ''mutated''}" "out \<noteq> []"
    using answer_object_keys [of "m_void m \<and> args \<noteq> []" v mu] assms(7) by (metis set_map, auto)
  then obtain d' where d': "answers t d'" "result_value d' = result_value d"
    using lib_write_answers [OF assms(2) out(2) assms(8) _ _ out(3) mark] by blast
  have "vm_run R kotlin_error (kotlin_body (n, R, classes, st) (named_payload function_name test_input)) = Some (Inr t, printed)"
    by (rule vm_run_answer [OF out(1,3)])
  then show ?thesis
    using kotlin_harness.answer_judged [of "(n, R, classes, st)" _ t printed d', OF _ d'(1) assms(10-12)] d'(2) assms(7) by simp
qed

text \<open>A void method that changes the first of its two arguments.\<close>

definition kotlin_rotate :: vm_class where
  "kotlin_rotate = \<lparr>c_methods = Inr [\<lparr>m_name = ''rotate'', m_params = [TChars, TInt], m_void = True, m_static = False,
     m_invoke = (\<lambda>args h. Some (Returned ObNull, ObChars ''ba'' # tl args, h, ''debug''))\<rparr>], c_new = (\<lambda>h. (None, h, []))\<rparr>"

definition kotlin_rotate_input :: pydict where
  "kotlin_rotate_input = [(''s'', VStr ''ab''), (''k'', VInt 3)]"

definition kotlin_rotate_answer :: pydict where
  "kotlin_rotate_answer = [(''result'', VNone), (''mutated'', VList [VStr ''b'', VStr ''a''])]"

definition kotlin_rotate_run :: "unit env" where
  "kotlin_rotate_run = offline\<lparr>communicate := (\<lambda>_ _ _. io_return (Finished
     \<lparr>p_stdout = ''debug'' @ emit_block (dumps (VDict kotlin_rotate_answer)), p_stderr = [], p_returncode = 0\<rparr>))\<rparr>"

lemma kotlin_rotate_calls:
  "\<exists>m. m_void m \<and> kotlin_calls demo_runtime [kotlin_rotate] VNone ''rotate'' kotlin_rotate_input m
     (Returned ObNull, [ObChars ''ba'', ObInt 3], fresh_heap VNone, ''debug'')"
proof -
  let ?m = "\<lparr>m_name = ''rotate'', m_params = [TChars, TInt], m_void = True, m_static = False,
     m_invoke = (\<lambda>args h. Some (Returned ObNull, ObChars ''ba'' # tl args, h, ''debug''))\<rparr>"
  have "kotlin_calls demo_runtime [kotlin_rotate] VNone ''rotate'' kotlin_rotate_input ?m
     (Returned ObNull, [ObChars ''ba'', ObInt 3], fresh_heap VNone, [] @ ''debug'')"
    by (rule kotlin_called [where cls = kotlin_rotate and methods = "[?m]" and args = "[ObChars ''ab'', ObInt 3]"
          and h = "fresh_heap VNone" and h' = "fresh_heap VNone"])
      (simp_all add: kotlin_class_def kotlin_rotate_def kotlin_rotate_input_def values_without_pos_def method_values_def
        kotlin_convertValue_def kotlin_chars_def int_value_def)
  then show ?thesis by (intro exI [of _ ?m]) simp
qed

theorem kotlin_answer_reaches_judge_witness:
  "run_wrapper kotlin_rotate_run [''docker''] (named_payload ''rotate'' kotlin_rotate_input) 10 () =
    (Inr (InPlaceResult VNone (VList [VStr ''b'', VStr ''a''])), ())"
proof -
  let ?d = kotlin_rotate_answer and ?mu = "VList [VStr ''b'', VStr ''a'']"
  let ?t = "dumps (VDict ?d)"
  let ?p = "\<lparr>p_stdout = ''debug'' @ emit_block ?t, p_stderr = [], p_returncode = 0\<rparr>"
  from kotlin_rotate_calls obtain m where void: "m_void m"
    and call: "kotlin_calls demo_runtime [kotlin_rotate] VNone ''rotate'' kotlin_rotate_input m
      (Returned ObNull, [ObChars ''ba'', ObInt 3], fresh_heap VNone, ''debug'')" by blast
  have ok: "json_ok (VDict kotlin_rotate_input)" "json_ok (VDict ?d)" by (simp_all add: kotlin_rotate_input_def kotlin_rotate_answer_def)
  have mu: "kotlin_shows 0 demo_runtime (fresh_heap VNone) (ObChars ''ba'') ?mu"
    using kt_chars [of 0 demo_runtime "fresh_heap VNone" "''ba''"] by simp
  have d: "?d = answer_object True VNone ?mu" by (simp add: kotlin_rotate_answer_def answer_object_def)
  have unmarked: "no_marker ?t" by code_simp
  have "writes_unmarked demo_runtime ?d" using unmarked demo_write [of _ ?d] by (auto simp: writes_unmarked_def simp del: dumps.simps)
  moreover have "int (length (''debug'' @ emit_block ?t)) \<le> 1000000" by code_simp
  moreover have "kotlin_main (0, demo_runtime, [kotlin_rotate], VNone) (named_payload ''rotate'' kotlin_rotate_input) =
      Some (''debug'' @ emit_block ?t, 0)"
    using kotlin_body_answers [OF demo_runtime_json ok(1) call kt_null, of 0 ?mu ?d] void mu d ok(2) demo_write [of _ ?d]
    by (auto simp: kotlin_main_def vm_print_def vm_block_def simp del: dumps.simps json_ok.simps)
  ultimately show ?thesis
    using kotlin_answer_reaches_judge [OF demo_runtime_json ok(1) call kt_null, of 0 ?mu ?d kotlin_rotate_run "[''docker'']" 10 "()" ?p "()"]
      void mu d ok(2)
    by (simp add: kotlin_rotate_run_def offline_def MAX_STDOUT_BYTES_def int_env_def del: dumps.simps json_ok.simps)
qed

end
