(* ===== verification/CsharpWrapper.thy ===== *)
theory CsharpWrapper
  imports JavaWrapper
begin

text \<open>
  The C# wrapper (\<open>languages/csharp_wrapper.py\<close>): it converts the elements of a JSON document itself, calls a
  method of \<open>Solution\<close>, static ones too, and names every exception with its class. Values it does not
  know are left to \<open>System.Text.Json\<close>, in arguments and in answers.
\<close>

section \<open>Builders\<close>

definition csharp_BuildTree :: "int32 option list \<Rightarrow> int32 option tree_node list \<Rightarrow> nat option \<times> int32 option tree_node list" where
  "csharp_BuildTree = queue_tree None"

definition csharp_TreeToList :: "nat \<Rightarrow> int32 option tree_node list \<Rightarrow> nat option \<Rightarrow> int32 option list option" where
  "csharp_TreeToList = read_tree None"

interpretation csharp_tree: tree_wire None csharp_BuildTree csharp_TreeToList
  unfolding csharp_BuildTree_def csharp_TreeToList_def by (rule tree_wire_queue_tree)

definition csharp_BuildLinkedList ::
  "vm_runtime \<Rightarrow> int32 list \<Rightarrow> int \<Rightarrow> int32 list_node list \<Rightarrow> throwable + nat option \<times> int32 list_node list" where
  "csharp_BuildLinkedList = vm_list"

definition csharp_LinkedListToList :: "int32 list_node list \<Rightarrow> nat option \<Rightarrow> int32 list" where
  "csharp_LinkedListToList = read_list"

text \<open>\<open>nodes[neighbor]\<close> of a dictionary raises for an unknown key.\<close>

definition csharp_BuildGraph :: "vm_runtime \<Rightarrow> int32 list list \<Rightarrow> null_node list \<Rightarrow> throwable + nat option \<times> null_node list" where
  "csharp_BuildGraph R = closed_graph (\<lambda>x. key_error R (int_str (sint x)))"

definition csharp_GraphToAdjList :: "vm_runtime \<Rightarrow> null_node list \<Rightarrow> nat option \<Rightarrow> throwable + int list list" where
  "csharp_GraphToAdjList = vm_adjlist"

interpretation csharp_graph: graph_wire "\<lambda>adj. csharp_BuildGraph R (as_int32 adj)" "csharp_GraphToAdjList R'" "\<lambda>n. n < 2 ^ 31"
  unfolding csharp_BuildGraph_def csharp_GraphToAdjList_def by (rule closed_graph_wire)

section \<open>Outputs\<close>

definition csharp_AutoConvertOutput :: "nat \<Rightarrow> vm_runtime \<Rightarrow> node_heap \<Rightarrow> vmobj \<Rightarrow> (throwable + vmobj) option" where
  "csharp_AutoConvertOutput n R h result = (case result of
      ObTree i \<Rightarrow> map_option (\<lambda>vs. Inr (ob_tree_list vs)) (csharp_TreeToList n (mh_trees h) (Some i))
    | ObList i \<Rightarrow> Some (Inr (ObCollection (map ObInt (csharp_LinkedListToList (mh_chains h) (Some i)))))
    | ObGraph i \<Rightarrow> Some (fmap_r ob_rows (csharp_GraphToAdjList R (mh_graphs h) (Some i)))
    | _ \<Rightarrow> Some (Inr result))"

section \<open>Inputs\<close>

text \<open>\<open>GetInt32\<close> accepts integers of 32 bits only, \<open>EnumerateArray\<close> arrays only.\<close>

definition csharp_GetInt32 :: "vm_runtime \<Rightarrow> pyval \<Rightarrow> throwable + int32" where
  "csharp_GetInt32 R v = (case v of
      VInt n \<Rightarrow> if in_int32 n then Inr (word_of_int n) else Inl (cast_error R ''Int32'' v)
    | _ \<Rightarrow> Inl (cast_error R ''Int32'' v))"

definition csharp_EnumerateArray :: "vm_runtime \<Rightarrow> pyval \<Rightarrow> throwable + pyval list" where
  "csharp_EnumerateArray R v = (case v of VList vs \<Rightarrow> Inr vs | _ \<Rightarrow> Inl (cast_error R ''Array'' v))"

definition csharp_char :: "vm_runtime \<Rightarrow> pyval \<Rightarrow> throwable + char" where
  "csharp_char R v = (case v of VStr s \<Rightarrow> Inr (first_char s) | _ \<Rightarrow> fmap_r code_char (csharp_GetInt32 R v))"

text \<open>An element of a \<open>char[]\<close>: unboxing \<open>null\<close> raises.\<close>

definition csharp_char_elem :: "vm_runtime \<Rightarrow> pyval \<Rightarrow> throwable + char" where
  "csharp_char_elem R v = (if v = VNone then Inl (null_error R ''char'') else csharp_char R v)"

definition csharp_chars :: "vm_runtime \<Rightarrow> pyval \<Rightarrow> throwable + vmobj" where
  "csharp_chars R v = (case v of
      VNone \<Rightarrow> Inr ObNull
    | VStr s \<Rightarrow> Inr (ObChars s)
    | _ \<Rightarrow> (case csharp_EnumerateArray R v of Inl e \<Rightarrow> Inl e | Inr vs \<Rightarrow> fmap_r ObChars (map_r (csharp_char_elem R) vs)))"

definition csharp_tree_elem :: "vm_runtime \<Rightarrow> pyval \<Rightarrow> throwable + int32 option" where
  "csharp_tree_elem R v = (if v = VNone then Inr None else fmap_r Some (csharp_GetInt32 R v))"

definition csharp_row :: "vm_runtime \<Rightarrow> pyval \<Rightarrow> throwable + int32 list" where
  "csharp_row R row = (case csharp_EnumerateArray R row of Inl e \<Rightarrow> Inl e | Inr vs \<Rightarrow> map_r (csharp_GetInt32 R) vs)"

definition csharp_pos :: "vm_runtime \<Rightarrow> pydict \<Rightarrow> throwable + int" where
  "csharp_pos R fullInput = (case dget fullInput ''pos'' of None \<Rightarrow> Inr (- 1) | Some v \<Rightarrow> fmap_r sint (csharp_GetInt32 R v))"

definition csharp_tree_arg :: "vm_runtime \<Rightarrow> pyval list \<Rightarrow> node_heap \<Rightarrow> throwable + vmobj \<times> node_heap" where
  "csharp_tree_arg R vs h = fmap_r (\<lambda>xs. case csharp_BuildTree xs (mh_trees h) of (p, ts) \<Rightarrow> (ob_ref ObTree p, h\<lparr>mh_trees := ts\<rparr>))
     (map_r (csharp_tree_elem R) vs)"

definition csharp_list_arg :: "vm_runtime \<Rightarrow> int \<Rightarrow> pyval list \<Rightarrow> node_heap \<Rightarrow> throwable + vmobj \<times> node_heap" where
  "csharp_list_arg R pos vs h = (case map_r (csharp_GetInt32 R) vs of
      Inl e \<Rightarrow> Inl e
    | Inr xs \<Rightarrow> fmap_r (\<lambda>(p, ls). (ob_ref ObList p, h\<lparr>mh_chains := ls\<rparr>)) (csharp_BuildLinkedList R xs pos (mh_chains h)))"

definition csharp_graph_arg :: "vm_runtime \<Rightarrow> pyval list \<Rightarrow> node_heap \<Rightarrow> throwable + vmobj \<times> node_heap" where
  "csharp_graph_arg R rows h = (case map_r (csharp_row R) rows of
      Inl e \<Rightarrow> Inl e
    | Inr adj \<Rightarrow> fmap_r (\<lambda>(p, gs). (ob_ref ObGraph p, h\<lparr>mh_graphs := gs\<rparr>)) (csharp_BuildGraph R adj (mh_graphs h)))"

text \<open>The name of a type that is left to the library.\<close>

definition csharp_type :: "vmtype \<Rightarrow> string" where
  "csharp_type t = (case t of
      TInt \<Rightarrow> ''int'' | TLong \<Rightarrow> ''long'' | TDouble \<Rightarrow> ''double'' | TBoolean \<Rightarrow> ''bool'' | TString \<Rightarrow> ''string''
    | TList g \<Rightarrow> g | TOther g \<Rightarrow> g | _ \<Rightarrow> [])"

definition csharp_ConvertValue :: "vm_runtime \<Rightarrow> pydict \<Rightarrow> pyval \<Rightarrow> vmtype \<Rightarrow> node_heap \<Rightarrow> throwable + vmobj \<times> node_heap" where
  "csharp_ConvertValue R fullInput v t h =
     (let plain = fmap_r (\<lambda>ob. (ob, h)) in
      if v = VNone then Inr (ObNull, h)
      else case t of
        TChar \<Rightarrow> plain (fmap_r ObChar (csharp_char R v))
      | TChars \<Rightarrow> plain (csharp_chars R v)
      | TCharGrid \<Rightarrow> (case csharp_EnumerateArray R v of
            Inl e \<Rightarrow> Inl e | Inr vs \<Rightarrow> plain (fmap_r ObArray (map_r (csharp_chars R) vs)))
      | TTree \<Rightarrow> (case csharp_EnumerateArray R v of Inl e \<Rightarrow> Inl e | Inr vs \<Rightarrow> csharp_tree_arg R vs h)
      | TListNode \<Rightarrow> (case csharp_pos R fullInput of
            Inl e \<Rightarrow> Inl e
          | Inr pos \<Rightarrow> (case csharp_EnumerateArray R v of Inl e \<Rightarrow> Inl e | Inr vs \<Rightarrow> csharp_list_arg R pos vs h))
      | TGraph \<Rightarrow> (case csharp_EnumerateArray R v of Inl e \<Rightarrow> Inl e | Inr rows \<Rightarrow> csharp_graph_arg R rows h)
      | _ \<Rightarrow> plain (lib_convert R (csharp_type t) v))"

text \<open>A parameter without a value gets \<open>null\<close>.\<close>

fun csharp_args :: "vm_runtime \<Rightarrow> pydict \<Rightarrow> pyval list \<Rightarrow> vmtype list \<Rightarrow> node_heap \<Rightarrow> throwable + vmobj list \<times> node_heap" where
  "csharp_args R fullInput values [] h = Inr ([], h)"
| "csharp_args R fullInput values (t # ts) h =
     (case (case values of [] \<Rightarrow> Inr (ObNull, h) | v # _ \<Rightarrow> csharp_ConvertValue R fullInput v t h) of
        Inl e \<Rightarrow> Inl e
      | Inr (ob, h') \<Rightarrow> fmap_r (\<lambda>(obs, h''). (ob # obs, h'')) (csharp_args R fullInput (tl values) ts h'))"

section \<open>The call\<close>

text \<open>\<open>methods.FirstOrDefault(m => m.GetParameters().Length == values.Count) ?? methods[0]\<close>\<close>

definition csharp_method :: "string \<Rightarrow> nat \<Rightarrow> vm_method list \<Rightarrow> vm_method option" where
  "csharp_method functionName n ms =
     (let methods = filter (\<lambda>m. m_name m = functionName) ms in
      case methods of
        [] \<Rightarrow> None
      | m # _ \<Rightarrow> (case List.find (\<lambda>m. length (m_params m) = n) methods of Some m' \<Rightarrow> Some m' | None \<Rightarrow> Some m))"

definition csharp_output ::
  "nat \<Rightarrow> vm_runtime \<Rightarrow> vm_method \<Rightarrow> node_heap \<Rightarrow> vmobj \<Rightarrow> vmobj list \<Rightarrow> (throwable + (string \<times> vmobj) list) option" where
  "csharp_output n R m h result args = (case csharp_AutoConvertOutput n R h result of
      None \<Rightarrow> None
    | Some (Inl e) \<Rightarrow> Some (Inl e)
    | Some (Inr r) \<Rightarrow>
        if m_void m \<and> args \<noteq> [] then
          map_option (fmap_r (\<lambda>mu. [(''result'', r), (''mutated'', mu)])) (csharp_AutoConvertOutput n R h (hd args))
        else Some (Inr [(''result'', r)]))"

text \<open>The exception of a method or a constructor is wrapped; \<open>Describe\<close> takes the wrapping off again.\<close>

definition csharp_call ::
  "nat \<Rightarrow> vm_runtime \<Rightarrow> vm_class \<Rightarrow> vm_method \<Rightarrow> vmobj list \<Rightarrow> node_heap \<Rightarrow> ((throwable + (string \<times> vmobj) list) \<times> string) option" where
  "csharp_call n R cls m args h = (case (if m_static m then (None, h, []) else c_new cls h) of
      (Some e, h', printed) \<Rightarrow> Some (Inl e, printed)
    | (None, h', printed) \<Rightarrow> (case m_invoke m args h' of
          None \<Rightarrow> None
        | Some (res, args', h'', printed') \<Rightarrow> (case res of
              Threw e \<Rightarrow> Some (Inl e, printed @ printed')
            | Rejected e \<Rightarrow> Some (Inl e, printed @ printed')
            | Returned r \<Rightarrow> map_option (\<lambda>out. (out, printed @ printed')) (csharp_output n R m h'' r args'))))"

definition csharp_execute ::
  "nat \<Rightarrow> vm_runtime \<Rightarrow> vm_class option \<Rightarrow> string \<Rightarrow> pydict \<Rightarrow> node_heap \<Rightarrow> ((throwable + (string \<times> vmobj) list) \<times> string) option" where
  "csharp_execute n R solution functionName input h = (case solution of
      None \<Rightarrow> Some (Inl class_not_found, [])
    | Some cls \<Rightarrow> (case c_methods cls of
          Inl e \<Rightarrow> Some (Inl e, [])
        | Inr methods \<Rightarrow> (case csharp_method functionName (length (values_without_pos input)) methods of
              None \<Rightarrow> Some (Inl (function_not_found functionName), [])
            | Some m \<Rightarrow> (case csharp_args R input (method_values input m) (m_params m) h of
                  Inl e \<Rightarrow> Some (Inl e, [])
                | Inr (args, h') \<Rightarrow> csharp_call n R cls m args h'))))"

section \<open>The process\<close>

definition csharp_Describe :: "throwable \<Rightarrow> string" where
  "csharp_Describe e = th_name e @ '': '' @ (case th_message e of None \<Rightarrow> [] | Some m \<Rightarrow> m)"

definition csharp_error :: "throwable \<Rightarrow> (string \<times> vmobj) list" where
  "csharp_error e = [(''error'', ObStr (csharp_Describe e))]"

definition csharp_body ::
  "nat \<times> vm_runtime \<times> vm_class option \<times> pyval \<Rightarrow> string \<Rightarrow> ((throwable + (string \<times> vmobj) list) \<times> string) option" where
  "csharp_body = (\<lambda>(n, R, solution, statics) stdin. (case lib_read R stdin of
      Inl e \<Rightarrow> Some (Inl e, [])
    | Inr payload \<Rightarrow> (case dget payload ''function_name'' of
          None \<Rightarrow> Some (Inl (key_error R ''function_name''), [])
        | Some name \<Rightarrow> (case (case name of VStr f \<Rightarrow> Inr f | VNone \<Rightarrow> Inr [] | v \<Rightarrow> Inl (cast_error R ''String'' v)) of
              Inl e \<Rightarrow> Some (Inl e, [])
            | Inr f \<Rightarrow> (case dget payload ''input'' of
                  None \<Rightarrow> Some (Inl (key_error R ''input''), [])
                | Some (VDict input) \<Rightarrow> csharp_execute n R solution f input (fresh_heap statics)
                | Some v \<Rightarrow> Some (Inl (cast_error R ''Dictionary'' v), [])))))) "

text \<open>An exception while the failure is written ends the process with \<open>SIGABRT\<close>.\<close>

definition csharp_main :: "nat \<times> vm_runtime \<times> vm_class option \<times> pyval \<Rightarrow> string \<Rightarrow> (string \<times> int) option" where
  "csharp_main prog stdin = vm_print (fst (snd prog)) csharp_error 134 (csharp_body prog stdin)"

interpretation csharp_harness: harness "\<lambda>prog stdin. vm_run (fst (snd prog)) csharp_error (csharp_body prog stdin)" csharp_main
  by (rule harness_vm [OF refl]) (rule csharp_main_def)

section \<open>What the judge reads\<close>

lemma csharp_body_named:
  assumes "reads_json R" and "json_ok (VDict inp)"
  shows "csharp_body (n, R, sol, st) (named_payload f inp) = csharp_execute n R sol f inp (fresh_heap st)"
proof -
  have "json_ok (VDict [(''function_name'', VStr f), (''input'', VDict inp)])" using assms(2) by simp
  then have "lib_read R (named_payload f inp) = Inr [(''function_name'', VStr f), (''input'', VDict inp)]"
    using assms(1) unfolding reads_json_def named_payload_def by blast
  then show ?thesis by (simp add: csharp_body_def dget_def)
qed

section \<open>Properties\<close>

text \<open>An exception of a C# submission is a runtime error with its class and message: whatever the submission
  printed, if the call ends in an exception that the library can write without a marker, the judge gets a
  \<open>RuntimeExecutionError\<close> whose message is the class and the message of that exception, cut to the limit.\<close>

lemma csharp_exception_reaches_judge:
  assumes "reads_json R" and "writes_json R" and "json_ok (VDict test_input)"
    and "csharp_execute n R sol function_name test_input (fresh_heap st) = Some (Inl e, printed)"
    and "lib_write R (csharp_error e) = Inr t" and "no_marker t"
    and "communicate E cmd (named_payload function_name test_input) (Some limit) w = (Inr (Finished p), w')"
    and "csharp_main (n, R, sol, st) (named_payload function_name test_input) = Some (utf8 E (p_stdout p), p_returncode p)"
    and "int (length (p_stdout p)) \<le> MAX_STDOUT_BYTES E"
  shows "run_wrapper E cmd (named_payload function_name test_input) limit w =
    (Inl (RuntimeExecutionError (truncate_message (csharp_Describe e)) VNone), w')"
proof -
  have "vm_items (csharp_error e) = Some [(''error'', VStr (csharp_Describe e))]" by (simp add: csharp_error_def)
  from lib_write_reports [OF assms(2) this _ _ _ assms(5,6)] have "reports t (csharp_Describe e)"
    by (auto simp: dget_def csharp_Describe_def)
  moreover have "vm_run R csharp_error (csharp_body (n, R, sol, st) (named_payload function_name test_input)) = Some (Inl t, printed)"
    using vm_run_failure [of _ e printed R csharp_error t] csharp_body_named [OF assms(1,3)] assms(4,5) by simp
  ultimately show ?thesis
    using csharp_harness.failure_judged [of "(n, R, sol, st)" _ t printed "csharp_Describe e", OF _ _ assms(7-9)] by simp
qed

definition csharp_zero_run :: "unit env" where
  "csharp_zero_run = offline\<lparr>communicate := (\<lambda>_ _ _. io_return (Finished
     \<lparr>p_stdout = ''debug'' @ emit_block (dumps (VDict [(''error'', VStr ''Exception: zero'')])), p_stderr = [], p_returncode = 1\<rparr>))\<rparr>"

lemma csharp_exception_reaches_judge_witness:
  "run_wrapper csharp_zero_run [''docker''] (named_payload ''twice'' [(''n'', VInt 0)]) 10 () =
    (Inl (RuntimeExecutionError (truncate_message (csharp_Describe (exception ''zero''))) VNone), ())"
proof (rule csharp_exception_reaches_judge)
  let ?R = "demo_runtime\<lparr>lib_convert := (\<lambda>_ v. Inr (case v of VInt k \<Rightarrow> ObInt (word_of_int k) | _ \<Rightarrow> ObNull))\<rparr>"
  let ?t = "dumps (VDict [(''error'', VStr ''Exception: zero'')])"
  let ?p = "\<lparr>p_stdout = ''debug'' @ emit_block ?t, p_stderr = [], p_returncode = 1\<rparr>"
  show rd: "reads_json ?R" and "writes_json ?R" using demo_runtime_json by (simp_all add: reads_json_def writes_json_def)
  show ex: "csharp_execute 0 ?R (Some demo_class) ''twice'' [(''n'', VInt 0)] (fresh_heap VNone) =
      Some (Inl (exception ''zero''), ''debug'')"
    by (simp add: csharp_execute_def csharp_method_def demo_class_def demo_method_def values_without_pos_def method_values_def
        csharp_ConvertValue_def csharp_call_def)
  show wr: "lib_write ?R (csharp_error (exception ''zero'')) = Inr ?t"
    using demo_write [of "csharp_error (exception ''zero'')"] by (simp add: csharp_error_def csharp_Describe_def exception_def)
  show "no_marker ?t" by code_simp
  show "csharp_main (0, ?R, Some demo_class, VNone) (named_payload ''twice'' [(''n'', VInt 0)]) =
      Some (utf8 csharp_zero_run (p_stdout ?p), p_returncode ?p)"
    using ex wr csharp_body_named [OF rd, of "[(''n'', VInt 0)]" 0 "Some demo_class" VNone "''twice''"]
    by (simp add: csharp_main_def vm_print_def vm_block_def csharp_zero_run_def offline_def del: dumps.simps)
  have "int (length (''debug'' @ emit_block ?t)) \<le> 1000000" by code_simp
  then show "int (length (p_stdout ?p)) \<le> MAX_STDOUT_BYTES csharp_zero_run"
    by (simp add: csharp_zero_run_def offline_def MAX_STDOUT_BYTES_def int_env_def)
qed (simp_all add: csharp_zero_run_def offline_def io_return_def)

end
