(* ===== verification/GoWrapper.thy ===== *)
theory GoWrapper
  imports GoExecutors Managed JsValue
begin

text \<open>
  The Go wrapper (\<open>languages/go_wrapper.py\<close>) around a submission, with the argument bindings and the call
  that \<open>languages/go.py\<close> generates for its signature. The submission, the decoding of other types by
  \<open>encoding/json\<close> and the texts of its errors are parameters.
\<close>

section \<open>Values\<close>

type_synonym byte = "8 word"

record go_heap =
  gh_trees :: "int64 option tree_node list"
  gh_chains :: "int64 list_node list"
  gh_graphs :: "null_node list"

definition go_fresh :: go_heap where
  "go_fresh = \<lparr>gh_trees = [], gh_chains = [], gh_graphs = []\<rparr>"

text \<open>A value of the program with its type: pointers, which may be \<open>nil\<close>, and copies of the three node types,
  bytes, and values of other types, \<^term>\<open>GData v\<close> if \<open>json.Marshal\<close> writes \<open>v\<close> for it, \<^term>\<open>GBad m\<close> if it
  fails with \<open>m\<close>; \<open>GNilSlice\<close> is a \<open>nil\<close> slice of another type.\<close>

datatype goval =
    GNil
  | GTree "nat option"
  | GTreeCopy "int64 option tree_node"
  | GList "nat option"
  | GListCopy "int64 list_node"
  | GGraph "nat option"
  | GGraphCopy null_node
  | GByte byte
  | GBytes "byte list"
  | GByteGrid "byte list list"
  | GNilSlice
  | GData pyval
  | GBad string

text \<open>The end of a call: a result, a panic with its text, or the end of the process with an exit code. A call
  also leaves its arguments, the heap and what was printed; \<open>None\<close> is a call that does not return.\<close>

datatype go_end = GoReturned goval | GoPanicked string | GoExited int

record go_program =
  go_name :: string
  go_parameters :: "(string \<times> string) list"
  go_result :: bool
  go_call :: "goval list \<Rightarrow> go_heap \<Rightarrow> (go_end \<times> goval list \<times> go_heap \<times> string) option"

record go_runtime =
  go_decode :: "string \<Rightarrow> pyval \<Rightarrow> string + goval"
  go_type_error :: "string \<Rightarrow> pyval \<Rightarrow> string"
  go_wide_float :: "pyfloat \<Rightarrow> int64"

section \<open>Decoding\<close>

text \<open>A raw message is the value it holds. \<open>json.Unmarshal\<close> leaves a variable as it is for \<open>null\<close>.\<close>

definition in_int64 :: "int \<Rightarrow> bool" where
  "in_int64 n \<longleftrightarrow> - (2 ^ 63) \<le> n \<and> n < 2 ^ 63"

definition go_int :: "go_runtime \<Rightarrow> int64 \<Rightarrow> pyval \<Rightarrow> string + int64" where
  "go_int R old raw = (case raw of
      VNone \<Rightarrow> Inr old
    | VInt n \<Rightarrow> if in_int64 n then Inr (word_of_int n) else Inl (go_type_error R ''int'' raw)
    | _ \<Rightarrow> Inl (go_type_error R ''int'' raw))"

definition go_string :: "go_runtime \<Rightarrow> pyval \<Rightarrow> string + string" where
  "go_string R raw = (case raw of VNone \<Rightarrow> Inr [] | VStr s \<Rightarrow> Inr s | _ \<Rightarrow> Inl (go_type_error R ''string'' raw))"

definition go_slice :: "go_runtime \<Rightarrow> string \<Rightarrow> pyval \<Rightarrow> string + pyval list" where
  "go_slice R ty raw = (case raw of VNone \<Rightarrow> Inr [] | VList vs \<Rightarrow> Inr vs | _ \<Rightarrow> Inl (go_type_error R ty raw))"

definition go_ints :: "go_runtime \<Rightarrow> pyval \<Rightarrow> string + int64 list" where
  "go_ints R raw = (case go_slice R ''[]int'' raw of Inl e \<Rightarrow> Inl e | Inr vs \<Rightarrow> map_r (go_int R 0) vs)"

definition go_int_rows :: "go_runtime \<Rightarrow> pyval \<Rightarrow> string + int64 list list" where
  "go_int_rows R raw = (case go_slice R ''[][]int'' raw of Inl e \<Rightarrow> Inl e | Inr vs \<Rightarrow> map_r (go_ints R) vs)"

text \<open>In an \<open>interface{}\<close> every number is a \<open>float64\<close>; one that is too large is an error.\<close>

fun go_interface :: "go_runtime \<Rightarrow> pyval \<Rightarrow> string + pyval" where
  "go_interface R (VInt n) = (case fval (rnd (of_int n)) of
      None \<Rightarrow> Inl (go_type_error R ''float64'' (VInt n)) | Some _ \<Rightarrow> Inr (VFloat (rnd (of_int n))))"
| "go_interface R (VList vs) = fmap_r VList (map_r (go_interface R) vs)"
| "go_interface R (VDict d) = fmap_r VDict (map_r (\<lambda>(k, v). fmap_r (Pair k) (go_interface R v)) d)"
| "go_interface R v = Inr v"

definition go_interfaces :: "go_runtime \<Rightarrow> pyval \<Rightarrow> string + pyval list" where
  "go_interfaces R raw = (case go_slice R ''[]interface {}'' raw of Inl e \<Rightarrow> Inl e | Inr vs \<Rightarrow> map_r (go_interface R) vs)"

text \<open>By the name of the parameter, otherwise by its position among the keys.\<close>

definition pickArg :: "pydict \<Rightarrow> string list \<Rightarrow> string \<Rightarrow> nat \<Rightarrow> bool \<Rightarrow> pyval option" where
  "pickArg input keys name idx skipPos = (case dget input name of
      Some raw \<Rightarrow> Some raw
    | None \<Rightarrow>
        (let positional = filter (\<lambda>k. \<not> (skipPos \<and> k = ''pos'')) keys in
         if idx < length positional then dget input (positional ! idx) else None))"

text \<open>The bytes of a string, which Go keeps in UTF-8.\<close>

definition char_bytes :: "char \<Rightarrow> byte list" where
  "char_bytes c = (if code c < 128 then [of_nat (code c)]
     else [of_nat (192 + code c div 64), of_nat (128 + code c mod 64)])"

definition string_bytes :: "string \<Rightarrow> byte list" where
  "string_bytes s = concat (map char_bytes s)"

definition decodeByte :: "go_runtime \<Rightarrow> pyval \<Rightarrow> string + byte" where
  "decodeByte R raw = (case go_string R raw of
      Inr s \<Rightarrow> if string_bytes s = [] then Inr 0 else Inr (hd (string_bytes s))
    | Inl _ \<Rightarrow> fmap_r (\<lambda>n. ucast n) (go_int R 0 raw))"

definition decodeBytes :: "go_runtime \<Rightarrow> pyval \<Rightarrow> string + byte list" where
  "decodeBytes R raw = (case go_string R raw of
      Inr s \<Rightarrow> Inr (string_bytes s)
    | Inl _ \<Rightarrow> (case go_slice R ''[]json.RawMessage'' raw of Inl e \<Rightarrow> Inl e | Inr items \<Rightarrow> map_r (decodeByte R) items))"

definition decodeByteGrid :: "go_runtime \<Rightarrow> pyval \<Rightarrow> string + byte list list" where
  "decodeByteGrid R raw = (case go_slice R ''[]json.RawMessage'' raw of Inl e \<Rightarrow> Inl e | Inr rows \<Rightarrow> map_r (decodeBytes R) rows)"

section \<open>Lists, trees and graphs\<close>

text \<open>\<open>int(v)\<close> of a \<open>float64\<close> truncates; out of range the processor decides.\<close>

definition toInt :: "go_runtime \<Rightarrow> pyval \<Rightarrow> int64 option" where
  "toInt R value = (case value of
      VFloat x \<Rightarrow> (case fval x of
          None \<Rightarrow> Some (go_wide_float R x)
        | Some q \<Rightarrow>
            (let k = (if q < 0 then \<lceil>q\<rceil> else \<lfloor>q\<rfloor>) in
             if in_int64 k then Some (word_of_int k) else Some (go_wide_float R x)))
    | _ \<Rightarrow> None)"

definition go_buildLinkedList :: "int64 list \<Rightarrow> int \<Rightarrow> int64 list_node list \<Rightarrow> nat option \<times> int64 list_node list" where
  "go_buildLinkedList = ring 0"

definition go_linkedListToArray :: "int64 list_node list \<Rightarrow> nat option \<Rightarrow> int64 list" where
  "go_linkedListToArray = read_list"

interpretation go_list: list_wire "\<lambda>vs pos h. Inr (go_buildLinkedList vs pos h)"
  unfolding go_buildLinkedList_def by (rule list_wire_ring)

text \<open>The tree of a list of integers, and the tree of a decoded list: it is \<open>nil\<close> if an element is no number.\<close>

definition go_tree :: "int64 option list \<Rightarrow> int64 option tree_node list \<Rightarrow> nat option \<times> int64 option tree_node list" where
  "go_tree values h = (if values = [] \<or> hd values = None then (None, h) else make_tree None values h)"

definition go_element :: "go_runtime \<Rightarrow> pyval \<Rightarrow> unit + int64 option" where
  "go_element R raw = (if raw = VNone then Inr None else case toInt R raw of None \<Rightarrow> Inl () | Some iv \<Rightarrow> Inr (Some iv))"

definition go_buildTree :: "go_runtime \<Rightarrow> pyval list \<Rightarrow> int64 option tree_node list \<Rightarrow> nat option \<times> int64 option tree_node list" where
  "go_buildTree R values h = (case map_r (go_element R) values of Inl _ \<Rightarrow> (None, h) | Inr vs \<Rightarrow> go_tree vs h)"

definition go_treeToArray :: "nat \<Rightarrow> int64 option tree_node list \<Rightarrow> nat option \<Rightarrow> int64 option list option" where
  "go_treeToArray = read_tree None"

lemma go_tree_level_order:
  assumes "no_none None t"
  shows "go_tree (pop_nones None (level_order None [t])) h = make_tree None (pop_nones None (level_order None [t])) h"
proof (cases t)
  case Empty
  then show ?thesis by (simp add: go_tree_def make_tree_def pop_nones_def)
next
  case (Branch l v r)
  have lo: "level_order None [t] = v # level_order None [l, r]" using Branch by simp
  have "v \<noteq> None" using assms Branch by simp
  then have "pop_nones None (level_order None [t]) = v # pop_nones None (level_order None [l, r])"
    unfolding lo by (auto simp: pop_nones_def dropWhile_append)
  then show ?thesis using \<open>v \<noteq> None\<close> by (auto simp: go_tree_def)
qed

interpretation go_trees: tree_wire None go_tree go_treeToArray
  unfolding go_treeToArray_def
  by unfold_locales (simp only: go_tree_level_order, rule make_tree_level_order, assumption+, rule read_tree_level_order)

text \<open>A neighbour that is no node is left out.\<close>

definition go_buildGraph :: "int64 list list \<Rightarrow> null_node list \<Rightarrow> nat option \<times> null_node list" where
  "go_buildGraph adjList h =
     (if adjList = [] then (None, h)
      else (Some (length h), h @ new_nodes (\<lambda>row. filter (\<lambda>p. p \<noteq> None)
        (map (\<lambda>n. look_up (length h) (length adjList) (sint n)) row)) adjList))"

text \<open>A node as the search sees it, without its \<open>nil\<close> neighbours.\<close>

definition live :: "null_node \<Rightarrow> graph_node" where
  "live n = \<lparr>g_val = n_val n, g_neighbors = map the (filter (\<lambda>p. p \<noteq> None) (n_neighbors n))\<rparr>"

definition index_panic :: "int \<Rightarrow> string" where
  "index_panic i = ''runtime error: index out of range ['' @ int_str i @ '']''"

text \<open>\<open>result[curr.Val-1] = row\<close>; a row that is never set is \<open>nil\<close>.\<close>

fun go_rows :: "graph_node list \<Rightarrow> nat list \<Rightarrow> int list option list \<Rightarrow> string + int list option list" where
  "go_rows h [] res = Inr res"
| "go_rows h (i # is) res =
     (if g_val (h ! i) < 1 then Inl (index_panic (g_val (h ! i) - 1))
      else go_rows h is (res[nat (g_val (h ! i) - 1) := Some (map (\<lambda>j. g_val (h ! j)) (g_neighbors (h ! i)))]))"

text \<open>\<open>sort.Slice\<close> leaves nodes with equal values in any order, here in the order in which they are found.\<close>

definition go_graphToAdjList :: "null_node list \<Rightarrow> nat option \<Rightarrow> string + int list option list" where
  "go_graphToAdjList h node = (case node of
      None \<Rightarrow> Inr []
    | Some i \<Rightarrow>
        let g = map live h;
            ordered = sort_key (\<lambda>j. g_val (g ! j)) (graph_queue g [i] []);
            maxVal = Max (insert 0 (set (map (\<lambda>j. g_val (g ! j)) ordered)))
        in go_rows g ordered (replicate (nat maxVal) None))"

lemma go_rows_spec:
  assumes "graph_rep h base adj" and "adj_ok adj"
  shows "i \<le> length adj \<Longrightarrow>
    go_rows h [base + i..<base + length adj] (map Some (take i adj) @ replicate (length adj - i) None) = Inr (map Some adj)"
proof (induction "length adj - i" arbitrary: i)
  case (Suc m)
  then have i: "i < length adj" by simp
  have val: "g_val (h ! (base + i)) = int (Suc i)" using assms(1) i by (simp add: graph_rep_def)
  have rep: "replicate (length adj - i) None = None # replicate (length adj - Suc i) None"
    using i by (metis Suc_diff_Suc replicate_Suc)
  have "(map Some (take i adj) @ replicate (length adj - i) None)[i := Some (adj ! i)] =
      map Some (take (Suc i) adj) @ replicate (length adj - Suc i) None"
    unfolding rep using i by (simp add: list_update_append take_Suc_conv_app_nth)
  moreover have "[base + i..<base + length adj] = (base + i) # [base + Suc i..<base + length adj]"
    using i by (simp add: upt_conv_Cons)
  ultimately show ?case using Suc.hyps(1) [of "Suc i"] Suc.hyps(2) i graph_row [OF assms i] val by simp
qed simp

lemma go_graph_rep:
  assumes "graph_rep (map live h) base adj" and "adj_ok adj" and "adj \<noteq> []" and "connected adj"
  shows "go_graphToAdjList h (Some base) = Inr (map Some adj)"
proof -
  let ?S = "{base..<base + length adj}" and ?f = "\<lambda>j. g_val (map live h ! j)"
  have "Max (insert 0 (?f ` ?S)) = max 0 (Max (?f ` ?S))" using assms(3) by (intro Max_insert) auto
  then show ?thesis
    using go_rows_spec [OF assms(1,2), of 0] graph_sorted [OF assms]
    by (simp add: go_graphToAdjList_def Let_def del: nth_map graph_queue.simps set_sort)
qed

lemma sint_of_int64: "in_int64 n \<Longrightarrow> sint (word_of_int n :: int64) = n"
  by (simp add: in_int64_def sint_sbintrunc' signed_take_bit_int_eq_self)

lemma go_build_roundtrip:
  assumes "adj_ok adj" and "adj \<noteq> []" and "connected adj" and "length adj < 2 ^ 63"
  shows "go_buildGraph (map (map word_of_int) adj) h = (Some (length h), h @ new_nodes (map (look_up (length h) (length adj))) adj)"
    and "go_graphToAdjList (h @ new_nodes (map (look_up (length h) (length adj))) adj) (Some (length h)) = Inr (map Some adj)"
proof -
  have known: "look_up b (length adj) (sint (word_of_int k :: int64)) = look_up b (length adj) k"
      "look_up b (length adj) k \<noteq> None" if "i < length adj" "k \<in> set (adj ! i)" for i k b
  proof -
    have k: "1 \<le> k" "k \<le> int (length adj)" using adj_okD [OF assms(1) that] by auto
    have "int (length adj) < 2 ^ 63" using assms(4) by simp
    then have "sint (word_of_int k :: int64) = k" using k by (intro sint_of_int64) (simp add: in_int64_def)
    then show "look_up b (length adj) (sint (word_of_int k :: int64)) = look_up b (length adj) k"
      "look_up b (length adj) k \<noteq> None" using k by (simp_all add: look_up_def)
  qed
  then show "go_buildGraph (map (map word_of_int) adj) h =
      (Some (length h), h @ new_nodes (map (look_up (length h) (length adj))) adj)"
    using assms(2) by (auto simp: go_buildGraph_def new_nodes_def filter_id_conv)
  let ?h = "h @ new_nodes (map (look_up (length h) (length adj))) adj"
  have "graph_rep (map live ?h) (length h) adj \<longleftrightarrow> graph_rep (map plain ?h) (length h) adj"
    using known by (auto simp: graph_rep_def nth_append new_nodes_def live_def plain_def filter_id_conv)
  then show "go_graphToAdjList ?h (Some (length h)) = Inr (map Some adj)"
    using go_graph_rep [OF _ assms(1-3), of ?h "length h"] new_nodes_rep [OF assms(1), of h] by blast
qed

text \<open>The rows of a result that has no \<open>nil\<close> row.\<close>

definition full_rows :: "string + int list option list \<Rightarrow> string + int list list" where
  "full_rows r = (case r of Inl e \<Rightarrow> Inl e | Inr rows \<Rightarrow> if None \<in> set rows then Inl ''nil'' else Inr (map the rows))"

interpretation go_graph: graph_wire "\<lambda>adj h. Inr (go_buildGraph (map (map word_of_int) adj) h)"
    "\<lambda>h p. full_rows (go_graphToAdjList h p)" "\<lambda>n. n < 2 ^ 63"
proof
  fix adj h
  assume "adj_ok adj" "adj \<noteq> []" "connected adj" "length adj < 2 ^ 63"
  then show "\<exists>p h'. Inr (go_buildGraph (map (map word_of_int) adj) h) = Inr (p, h') \<and>
      full_rows (go_graphToAdjList h' p) = Inr adj"
    using go_build_roundtrip [of adj h] by (auto simp: full_rows_def comp_def)
qed (simp_all add: go_buildGraph_def go_graphToAdjList_def full_rows_def)

section \<open>Outputs\<close>

text \<open>\<open>string(c)\<close> of a byte is the character with that code.\<close>

definition byte_string :: "byte \<Rightarrow> string" where
  "byte_string b = [char_of (unat b)]"

definition bytesToStrings :: "byte list \<Rightarrow> pyval" where
  "bytesToStrings b = VList (map (\<lambda>c. VStr (byte_string c)) b)"

definition normalizeGenericOutput :: "goval \<Rightarrow> goval" where
  "normalizeGenericOutput v = (case v of
      GByte b \<Rightarrow> GData (VStr (byte_string b))
    | GBytes bs \<Rightarrow> GData (bytesToStrings bs)
    | GByteGrid rows \<Rightarrow> GData (VList (map bytesToStrings rows))
    | GNilSlice \<Rightarrow> GData (VList [])
    | _ \<Rightarrow> v)"

definition go_tree_value :: "int64 option list \<Rightarrow> goval" where
  "go_tree_value vs = GData (VList (map (\<lambda>x. case x of None \<Rightarrow> VNone | Some w \<Rightarrow> VInt (sint w)) vs))"

definition go_list_value :: "int64 list \<Rightarrow> goval" where
  "go_list_value vs = GData (VList (map (\<lambda>w. VInt (sint w)) vs))"

definition go_graph_value :: "int list option list \<Rightarrow> goval" where
  "go_graph_value rows = GData (VList (map (\<lambda>r. case r of None \<Rightarrow> VNone | Some ks \<Rightarrow> VList (map VInt ks)) rows))"

text \<open>A copy of a node is a new node, \<open>vv\<close>. \<open>Inl\<close> is a panic, \<open>None\<close> the endless walk over a cyclic tree.\<close>

definition go_autoConvertOutput :: "nat \<Rightarrow> go_heap \<Rightarrow> goval \<Rightarrow> (string + goval) option" where
  "go_autoConvertOutput n h v = (case v of
      GList p \<Rightarrow> Some (Inr (go_list_value (go_linkedListToArray (gh_chains h) p)))
    | GListCopy vv \<Rightarrow> Some (Inr (go_list_value (go_linkedListToArray (gh_chains h @ [vv]) (Some (length (gh_chains h))))))
    | GTree p \<Rightarrow> map_option (\<lambda>vs. Inr (go_tree_value vs)) (go_treeToArray n (gh_trees h) p)
    | GTreeCopy vv \<Rightarrow> map_option (\<lambda>vs. Inr (go_tree_value vs)) (go_treeToArray n (gh_trees h @ [vv]) (Some (length (gh_trees h))))
    | GGraph p \<Rightarrow> Some (fmap_r go_graph_value (go_graphToAdjList (gh_graphs h) p))
    | GGraphCopy vv \<Rightarrow> Some (fmap_r go_graph_value (go_graphToAdjList (gh_graphs h @ [vv]) (Some (length (gh_graphs h)))))
    | _ \<Rightarrow> Some (Inr (normalizeGenericOutput v)))"

section \<open>Arguments\<close>

definition missing_parameter :: "string \<Rightarrow> string" where
  "missing_parameter name = ''missing parameter: '' @ name"

definition invalid_parameter :: "string \<Rightarrow> string + 'a \<Rightarrow> string + 'a" where
  "invalid_parameter name r = (case r of Inl e \<Rightarrow> Inl (''invalid parameter '' @ name @ '': '' @ e) | Inr x \<Rightarrow> Inr x)"

definition go_pos :: "go_runtime \<Rightarrow> pydict \<Rightarrow> string + int64" where
  "go_pos R input = (case dget input ''pos'' of
      None \<Rightarrow> Inr (- 1) | Some rawPos \<Rightarrow> invalid_parameter ''pos'' (go_int R (- 1) rawPos))"

text \<open>A parameter of a node type that is no pointer gets a copy of the first node, or the zero value.\<close>

definition go_list_arg :: "go_runtime \<Rightarrow> bool \<Rightarrow> pydict \<Rightarrow> string \<Rightarrow> pyval \<Rightarrow> go_heap \<Rightarrow> string + goval \<times> go_heap" where
  "go_list_arg R pointer input name raw h = (case invalid_parameter name (go_ints R raw) of
      Inl e \<Rightarrow> Inl e
    | Inr arr \<Rightarrow> fmap_r (\<lambda>pos. case go_buildLinkedList arr (sint pos) (gh_chains h) of (p, ls) \<Rightarrow>
        (if pointer then GList p else GListCopy (case p of None \<Rightarrow> ListNode 0 | Some i \<Rightarrow> ls ! i), h\<lparr>gh_chains := ls\<rparr>)) (go_pos R input))"

definition go_tree_arg :: "go_runtime \<Rightarrow> bool \<Rightarrow> string \<Rightarrow> pyval \<Rightarrow> go_heap \<Rightarrow> string + goval \<times> go_heap" where
  "go_tree_arg R pointer name raw h = fmap_r (\<lambda>arr. case go_buildTree R arr (gh_trees h) of (p, ts) \<Rightarrow>
     (if pointer then GTree p else GTreeCopy (case p of None \<Rightarrow> TreeNode (Some 0) | Some i \<Rightarrow> ts ! i), h\<lparr>gh_trees := ts\<rparr>))
     (invalid_parameter name (go_interfaces R raw))"

definition go_graph_arg :: "go_runtime \<Rightarrow> string \<Rightarrow> pyval \<Rightarrow> go_heap \<Rightarrow> string + goval \<times> go_heap" where
  "go_graph_arg R name raw h = fmap_r (\<lambda>adj. case go_buildGraph adj (gh_graphs h) of (p, gs) \<Rightarrow> (GGraph p, h\<lparr>gh_graphs := gs\<rparr>))
     (invalid_parameter name (go_int_rows R raw))"

definition go_plain_arg :: "go_runtime \<Rightarrow> string \<Rightarrow> string \<Rightarrow> pyval \<Rightarrow> string + goval" where
  "go_plain_arg R name ty raw = invalid_parameter name
     (if ty = ''byte'' then fmap_r GByte (decodeByte R raw)
      else if ty = ''[]byte'' then fmap_r GBytes (decodeBytes R raw)
      else if ty = ''[][]byte'' then fmap_r GByteGrid (decodeByteGrid R raw)
      else go_decode R ty raw)"

definition go_arg ::
  "go_runtime \<Rightarrow> pydict \<Rightarrow> string list \<Rightarrow> bool \<Rightarrow> nat \<Rightarrow> string \<times> string \<Rightarrow> go_heap \<Rightarrow> string + goval \<times> go_heap" where
  "go_arg R input keys skipPos idx p h = (case p of (name, ty) \<Rightarrow>
     (case pickArg input keys name idx skipPos of
        None \<Rightarrow> Inl (missing_parameter name)
      | Some raw \<Rightarrow>
          if is_listnode_type ty then go_list_arg R (is_pointer_type ty) input name raw h
          else if is_treenode_type ty then go_tree_arg R (is_pointer_type ty) name raw h
          else if is_graph_node_type ty then go_graph_arg R name raw h
          else fmap_r (\<lambda>v. (v, h)) (go_plain_arg R name (normalize_type ty) raw)))"

fun go_args ::
  "go_runtime \<Rightarrow> pydict \<Rightarrow> string list \<Rightarrow> bool \<Rightarrow> nat \<Rightarrow> (string \<times> string) list \<Rightarrow> go_heap \<Rightarrow> string + goval list \<times> go_heap" where
  "go_args R input keys skipPos idx [] h = Inr ([], h)"
| "go_args R input keys skipPos idx (p # ps) h = (case go_arg R input keys skipPos idx p h of
      Inl e \<Rightarrow> Inl e
    | Inr (v, h') \<Rightarrow> fmap_r (\<lambda>(vs, h''). (v # vs, h'')) (go_args R input keys skipPos (Suc idx) ps h'))"

section \<open>The call\<close>

text \<open>The generated return statement: a function without a result reports its first argument.\<close>

definition go_output :: "nat \<Rightarrow> go_program \<Rightarrow> go_heap \<Rightarrow> goval \<Rightarrow> goval list \<Rightarrow> (string + (string \<times> goval) list) option" where
  "go_output n P h result args =
     (if go_result P then map_option (fmap_r (\<lambda>r. [(''result'', r)])) (go_autoConvertOutput n h result)
      else case args of
        [] \<Rightarrow> Some (Inr [(''result'', GNil)])
      | a # _ \<Rightarrow> map_option (fmap_r (\<lambda>m. [(''result'', GNil), (''mutated'', m)])) (go_autoConvertOutput n h a))"

definition panic_text :: "string \<Rightarrow> string" where
  "panic_text r = ''panic: '' @ r"

definition recovered :: "string + 'a \<Rightarrow> string + 'a" where
  "recovered r = (case r of Inl m \<Rightarrow> Inl (panic_text m) | Inr x \<Rightarrow> Inr x)"

lemma recovered_Inr [simp]: "recovered r = Inr x \<longleftrightarrow> r = Inr x"
  by (cases r) (simp_all add: recovered_def)

text \<open>\<open>Inl\<close> is the exit code of a process that ended in the call.\<close>

definition go_execute ::
  "nat \<Rightarrow> go_runtime \<Rightarrow> go_program \<Rightarrow> pydict \<Rightarrow> string list \<Rightarrow> ((int + string + (string \<times> goval) list) \<times> string) option" where
  "go_execute n R P input keys =
     (let skipPos = list_ex (\<lambda>p. is_listnode_type (snd p)) (go_parameters P) in
      case go_args R input keys skipPos 0 (go_parameters P) go_fresh of
        Inl e \<Rightarrow> Some (Inr (Inl e), [])
      | Inr (args, h) \<Rightarrow> (case go_call P args h of
            None \<Rightarrow> None
          | Some (GoExited rc, _, _, printed) \<Rightarrow> Some (Inl rc, printed)
          | Some (GoPanicked m, _, _, printed) \<Rightarrow> Some (Inr (Inl (panic_text m)), printed)
          | Some (GoReturned r, args', h', printed) \<Rightarrow>
              map_option (\<lambda>out. (Inr (recovered out), printed)) (go_output n P h' r args')))"

section \<open>JSON\<close>

text \<open>The escapes of \<open>json.Marshal\<close>, which keeps its output safe for HTML.\<close>

definition go_esc :: "char \<Rightarrow> string" where
  "go_esc c =
     (if c = dquote \<or> c = backslash then [backslash, c]
      else if c = newline then [backslash, CHR ''n'']
      else if c = CHR 0x0D then [backslash, CHR ''r'']
      else if c = CHR 0x09 then [backslash, CHR ''t'']
      else if c = CHR 0x0C then [backslash, CHR ''f'']
      else if c = CHR 0x08 then [backslash, CHR ''b'']
      else if 32 \<le> code c \<and> c \<notin> {CHR ''<'', CHR ''>'', CHR ''&''} then [c]
      else [backslash, CHR ''u'', CHR ''0'', CHR ''0''] @ hex2 c)"

lemma parse_chars_go_esc: "parse_chars (go_esc c @ t) = map_option (\<lambda>(x, u). (c # x, u)) (parse_chars t)"
  by (auto simp: go_esc_def hex2_def hex4_hex2 split: option.splits)

text \<open>Floating-point numbers are written as in JavaScript.\<close>

interpretation go_json: json_printer go_esc js_float "[]"
  by unfold_locales (simp_all add: parse_chars_go_esc)

text \<open>Of the values that \<open>autoConvertOutput\<close> leaves, only these three kinds are (\<open>go_converted\<close>).\<close>

definition go_json_value :: "goval \<Rightarrow> string + pyval" where
  "go_json_value v = (case v of GNil \<Rightarrow> Inr VNone | GData d \<Rightarrow> Inr d | GBad m \<Rightarrow> Inl m | _ \<Rightarrow> Inl [])"

text \<open>The keys of a map are written in ascending order.\<close>

definition go_json_object :: "(string \<times> goval) list \<Rightarrow> string + pydict" where
  "go_json_object obj = map_r (\<lambda>(k, v). fmap_r (Pair k) (go_json_value v)) (sort_key (\<lambda>p. code (hd (fst p))) obj)"

definition go_text :: "pydict \<Rightarrow> string" where
  "go_text d = text_of go_esc js_float [] (VDict d)"

definition go_error :: "string \<Rightarrow> string" where
  "go_error m = go_text [(''error'', VStr m)]"

definition go_emit :: "(string \<times> goval) list \<Rightarrow> string + string" where
  "go_emit obj = (case go_json_object obj of
      Inl e \<Rightarrow> Inl (go_error (''failed to serialize output: '' @ e)) | Inr d \<Rightarrow> Inr (go_text d))"

section \<open>The process\<close>

text \<open>The payload, of a text that \<open>json.dumps\<close> wrote: a field that is absent or \<open>null\<close> keeps its zero value.\<close>

definition go_field :: "pydict \<Rightarrow> string \<Rightarrow> pyval" where
  "go_field d k = (case dget d k of None \<Rightarrow> VNone | Some v \<Rightarrow> v)"

definition go_key :: "pyval \<Rightarrow> unit + string" where
  "go_key v = (case v of VStr s \<Rightarrow> Inr s | VNone \<Rightarrow> Inr [] | _ \<Rightarrow> Inl ())"

definition go_unmarshal_payload :: "string \<Rightarrow> (string \<times> pydict \<times> string list) option" where
  "go_unmarshal_payload raw = (case loads raw of
      None \<Rightarrow> None
    | Some v \<Rightarrow>
        if \<not> strict v then None
        else case (case v of VNone \<Rightarrow> Some [] | VDict d \<Rightarrow> Some d | _ \<Rightarrow> None) of
          None \<Rightarrow> None
        | Some d \<Rightarrow> (case (go_key (go_field d ''function_name''),
              (case go_field d ''input'' of VNone \<Rightarrow> Some [] | VDict i \<Rightarrow> Some i | _ \<Rightarrow> None),
              (case go_field d ''keys'' of VNone \<Rightarrow> Inr [] | VList ks \<Rightarrow> map_r go_key ks | _ \<Rightarrow> Inl ())) of
            (Inr f, Some i, Inr ks) \<Rightarrow> Some (f, i, ks)
          | _ \<Rightarrow> None))"

definition go_space :: "char \<Rightarrow> bool" where
  "go_space c \<longleftrightarrow> (let n = code c in 9 \<le> n \<and> n \<le> 13 \<or> n = 32 \<or> n = 133 \<or> n = 160)"

definition function_missing :: "string \<Rightarrow> string" where
  "function_missing f = ''function '' @ [squote] @ f @ [squote] @ '' not found''"

text \<open>A process: the block that it writes, if it writes one, with \<open>Inl\<close> for an error; its exit code; and what the
  submission printed. \<open>fail\<close> exits with 1, but a result that cannot be written is reported with code 0.\<close>

definition go_fail :: "string \<Rightarrow> string \<Rightarrow> (string + string) option \<times> int \<times> string" where
  "go_fail m printed = (Some (Inl (go_error m)), 1, printed)"

definition go_process ::
  "nat \<times> go_runtime \<times> go_program \<Rightarrow> string \<Rightarrow> ((string + string) option \<times> int \<times> string) option" where
  "go_process = (\<lambda>(n, R, P) raw.
     if list_all go_space raw then Some (go_fail ''no input provided'' [])
     else case go_unmarshal_payload raw of
       None \<Rightarrow> Some (go_fail ''invalid JSON input'' [])
     | Some (f, input, keys) \<Rightarrow>
         if f \<noteq> [] \<and> f \<noteq> go_name P then Some (go_fail (function_missing f) [])
         else case go_execute n R P input keys of
           None \<Rightarrow> None
         | Some (Inl rc, printed) \<Rightarrow> Some (None, rc, printed)
         | Some (Inr (Inl e), printed) \<Rightarrow> Some (go_fail e printed)
         | Some (Inr (Inr obj), printed) \<Rightarrow> Some (Some (go_emit obj), 0, printed))"

definition go_run_block :: "nat \<times> go_runtime \<times> go_program \<Rightarrow> string \<Rightarrow> ((string + string) \<times> string) option" where
  "go_run_block prog raw = block_of (go_process prog raw)"

definition go_main :: "nat \<times> go_runtime \<times> go_program \<Rightarrow> string \<Rightarrow> (string \<times> int) option" where
  "go_main prog raw = print_process (go_process prog raw)"

lemma go_process_code: "go_process prog raw = Some (Some (Inr t), rc, printed) \<Longrightarrow> rc = 0"
  by (cases prog) (auto simp: go_process_def go_fail_def split: if_splits option.splits prod.splits sum.splits)

interpretation go_harness: harness go_run_block go_main
  unfolding go_run_block_def [abs_def] go_main_def [abs_def] by (rule harness_process) (rule go_process_code)

section \<open>What the judge reads\<close>

lemma go_converted:
  "go_autoConvertOutput n h v = Some (Inr x) \<Longrightarrow> x = GNil \<or> (\<exists>d. x = GData d) \<or> (\<exists>m. x = GBad m)"
  by (auto simp: go_autoConvertOutput_def normalizeGenericOutput_def go_list_value_def go_tree_value_def go_graph_value_def
      split: goval.splits)

lemma go_document: "text_ok js_float (VDict d) \<Longrightarrow> no_marker (go_text d) \<Longrightarrow> document (go_text d) d"
  using go_json.loads_text [of "VDict d"] by (auto simp: document_def load_object_def go_text_def ends_with_def no_marker_def)

lemma go_reports: "m \<noteq> [] \<Longrightarrow> no_marker (go_error m) \<Longrightarrow> reports (go_error m) m"
  using go_document [of "[(''error'', VStr m)]"] unfolding reports_def go_error_def
  by (intro conjI exI [of _ "[(''error'', VStr m)]"]) (simp_all add: dget_def)

lemma map_r_keys: "map_r go_key (map (\<lambda>p. VStr (fst p)) inp) = Inr (map fst inp)"
  by (rule map_r_map) (simp add: go_key_def)

lemma go_unmarshal_go_payload:
  assumes "json_ok (VDict inp)" and "strict (VDict inp)"
  shows "go_unmarshal_payload (go_payload f inp) = Some (f, inp, map fst inp)"
proof -
  let ?v = "VDict [(''function_name'', VStr f), (''input'', VDict inp), (''keys'', VList (map (\<lambda>p. VStr (fst p)) inp))]"
  have "json_ok ?v" using assms(1) by simp
  then have "loads (go_payload f inp) = Some ?v" unfolding go_payload_def by (rule loads_dumps)
  then show ?thesis using assms(2) map_r_keys [of inp]
    by (simp add: go_unmarshal_payload_def go_field_def dget_def go_key_def)
qed

lemma go_payload_visible: "\<not> list_all go_space (go_payload f inp)"
  by (simp add: go_payload_def go_space_def code_def)

lemma go_process_payload:
  assumes "json_ok (VDict inp)" and "strict (VDict inp)"
  shows "go_process (n, R, P) (go_payload (go_name P) inp) = (case go_execute n R P inp (map fst inp) of
      None \<Rightarrow> None
    | Some (Inl rc, printed) \<Rightarrow> Some (None, rc, printed)
    | Some (Inr (Inl e), printed) \<Rightarrow> Some (go_fail e printed)
    | Some (Inr (Inr obj), printed) \<Rightarrow> Some (Some (go_emit obj), 0, printed))"
  unfolding go_process_def prod.case go_unmarshal_go_payload [OF assms] option.case by (simp only: go_payload_visible) simp

section \<open>Trees as arguments and answers\<close>

text \<open>The number of a tree node on its way through a \<open>float64\<close>.\<close>

definition exact :: "int64 option \<Rightarrow> bool" where
  "exact x \<longleftrightarrow> (case x of None \<Rightarrow> True | Some w \<Rightarrow> \<bar>sint w\<bar> \<le> 2 ^ 53)"

definition tree_json :: "int64 option \<Rightarrow> pyval" where
  "tree_json x = (case x of None \<Rightarrow> VNone | Some w \<Rightarrow> VInt (sint w))"

lemma toInt_int: "in_int64 k \<Longrightarrow> toInt R (VFloat (Fin (of_int k))) = Some (word_of_int k)"
  by (simp add: toInt_def Let_def)

lemma go_element_exact:
  assumes "exact x"
  shows "\<exists>v. go_interface R (tree_json x) = Inr v \<and> go_element R v = Inr x"
proof (cases x)
  case None
  then show ?thesis by (simp add: tree_json_def go_element_def)
next
  case (Some w)
  have r: "rnd (of_int (sint w)) = Fin (of_int (sint w))" using assms Some rnd_int [of "sint w"] by (simp add: exact_def)
  have "in_int64 (sint w)" using assms Some by (simp add: exact_def in_int64_def abs_le_iff)
  moreover have "word_of_int (sint w) = w" by simp
  ultimately show ?thesis using r Some toInt_int [of "sint w" R] by (simp add: tree_json_def go_element_def del: of_int_sint)
qed

lemma go_elements_exact:
  "\<forall>x \<in> set xs. exact x \<Longrightarrow> \<exists>vs. map_r (go_interface R) (map tree_json xs) = Inr vs \<and> map_r (go_element R) vs = Inr xs"
proof (induction xs)
  case (Cons x xs)
  then obtain v vs where "go_interface R (tree_json x) = Inr v" "go_element R v = Inr x"
      "map_r (go_interface R) (map tree_json xs) = Inr vs" "map_r (go_element R) vs = Inr xs"
    using go_element_exact [of x R] by auto
  then show ?case by auto
qed simp

lemma pop_nones_subset: "set (pop_nones nl xs) \<subseteq> set xs"
  unfolding pop_nones_def by (metis set_dropWhileD set_rev subsetI)

lemma tree_json_list: "go_tree_value vs = GData (VList (map tree_json vs))"
  by (simp add: go_tree_value_def tree_json_def)

section \<open>What a submission does\<close>

text \<open>The call that a test case makes, with its outcome: the parameters get their arguments one after the other.\<close>

inductive go_calls ::
  "go_runtime \<Rightarrow> go_program \<Rightarrow> pydict \<Rightarrow> go_end \<times> goval list \<times> go_heap \<times> string \<Rightarrow> bool" for R P inp where
  go_called: "go_args R inp (map fst inp) (list_ex (\<lambda>p. is_listnode_type (snd p)) (go_parameters P)) 0 (go_parameters P) go_fresh =
      Inr (args, h) \<Longrightarrow> go_call P args h = Some r \<Longrightarrow> go_calls R P inp r"

text \<open>The JSON value of a value: a tree, behind a pointer or as a copy of its root, by its values in level order
  without the missing ones at the end, a linked list, cyclic or not, by its values, a graph by its adjacency
  list, a byte by the character with its code, a \<open>nil\<close> slice by an empty list.\<close>

inductive go_shows :: "nat \<Rightarrow> go_heap \<Rightarrow> goval \<Rightarrow> pyval \<Rightarrow> bool" for n h where
  go_shows_nil: "go_shows n h GNil VNone"
| go_shows_tree: "tree_rep (gh_trees h) p t \<Longrightarrow> weight t \<le> n \<Longrightarrow>
    go_shows n h (GTree p) (VList (map tree_json (pop_nones None (level_order None [t]))))"
| go_shows_tree_copy: "tree_rep (gh_trees h @ [vv]) (Some (length (gh_trees h))) t \<Longrightarrow> weight t \<le> n \<Longrightarrow>
    go_shows n h (GTreeCopy vv) (VList (map tree_json (pop_nones None (level_order None [t]))))"
| go_shows_list: "list_rep (gh_chains h) p vs back \<Longrightarrow> go_shows n h (GList p) (VList (map (\<lambda>w. VInt (sint w)) vs))"
| go_shows_list_copy: "list_rep (gh_chains h @ [vv]) (Some (length (gh_chains h))) vs back \<Longrightarrow>
    go_shows n h (GListCopy vv) (VList (map (\<lambda>w. VInt (sint w)) vs))"
| go_shows_graph: "go_graphToAdjList (gh_graphs h) p = Inr rows \<Longrightarrow>
    go_shows n h (GGraph p) (VList (map (\<lambda>r. case r of None \<Rightarrow> VNone | Some ks \<Rightarrow> VList (map VInt ks)) rows))"
| go_shows_graph_copy: "go_graphToAdjList (gh_graphs h @ [vv]) (Some (length (gh_graphs h))) = Inr rows \<Longrightarrow>
    go_shows n h (GGraphCopy vv) (VList (map (\<lambda>r. case r of None \<Rightarrow> VNone | Some ks \<Rightarrow> VList (map VInt ks)) rows))"
| go_shows_byte: "go_shows n h (GByte b) (VStr [char_of (unat b)])"
| go_shows_bytes: "go_shows n h (GBytes bs) (VList (map (\<lambda>b. VStr [char_of (unat b)]) bs))"
| go_shows_grid: "go_shows n h (GByteGrid rows) (VList (map (\<lambda>bs. VList (map (\<lambda>b. VStr [char_of (unat b)]) bs)) rows))"
| go_shows_nil_slice: "go_shows n h GNilSlice (VList [])"
| go_shows_data: "go_shows n h (GData v) v"

lemma go_shows_output: "go_shows n h x v \<Longrightarrow> \<exists>y. go_autoConvertOutput n h x = Some (Inr y) \<and> go_json_value y = Inr v"
  by (induction rule: go_shows.induct)
    (auto simp: go_autoConvertOutput_def normalizeGenericOutput_def go_json_value_def go_trees.flatten_level tree_json_list
      go_list_value_def go_graph_value_def go_linkedListToArray_def bytesToStrings_def byte_string_def dest: read_list_rep)

lemma go_json_result: "go_json_value y = Inr v \<Longrightarrow> go_json_object [(''result'', y)] = Inr (rev (answer_object False v m))"
  by (simp add: go_json_object_def answer_object_def)

lemma go_json_mutated:
  "go_json_value y = Inr m \<Longrightarrow> go_json_object [(''result'', GNil), (''mutated'', y)] = Inr (rev (answer_object True VNone m))"
  by (simp add: go_json_object_def answer_object_def code_def go_json_value_def [of GNil])

text \<open>The written object of a finished call, with its keys in ascending order.\<close>

lemma go_output_shows:
  assumes "if go_result P then go_shows n h res v else v = VNone"
    and "go_result P \<or> args = [] \<or> go_shows n h (hd args) m"
  shows "\<exists>obj. go_output n P h res args = Some (Inr obj) \<and>
    go_json_object obj = Inr (rev (answer_object (\<not> go_result P \<and> args \<noteq> []) v m))"
proof (cases "go_result P")
  case True
  then obtain y where "go_autoConvertOutput n h res = Some (Inr y)" "go_json_value y = Inr v"
    using assms(1) go_shows_output [of n h res v] by auto
  then show ?thesis using True go_json_result [of y v m] by (simp add: go_output_def)
next
  case no_result: False
  then have v: "v = VNone" using assms(1) by simp
  show ?thesis
  proof (cases args)
    case Nil
    have "go_json_value GNil = Inr v" using v by (simp add: go_json_value_def)
    then show ?thesis using no_result Nil go_json_result [of GNil v m] by (simp add: go_output_def)
  next
    case (Cons a as)
    then obtain y where "go_autoConvertOutput n h a = Some (Inr y)" "go_json_value y = Inr m"
      using assms(2) no_result go_shows_output [of n h a m] by auto
    then show ?thesis using no_result Cons v go_json_mutated [of y m] by (simp add: go_output_def)
  qed
qed

lemma go_execute_calls:
  assumes "go_calls R P inp (GoReturned res, args, h, printed)"
  shows "go_execute n R P inp (map fst inp) = map_option (\<lambda>out. (Inr (recovered out), printed)) (go_output n P h res args)"
  using assms by cases (simp add: go_execute_def)

lemma go_process_answers:
  assumes "json_ok (VDict inp)" and "strict (VDict inp)" and "go_calls R P inp (GoReturned res, args, h, printed)"
    and "if go_result P then go_shows n h res v else v = VNone" and "go_result P \<or> args = [] \<or> go_shows n h (hd args) m"
    and "d = rev (answer_object (\<not> go_result P \<and> args \<noteq> []) v m)"
  shows "go_process (n, R, P) (go_payload (go_name P) inp) = Some (Some (Inr (go_text d)), 0, printed)"
  using go_process_payload [OF assms(1,2), of n R P] go_execute_calls [OF assms(3), of n] go_output_shows [OF assms(4,5)] assms(6)
  by (auto simp: go_emit_def recovered_def)

section \<open>Properties\<close>

text \<open>C14. What a Go function returns is what the judge gets: let the payload that the engine sends for a test case
  that JSON can express make the call of the submission's function with its decoded arguments, and let that
  call return \<open>res\<close> and leave its arguments as \<open>args\<close>. If \<open>v\<close> is the JSON value of \<open>res\<close> (\<open>null\<close> for a
  function without a result), and \<open>m\<close> that of the first argument if the function has no result and has
  one, and the answer holds no marker, then the wrapper's process, whatever the submission printed, makes
  \<open>run_wrapper\<close> return \<open>v\<close>, and with it the changed first argument \<open>m\<close> exactly when the function has no
  result and has one.\<close>

theorem go_answer_reaches_judge:
  assumes "json_ok (VDict test_input)" and "strict (VDict test_input)"
    and "go_calls R P test_input (GoReturned res, args, h, printed)"
    and "if go_result P then go_shows n h res v else v = VNone" and "go_result P \<or> args = [] \<or> go_shows n h (hd args) m"
    and "d = rev (answer_object (\<not> go_result P \<and> args \<noteq> []) v m)"
    and "text_ok js_float (VDict d)" and "no_marker (go_text d)"
    and "communicate E cmd (go_payload (go_name P) test_input) (Some t) w = (Inr (Finished p), w')"
    and "go_main (n, R, P) (go_payload (go_name P) test_input) = Some (utf8 E (p_stdout p), p_returncode p)"
    and "int (length (p_stdout p)) \<le> MAX_STDOUT_BYTES E"
  shows "run_wrapper E cmd (go_payload (go_name P) test_input) t w =
    (Inr (if \<not> go_result P \<and> args \<noteq> [] then InPlaceResult v m else Plain v), w')"
proof -
  have "go_run_block (n, R, P) (go_payload (go_name P) test_input) = Some (Inr (go_text d), printed)"
    using go_process_answers [OF assms(1-6)] by (simp add: go_run_block_def block_of_def)
  moreover have "answers (go_text d) d"
    using go_document [OF assms(7,8)] answer_keys [of d] answer_object_keys assms(6) by (simp add: answers_def)
  ultimately have "run_wrapper E cmd (go_payload (go_name P) test_input) t w = (Inr (result_value d), w')"
    using go_harness.answer_judged [OF _ _ assms(9-11)] by blast
  then show ?thesis using assms(6) by (simp add: answer_object_def result_value_def dget_def)
qed

text \<open>A submission that reverses the characters it is given in place.\<close>

definition go_test_runtime :: go_runtime where
  "go_test_runtime = \<lparr>go_decode = (\<lambda>_ v. Inr (GData v)), go_type_error = (\<lambda>t _. ''json: cannot unmarshal into '' @ t),
     go_wide_float = (\<lambda>_. 0)\<rparr>"

definition go_reverse :: go_program where
  "go_reverse = \<lparr>go_name = ''reverseString'', go_parameters = [(''s'', ''[]byte''), (''k'', ''int'')], go_result = False,
     go_call = (\<lambda>args h. Some (GoReturned GNil, map (\<lambda>a. case a of GBytes b \<Rightarrow> GBytes (rev b) | _ \<Rightarrow> a) args, h, ''debug''))\<rparr>"

definition go_reverse_input :: pydict where
  "go_reverse_input = [(''chars'', VList [VStr ''a'', VStr ''<'']), (''k'', VInt 2)]"

definition go_reverse_answer :: pydict where
  "go_reverse_answer = [(''mutated'', VList [VStr ''<'', VStr ''a'']), (''result'', VNone)]"

definition go_reverse_run :: "unit env" where
  "go_reverse_run = offline\<lparr>communicate := (\<lambda>_ _ _. io_return (Finished
     \<lparr>p_stdout = ''debug'' @ emit_block (go_text go_reverse_answer), p_stderr = [], p_returncode = 0\<rparr>))\<rparr>"

lemma go_reverse_calls:
  "go_calls go_test_runtime go_reverse go_reverse_input (GoReturned GNil, [GBytes [60, 97], GData (VInt 2)], go_fresh, ''debug'')"
proof (rule go_called)
  show "go_args go_test_runtime go_reverse_input (map fst go_reverse_input)
      (list_ex (\<lambda>p. is_listnode_type (snd p)) (go_parameters go_reverse)) 0 (go_parameters go_reverse) go_fresh =
    Inr ([GBytes [97, 60], GData (VInt 2)], go_fresh)" by code_simp
qed (simp add: go_reverse_def)

theorem go_answer_reaches_judge_witness:
  "run_wrapper go_reverse_run [''docker''] (go_payload ''reverseString'' go_reverse_input) 10 () =
     (Inr (InPlaceResult VNone (VList [VStr ''<'', VStr ''a''])), ())"
proof -
  let ?p = "\<lparr>p_stdout = ''debug'' @ emit_block (go_text go_reverse_answer), p_stderr = [], p_returncode = 0\<rparr>"
  let ?m = "VList [VStr ''<'', VStr ''a'']"
  have P: "go_name go_reverse = ''reverseString''" "\<not> go_result go_reverse" by (simp_all add: go_reverse_def)
  have ok: "json_ok (VDict go_reverse_input)" "strict (VDict go_reverse_input)" by (simp_all add: go_reverse_input_def)
  have "map (\<lambda>b :: byte. VStr [char_of (unat b)]) [60, 97] = [VStr ''<'', VStr ''a'']" by code_simp
  then have m: "go_shows 0 go_fresh (GBytes [60, 97]) ?m" using go_shows_bytes [of 0 go_fresh "[60, 97]"] by simp
  have d: "go_reverse_answer = rev (answer_object True VNone ?m)" by (simp add: go_reverse_answer_def answer_object_def)
  have "no_marker (go_text go_reverse_answer)" by code_simp
  moreover have "int (length (''debug'' @ emit_block (go_text go_reverse_answer))) \<le> 1000000" by code_simp
  moreover have "go_main (0, go_test_runtime, go_reverse) (go_payload (go_name go_reverse) go_reverse_input) =
      Some (''debug'' @ emit_block (go_text go_reverse_answer), 0)"
    using go_process_answers [OF ok go_reverse_calls, of 0 VNone ?m go_reverse_answer] P m d
    by (simp add: go_main_def print_process_def)
  moreover have "text_ok js_float (VDict go_reverse_answer)" by (simp add: go_reverse_answer_def)
  ultimately show ?thesis
    using go_answer_reaches_judge [OF ok go_reverse_calls, of 0 VNone ?m go_reverse_answer go_reverse_run "[''docker'']" 10 "()" ?p "()"] P m d
    by (simp add: go_reverse_run_def offline_def MAX_STDOUT_BYTES_def int_env_def)
qed

text \<open>C15. A tree goes through the Go wrapper unchanged: the values of a tree, in level order without the missing
  ones at the end, are decoded through \<open>float64\<close> and built into a tree of that shape and those values, and
  \<open>autoConvertOutput\<close> gives the same list of values for it, provided no value exceeds \<open>2^53\<close> in
  magnitude.\<close>

theorem go_tree_argument:
  assumes "no_none None t" and "\<forall>x \<in> set (level_order None [t]). exact x" and "weight t \<le> n"
    and "vs = VList (map tree_json (pop_nones None (level_order None [t])))"
  shows "\<exists>p h'. go_tree_arg R True name vs h = Inr (GTree p, h') \<and> tree_rep (gh_trees h') p t \<and>
    go_autoConvertOutput n h' (GTree p) = Some (Inr (GData vs))"
proof -
  let ?xs = "pop_nones None (level_order None [t])"
  have "\<forall>x \<in> set ?xs. exact x" using assms(2) pop_nones_subset [of None "level_order None [t]"] by auto
  from go_elements_exact [OF this] obtain us where us: "map_r (go_interface R) (map tree_json ?xs) = Inr us"
    "map_r (go_element R) us = Inr ?xs" by blast
  obtain p ts where b: "go_tree ?xs (gh_trees h) = (p, ts)" by (cases "go_tree ?xs (gh_trees h)")
  have rep: "tree_rep ts p t" using go_trees.build_rep [OF assms(1) b] by blast
  have "go_tree_arg R True name vs h = Inr (GTree p, h\<lparr>gh_trees := ts\<rparr>)"
    using us b assms(4) by (simp add: go_tree_arg_def go_interfaces_def go_slice_def invalid_parameter_def go_buildTree_def)
  moreover have "go_autoConvertOutput n (h\<lparr>gh_trees := ts\<rparr>) (GTree p) = Some (Inr (GData vs))"
    using go_trees.flatten_level [OF rep assms(3)] assms(4) by (simp add: go_autoConvertOutput_def tree_json_list)
  ultimately show ?thesis using rep by auto
qed

theorem go_tree_argument_witness:
  "\<exists>p h'. go_tree_arg go_test_runtime True ''root'' (VList [VInt (- 1), VNone, VInt 9007199254740992]) go_fresh = Inr (GTree p, h') \<and>
    tree_rep (gh_trees h') p (Branch Empty (Some (- 1)) (Branch Empty (Some 9007199254740992) Empty)) \<and>
    go_autoConvertOutput 9 h' (GTree p) = Some (Inr (GData (VList [VInt (- 1), VNone, VInt 9007199254740992])))"
  by (rule go_tree_argument) (simp_all add: exact_def tree_json_def pop_nones_def)

text \<open>Characters of ASCII survive the bytes of Go: a grid of one-character strings is decoded into rows of
  bytes, and the rows of bytes that a submission returns are written as the same one-character strings.\<close>

lemma go_byte_grid:
  assumes "\<forall>row \<in> set grid. \<forall>c \<in> set row. code c < 128"
    and "v = VList (map (\<lambda>row. VList (map (\<lambda>c. VStr [c]) row)) grid)"
  shows "\<exists>rows. go_plain_arg R name ''[][]byte'' v = Inr (GByteGrid rows) \<and>
    go_autoConvertOutput n h (GByteGrid rows) = Some (Inr (GData v))"
proof -
  let ?b = "\<lambda>c. of_nat (code c) :: byte"
  have "decodeByte R (VStr [c]) = Inr (?b c)" if "code c < 128" for c
    using that by (simp add: decodeByte_def go_string_def string_bytes_def char_bytes_def)
  then have "decodeBytes R (VList (map (\<lambda>c. VStr [c]) row)) = Inr (map ?b row)" if "row \<in> set grid" for row
    using that assms(1) by (auto simp: decodeBytes_def go_string_def go_slice_def intro!: map_r_map)
  then have "decodeByteGrid R v = Inr (map (map ?b) grid)"
    using assms(2) by (auto simp: decodeByteGrid_def go_slice_def intro!: map_r_map)
  moreover have "byte_string (?b c) = [c]" for c
    using code_less [of c] by (simp add: byte_string_def code_def unat_of_nat)
  ultimately show ?thesis
    using assms(2) by (simp add: go_plain_arg_def invalid_parameter_def go_autoConvertOutput_def normalizeGenericOutput_def
        bytesToStrings_def comp_def)
qed

lemma go_byte_grid_witness:
  "\<exists>rows. go_plain_arg go_test_runtime ''board'' ''[][]byte'' (VList [VList [VStr ''5'', VStr ''.''], VList []]) = Inr (GByteGrid rows) \<and>
    go_autoConvertOutput 0 go_fresh (GByteGrid rows) = Some (Inr (GData (VList [VList [VStr ''5'', VStr ''.''], VList []])))"
  by (rule go_byte_grid [of "[''5.'', []]"]) (simp_all add: code_def)

end
