(* ===== verification/RustWrapper.thy ===== *)
theory RustWrapper
  imports RustExecutors GoWrapper
begin

text \<open>
  The Rust wrapper (\<open>languages/rust_wrapper.py\<close>) around a submission, with the argument bindings and the call
  that \<open>languages/rust.py\<close> generates. The submission and the crate \<open>serde_json\<close> are parameters; a
  \<open>Value\<close> of the crate is the document it holds.
\<close>

section \<open>Values\<close>

text \<open>Tree nodes are shared (\<open>Rc<RefCell<TreeNode>>\<close>), so they live in a heap; a list (\<open>Option<Box<ListNode>>\<close>) is
  owned and is its values. \<^term>\<open>RData v\<close> is a value of another type, with what \<open>serde_json::to_value\<close> makes
  of it, \<open>None\<close> if that fails.\<close>

datatype rustval =
    RTree "nat option"
  | RList "int32 list"
  | RData "pyval option"

text \<open>A panic: its message if it is a text, and the line. A call returns, panics or ends the process.\<close>

record rust_panic =
  pn_message :: "string option"
  pn_line :: "int option"

datatype rust_end = RustReturned rustval | RustPanicked rust_panic | RustAborted int

record rust_program =
  rust_parameters :: "(string \<times> string) list"
  rust_return :: string
  rust_call :: "rustval list \<Rightarrow> int32 option tree_node list \<Rightarrow>
    (rust_end \<times> rustval list \<times> int32 option tree_node list \<times> string) option"

text \<open>What the wrapper uses of \<open>serde_json\<close>: reading and writing documents, the integer of a value, the conversion
  to a type; and the lines of the wrapper's own panics.\<close>

record rust_runtime =
  serde_from_str :: "string \<Rightarrow> pyval option"
  serde_display :: "pyval \<Rightarrow> string"
  as_i64 :: "pyval \<Rightarrow> int64 option"
  serde_from_value :: "string \<Rightarrow> pyval \<Rightarrow> string + rustval"
  panic_line :: "string \<Rightarrow> int"

text \<open>Documented behaviour of the crate.\<close>

definition serde_reads :: "rust_runtime \<Rightarrow> pyval \<Rightarrow> bool" where
  "serde_reads R v \<longleftrightarrow> serde_from_str R (dumps v) = Some v"

definition serde_writes :: "rust_runtime \<Rightarrow> bool" where
  "serde_writes R \<longleftrightarrow> (\<forall>d. json_ok (VDict d) \<longrightarrow> object_text (serde_display R (VDict d)) d)"

definition serde_integers :: "rust_runtime \<Rightarrow> bool" where
  "serde_integers R \<longleftrightarrow> as_i64 R VNone = None \<and> (\<forall>n. in_int64 n \<longrightarrow> as_i64 R (VInt n) = Some (word_of_int n))"

section \<open>Arguments\<close>

text \<open>\<open>payload["keys"].as_array().cloned().unwrap_or_default()\<close>\<close>

definition as_array :: "pyval \<Rightarrow> pyval list option" where
  "as_array v = (case v of VList vs \<Rightarrow> Some vs | _ \<Rightarrow> None)"

definition payload_items :: "pyval \<Rightarrow> string \<Rightarrow> pyval list" where
  "payload_items payload k = (case payload of
      VDict d \<Rightarrow> (case dget d k of None \<Rightarrow> [] | Some v \<Rightarrow> (case as_array v of None \<Rightarrow> [] | Some vs \<Rightarrow> vs))
    | _ \<Rightarrow> [])"

definition payload_pairs :: "pyval \<Rightarrow> (pyval \<times> pyval) list" where
  "payload_pairs payload = zip (payload_items payload ''keys'') (payload_items payload ''values'')"

definition rust_pick :: "pyval \<Rightarrow> string \<Rightarrow> nat \<Rightarrow> bool \<Rightarrow> pyval option" where
  "rust_pick payload name index skip_pos = (case List.find (\<lambda>(k, v). k = VStr name) (payload_pairs payload) of
      Some (k, v) \<Rightarrow> Some v
    | None \<Rightarrow>
        (let positional = filter (\<lambda>(k, v). \<not> (skip_pos \<and> k = VStr ''pos'')) (payload_pairs payload) in
         if index < length positional then Some (snd (positional ! index)) else None))"

definition list_cycle_pos :: "rust_runtime \<Rightarrow> pyval \<Rightarrow> int64" where
  "list_cycle_pos R payload = (case List.find (\<lambda>(k, v). k = VStr ''pos'') (payload_pairs payload) of
      None \<Rightarrow> - 1
    | Some (k, v) \<Rightarrow> (case as_i64 R v of None \<Rightarrow> - 1 | Some n \<Rightarrow> n))"

section \<open>Trees and lists\<close>

text \<open>An element that is no integer is a missing node; \<open>n as i32\<close> drops the high bits.\<close>

definition rust_tree_value :: "rust_runtime \<Rightarrow> pyval \<Rightarrow> int32 option" where
  "rust_tree_value R v = map_option (\<lambda>n. ucast n) (as_i64 R v)"

definition rust_tree :: "int32 option list \<Rightarrow> int32 option tree_node list \<Rightarrow> nat option \<times> int32 option tree_node list" where
  "rust_tree = demand_tree None"

definition rust_build_tree :: "rust_runtime \<Rightarrow> pyval \<Rightarrow> int32 option tree_node list \<Rightarrow> nat option \<times> int32 option tree_node list" where
  "rust_build_tree R v h = (case as_array v of
      None \<Rightarrow> (None, h) | Some items \<Rightarrow> rust_tree (map (rust_tree_value R) items) h)"

text \<open>The queue starts with the root even if there is none, and the \<open>null\<close> for it is popped again.\<close>

definition rust_tree_list :: "nat \<Rightarrow> int32 option tree_node list \<Rightarrow> nat option \<Rightarrow> int32 option list option" where
  "rust_tree_list n h rt = map_option (pop_nones None) (tree_queue None n h [rt])"

definition rust_tree_to_json :: "nat \<Rightarrow> int32 option tree_node list \<Rightarrow> nat option \<Rightarrow> pyval option" where
  "rust_tree_to_json n h rt =
     map_option (\<lambda>vs. VList (map (\<lambda>x. case x of None \<Rightarrow> VNone | Some w \<Rightarrow> VInt (sint w)) vs)) (rust_tree_list n h rt)"

interpretation rust_trees: tree_wire None rust_tree rust_tree_list
proof
  fix h :: "int32 option tree_node list" and p t n
  show "rust_tree_list n h p = Some (pop_nones None (level_order None [t]))" if "tree_rep h p t" "weight t \<le> n"
  proof (cases p)
    case None
    then have "t = Empty" using that(1) by (cases t) auto
    then show ?thesis using None that(2) by (cases n) (auto simp: rust_tree_list_def pop_nones_def)
  next
    case (Some i)
    then show ?thesis using read_tree_level_order [OF that, of None] by (simp add: rust_tree_list_def read_tree_def)
  qed
next
  fix t h p h'
  show "tree_rep h' p t \<and> take (length h) h' = h" if "no_none None t" "rust_tree (pop_nones None (level_order None [t])) h = (p, h')"
    using demand_tree_rep [OF that [unfolded rust_tree_def]] .
qed

text \<open>The list is built from its end; an element that is no integer counts as 0.\<close>

definition rust_build_list :: "rust_runtime \<Rightarrow> pyval \<Rightarrow> int32 list" where
  "rust_build_list R v = (case as_array v of
      None \<Rightarrow> []
    | Some items \<Rightarrow> foldl (\<lambda>head w. (case as_i64 R w of None \<Rightarrow> 0 | Some n \<Rightarrow> ucast n) # head) [] (rev items))"

definition rust_list_to_json :: "int32 list \<Rightarrow> pyval" where
  "rust_list_to_json head = VList (map (\<lambda>w. VInt (sint w)) head)"

section \<open>The call\<close>

definition own_panic :: "rust_runtime \<Rightarrow> string \<Rightarrow> rust_panic" where
  "own_panic R m = \<lparr>pn_message = Some m, pn_line = Some (panic_line R m)\<rparr>"

text \<open>The type that a parameter's variable has: references are bound to an owned value.\<close>

definition owned_type :: "string \<Rightarrow> string" where
  "owned_type t = (if starts_with ''&mut '' t then resolve_owned_reference_target (strip (drop 5 t))
     else if starts_with ''&'' t then resolve_owned_reference_target (strip (drop 1 t)) else t)"

definition rust_arg ::
  "rust_runtime \<Rightarrow> pyval \<Rightarrow> bool \<Rightarrow> nat \<Rightarrow> string \<times> string \<Rightarrow> int32 option tree_node list \<Rightarrow>
    rust_panic + rustval \<times> int32 option tree_node list" where
  "rust_arg R payload skip_pos index p h = (case p of (ptype, name) \<Rightarrow>
     (let ty = owned_type (normalize_type ptype) in
      case rust_pick payload name index skip_pos of
        None \<Rightarrow> Inl (own_panic R (''missing argument: '' @ name))
      | Some v \<Rightarrow>
          if has_sub ''TreeNode'' ty then (case rust_build_tree R v h of (t, h') \<Rightarrow> Inr (RTree t, h'))
          else if has_sub ''ListNode'' ty then Inr (RList (rust_build_list R v), h)
          else case serde_from_value R ty v of
            Inl e \<Rightarrow> Inl (own_panic R (''invalid argument '' @ name @ '': '' @ e))
          | Inr x \<Rightarrow> Inr (x, h)))"

fun rust_args ::
  "rust_runtime \<Rightarrow> pyval \<Rightarrow> bool \<Rightarrow> nat \<Rightarrow> (string \<times> string) list \<Rightarrow> int32 option tree_node list \<Rightarrow>
    rust_panic + rustval list \<times> int32 option tree_node list" where
  "rust_args R payload skip_pos i [] h = Inr ([], h)"
| "rust_args R payload skip_pos i (p # ps) h = (case rust_arg R payload skip_pos i p h of
      Inl e \<Rightarrow> Inl e
    | Inr (x, h') \<Rightarrow> fmap_r (\<lambda>(xs, h''). (x # xs, h'')) (rust_args R payload skip_pos (Suc i) ps h'))"

text \<open>A value that cannot be serialized becomes \<open>null\<close>. The result is \<open>None\<close> for a cyclic tree.\<close>

definition rust_json :: "nat \<Rightarrow> int32 option tree_node list \<Rightarrow> rustval \<Rightarrow> pyval option" where
  "rust_json n h x = (case x of
      RTree p \<Rightarrow> rust_tree_to_json n h p
    | RList vs \<Rightarrow> Some (rust_list_to_json vs)
    | RData v \<Rightarrow> Some (case v of None \<Rightarrow> VNone | Some w \<Rightarrow> w))"

definition rust_output :: "nat \<Rightarrow> rust_program \<Rightarrow> int32 option tree_node list \<Rightarrow> rustval \<Rightarrow> rustval list \<Rightarrow> pydict option" where
  "rust_output n P h result args =
     (if normalize_type (rust_return P) = [] \<or> normalize_type (rust_return P) = ''()'' then
        map_option (\<lambda>m. [(''result'', VNone), (''mutated'', m)])
          (case (rust_parameters P, args) of
             ((ptype, _) # _, a # _) \<Rightarrow> if starts_with ''&mut '' (normalize_type ptype) then rust_json n h a else Some VNone
           | _ \<Rightarrow> Some VNone)
      else map_option (\<lambda>r. [(''result'', r)]) (rust_json n h result))"

text \<open>The worker thread. \<open>Inl\<close> is the exit code of a process that it ends.\<close>

definition judge_run ::
  "nat \<Rightarrow> rust_runtime \<Rightarrow> rust_program \<Rightarrow> pyval \<Rightarrow> ((int + rust_panic + pydict) \<times> string) option" where
  "judge_run n R P payload =
     (let skip_pos = list_ex (\<lambda>p. has_sub ''ListNode'' (fst p)) (rust_parameters P) in
      case rust_args R payload skip_pos 0 (rust_parameters P) [] of
        Inl e \<Rightarrow> Some (Inr (Inl e), [])
      | Inr (args, h) \<Rightarrow> (case rust_call P args h of
            None \<Rightarrow> None
          | Some (RustAborted rc, _, _, printed) \<Rightarrow> Some (Inl rc, printed)
          | Some (RustPanicked e, _, _, printed) \<Rightarrow> Some (Inr (Inl e), printed)
          | Some (RustReturned r, args', h', printed) \<Rightarrow>
              map_option (\<lambda>out. (Inr (Inr out), printed)) (rust_output n P h' r args')))"

section \<open>The process\<close>

definition panic_message :: "rust_panic \<Rightarrow> string" where
  "panic_message info =
     (let message = (case pn_message info of None \<Rightarrow> ''panic'' | Some s \<Rightarrow> s) in
      case pn_line info of
        Some line \<Rightarrow> ''panicked at line '' @ int_str line @ '': '' @ message
      | None \<Rightarrow> ''panicked: '' @ message)"

definition rust_error :: "rust_runtime \<Rightarrow> string \<Rightarrow> string" where
  "rust_error R m = serde_display R (VDict [(''error'', VStr m)])"

text \<open>The block that the process writes, if any, its exit code, and what the submission printed before it.\<close>

definition rust_process ::
  "nat \<times> rust_runtime \<times> rust_program \<Rightarrow> string \<Rightarrow> ((string + string) option \<times> int \<times> string) option" where
  "rust_process = (\<lambda>(n, R, P) input. case serde_from_str R input of
      None \<Rightarrow> Some (Some (Inl (rust_error R ''Invalid JSON input'')), 1, [])
    | Some payload \<Rightarrow> (case judge_run n R P payload of
          None \<Rightarrow> None
        | Some (Inl rc, printed) \<Rightarrow> Some (None, rc, printed)
        | Some (Inr (Inl e), printed) \<Rightarrow> Some (Some (Inl (rust_error R (panic_message e))), 1, printed)
        | Some (Inr (Inr out), printed) \<Rightarrow> Some (Some (Inr (serde_display R (VDict out))), 0, printed)))"

definition rust_run_block :: "nat \<times> rust_runtime \<times> rust_program \<Rightarrow> string \<Rightarrow> ((string + string) \<times> string) option" where
  "rust_run_block prog input = block_of (rust_process prog input)"

definition rust_main :: "nat \<times> rust_runtime \<times> rust_program \<Rightarrow> string \<Rightarrow> (string \<times> int) option" where
  "rust_main prog input = print_process (rust_process prog input)"

lemma rust_process_code: "rust_process prog input = Some (Some (Inr t), rc, printed) \<Longrightarrow> rc = 0"
  by (cases prog) (auto simp: rust_process_def split: option.split_asm prod.split_asm sum.split_asm)

interpretation rust_harness: harness rust_run_block rust_main
  unfolding rust_run_block_def [abs_def] rust_main_def [abs_def] by (rule harness_process) (rule rust_process_code)

section \<open>Trees as arguments and answers\<close>

definition int32_json :: "int32 option \<Rightarrow> pyval" where
  "int32_json x = (case x of None \<Rightarrow> VNone | Some w \<Rightarrow> VInt (sint w))"

text \<open>Every value of 32 bits survives its way through 64 bits.\<close>

lemma in_int64_sint: "in_int64 (sint (w :: int32))"
  using sint_range_size [of w] by (simp add: in_int64_def word_size)

lemma i64_as_i32: "ucast (word_of_int (sint w) :: int64) = (w :: int32)"
proof (rule bit_word_eqI)
  fix n assume "n < LENGTH(32)"
  then show "bit (ucast (word_of_int (sint w) :: int64) :: int32) n \<longleftrightarrow> bit w n"
    by (cases "n = 31") (auto simp: bit_simps min_def)
qed

lemma rust_tree_argument:
  assumes "serde_integers R" and "no_none None t" and "weight t \<le> n"
    and "v = VList (map int32_json (pop_nones None (level_order None [t])))"
  shows "\<exists>p h'. rust_build_tree R v h = (p, h') \<and> tree_rep h' p t \<and> rust_tree_to_json n h' p = Some v"
proof -
  let ?xs = "pop_nones None (level_order None [t])"
  have "rust_tree_value R (int32_json x) = x" for x
    using assms(1) in_int64_sint i64_as_i32
    by (cases x) (simp_all add: rust_tree_value_def int32_json_def serde_integers_def)
  then have vals: "map (rust_tree_value R) (map int32_json ?xs) = ?xs" by (simp add: comp_def)
  obtain p h' where b: "rust_tree ?xs h = (p, h')" by (cases "rust_tree ?xs h")
  have rep: "tree_rep h' p t" using rust_trees.build_rep [OF assms(2) b] by blast
  show ?thesis
    using vals b rep rust_trees.flatten_level [OF rep assms(3)] assms(4)
    by (simp add: rust_build_tree_def as_array_def rust_tree_to_json_def int32_json_def [abs_def])
qed

section \<open>What a submission does\<close>

text \<open>The call that a test case makes, with its outcome: the parameters get their arguments one after the other.\<close>

inductive rust_calls ::
  "rust_runtime \<Rightarrow> rust_program \<Rightarrow> pydict \<Rightarrow> rust_end \<times> rustval list \<times> int32 option tree_node list \<times> string \<Rightarrow> bool" for R P inp where
  rust_called: "rust_args R (positional_dict inp) (list_ex (\<lambda>p. has_sub ''ListNode'' (fst p)) (rust_parameters P)) 0 (rust_parameters P) [] =
      Inr (args, h) \<Longrightarrow> rust_call P args h = Some r \<Longrightarrow> rust_calls R P inp r"

text \<open>The JSON value of a value: a tree by its values in level order without the missing ones at the end, a list by
  its values, any other by what \<open>serde_json\<close> makes of it, \<open>null\<close> if that fails.\<close>

inductive rust_shows :: "nat \<Rightarrow> int32 option tree_node list \<Rightarrow> rustval \<Rightarrow> pyval \<Rightarrow> bool" for n h where
  rust_shows_tree: "tree_rep h p t \<Longrightarrow> weight t \<le> n \<Longrightarrow>
    rust_shows n h (RTree p) (VList (map int32_json (pop_nones None (level_order None [t]))))"
| rust_shows_list: "rust_shows n h (RList vs) (VList (map (\<lambda>w. VInt (sint w)) vs))"
| rust_shows_data: "rust_shows n h (RData (Some v)) v"
| rust_shows_unknown: "rust_shows n h (RData None) VNone"

text \<open>A function without a result, and one that has a first argument to change.\<close>

definition returns_unit :: "rust_program \<Rightarrow> bool" where
  "returns_unit P \<longleftrightarrow> normalize_type (rust_return P) \<in> {[], ''()''}"

definition changes_first :: "rust_program \<Rightarrow> bool" where
  "changes_first P \<longleftrightarrow> (\<exists>ptype name ps. rust_parameters P = (ptype, name) # ps \<and> starts_with ''&mut '' (normalize_type ptype))"

lemma rust_shows_json: "rust_shows n h x v \<Longrightarrow> rust_json n h x = Some v"
  by (induction rule: rust_shows.induct)
    (auto simp: rust_json_def rust_tree_to_json_def rust_trees.flatten_level rust_list_to_json_def int32_json_def)

lemma rust_output_shows:
  assumes "if returns_unit P then v = VNone else rust_shows n h res v"
    and "if returns_unit P \<and> changes_first P \<and> args \<noteq> [] then rust_shows n h (hd args) m else m = VNone"
  shows "rust_output n P h res args = Some (answer_object (returns_unit P) v m)"
proof (cases "returns_unit P")
  case True
  then show ?thesis
    using assms rust_shows_json [of n h "hd args" m]
    by (auto simp: rust_output_def answer_object_def returns_unit_def changes_first_def split: list.split prod.split if_splits)
next
  case False
  then show ?thesis using assms(1) rust_shows_json [of n h res v] by (simp add: rust_output_def answer_object_def returns_unit_def)
qed

lemma judge_run_calls:
  assumes "rust_calls R P inp (RustReturned res, args, h, printed)"
  shows "judge_run n R P (positional_dict inp) = map_option (\<lambda>out. (Inr (Inr out), printed)) (rust_output n P h res args)"
  using assms by cases (simp add: judge_run_def)

lemma rust_process_answers:
  assumes "serde_reads R (positional_dict inp)" and "rust_calls R P inp (RustReturned res, args, h, printed)"
    and "if returns_unit P then v = VNone else rust_shows n h res v"
    and "if returns_unit P \<and> changes_first P \<and> args \<noteq> [] then rust_shows n h (hd args) m else m = VNone"
  shows "rust_process (n, R, P) (positional_payload inp) =
    Some (Some (Inr (serde_display R (VDict (answer_object (returns_unit P) v m)))), 0, printed)"
  using assms(1) judge_run_calls [OF assms(2), of n] rust_output_shows [OF assms(3,4)]
  by (simp add: rust_process_def serde_reads_def positional_payload_def)

lemma serde_answers:
  assumes "serde_writes R" and "d = answer_object b v m" and "json_ok (VDict d)" and "no_marker (serde_display R (VDict d))"
  shows "\<exists>d'. answers (serde_display R (VDict d)) d' \<and> result_value d' = result_value d"
proof -
  have "object_text (serde_display R (VDict d)) d" using assms(1,3) by (simp add: serde_writes_def)
  from object_document [OF this assms(4)] obtain d' where d': "document (serde_display R (VDict d)) d'" "dget d' = dget d" by blast
  have "\<not> dhas ''error'' d \<and> (dhas ''result'' d \<or> dhas ''mutated'' d)" using answer_keys [OF answer_object_keys] assms(2) by simp
  then show ?thesis using d' result_value_dget [OF d'(2)] by (auto simp: answers_def dhas_dget [OF d'(2)])
qed

section \<open>The choice of arguments\<close>

lemma payload_pairs_positional: "payload_pairs (positional_dict inp) = map (\<lambda>(k, v). (VStr k, v)) inp"
  by (induction inp) (auto simp: payload_pairs_def payload_items_def positional_dict_def as_array_def dget_def)

lemma find_map_of: "map_option snd (List.find (\<lambda>(k, v). k = VStr name) (map (\<lambda>(k, v). (VStr k, v)) inp)) = dget inp name"
  by (induction inp) (auto simp: dget_def)

text \<open>Choosing by position among the items is choosing the key by position and looking it up.\<close>

lemma positional_lookup:
  assumes "distinct (map fst inp)"
  shows "(let ps = filter (\<lambda>(k, v). P k) inp in if i < length ps then Some (snd (ps ! i)) else None) =
    (let ks = filter P (map fst inp) in if i < length ks then dget inp (ks ! i) else None)"
proof -
  have ks: "filter P (map fst inp) = map fst (filter (\<lambda>(k, v). P k) inp)" by (induction inp) auto
  have "dget inp (fst (filter (\<lambda>(k, v). P k) inp ! i)) = Some (snd (filter (\<lambda>(k, v). P k) inp ! i))"
    if "i < length (filter (\<lambda>(k, v). P k) inp)"
    using nth_mem [OF that] by (intro dget_distinct [OF assms]) auto
  then show ?thesis unfolding ks by (simp add: Let_def)
qed

lemma pickArg_items:
  assumes "distinct (map fst inp)"
  shows "pickArg inp (map fst inp) name i skip = (case dget inp name of
      Some v \<Rightarrow> Some v
    | None \<Rightarrow> (let ps = filter (\<lambda>(k, v). \<not> (skip \<and> k = ''pos'')) inp in if i < length ps then Some (snd (ps ! i)) else None))"
  unfolding pickArg_def positional_lookup [OF assms, of "\<lambda>k. \<not> (skip \<and> k = ''pos'')" i] ..

lemma rust_pick_items:
  "rust_pick (positional_dict inp) name i skip = (case dget inp name of
      Some v \<Rightarrow> Some v
    | None \<Rightarrow> (let ps = filter (\<lambda>(k, v). \<not> (skip \<and> k = ''pos'')) inp in if i < length ps then Some (snd (ps ! i)) else None))"
proof -
  have f: "filter (\<lambda>(k, v). \<not> (skip \<and> k = VStr ''pos'')) (map (\<lambda>(k, v). (VStr k, v)) inp) =
      map (\<lambda>(k, v). (VStr k, v)) (filter (\<lambda>(k, v). \<not> (skip \<and> k = ''pos'')) inp)"
    by (induction inp) auto
  show ?thesis
    unfolding rust_pick_def payload_pairs_positional f find_map_of [symmetric]
    by (auto simp: Let_def case_prod_beta split: option.split)
qed

section \<open>Properties\<close>

text \<open>Rust and Go give a parameter the same argument: on the payload that the engine sends for a test case,
  \<open>pick\<close> finds a value exactly when \<open>pickArg\<close> does, and the same one, by name first and by position otherwise.\<close>

lemma rust_pick_is_go_pick:
  assumes "distinct (map fst test_input)"
  shows "rust_pick (positional_dict test_input) name i skip_pos = pickArg test_input (map fst test_input) name i skip_pos"
  by (simp only: rust_pick_items pickArg_items [OF assms])

lemma rust_pick_is_go_pick_witness:
  "rust_pick (positional_dict [(''pos'', VInt 1), (''head'', VList []), (''k'', VInt 2)]) ''n'' 1 True = Some (VInt 2)"
  using rust_pick_is_go_pick [of "[(''pos'', VInt 1), (''head'', VList []), (''k'', VInt 2)]" "''n''" 1 True]
  by (simp add: pickArg_def dget_def)

text \<open>C16. What a Rust function returns is what the judge gets: let \<open>serde_json\<close> read the payload that the engine
  sends for a test case and write documents as JSON, let the payload make the call of the submission's
  function with its converted arguments, and let that call return \<open>res\<close> and leave its arguments as \<open>args\<close>.
  If the answer holds no marker, the wrapper's process, whatever the submission printed, makes
  \<open>run_wrapper\<close> return the JSON value \<open>v\<close> of \<open>res\<close>; for a function without a result it is \<open>null\<close>
  together with the value \<open>m\<close> of the first argument if that is a \<open>&mut\<close>, and with \<open>null\<close> otherwise.\<close>

theorem rust_answer_reaches_judge:
  assumes "serde_reads R (positional_dict test_input)" and "serde_writes R"
    and "rust_calls R P test_input (RustReturned res, args, h, printed)"
    and "if returns_unit P then v = VNone else rust_shows n h res v"
    and "if returns_unit P \<and> changes_first P \<and> args \<noteq> [] then rust_shows n h (hd args) m else m = VNone"
    and "d = answer_object (returns_unit P) v m" and "json_ok (VDict d)" and "no_marker (serde_display R (VDict d))"
    and "communicate E cmd (positional_payload test_input) (Some t) w = (Inr (Finished p), w')"
    and "rust_main (n, R, P) (positional_payload test_input) = Some (utf8 E (p_stdout p), p_returncode p)"
    and "int (length (p_stdout p)) \<le> MAX_STDOUT_BYTES E"
  shows "run_wrapper E cmd (positional_payload test_input) t w =
    (Inr (if returns_unit P then InPlaceResult v m else Plain v), w')"
proof -
  from serde_answers [OF assms(2,6-8)] obtain d' where
    d': "answers (serde_display R (VDict d)) d'" "result_value d' = result_value d" by blast
  have "rust_run_block (n, R, P) (positional_payload test_input) = Some (Inr (serde_display R (VDict d)), printed)"
    using rust_process_answers [OF assms(1,3-5)] assms(6) by (simp add: rust_run_block_def block_of_def)
  from rust_harness.answer_judged [OF this d'(1) assms(9-11)] show ?thesis using d'(2) assms(6) by simp
qed

text \<open>A submission that reverses a list in place.\<close>

definition rust_test_runtime :: rust_runtime where
  "rust_test_runtime = \<lparr>serde_from_str = loads, serde_display = dumps,
     as_i64 = (\<lambda>v. case v of VInt n \<Rightarrow> if in_int64 n then Some (word_of_int n) else None | _ \<Rightarrow> None),
     serde_from_value = (\<lambda>_ v. Inr (RData (Some v))), panic_line = (\<lambda>_. 48)\<rparr>"

definition rust_reverse :: rust_program where
  "rust_reverse = \<lparr>rust_parameters = [(''&mut Option<Box<ListNode>>'', ''head''), (''i32'', ''k'')], rust_return = [],
     rust_call = (\<lambda>args h. Some (RustReturned (RData None), map (\<lambda>a. case a of RList vs \<Rightarrow> RList (rev vs) | _ \<Rightarrow> a) args, h, ''debug''))\<rparr>"

definition rust_reverse_input :: pydict where
  "rust_reverse_input = [(''head'', VList [VInt (- 1), VInt 2]), (''k'', VInt 7)]"

definition rust_reverse_answer :: pydict where
  "rust_reverse_answer = [(''result'', VNone), (''mutated'', VList [VInt 2, VInt (- 1)])]"

definition rust_reverse_run :: "unit env" where
  "rust_reverse_run = offline\<lparr>communicate := (\<lambda>_ _ _. io_return (Finished
     \<lparr>p_stdout = ''debug'' @ emit_block (dumps (VDict rust_reverse_answer)), p_stderr = [], p_returncode = 0\<rparr>))\<rparr>"

lemma rust_test_runtime_json: "serde_writes rust_test_runtime" "json_ok v \<Longrightarrow> serde_reads rust_test_runtime v"
  using loads_dumps [of v] loads_dumps [of "VDict _"]
  by (auto simp: serde_writes_def serde_reads_def rust_test_runtime_def object_text_def load_object_def ends_with_def simp del: json_ok.simps)

lemma rust_reverse_calls:
  "rust_calls rust_test_runtime rust_reverse rust_reverse_input
     (RustReturned (RData None), [RList [2, - 1], RData (Some (VInt 7))], [], ''debug'')"
proof (rule rust_called)
  show "rust_args rust_test_runtime (positional_dict rust_reverse_input)
      (list_ex (\<lambda>p. has_sub ''ListNode'' (fst p)) (rust_parameters rust_reverse)) 0 (rust_parameters rust_reverse) [] =
    Inr ([RList [- 1, 2], RData (Some (VInt 7))], [])" by code_simp
qed (simp add: rust_reverse_def)

theorem rust_answer_reaches_judge_witness:
  "run_wrapper rust_reverse_run [''docker''] (positional_payload rust_reverse_input) 10 () =
     (Inr (InPlaceResult VNone (VList [VInt 2, VInt (- 1)])), ())"
proof -
  let ?d = "rust_reverse_answer" and ?m = "VList [VInt 2, VInt (- 1)]"
  let ?p = "\<lparr>p_stdout = ''debug'' @ emit_block (dumps (VDict ?d)), p_stderr = [], p_returncode = 0\<rparr>"
  have rd: "serde_reads rust_test_runtime (positional_dict rust_reverse_input)"
    by (rule rust_test_runtime_json) (simp add: positional_dict_def rust_reverse_input_def)
  have disp: "serde_display rust_test_runtime = dumps" by (simp add: rust_test_runtime_def)
  have "normalize_type (rust_return rust_reverse) = []" "starts_with ''&mut '' (normalize_type ''&mut Option<Box<ListNode>>'')" by code_simp+
  then have P: "returns_unit rust_reverse" "changes_first rust_reverse" by (simp_all add: returns_unit_def changes_first_def rust_reverse_def)
  have m: "rust_shows 0 [] (RList [2, - 1]) ?m" using rust_shows_list [of 0 "[]" "[2, - 1]"] by simp
  have d: "?d = answer_object True VNone ?m" by (simp add: rust_reverse_answer_def answer_object_def)
  have ok: "json_ok (VDict ?d)" by (simp add: rust_reverse_answer_def)
  have "no_marker (dumps (VDict ?d))" by code_simp
  moreover have "int (length (''debug'' @ emit_block (dumps (VDict ?d)))) \<le> 1000000" by code_simp
  moreover have "rust_main (0, rust_test_runtime, rust_reverse) (positional_payload rust_reverse_input) =
      Some (''debug'' @ emit_block (dumps (VDict ?d)), 0)"
    using rust_process_answers [OF rd rust_reverse_calls, of VNone 0 ?m] P m d by (simp add: rust_main_def print_process_def disp)
  ultimately show ?thesis
    using rust_answer_reaches_judge [OF rd rust_test_runtime_json(1) rust_reverse_calls, of VNone 0 ?m ?d rust_reverse_run "[''docker'']" 10 "()" ?p "()"]
      P m d ok
    by (simp add: disp rust_reverse_run_def offline_def MAX_STDOUT_BYTES_def int_env_def del: dumps.simps json_ok.simps)
qed

end
