(* ===== verification/CppWrapper.thy ===== *)
theory CppWrapper
  imports RustWrapper
begin

text \<open>
  The C++ wrapper (\<open>languages/cpp_wrapper.py\<close>) with the support code that is compiled into it
  (\<open>docker/cpp_support.hpp\<close>) and the argument bindings and the call that \<open>languages/cpp.py\<close> generates. The
  submission and \<open>nlohmann::json\<close> are parameters; a \<open>json\<close> value is the document it holds, strings of
  the program are bytes.
\<close>

section \<open>Values\<close>

record cpp_heap =
  cp_trees :: "int32 option tree_node list"
  cp_chains :: "int32 list_node list"

text \<open>\<^term>\<open>CData v\<close> is a value of another type, that \<open>json(value)\<close> turns into \<open>v\<close>.\<close>

datatype cppval =
    CTree "nat option"
  | CList "nat option"
  | CChar byte
  | CString "byte list"
  | CVector "cppval list"
  | CData pyval

text \<open>The types for which \<open>Arg\<close> is specialised; any other carries its name.\<close>

datatype cpptype = TyChar | TyStrings | TyVector cpptype | TyTree | TyList | TyPlain string

text \<open>A call returns, throws (\<open>Some\<close> the text of an \<open>exception\<close>) or ends the process.\<close>

datatype cpp_end = CppReturned cppval | CppThrew "string option" | CppDied int

record cpp_program =
  cpp_parameters :: "(string \<times> cpptype) list"
  cpp_skip_pos :: bool
  cpp_void :: bool
  cpp_call :: "cppval list \<Rightarrow> cpp_heap \<Rightarrow> (cpp_end \<times> cppval list \<times> cpp_heap \<times> string) option"

text \<open>What is used of \<open>nlohmann::json\<close>: reading and writing, iteration, \<open>get\<close> for several types, \<open>at\<close> for
  a missing key, the string of a document for the bytes of the program, and the error of an index.\<close>

record nlohmann =
  nl_parse :: "string \<Rightarrow> pyval option"
  nl_dump :: "pyval \<Rightarrow> string"
  nl_items :: "pyval \<Rightarrow> pyval list"
  nl_int :: "pyval \<Rightarrow> string + int32"
  nl_ints :: "pyval \<Rightarrow> string + int32 list"
  nl_int_rows :: "pyval \<Rightarrow> string + int32 list list"
  nl_bytes :: "pyval \<Rightarrow> string + byte list"
  nl_strings :: "pyval \<Rightarrow> string + string list"
  nl_values :: "pyval \<Rightarrow> string + pyval list"
  nl_get :: "string \<Rightarrow> pyval \<Rightarrow> string + cppval"
  nl_missing :: "string \<Rightarrow> string"
  nl_text :: "byte list \<Rightarrow> string"
  nl_index_error :: string

text \<open>Documented behaviour of the library.\<close>

definition nl_reads :: "nlohmann \<Rightarrow> pyval \<Rightarrow> bool" where
  "nl_reads R v \<longleftrightarrow> nl_parse R (dumps v) = Some v"

definition nl_writes :: "nlohmann \<Rightarrow> bool" where
  "nl_writes R \<longleftrightarrow> (\<forall>d. json_ok (VDict d) \<longrightarrow> object_text (nl_dump R (VDict d)) d)"

definition nl_arrays :: "nlohmann \<Rightarrow> bool" where
  "nl_arrays R \<longleftrightarrow> (\<forall>vs. nl_items R (VList vs) = vs \<and> nl_values R (VList vs) = Inr vs) \<and>
     (\<forall>ss. nl_strings R (VList (map VStr ss)) = Inr ss)"

definition nl_ascii :: "nlohmann \<Rightarrow> bool" where
  "nl_ascii R \<longleftrightarrow> (\<forall>s. list_all (\<lambda>c. code c < 128) s \<longrightarrow>
     nl_bytes R (VStr s) = Inr (string_bytes s) \<and> nl_text R (string_bytes s) = s)"

section \<open>Lists and trees\<close>

text \<open>All nodes are allocated first and linked then.\<close>

fun cpp_link :: "nat list \<Rightarrow> 'v list_node list \<Rightarrow> 'v list_node list" where
  "cpp_link (a # b # ns) h = cpp_link (b # ns) (h[a := (h ! a)\<lparr>l_next := Some b\<rparr>])"
| "cpp_link ns h = h"

definition cpp_buildLinkedList :: "'v list \<Rightarrow> int \<Rightarrow> 'v list_node list \<Rightarrow> nat option \<times> 'v list_node list" where
  "cpp_buildLinkedList values pos h =
     (if values = [] then (None, h)
      else
        (let nodes = [length h..<length h + length values];
             h' = cpp_link nodes (h @ map ListNode values)
         in (Some (hd nodes), if 0 \<le> pos \<and> pos < int (length nodes) then tie nodes (nat pos) h' else h')))"

definition serializeLinkedList :: "int32 list_node list \<Rightarrow> nat option \<Rightarrow> pyval" where
  "serializeLinkedList h head = VList (map (\<lambda>w. VInt (sint w)) (read_list h head))"

definition cpp_buildTree :: "int32 option list \<Rightarrow> int32 option tree_node list \<Rightarrow> nat option \<times> int32 option tree_node list" where
  "cpp_buildTree = demand_tree None"

definition cpp_tree_values :: "nat \<Rightarrow> int32 option tree_node list \<Rightarrow> nat option \<Rightarrow> int32 option list option" where
  "cpp_tree_values = read_tree None"

definition serializeTree :: "nat \<Rightarrow> int32 option tree_node list \<Rightarrow> nat option \<Rightarrow> pyval option" where
  "serializeTree n h rt =
     map_option (\<lambda>vs. VList (map (\<lambda>x. case x of None \<Rightarrow> VNone | Some w \<Rightarrow> VInt (sint w)) vs)) (cpp_tree_values n h rt)"

interpretation cpp_tree: tree_wire None cpp_buildTree cpp_tree_values
  unfolding cpp_buildTree_def cpp_tree_values_def by (rule tree_wire_demand_tree)

lemma cpp_link_length [simp]: "length (cpp_link ns h) = length h"
  by (induction ns h rule: cpp_link.induct) auto

lemma cpp_link_frame: "i \<notin> set (butlast ns) \<Longrightarrow> cpp_link ns h ! i = h ! i"
  by (induction ns h rule: cpp_link.induct) (auto split: if_splits)

lemma cpp_link_chain:
  assumes "distinct ns" and "set ns \<subseteq> {..<length h}" and "map (\<lambda>i. h ! i) ns = map ListNode vs"
  shows "list_chain (cpp_link ns h) ns vs None"
  using assms
proof (induction ns h arbitrary: vs rule: cpp_link.induct)
  case (1 a b ns h)
  let ?h = "h[a := (h ! a)\<lparr>l_next := Some b\<rparr>]"
  from "1.prems"(3) obtain v vs' where vs: "vs = v # vs'" "h ! a = ListNode v" by (cases vs) auto
  have "a \<notin> set (butlast (b # ns))" using "1.prems"(1) by (auto dest: in_set_butlastD)
  then have a: "cpp_link (b # ns) ?h ! a = \<lparr>l_val = v, l_next = Some b\<rparr>"
    using cpp_link_frame [of a "b # ns" ?h] "1.prems"(2) vs(2) by (simp add: ListNode_def)
  have "?h ! i = h ! i" if "i \<in> set (b # ns)" for i using "1.prems"(1) that by (intro nth_list_update_neq) auto
  then have "map (\<lambda>i. ?h ! i) (b # ns) = map (\<lambda>i. h ! i) (b # ns)" by (intro map_cong) auto
  also have "\<dots> = map ListNode vs'" using "1.prems"(3) vs(1) by simp
  finally have "list_chain (cpp_link (b # ns) ?h) (b # ns) vs' None"
    by (intro "1.IH") (use "1.prems"(1,2) in simp_all)
  then show ?case using a "1.prems"(2) vs(1) by simp
qed (auto simp: ListNode_def)

lemma cpp_buildLinkedList_rep:
  "cpp_buildLinkedList vs pos h = (p, h') \<Longrightarrow> list_rep h' p vs (cycle_target pos (length vs))"
proof (cases "vs = []")
  case True
  then show "cpp_buildLinkedList vs pos h = (p, h') \<Longrightarrow> ?thesis"
    by (auto simp: cpp_buildLinkedList_def list_rep_def cycle_target_def intro: exI [of _ "[]"])
next
  case False
  assume b: "cpp_buildLinkedList vs pos h = (p, h')"
  let ?ns = "[length h..<length h + length vs]" and ?h = "h @ map ListNode vs"
  have "map (\<lambda>i. ?h ! i) ?ns = map ListNode vs" by (rule nth_equalityI) (auto simp: nth_append)
  then have chain: "list_chain (cpp_link ?ns ?h) ?ns vs None" by (intro cpp_link_chain) auto
  have "list_rep (cpp_link ?ns ?h) (Some (hd ?ns)) vs None"
    using False chain by (auto simp: list_rep_def intro!: exI [of _ ?ns])
  moreover have "list_rep (tie ?ns (nat pos) (cpp_link ?ns ?h)) (Some (hd ?ns)) vs (Some (nat pos))" if "nat pos < length vs"
    using tie_rep [OF chain _ refl that] by simp
  ultimately show ?thesis using b False by (auto simp: cpp_buildLinkedList_def Let_def cycle_target_def split: if_splits)
qed

interpretation cpp_list: list_wire "\<lambda>vs pos h. Inr (cpp_buildLinkedList vs pos h)"
proof
  fix pos vs h
  obtain p h' where "cpp_buildLinkedList vs pos h = (p, h')" by (cases "cpp_buildLinkedList vs pos h")
  then show "\<exists>p h'. Inr (cpp_buildLinkedList vs pos h) = Inr (p, h') \<and> list_rep h' p vs (cycle_target pos (length vs))"
    using cpp_buildLinkedList_rep [of vs pos h p h'] by simp
qed

section \<open>Arguments\<close>

definition cpp_char :: "nlohmann \<Rightarrow> pyval \<Rightarrow> string + byte" where
  "cpp_char R j = (case j of
      VStr _ \<Rightarrow> fmap_r (\<lambda>s. if s = [] then 0 else hd s) (nl_bytes R j)
    | _ \<Rightarrow> fmap_r (\<lambda>n. ucast n) (nl_int R j))"

text \<open>\<open>getline\<close>: the line so far, and the bytes to come.\<close>

fun getlines :: "byte list \<Rightarrow> byte list \<Rightarrow> byte list list" where
  "getlines cur [] = (if cur = [] then [] else [cur])"
| "getlines cur (b # bs) = (if b = 10 then cur # getlines [] bs else getlines (cur @ [b]) bs)"

definition drop_cr :: "byte list \<Rightarrow> byte list" where
  "drop_cr line = (if line \<noteq> [] \<and> last line = 13 then butlast line else line)"

definition cpp_lines :: "byte list \<Rightarrow> byte list list" where
  "cpp_lines s = (case filter (\<lambda>l. l \<noteq> []) (map drop_cr (getlines [] s)) of
      [] \<Rightarrow> []
    | l # ls \<Rightarrow> if list_all (\<lambda>b. 48 \<le> b \<and> b \<le> 57) l then ls else l # ls)"

definition cpp_tree_elem :: "nlohmann \<Rightarrow> pyval \<Rightarrow> string + int32 option" where
  "cpp_tree_elem R item = (if item = VNone then Inr None else fmap_r Some (nl_int R item))"

text \<open>A conversion that allocates, for every element of a list.\<close>

fun map_state :: "('a \<Rightarrow> 's \<Rightarrow> 'e + 'b \<times> 's) \<Rightarrow> 'a list \<Rightarrow> 's \<Rightarrow> 'e + 'b list \<times> 's" where
  "map_state f [] s = Inr ([], s)"
| "map_state f (x # xs) s = (case f x s of
      Inl e \<Rightarrow> Inl e | Inr (y, s') \<Rightarrow> fmap_r (\<lambda>(ys, s''). (y # ys, s'')) (map_state f xs s'))"

text \<open>\<open>Arg<T>::get\<close>; \<open>pos\<close> is \<open>listCyclePos\<close>.\<close>

primrec cpp_get :: "cpptype \<Rightarrow> nlohmann \<Rightarrow> int \<Rightarrow> pyval \<Rightarrow> cpp_heap \<Rightarrow> string + cppval \<times> cpp_heap" where
  "cpp_get TyChar R pos j h = fmap_r (\<lambda>b. (CChar b, h)) (cpp_char R j)"
| "cpp_get TyStrings R pos j h = (case j of
      VList vs \<Rightarrow> fmap_r (\<lambda>ss. (CVector (map CString ss), h)) (map_r (nl_bytes R) vs)
    | _ \<Rightarrow> fmap_r (\<lambda>s. (CVector (map CString (cpp_lines s)), h)) (nl_bytes R j))"
| "cpp_get (TyVector t) R pos j h =
     fmap_r (\<lambda>(vs, h'). (CVector vs, h')) (map_state (cpp_get t R pos) (nl_items R j) h)"
| "cpp_get TyTree R pos j h = fmap_r (\<lambda>values. case cpp_buildTree values (cp_trees h) of (p, ts) \<Rightarrow> (CTree p, h\<lparr>cp_trees := ts\<rparr>))
     (map_r (cpp_tree_elem R) (nl_items R j))"
| "cpp_get TyList R pos j h =
     fmap_r (\<lambda>values. case cpp_buildLinkedList values pos (cp_chains h) of (p, ls) \<Rightarrow> (CList p, h\<lparr>cp_chains := ls\<rparr>)) (nl_ints R j)"
| "cpp_get (TyPlain ty) R pos j h = fmap_r (\<lambda>v. (v, h)) (nl_get R ty j)"

text \<open>\<open>toJson\<close>; the walk over a tree that the submission made cyclic has no end.\<close>

fun cpp_toJson :: "nat \<Rightarrow> nlohmann \<Rightarrow> cpp_heap \<Rightarrow> cppval \<Rightarrow> pyval option" where
  "cpp_toJson n R h (CTree p) = serializeTree n (cp_trees h) p"
| "cpp_toJson n R h (CList p) = Some (serializeLinkedList (cp_chains h) p)"
| "cpp_toJson n R h (CChar b) = Some (VStr (nl_text R [b]))"
| "cpp_toJson n R h (CString s) = Some (VStr (nl_text R s))"
| "cpp_toJson n R h (CVector vs) = map_option VList (those (map (cpp_toJson n R h) vs))"
| "cpp_toJson n R h (CData v) = Some v"

text \<open>The test case: keys and values in the order given, and \<open>listCyclePos\<close>.\<close>

record cpp_input =
  in_keys :: "string list"
  in_values :: "pyval list"
  in_skipPos :: bool

fun is_number_integer :: "pyval \<Rightarrow> bool" where
  "is_number_integer (VInt n) \<longleftrightarrow> True"
| "is_number_integer _ \<longleftrightarrow> False"

fun cycle_pos :: "nlohmann \<Rightarrow> (string \<times> pyval) list \<Rightarrow> int \<Rightarrow> string + int" where
  "cycle_pos R [] pos = Inr pos"
| "cycle_pos R ((k, v) # kvs) pos =
     (if k = ''pos'' \<and> is_number_integer v then (case nl_int R v of Inl e \<Rightarrow> Inl e | Inr w \<Rightarrow> cycle_pos R kvs (sint w))
      else cycle_pos R kvs pos)"

definition cpp_field :: "nlohmann \<Rightarrow> pyval \<Rightarrow> string \<Rightarrow> string + pyval" where
  "cpp_field R payload k = (case payload of
      VDict d \<Rightarrow> (case dget d k of None \<Rightarrow> Inl (nl_missing R k) | Some v \<Rightarrow> Inr v)
    | _ \<Rightarrow> Inl (nl_missing R k))"

definition cpp_Input :: "nlohmann \<Rightarrow> pyval \<Rightarrow> bool \<Rightarrow> int \<Rightarrow> string + cpp_input \<times> int" where
  "cpp_Input R payload skipPos pos = (case cpp_field R payload ''keys'' of
      Inl e \<Rightarrow> Inl e
    | Inr ks \<Rightarrow> (case nl_strings R ks of
        Inl e \<Rightarrow> Inl e
      | Inr keys \<Rightarrow> (case cpp_field R payload ''values'' of
          Inl e \<Rightarrow> Inl e
        | Inr vs \<Rightarrow> (case nl_values R vs of
            Inl e \<Rightarrow> Inl e
          | Inr values \<Rightarrow> fmap_r (\<lambda>p. (\<lparr>in_keys = keys, in_values = values, in_skipPos = skipPos\<rparr>, p))
              (cycle_pos R (zip keys values) pos)))))"

definition cpp_arg :: "cpp_input \<Rightarrow> string \<Rightarrow> nat \<Rightarrow> string + pyval" where
  "cpp_arg inp name index =
     (let items = zip (in_keys inp) (in_values inp) in
      case map_of items name of
        Some v \<Rightarrow> Inr v
      | None \<Rightarrow>
          (let positional = filter (\<lambda>(k, v). \<not> (in_skipPos inp \<and> k = ''pos'')) items in
           if index < length positional then Inr (snd (positional ! index)) else Inl (''missing argument: '' @ name)))"

fun cpp_args :: "nlohmann \<Rightarrow> cpp_input \<Rightarrow> int \<Rightarrow> nat \<Rightarrow> (string \<times> cpptype) list \<Rightarrow> cpp_heap \<Rightarrow> string + cppval list \<times> cpp_heap" where
  "cpp_args R inp pos i [] h = Inr ([], h)"
| "cpp_args R inp pos i ((name, t) # ps) h = (case cpp_arg inp name i of
      Inl e \<Rightarrow> Inl e
    | Inr j \<Rightarrow> (case cpp_get t R pos j h of
        Inl e \<Rightarrow> Inl e
      | Inr (v, h') \<Rightarrow> fmap_r (\<lambda>(vs, h''). (v # vs, h'')) (cpp_args R inp pos (Suc i) ps h')))"

section \<open>The process\<close>

definition cpp_output :: "nat \<Rightarrow> nlohmann \<Rightarrow> cpp_program \<Rightarrow> cpp_heap \<Rightarrow> cppval \<Rightarrow> cppval list \<Rightarrow> pydict option" where
  "cpp_output n R P h result args =
     (if cpp_void P then (case args of
         [] \<Rightarrow> Some [(''result'', VNone)]
       | a # _ \<Rightarrow> map_option (\<lambda>m. [(''result'', VNone), (''mutated'', m)]) (cpp_toJson n R h a))
      else map_option (\<lambda>r. [(''result'', r)]) (cpp_toJson n R h result))"

text \<open>\<open>Inl\<close> is the exit code of a process that ended in the call; an exception of another type has no text.\<close>

definition cpp_execute ::
  "nat \<Rightarrow> nlohmann \<Rightarrow> cpp_program \<Rightarrow> pyval \<Rightarrow> ((int + string option + pydict) \<times> string) option" where
  "cpp_execute n R P payload = (case cpp_Input R payload (cpp_skip_pos P) (- 1) of
      Inl e \<Rightarrow> Some (Inr (Inl (Some e)), [])
    | Inr (inp, pos) \<Rightarrow> (case cpp_args R inp pos 0 (cpp_parameters P) \<lparr>cp_trees = [], cp_chains = []\<rparr> of
          Inl e \<Rightarrow> Some (Inr (Inl (Some e)), [])
        | Inr (args, h) \<Rightarrow> (case cpp_call P args h of
              None \<Rightarrow> None
            | Some (CppDied rc, _, _, printed) \<Rightarrow> Some (Inl rc, printed)
            | Some (CppThrew e, _, _, printed) \<Rightarrow> Some (Inr (Inl e), printed)
            | Some (CppReturned r, args', h', printed) \<Rightarrow>
                map_option (\<lambda>out. (Inr (Inr out), printed)) (cpp_output n R P h' r args'))))"

definition cpp_error :: "nlohmann \<Rightarrow> string \<Rightarrow> string" where
  "cpp_error R m = nl_dump R (VDict [(''error'', VStr m)])"

definition cpp_what :: "string option \<Rightarrow> string" where
  "cpp_what e = (case e of Some m \<Rightarrow> m | None \<Rightarrow> ''Unknown runtime error'')"

definition cpp_process :: "nat \<times> nlohmann \<times> cpp_program \<Rightarrow> string \<Rightarrow> ((string + string) option \<times> int \<times> string) option" where
  "cpp_process = (\<lambda>(n, R, P) stdin. case nl_parse R stdin of
      None \<Rightarrow> Some (Some (Inl (cpp_error R ''Invalid JSON input'')), 1, [])
    | Some payload \<Rightarrow> (case cpp_execute n R P payload of
          None \<Rightarrow> None
        | Some (Inl rc, printed) \<Rightarrow> Some (None, rc, printed)
        | Some (Inr (Inl e), printed) \<Rightarrow> Some (Some (Inl (cpp_error R (cpp_what e))), 1, printed)
        | Some (Inr (Inr out), printed) \<Rightarrow> Some (Some (Inr (nl_dump R (VDict out))), 0, printed)))"

definition cpp_run_block :: "nat \<times> nlohmann \<times> cpp_program \<Rightarrow> string \<Rightarrow> ((string + string) \<times> string) option" where
  "cpp_run_block prog stdin = block_of (cpp_process prog stdin)"

definition cpp_main :: "nat \<times> nlohmann \<times> cpp_program \<Rightarrow> string \<Rightarrow> (string \<times> int) option" where
  "cpp_main prog stdin = print_process (cpp_process prog stdin)"

lemma cpp_process_code: "cpp_process prog stdin = Some (Some (Inr t), rc, printed) \<Longrightarrow> rc = 0"
  by (cases prog) (auto simp: cpp_process_def split: option.split_asm prod.split_asm sum.split_asm)

interpretation cpp_harness: harness cpp_run_block cpp_main
  unfolding cpp_run_block_def [abs_def] cpp_main_def [abs_def] by (rule harness_process) (rule cpp_process_code)

section \<open>What the judge reads\<close>

lemma nl_reports:
  assumes "nl_writes R" and "m \<noteq> []" and "no_marker (cpp_error R m)"
  shows "reports (cpp_error R m) m"
proof -
  have "object_text (cpp_error R m) [(''error'', VStr m)]" using assms(1) by (simp add: nl_writes_def cpp_error_def)
  from object_document [OF this assms(3)] obtain d where "document (cpp_error R m) d" "dget d = dget [(''error'', VStr m)]" by blast
  then show ?thesis using assms(2) unfolding reports_def by (intro conjI exI [of _ d]) (simp_all add: dget_def)
qed

lemma cpp_run_failure:
  assumes "nl_reads R (positional_dict inp)" and "nl_writes R"
    and "cpp_execute n R P (positional_dict inp) = Some (Inr (Inl e), printed)"
    and "cpp_what e \<noteq> []" and "no_marker (cpp_error R (cpp_what e))"
  shows "cpp_run_block (n, R, P) (positional_payload inp) = Some (Inl (cpp_error R (cpp_what e)), printed) \<and>
    reports (cpp_error R (cpp_what e)) (cpp_what e)"
  using assms(1,3) nl_reports [OF assms(2,4,5)]
  by (simp add: cpp_run_block_def cpp_process_def block_of_def nl_reads_def positional_payload_def)

section \<open>The choice of arguments\<close>

lemma zip_keys: "zip (map fst xs) (map snd xs) = xs"
  by (induction xs) auto

lemma cpp_Input_positional:
  assumes "nl_arrays R"
  shows "cpp_Input R (positional_dict inp) skip pos =
    fmap_r (\<lambda>p. (\<lparr>in_keys = map fst inp, in_values = map snd inp, in_skipPos = skip\<rparr>, p)) (cycle_pos R inp pos)"
proof -
  have "nl_strings R (VList (map (\<lambda>p. VStr (fst p)) inp)) = Inr (map fst inp)"
    using assms unfolding nl_arrays_def by (metis (no_types, lifting) list.map_comp comp_def map_eq_conv)
  then show ?thesis using assms
    by (simp add: cpp_Input_def positional_dict_def cpp_field_def dget_def nl_arrays_def zip_keys)
qed

lemma cpp_arg_positional:
  assumes "distinct (map fst inp)"
  shows "cpp_arg \<lparr>in_keys = map fst inp, in_values = map snd inp, in_skipPos = skip\<rparr> name i =
    (case pickArg inp (map fst inp) name i skip of None \<Rightarrow> Inl (''missing argument: '' @ name) | Some v \<Rightarrow> Inr v)"
  by (simp add: pickArg_items [OF assms] cpp_arg_def zip_keys dget_def Let_def split: option.split)

section \<open>Properties\<close>

text \<open>C40. C++ gives a parameter the argument that Go gives it: on the payload that the engine sends for a test
  case, the constructor of \<open>Input\<close> succeeds if the conversion of an integer \<open>pos\<close> does, and its \<open>arg\<close> finds
  the value that \<open>pickArg\<close> finds, or throws when that finds none.\<close>

theorem cpp_arg_is_go_pick:
  assumes "nl_arrays R" and "distinct (map fst test_input)" and "cycle_pos R test_input pos = Inr p"
  shows "\<exists>inp. cpp_Input R (positional_dict test_input) skip pos = Inr (inp, p) \<and>
    cpp_arg inp name i = (case pickArg test_input (map fst test_input) name i skip of
      None \<Rightarrow> Inl (''missing argument: '' @ name) | Some v \<Rightarrow> Inr v)"
  using cpp_Input_positional [OF assms(1), of test_input skip pos] cpp_arg_positional [OF assms(2)] assms(3) by simp

text \<open>A library with the documented behaviour.\<close>

definition test_bytes :: "pyval \<Rightarrow> string + byte list" where
  "test_bytes v = (case v of VStr s \<Rightarrow> Inr (string_bytes s) | _ \<Rightarrow> Inl ''type must be string'')"

definition test_int :: "pyval \<Rightarrow> string + int32" where
  "test_int v = (case v of VInt n \<Rightarrow> Inr (word_of_int n) | _ \<Rightarrow> Inl ''type must be number'')"

definition test_list :: "pyval \<Rightarrow> string + pyval list" where
  "test_list v = (case v of VList vs \<Rightarrow> Inr vs | _ \<Rightarrow> Inl ''type must be array'')"

definition test_ints :: "pyval \<Rightarrow> string + int32 list" where
  "test_ints v = (case test_list v of Inl e \<Rightarrow> Inl e | Inr vs \<Rightarrow> map_r test_int vs)"

definition test_nlohmann :: nlohmann where
  "test_nlohmann = \<lparr>nl_parse = loads, nl_dump = dumps, nl_items = (\<lambda>v. case v of VList vs \<Rightarrow> vs | _ \<Rightarrow> []),
     nl_int = test_int, nl_ints = test_ints,
     nl_int_rows = (\<lambda>v. case test_list v of Inl e \<Rightarrow> Inl e | Inr vs \<Rightarrow> map_r test_ints vs), nl_bytes = test_bytes,
     nl_strings = (\<lambda>v. case test_list v of Inl e \<Rightarrow> Inl e
       | Inr vs \<Rightarrow> map_r (\<lambda>v. case v of VStr s \<Rightarrow> Inr s | _ \<Rightarrow> Inl ''type must be string'') vs),
     nl_values = test_list, nl_get = (\<lambda>_ v. Inr (CData v)), nl_missing = (\<lambda>k. ''key not found''),
     nl_text = map (\<lambda>b. char_of (unat b)), nl_index_error = ''cannot use operator[]''\<rparr>"

lemma test_nlohmann_arrays: "nl_arrays test_nlohmann"
proof -
  have "map_r (\<lambda>v. case v of VStr s \<Rightarrow> Inr s | _ \<Rightarrow> Inl e) (map VStr ss) = Inr ss" for ss and e :: string
    using map_r_map [of ss "\<lambda>v. case v of VStr s \<Rightarrow> Inr s | _ \<Rightarrow> Inl e" VStr id] by simp
  then show ?thesis by (simp add: nl_arrays_def test_nlohmann_def test_list_def)
qed

lemma test_nlohmann_json: "nl_writes test_nlohmann" "json_ok v \<Longrightarrow> nl_reads test_nlohmann v"
  using loads_dumps [of v] loads_dumps [of "VDict _"]
  by (auto simp: nl_writes_def nl_reads_def test_nlohmann_def object_text_def load_object_def ends_with_def simp del: json_ok.simps)

theorem cpp_arg_is_go_pick_witness:
  "\<exists>inp. cpp_Input test_nlohmann (positional_dict [(''list'', VList []), (''pos'', VInt 0), (''k'', VInt 2)]) True (- 1) = Inr (inp, 0) \<and>
    cpp_arg inp ''n'' 1 = Inr (VInt 2)"
  using cpp_arg_is_go_pick [OF test_nlohmann_arrays, of "[(''list'', VList []), (''pos'', VInt 0), (''k'', VInt 2)]" "- 1" 0 True "''n''" 1]
  by (simp add: pickArg_def dget_def test_nlohmann_def test_int_def)

text \<open>An exception of a C++ submission is a runtime error with its text: whatever the submission printed, if the
  library reads the payload and writes documents as JSON, and converting the arguments or the call throws,
  the judge gets a \<open>RuntimeExecutionError\<close> with the text of the exception, cut to the limit, or with a
  fixed text if it is no \<open>std::exception\<close>.\<close>

lemma cpp_exception_reaches_judge:
  assumes "nl_reads R (positional_dict test_input)" and "nl_writes R"
    and "cpp_execute n R P (positional_dict test_input) = Some (Inr (Inl e), printed)"
    and "cpp_what e \<noteq> []" and "no_marker (cpp_error R (cpp_what e))"
    and "communicate E cmd (positional_payload test_input) (Some t) w = (Inr (Finished p), w')"
    and "cpp_main (n, R, P) (positional_payload test_input) = Some (utf8 E (p_stdout p), p_returncode p)"
    and "int (length (p_stdout p)) \<le> MAX_STDOUT_BYTES E"
  shows "run_wrapper E cmd (positional_payload test_input) t w =
    (Inl (RuntimeExecutionError (truncate_message (cpp_what e)) VNone), w')"
  using cpp_run_failure [OF assms(1-5)] cpp_harness.failure_judged [OF _ _ assms(6-8)] by blast

text \<open>A submission that throws after it has printed something.\<close>

definition cpp_thrower :: cpp_program where
  "cpp_thrower = \<lparr>cpp_parameters = [(''s'', TyStrings)], cpp_skip_pos = False, cpp_void = False,
     cpp_call = (\<lambda>args h. Some (CppThrew (Some ''stoi''), args, h, ''debug''))\<rparr>"

definition cpp_thrower_run :: "unit env" where
  "cpp_thrower_run = offline\<lparr>communicate := (\<lambda>_ _ _. io_return (Finished
     \<lparr>p_stdout = ''debug'' @ emit_block (cpp_error test_nlohmann ''stoi''), p_stderr = [], p_returncode = 1\<rparr>))\<rparr>"

lemma cpp_thrower_executed:
  "cpp_execute 0 test_nlohmann cpp_thrower (positional_dict [(''s'', VStr ''2'')]) = Some (Inr (Inl (Some ''stoi'')), ''debug'')"
  by (simp add: cpp_execute_def cpp_thrower_def cpp_Input_positional [OF test_nlohmann_arrays] cpp_arg_def)
    (simp add: test_nlohmann_def test_bytes_def)

lemma cpp_exception_reaches_judge_witness:
  "run_wrapper cpp_thrower_run [''docker''] (positional_payload [(''s'', VStr ''2'')]) 10 () =
     (Inl (RuntimeExecutionError (truncate_message ''stoi'') VNone), ())"
proof -
  let ?p = "\<lparr>p_stdout = ''debug'' @ emit_block (cpp_error test_nlohmann ''stoi''), p_stderr = [], p_returncode = 1\<rparr>"
  have rd: "nl_reads test_nlohmann (positional_dict [(''s'', VStr ''2'')])"
    by (rule test_nlohmann_json) (simp add: positional_dict_def)
  have "no_marker (cpp_error test_nlohmann ''stoi'')" by code_simp
  moreover have "int (length (''debug'' @ emit_block (cpp_error test_nlohmann ''stoi''))) \<le> 1000000" by code_simp
  moreover have "cpp_main (0, test_nlohmann, cpp_thrower) (positional_payload [(''s'', VStr ''2'')]) =
      Some (''debug'' @ emit_block (cpp_error test_nlohmann ''stoi''), 1)"
    using rd cpp_thrower_executed
    by (simp add: cpp_main_def cpp_process_def print_process_def nl_reads_def positional_payload_def cpp_what_def)
  ultimately show ?thesis
    using cpp_exception_reaches_judge [OF rd test_nlohmann_json(1) cpp_thrower_executed, of cpp_thrower_run "[''docker'']" 10 "()" ?p "()"]
    by (simp add: cpp_thrower_run_def offline_def MAX_STDOUT_BYTES_def int_env_def cpp_what_def)
qed

end
