(* ===== verification/CMemory.thy ===== *)
theory CMemory
  imports CppWrapper
begin

text \<open>
  The memory that a C submission and its wrapper share, and the rows of \<open>languages/c_wrapper.py\<close> in it:
  a \<open>char**\<close> or an \<open>int**\<close> is an array of pointers to buffers that the wrapper owns. Strings of the
  program are bytes, as in C++.
\<close>

section \<open>Buffers and pointers\<close>

text \<open>A pointer is null, or the number of a buffer and a place in it. Buffers of one type of element are
  numbered together: bytes, integers, elements of another type, pointers. The nodes of lists and trees are the
  ones of the C++ support code. Buffers that have been freed stay: what a submission does with them is
  undefined in C.\<close>

type_synonym c_ptr = "(nat \<times> nat) option"

record c_memory =
  cm_bytes :: "byte list list"
  cm_ints :: "int32 list list"
  cm_elems :: "cppval list list"
  cm_ptrs :: "c_ptr list list"
  cm_nodes :: cpp_heap

definition no_memory :: c_memory where
  "no_memory = \<lparr>cm_bytes = [], cm_ints = [], cm_elems = [], cm_ptrs = [], cm_nodes = \<lparr>cp_trees = [], cp_chains = []\<rparr>\<rparr>"

text \<open>Reading \<open>n\<close> elements behind a pointer; \<open>None\<close> outside a buffer, which C leaves undefined.\<close>

definition read_at :: "'a list list \<Rightarrow> c_ptr \<Rightarrow> nat \<Rightarrow> 'a list option" where
  "read_at mem p n = (if n = 0 then Some [] else case p of
      None \<Rightarrow> None
    | Some (b, i) \<Rightarrow> if b < length mem \<and> i + n \<le> length (mem ! b) then Some (take n (drop i (mem ! b))) else None)"

text \<open>\<open>string(p)\<close>: the bytes up to the first zero.\<close>

definition read_string :: "byte list list \<Rightarrow> c_ptr \<Rightarrow> byte list option" where
  "read_string mem p = (case p of
      None \<Rightarrow> None
    | Some (b, i) \<Rightarrow> if b < length mem \<and> 0 \<in> set (drop i (mem ! b)) then Some (takeWhile (\<lambda>x. x \<noteq> 0) (drop i (mem ! b))) else None)"

text \<open>\<open>(int)v.size()\<close>.\<close>

definition int_size :: "nat \<Rightarrow> int32" where
  "int_size n = of_nat n"

lemma sint_int_size: "n < 2 ^ 31 \<Longrightarrow> sint (int_size n) = int n"
  by (simp add: int_size_def sint_word_ariths signed_of_nat signed_take_bit_int_eq_self)

lemma read_at_new [simp]: "n \<le> length xs \<Longrightarrow> read_at (mem @ [xs]) (Some (length mem, 0)) n = Some (take n xs)"
  by (simp add: read_at_def)

lemma read_string_new:
  assumes "0 \<notin> set s"
  shows "read_string (mem @ [s @ [0]]) (Some (length mem, 0)) = Some s"
proof -
  have "takeWhile (\<lambda>x. x \<noteq> 0) (s @ [0]) = s" using assms by (subst takeWhile_append2) auto
  then show ?thesis by (simp add: read_string_def)
qed

section \<open>Strings\<close>

definition charsToString :: "nlohmann \<Rightarrow> pyval \<Rightarrow> string + byte list" where
  "charsToString R j = (case j of VList cs \<Rightarrow> map_r (cpp_char R) cs | _ \<Rightarrow> nl_bytes R j)"

definition stringToChars :: "nlohmann \<Rightarrow> byte list \<Rightarrow> pyval" where
  "stringToChars R s = VList (map (\<lambda>b. VStr (nl_text R [b])) s)"

definition is_array :: "pyval \<Rightarrow> bool" where
  "is_array j = (case j of VList _ \<Rightarrow> True | _ \<Rightarrow> False)"

section \<open>Rows of characters\<close>

text \<open>The buffers of the rows, the arrays of their pointers and of their lengths.\<close>

record char_rows =
  cr_rows :: "nat list"
  cr_ptrs :: nat
  cr_cols :: nat
  cr_grid :: bool

definition char_row_list :: "nlohmann \<Rightarrow> pyval \<Rightarrow> string + byte list list" where
  "char_row_list R j = (case j of
      VList items \<Rightarrow> map_r (charsToString R) items
    | _ \<Rightarrow> fmap_r cpp_lines (nl_bytes R j))"

definition has_grid :: "pyval \<Rightarrow> bool" where
  "has_grid j = (case j of VList items \<Rightarrow> list_ex is_array items | _ \<Rightarrow> False)"

definition CharRows :: "nlohmann \<Rightarrow> pyval \<Rightarrow> c_memory \<Rightarrow> string + char_rows \<times> c_memory" where
  "CharRows R j m = fmap_r (\<lambda>rows.
     let bs = [length (cm_bytes m)..<length (cm_bytes m) + length rows] in
     (\<lparr>cr_rows = bs, cr_ptrs = length (cm_ptrs m), cr_cols = length (cm_ints m), cr_grid = has_grid j\<rparr>,
      m\<lparr>cm_bytes := cm_bytes m @ map (\<lambda>r. r @ [0]) rows,
        cm_ptrs := cm_ptrs m @ [map (\<lambda>b. Some (b, 0)) bs],
        cm_ints := cm_ints m @ [map (\<lambda>r. int_size (length r)) rows]\<rparr>)) (char_row_list R j)"

text \<open>A row behind a pointer: its characters, none if the length is negative, or a \<open>string\<close> of that length.\<close>

definition char_row_json :: "nlohmann \<Rightarrow> bool \<Rightarrow> byte list list \<Rightarrow> c_ptr \<Rightarrow> int32 \<Rightarrow> pyval option" where
  "char_row_json R grid mem p n =
     (if grid then map_option (stringToChars R) (read_at mem p (nat (sint n)))
      else if sint n < 0 then None else map_option (\<lambda>s. VStr (nl_text R s)) (read_at mem p (nat (sint n))))"

text \<open>\<open>toJson\<close> follows the pointers and the lengths that the submission left in the two arrays.\<close>

definition CharRows_toJson :: "nlohmann \<Rightarrow> char_rows \<Rightarrow> c_memory \<Rightarrow> pyval option" where
  "CharRows_toJson R cr m = (case (read_at (cm_ptrs m) (Some (cr_ptrs cr, 0)) (length (cr_rows cr)),
       read_at (cm_ints m) (Some (cr_cols cr, 0)) (length (cr_rows cr))) of
      (Some ps, Some ns) \<Rightarrow> map_option VList (those (map2 (char_row_json R (cr_grid cr) (cm_bytes m)) ps ns))
    | _ \<Rightarrow> None)"

section \<open>Rows of integers\<close>

text \<open>The rows with the sizes that their vectors keep.\<close>

record int_rows =
  ir_rows :: "(nat \<times> nat) list"
  ir_ptrs :: nat
  ir_cols :: nat

definition IntRows :: "nlohmann \<Rightarrow> pyval \<Rightarrow> c_memory \<Rightarrow> string + int_rows \<times> c_memory" where
  "IntRows R j m = fmap_r (\<lambda>rows.
     let bs = [length (cm_ints m)..<length (cm_ints m) + length rows] in
     (\<lparr>ir_rows = zip bs (map length rows), ir_ptrs = length (cm_ptrs m), ir_cols = length (cm_ints m) + length rows\<rparr>,
      m\<lparr>cm_ints := cm_ints m @ rows @ [map (\<lambda>r. int_size (length r)) rows],
        cm_ptrs := cm_ptrs m @ [map (\<lambda>b. Some (b, 0)) bs]\<rparr>)) (nl_int_rows R j)"

definition ints_json :: "int32 list \<Rightarrow> pyval" where
  "ints_json ws = VList (map (\<lambda>w. VInt (sint w)) ws)"

text \<open>\<open>json(_rows.rows)\<close>, what a \<open>void\<close> function reports of an \<open>int**\<close>: the rows that the wrapper made.\<close>

definition IntRows_json :: "int_rows \<Rightarrow> c_memory \<Rightarrow> pyval option" where
  "IntRows_json ir m = map_option VList (those (map
     (\<lambda>(b, n). map_option ints_json (read_at (cm_ints m) (Some (b, 0)) n)) (ir_rows ir)))"

section \<open>What has been laid out reads back\<close>

lemma those_Some: "those (map (\<lambda>x. Some (f x)) xs) = Some (map f xs)"
  by (induction xs) auto

lemma those_nth:
  assumes "length xs = length ys" and "\<And>i. i < length ys \<Longrightarrow> xs ! i = Some (f (ys ! i))"
  shows "those xs = Some (map f ys)"
proof -
  have "xs = map (\<lambda>y. Some (f y)) ys" using assms by (intro nth_equalityI) auto
  then show ?thesis by (simp add: those_Some)
qed

definition row_json :: "nlohmann \<Rightarrow> bool \<Rightarrow> byte list \<Rightarrow> pyval" where
  "row_json R grid s = (if grid then stringToChars R s else VStr (nl_text R s))"

lemma c_rows_layout:
  assumes "char_row_list R j = Inr rows" and "\<forall>r \<in> set rows. length r < 2 ^ 31"
  shows "\<exists>cr m'. CharRows R j m = Inr (cr, m') \<and> CharRows_toJson R cr m' = Some (VList (map (row_json R (has_grid j)) rows))"
proof -
  let ?n = "length (cm_bytes m)" and ?mem = "cm_bytes m @ map (\<lambda>r. r @ [0]) rows"
  let ?bs = "[?n..<?n + length rows]" and ?ns = "map (\<lambda>r. int_size (length r)) rows"
  have "those (map2 (char_row_json R (has_grid j) ?mem) (map (\<lambda>b. Some (b, 0)) ?bs) ?ns) = Some (map (row_json R (has_grid j)) rows)"
  proof (rule those_nth)
    fix i assume i: "i < length rows"
    then have "sint (int_size (length (rows ! i))) = int (length (rows ! i))" using assms(2) by (intro sint_int_size) simp
    moreover have "read_at ?mem (Some (?n + i, 0)) (length (rows ! i)) = Some (rows ! i)"
      using i by (simp add: read_at_def nth_append)
    ultimately show "map2 (char_row_json R (has_grid j) ?mem) (map (\<lambda>b. Some (b, 0)) ?bs) ?ns ! i = Some (row_json R (has_grid j) (rows ! i))"
      using i by (simp add: char_row_json_def row_json_def)
  qed simp
  then show ?thesis using assms(1) by (simp add: CharRows_def CharRows_toJson_def Let_def)
qed

lemma c_int_rows_layout:
  assumes "nl_int_rows R j = Inr rows"
  shows "\<exists>ir m'. IntRows R j m = Inr (ir, m') \<and> IntRows_json ir m' = Some (VList (map ints_json rows))"
proof -
  let ?n = "length (cm_ints m)" and ?mem = "cm_ints m @ rows @ [map (\<lambda>r. int_size (length r)) rows]"
  have "those (map (\<lambda>(b, n). map_option ints_json (read_at ?mem (Some (b, 0)) n)) (zip [?n..<?n + length rows] (map length rows))) =
      Some (map ints_json rows)"
    by (rule those_nth) (auto simp: read_at_def nth_append ints_json_def)
  then show ?thesis using assms by (simp add: IntRows_def IntRows_json_def Let_def)
qed

section \<open>Documents of ASCII text\<close>

lemma string_bytes_ascii: "list_all (\<lambda>c. code c < 128) r \<Longrightarrow> string_bytes r = map (\<lambda>c. of_nat (code c)) r"
  by (induction r) (auto simp: string_bytes_def char_bytes_def)

lemma ascii_row:
  assumes "nl_ascii R" and "list_all (\<lambda>c. code c < 128) r"
  shows "charsToString R (VStr r) = Inr (string_bytes r)" and "nl_text R (string_bytes r) = r"
    and "charsToString R (VList (map (\<lambda>c. VStr [c]) r)) = Inr (string_bytes r)"
    and "stringToChars R (string_bytes r) = VList (map (\<lambda>c. VStr [c]) r)"
proof -
  have one: "nl_bytes R (VStr [c]) = Inr [of_nat (code c)]" "nl_text R [of_nat (code c)] = [c]" if "c \<in> set r" for c
  proof -
    have "list_all (\<lambda>c. code c < 128) [c]" using assms(2) that by (simp add: list_all_iff)
    then show "nl_bytes R (VStr [c]) = Inr [of_nat (code c)]" "nl_text R [of_nat (code c)] = [c]"
      using assms(1) string_bytes_ascii [of "[c]"] unfolding nl_ascii_def by (metis list.simps(8,9))+
  qed
  show "charsToString R (VStr r) = Inr (string_bytes r)" "nl_text R (string_bytes r) = r"
    using assms by (simp_all add: charsToString_def nl_ascii_def)
  show "charsToString R (VList (map (\<lambda>c. VStr [c]) r)) = Inr (string_bytes r)"
    using one(1) by (auto simp: charsToString_def string_bytes_ascii [OF assms(2)] cpp_char_def intro!: map_r_map)
  show "stringToChars R (string_bytes r) = VList (map (\<lambda>c. VStr [c]) r)"
    using one(2) by (simp add: stringToChars_def string_bytes_ascii [OF assms(2)])
qed

lemma test_nlohmann_ascii: "nl_ascii test_nlohmann"
proof -
  have "map (\<lambda>b. char_of (unat b)) (string_bytes s) = s" if "list_all (\<lambda>c. code c < 128) s" for s
    using that by (induction s) (auto simp: string_bytes_def char_bytes_def code_def unat_of_nat)
  then show ?thesis by (simp add: nl_ascii_def test_nlohmann_def test_bytes_def)
qed

section \<open>Pointers that the submission moves\<close>

text \<open>Exchanging the rows of an argument by their pointers.\<close>

definition swap_rows :: "nat \<Rightarrow> c_memory \<Rightarrow> c_memory" where
  "swap_rows b m = m\<lparr>cm_ptrs := (cm_ptrs m)[b := rev (cm_ptrs m ! b)]\<rparr>"

lemma c_row_swap_lost:
  "fmap_r (\<lambda>(ir, m). IntRows_json ir (swap_rows (ir_ptrs ir) m)) (IntRows test_nlohmann (VList [VList [VInt 1], VList [VInt 2]]) no_memory) =
     Inr (Some (VList [VList [VInt 1], VList [VInt 2]]))"
  by code_simp

lemma c_string_swap_cut:
  "fmap_r (\<lambda>(cr, m). CharRows_toJson test_nlohmann cr (swap_rows (cr_ptrs cr) m)) (CharRows test_nlohmann (VList [VStr ''ab'', VStr ''c'']) no_memory) =
     Inr (Some (VList [VStr [CHR ''c'', CHR 0x00], VStr ''a'']))"
  by code_simp

end
