(* ===== verification/CBinding.thy ===== *)
theory CBinding
  imports CMemory
begin

text \<open>
  The code that \<open>languages/c.py\<close> generates for a signature, as a program: what each parameter is bound to, the
  call, and how its result becomes JSON. The first part is the structure of that program, with the text
  that \<open>CExecutors\<close> produces as its rendering; the second part is its execution on the memory.
\<close>

section \<open>What a parameter is bound to\<close>

datatype c_kind = KScalar string | KArray string | KChars | KCharRows | KIntRows | KList | KTree

definition c_kind_of :: "string \<Rightarrow> c_kind option" where
  "c_kind_of t = (case map_of SCALAR_TYPES t of
      Some ctype \<Rightarrow> Some (KScalar ctype)
    | None \<Rightarrow> (case map_of ARRAY_TYPES t of
        Some elem \<Rightarrow> Some (KArray elem)
      | None \<Rightarrow>
          if t = ''char*'' then Some KChars
          else if t = ''char**'' then Some KCharRows
          else if t = ''int**'' then Some KIntRows
          else if t = ''struct ListNode*'' \<or> t = ''ListNode*'' then Some KList
          else if t = ''struct TreeNode*'' \<or> t = ''TreeNode*'' then Some KTree
          else None))"

text \<open>The input of parameter \<open>k\<close>, by name or place, a place to return a size or the columns, or a size or the columns
  of the array that parameter \<open>k\<close> is bound to.\<close>

datatype c_binding =
    BInput c_kind string nat
  | BReturnSize
  | BReturnCols
  | BCols nat c_kind
  | BSize string nat c_kind

definition kind_has_size :: "c_kind \<Rightarrow> bool" where
  "kind_has_size k = (case k of KArray _ \<Rightarrow> True | KChars \<Rightarrow> True | KCharRows \<Rightarrow> True | KIntRows \<Rightarrow> True | _ \<Rightarrow> False)"

definition kind_has_cols :: "c_kind \<Rightarrow> bool" where
  "kind_has_cols k \<longleftrightarrow> k = KCharRows \<or> k = KIntRows"

definition kind_is_scalar :: "c_kind \<Rightarrow> bool" where
  "kind_is_scalar k = (case k of KScalar _ \<Rightarrow> True | _ \<Rightarrow> False)"

text \<open>The variables of the loop, in which a bound argument is its parameter and its kind.\<close>

record c_plan =
  pl_bindings :: "c_binding list"
  pl_sized :: "(nat \<times> c_kind) option"
  pl_first :: "(nat \<times> c_kind) option"
  pl_return_size :: bool
  pl_return_cols :: bool
  pl_json_index :: nat

definition plan_start :: c_plan where
  "plan_start = \<lparr>pl_bindings = [], pl_sized = None, pl_first = None, pl_return_size = False, pl_return_cols = False, pl_json_index = 0\<rparr>"

definition plan_input :: "c_param \<Rightarrow> string \<Rightarrow> nat \<Rightarrow> c_plan \<Rightarrow> exn + c_plan" where
  "plan_input p t index pl = (case c_kind_of t of
      None \<Rightarrow> Inl (CompileError (''Unsupported C parameter type: '' @ p_type p @ '' '' @ p_name p))
    | Some kind \<Rightarrow> Inr (pl\<lparr>pl_bindings := pl_bindings pl @ [BInput kind (p_name p) (pl_json_index pl)],
        pl_json_index := Suc (pl_json_index pl),
        pl_sized := (if kind_has_size kind then Some (index, kind) else pl_sized pl),
        pl_first := (if pl_first pl = None then Some (index, kind) else pl_first pl)\<rparr>))"

definition plan_param :: "c_param \<Rightarrow> c_plan \<Rightarrow> exn + c_plan" where
  "plan_param p pl =
     (let t = normalize (p_type p); index = length (pl_bindings pl) in
      if t = ''int*'' \<and> re_found RETURN_SIZE (p_name p) then
        Inr (pl\<lparr>pl_bindings := pl_bindings pl @ [BReturnSize], pl_return_size := True\<rparr>)
      else if t = ''int**'' \<and> re_found RETURN_COL (p_name p) then
        Inr (pl\<lparr>pl_bindings := pl_bindings pl @ [BReturnCols], pl_return_cols := True\<rparr>)
      else (case pl_sized pl of
          Some (k, kind) \<Rightarrow>
            if t = ''int*'' \<and> re_found COL_SIZE (p_name p) \<and> kind_has_cols kind then
              Inr (pl\<lparr>pl_bindings := pl_bindings pl @ [BCols k kind]\<rparr>)
            else if t \<in> {''int'', ''size_t''} \<and> re_found SIZE_END (p_name p) then
              Inr (pl\<lparr>pl_bindings := pl_bindings pl @ [BSize t k kind]\<rparr>)
            else plan_input p t index pl
        | None \<Rightarrow> plan_input p t index pl))"

fun plan_params :: "c_param list \<Rightarrow> c_plan \<Rightarrow> exn + c_plan" where
  "plan_params [] pl = Inr pl"
| "plan_params (p # ps) pl = (case plan_param p pl of Inl e \<Rightarrow> Inl e | Inr pl' \<Rightarrow> plan_params ps pl')"

text \<open>How the result is written: \<open>void\<close> with the argument that is reported, a scalar, a string, an array with its size, rows of strings or of
  integers, or a list or tree.\<close>

datatype c_count = CountReturned | CountOf nat c_kind | CountZero

datatype c_result =
    RVoid "(nat \<times> c_kind) option"
  | RScalar string
  | RString
  | RArray string c_count
  | RStrings
  | RIntRows
  | RNode

definition result_count :: "c_plan \<Rightarrow> c_count" where
  "result_count pl =
     (if pl_return_size pl then CountReturned
      else case pl_first pl of
        Some (k, kind) \<Rightarrow> if kind_has_size kind then CountOf k kind else CountZero
      | None \<Rightarrow> CountZero)"

definition plan_result :: "string \<Rightarrow> c_plan \<Rightarrow> exn + c_result" where
  "plan_result rtype pl =
     (if rtype = ''void'' then
        Inr (RVoid (case pl_first pl of Some (k, kind) \<Rightarrow> if kind_is_scalar kind then None else Some (k, kind) | None \<Rightarrow> None))
      else case map_of SCALAR_TYPES rtype of
        Some ctype \<Rightarrow> Inr (RScalar ctype)
      | None \<Rightarrow>
      if rtype = ''char*'' then Inr RString
      else case map_of ARRAY_TYPES rtype of
        Some elem \<Rightarrow> Inr (RArray elem (result_count pl))
      | None \<Rightarrow>
      if rtype = ''char**'' then
        (if \<not> pl_return_size pl then Inl (CompileError ''char** return value needs an int* returnSize parameter'') else Inr RStrings)
      else if rtype = ''int**'' then
        (if \<not> (pl_return_size pl \<and> pl_return_cols pl)
         then Inl (CompileError ''int** return value needs returnSize and returnColumnSizes parameters'') else Inr RIntRows)
      else if rtype \<in> {''struct ListNode*'', ''ListNode*'', ''struct TreeNode*'', ''TreeNode*''} then Inr RNode
      else Inl (CompileError (''Unsupported C return type: '' @ rtype)))"

section \<open>The text of the program\<close>

definition kind_lines :: "c_kind \<Rightarrow> string \<Rightarrow> string \<Rightarrow> string list" where
  "kind_lines kind var arg = (case kind of
      KScalar ctype \<Rightarrow> [ctype @ '' '' @ var @ '' = judge::Arg<'' @ ctype @ ''>::get('' @ arg @ '');'']
    | KArray elem \<Rightarrow> [''vector<'' @ elem @ ''> '' @ var @ ''_v = judge::Arg<vector<'' @ elem @ ''>>::get('' @ arg @ '');'',
        elem @ ''* '' @ var @ '' = '' @ var @ ''_v.data();'']
    | KChars \<Rightarrow> [''const json& '' @ var @ ''_j = '' @ arg @ '';'',
        ''string '' @ var @ ''_s = judge_c::charsToString('' @ var @ ''_j);'',
        ''vector<char> '' @ var @ ''_v('' @ var @ ''_s.begin(), '' @ var @ ''_s.end());'',
        var @ ''_v.push_back('' @ [squote] @ [backslash] @ ''0'' @ [squote] @ '');'',
        ''char* '' @ var @ '' = '' @ var @ ''_v.data();'']
    | KCharRows \<Rightarrow> [''judge_c::CharRows '' @ var @ ''_rows('' @ arg @ '');'', ''char** '' @ var @ '' = '' @ var @ ''_rows.ptrs.data();'']
    | KIntRows \<Rightarrow> [''judge_c::IntRows '' @ var @ ''_rows('' @ arg @ '');'', ''int** '' @ var @ '' = '' @ var @ ''_rows.ptrs.data();'']
    | KList \<Rightarrow> [''ListNode* '' @ var @ '' = judge::Arg<ListNode*>::get('' @ arg @ '');'']
    | KTree \<Rightarrow> [''TreeNode* '' @ var @ '' = judge::Arg<TreeNode*>::get('' @ arg @ '');''])"

definition kind_info :: "c_kind \<Rightarrow> string \<Rightarrow> arg_info" where
  "kind_info kind var = (case kind of
      KScalar _ \<Rightarrow> \<lparr>ai_size = None, ai_cols = None, ai_mutated = None\<rparr>
    | KArray _ \<Rightarrow> \<lparr>ai_size = Some (''(int)'' @ var @ ''_v.size()''), ai_cols = None, ai_mutated = Some (''json('' @ var @ ''_v)'')\<rparr>
    | KChars \<Rightarrow> \<lparr>ai_size = Some (''(int)'' @ var @ ''_s.size()''), ai_cols = None,
        ai_mutated = Some (''('' @ var @ ''_j.is_array() ? judge_c::stringToChars('' @ var @ '', (int)'' @ var @ ''_s.size()) : json(string('' @ var @ '')))'')\<rparr>
    | KCharRows \<Rightarrow> \<lparr>ai_size = Some (''(int)'' @ var @ ''_rows.rows.size()''), ai_cols = Some (var @ ''_rows.cols''),
        ai_mutated = Some (var @ ''_rows.toJson()'')\<rparr>
    | KIntRows \<Rightarrow> \<lparr>ai_size = Some (''(int)'' @ var @ ''_rows.rows.size()''), ai_cols = Some (var @ ''_rows.cols''),
        ai_mutated = Some (''json('' @ var @ ''_rows.rows)'')\<rparr>
    | KList \<Rightarrow> \<lparr>ai_size = None, ai_cols = None, ai_mutated = Some (''judge::toJson('' @ var @ '')'')\<rparr>
    | KTree \<Rightarrow> \<lparr>ai_size = None, ai_cols = None, ai_mutated = Some (''judge::toJson('' @ var @ '')'')\<rparr>)"

definition arg_info_of :: "nat \<times> c_kind \<Rightarrow> arg_info" where
  "arg_info_of = (\<lambda>(k, kind). kind_info kind (arg_var k))"

definition binding_lines :: "nat \<Rightarrow> c_binding \<Rightarrow> string list" where
  "binding_lines i b = (case b of
      BInput kind name n \<Rightarrow>
        kind_lines kind (arg_var i) (''_in.arg('' @ [dquote] @ name @ [dquote] @ '', '' @ int_str (int n) @ '')'')
    | BReturnSize \<Rightarrow> [''int _returnSize = 0;'', ''int* '' @ arg_var i @ '' = &_returnSize;'']
    | BReturnCols \<Rightarrow> [''int* _returnCols = nullptr;'', ''int** '' @ arg_var i @ '' = &_returnCols;'']
    | BCols k kind \<Rightarrow> [''int* '' @ arg_var i @ '' = '' @ the (ai_cols (arg_info_of (k, kind))) @ ''.data();'']
    | BSize t k kind \<Rightarrow> [t @ '' '' @ arg_var i @ '' = '' @ the (ai_size (arg_info_of (k, kind))) @ '';''])"

definition plan_text :: "c_binding list \<Rightarrow> string list" where
  "plan_text bs = concat (map (\<lambda>(i, b). binding_lines i b) (enumerate 0 bs))"

definition out_line :: "string \<Rightarrow> string \<Rightarrow> string" where
  "out_line key value = ''_output['' @ [dquote] @ key @ [dquote] @ ''] = '' @ value @ '';''"

definition count_text :: "c_count \<Rightarrow> string" where
  "count_text c = (case c of
      CountReturned \<Rightarrow> ''_returnSize'' | CountOf k kind \<Rightarrow> the (ai_size (arg_info_of (k, kind))) | CountZero \<Rightarrow> ''0'')"

definition result_lines :: "c_result \<Rightarrow> string \<Rightarrow> string list" where
  "result_lines r call = (case r of
      RVoid f \<Rightarrow> [call @ '';'', out_line ''result'' ''nullptr''] @
        (case f of None \<Rightarrow> [] | Some a \<Rightarrow> [out_line ''mutated'' (the (ai_mutated (arg_info_of a)))])
    | _ \<Rightarrow> (''auto _result = '' @ call @ '';'') # (case r of
        RScalar ctype \<Rightarrow> [out_line ''result'' (''judge::toJson(static_cast<'' @ ctype @ ''>(_result))'')]
      | RString \<Rightarrow> [out_line ''result'' ''_result ? json(string(_result)) : json(nullptr)'']
      | RArray elem c \<Rightarrow> [out_line ''result'' (''json(vector<'' @ elem @ ''>(_result, _result + '' @ count_text c @ ''))'')]
      | RStrings \<Rightarrow> [''json _arr = json::array();'',
          ''for (int _i = 0; _i < _returnSize; ++_i) _arr.push_back(string(_result[_i]));'', out_line ''result'' ''_arr'']
      | RIntRows \<Rightarrow> [''json _arr = json::array();'', ''for (int _i = 0; _i < _returnSize; ++_i)'',
          ''    _arr.push_back(vector<int>(_result[_i], _result[_i] + _returnCols[_i]));'', out_line ''result'' ''_arr'']
      | _ \<Rightarrow> [out_line ''result'' ''judge::toJson(_result)'']))"

text \<open>The state of the generator that a plan stands for.\<close>

definition render :: "c_plan \<Rightarrow> bind_state" where
  "render pl = \<lparr>bs_bindings = plan_text (pl_bindings pl), bs_call_args = map arg_var [0..<length (pl_bindings pl)],
     bs_sized = map_option arg_info_of (pl_sized pl), bs_first_input = map_option arg_info_of (pl_first pl),
     bs_return_size = pl_return_size pl, bs_return_cols = pl_return_cols pl, bs_json_index = pl_json_index pl\<rparr>"

lemma plan_text_snoc: "plan_text (bs @ [b]) = plan_text bs @ binding_lines (length bs) b"
  by (simp add: plan_text_def enumerate_append_eq)

lemma kind_info_simps [simp]:
  "ai_size (kind_info k v) = None \<longleftrightarrow> \<not> kind_has_size k"
  "ai_cols (kind_info k v) = None \<longleftrightarrow> \<not> kind_has_cols k"
  "ai_mutated (kind_info k v) = None \<longleftrightarrow> kind_is_scalar k"
  by (cases k; simp add: kind_info_def kind_has_size_def kind_has_cols_def kind_is_scalar_def)+

lemma map_option_if: "map_option f (if b then x else y) = (if b then map_option f x else map_option f y)"
  by simp

lemma fmap_r_if: "fmap_r f (if b then x else y) = (if b then fmap_r f x else fmap_r f y)"
  by simp

lemma bind_input_kind: "bind_input t var arg = map_option (\<lambda>k. (kind_lines k var arg, kind_info k var)) (c_kind_of t)"
  by (cases "map_of SCALAR_TYPES t"; cases "map_of ARRAY_TYPES t")
    (simp_all only: bind_input_def c_kind_of_def option.case option.map kind_lines_def kind_info_def c_kind.case
      map_option_if)

lemma bind_json_plan:
  assumes "length (pl_bindings pl) = i" and "var = arg_var i"
  shows "fmap_r (\<lambda>st. st\<lparr>bs_call_args := bs_call_args st @ [var]\<rparr>) (bind_json t p var (render pl)) =
    fmap_r render (plan_input p t i pl)"
  using assms
  by (auto simp: bind_json_def plan_input_def bind_input_kind render_def plan_text_snoc binding_lines_def arg_info_of_def split: option.split)

lemmas render_simps = render_def plan_text_snoc binding_lines_def arg_info_of_def cols_of_def size_of_def

lemma bind_json_call:
  assumes "length (pl_bindings pl) = i"
  shows "(case bind_json t p (arg_var i) (render pl) of Inl e \<Rightarrow> Inl e | Inr st \<Rightarrow> Inr (st\<lparr>bs_call_args := bs_call_args st @ [arg_var i]\<rparr>)) =
    fmap_r render (plan_input p t i pl)"
  using bind_json_plan [OF assms refl, of t p] by (simp only: fmap_r_def)

text \<open>The branches after an array-like argument.\<close>

lemma bind_param_sized:
  assumes len: "length (pl_bindings pl) = i" and t: "t = normalize (p_type p)"
    and s: "\<not> (t = ''int*'' \<and> re_found RETURN_SIZE (p_name p))" and c: "\<not> (t = ''int**'' \<and> re_found RETURN_COL (p_name p))"
    and sized: "pl_sized pl = Some (k, kind)"
  shows "bind_param i p (render pl) = fmap_r render (plan_param p pl)"
proof -
  have info: "bs_sized (render pl) = Some (kind_info kind (arg_var k))" using sized by (simp add: render_simps)
  note defs = bind_param_def plan_param_def Let_def len t [symmetric] if_not_P [OF s] if_not_P [OF c] sized option.case prod.case info
  let ?col = "t = ''int*'' \<and> re_found COL_SIZE (p_name p)" and ?num = "t \<in> {''int'', ''size_t''} \<and> re_found SIZE_END (p_name p)"
  consider "?col" "kind_has_cols kind" | "\<not> (?col \<and> kind_has_cols kind)" "?num" | "\<not> (?col \<and> kind_has_cols kind)" "\<not> ?num"
    by blast
  then show ?thesis
  proof cases
    case 1
    then show ?thesis unfolding defs using len info by (simp add: render_simps)
  next
    case 2
    then show ?thesis unfolding defs using len info by (auto simp add: render_simps)
  next
    case 3
    then show ?thesis unfolding defs using bind_json_call [OF len, of t p] by (auto simp: cols_of_def)
  qed
qed

lemma bind_param_plan:
  assumes len: "length (pl_bindings pl) = i"
  shows "bind_param i p (render pl) = fmap_r render (plan_param p pl)"
proof -
  let ?t = "normalize (p_type p)"
  let ?size = "?t = ''int*'' \<and> re_found RETURN_SIZE (p_name p)" and ?cols = "?t = ''int**'' \<and> re_found RETURN_COL (p_name p)"
  note defs = bind_param_def plan_param_def Let_def len
  consider ?size | "\<not> ?size" ?cols | k kind where "\<not> ?size" "\<not> ?cols" "pl_sized pl = Some (k, kind)"
    | "\<not> ?size" "\<not> ?cols" "pl_sized pl = None" by fastforce
  then show ?thesis
  proof cases
    case 1
    show ?thesis unfolding defs if_P [OF 1] using len by (simp add: render_simps)
  next
    case 2
    show ?thesis unfolding defs if_not_P [OF 2(1)] if_P [OF 2(2)] using len by (simp add: render_simps)
  next
    case 3
    then show ?thesis by (rule bind_param_sized [OF len refl])
  next
    case 4
    then have "cols_of (bs_sized (render pl)) = None" "bs_sized (render pl) = None" by (simp_all add: render_simps)
    then show ?thesis
      unfolding defs if_not_P [OF 4(1)] if_not_P [OF 4(2)] 4(3) option.case
      by (simp only: HOL.simp_thms if_False bind_json_call [OF len])
  qed
qed

lemma plan_param_length: "plan_param p pl = Inr pl' \<Longrightarrow> length (pl_bindings pl') = Suc (length (pl_bindings pl))"
  by (auto simp: plan_param_def plan_input_def Let_def split: if_split_asm option.split_asm prod.split_asm)

lemma bind_params_plan:
  "length (pl_bindings pl) = i \<Longrightarrow> bind_params i ps (render pl) = fmap_r render (plan_params ps pl)"
proof (induction ps arbitrary: i pl)
  case (Cons p ps)
  show ?case
  proof (cases "plan_param p pl")
    case (Inr pl')
    then have "length (pl_bindings pl') = Suc i" using Cons.prems by (simp add: plan_param_length)
    then show ?thesis using Cons.IH [of pl' "Suc i"] Inr bind_param_plan [OF Cons.prems, of p] by simp
  qed (simp add: bind_param_plan [OF Cons.prems])
qed simp

lemma call_and_serialize_plan:
  "call_and_serialize rtype call (bs_first_input (render pl)) (bs_return_size (render pl)) (bs_return_cols (render pl)) =
     fmap_r (\<lambda>r. result_lines r call) (plan_result rtype pl)"
proof -
  have first: "size_of (map_option arg_info_of f) = (case f of Some (k, kind) \<Rightarrow> if kind_has_size kind then ai_size (arg_info_of (k, kind)) else None | None \<Rightarrow> None)"
    for f by (auto simp: size_of_def arg_info_of_def split: option.split)
  have count: "(if pl_return_size pl then ''_returnSize'' else case size_of (map_option arg_info_of (pl_first pl)) of Some s \<Rightarrow> s | None \<Rightarrow> ''0'') =
      count_text (result_count pl)"
    unfolding first by (auto simp: count_text_def result_count_def arg_info_of_def split: option.split)
  have void: "(case map_option arg_info_of f of Some i \<Rightarrow> (case ai_mutated i of Some m \<Rightarrow> [out_line ''mutated'' m] | None \<Rightarrow> []) | None \<Rightarrow> []) =
      (case (case f of Some (k, kind) \<Rightarrow> if kind_is_scalar kind then None else Some (k, kind) | None \<Rightarrow> None) of
        None \<Rightarrow> [] | Some a \<Rightarrow> [out_line ''mutated'' (the (ai_mutated (arg_info_of a)))])" for f
    by (auto simp: arg_info_of_def kind_info_simps(3) [THEN iffD2] split: option.split)
  note rules = result_lines_def c_result.case out_line_def append.simps append_assoc fmap_r_simps option.case fmap_r_if
  show ?thesis
    unfolding call_and_serialize_def plan_result_def render_def bind_state.simps count Let_def
    using void [of "pl_first pl"]
    by (cases "map_of SCALAR_TYPES rtype"; cases "map_of ARRAY_TYPES rtype") (simp_all only: rules)
qed

section \<open>Executing the bindings\<close>

text \<open>What a parameter's variables hold: a scalar; a vector by its buffer and size; the document, buffer and length of a string; rows; a list
  or a tree; the variable \<open>_returnSize\<close> or \<open>_returnCols\<close>; the array of column lengths; a size.\<close>

datatype c_object =
    OScalar cppval
  | OInts nat nat
  | OElems nat nat
  | OChars pyval nat nat
  | OCharRows char_rows
  | OIntRows int_rows
  | ONode cppval
  | OReturnSize nat
  | OReturnCols nat
  | OCols nat
  | OSize int

text \<open>Values of C: scalars and pointers to nodes are as in C++, a size is an \<open>int\<close>.\<close>

datatype c_value =
    CVal cppval
  | CInts c_ptr
  | CElems c_ptr
  | CChars c_ptr
  | CPtrs c_ptr
  | CVoid

definition int_value :: "int \<Rightarrow> cppval" where
  "int_value n = CData (VInt n)"

definition c_scalar :: "nlohmann \<Rightarrow> string \<Rightarrow> pyval \<Rightarrow> string + cppval" where
  "c_scalar R ctype j =
     (if ctype = ''char'' then fmap_r CChar (cpp_char R j)
      else if ctype = ''int'' then fmap_r (\<lambda>w. int_value (sint w)) (nl_int R j)
      else nl_get R ctype j)"

definition c_node :: "cpptype \<Rightarrow> nlohmann \<Rightarrow> int \<Rightarrow> pyval \<Rightarrow> c_memory \<Rightarrow> string + c_object \<times> c_memory" where
  "c_node ty R pos j m = fmap_r (\<lambda>(v, h). (ONode v, m\<lparr>cm_nodes := h\<rparr>)) (cpp_get ty R pos j (cm_nodes m))"

primrec c_bind :: "c_kind \<Rightarrow> nlohmann \<Rightarrow> int \<Rightarrow> pyval \<Rightarrow> c_memory \<Rightarrow> string + c_object \<times> c_memory" where
  "c_bind (KScalar ctype) R pos j m = fmap_r (\<lambda>v. (OScalar v, m)) (c_scalar R ctype j)"
| "c_bind (KArray elem) R pos j m =
     (if elem = ''int'' then
        fmap_r (\<lambda>ws. (OInts (length (cm_ints m)) (length ws), m\<lparr>cm_ints := cm_ints m @ [ws]\<rparr>)) (map_r (nl_int R) (nl_items R j))
      else
        fmap_r (\<lambda>vs. (OElems (length (cm_elems m)) (length vs), m\<lparr>cm_elems := cm_elems m @ [vs]\<rparr>)) (map_r (nl_get R elem) (nl_items R j)))"
| "c_bind KChars R pos j m =
     fmap_r (\<lambda>s. (OChars j (length (cm_bytes m)) (length s), m\<lparr>cm_bytes := cm_bytes m @ [s @ [0]]\<rparr>)) (charsToString R j)"
| "c_bind KCharRows R pos j m = fmap_r (\<lambda>(cr, m'). (OCharRows cr, m')) (CharRows R j m)"
| "c_bind KIntRows R pos j m = fmap_r (\<lambda>(ir, m'). (OIntRows ir, m')) (IntRows R j m)"
| "c_bind KList R pos j m = c_node TyList R pos j m"
| "c_bind KTree R pos j m = c_node TyTree R pos j m"

text \<open>\<open>.size()\<close> of the vector, string or rows, and the array of column lengths.\<close>

definition object_size :: "c_object \<Rightarrow> nat" where
  "object_size ob = (case ob of
      OInts b n \<Rightarrow> n | OElems b n \<Rightarrow> n | OChars j b n \<Rightarrow> n
    | OCharRows cr \<Rightarrow> length (cr_rows cr) | OIntRows ir \<Rightarrow> length (ir_rows ir) | _ \<Rightarrow> 0)"

definition object_cols :: "c_object \<Rightarrow> nat" where
  "object_cols ob = (case ob of OCharRows cr \<Rightarrow> cr_cols cr | OIntRows ir \<Rightarrow> ir_cols ir | _ \<Rightarrow> 0)"

text \<open>\<open>int\<close> or \<open>size_t\<close>, initialised with \<open>(int)v.size()\<close>.\<close>

definition size_value :: "string \<Rightarrow> nat \<Rightarrow> int" where
  "size_value t n = (if t = ''size_t'' then uint (scast (int_size n) :: 64 word) else sint (int_size n))"

definition c_exec_binding :: "nlohmann \<Rightarrow> cpp_input \<Rightarrow> int \<Rightarrow> c_binding \<Rightarrow> c_object list \<Rightarrow> c_memory \<Rightarrow> string + c_object \<times> c_memory" where
  "c_exec_binding R inp pos b obs m = (case b of
      BInput kind name i \<Rightarrow> (case cpp_arg inp name i of Inl e \<Rightarrow> Inl e | Inr j \<Rightarrow> c_bind kind R pos j m)
    | BReturnSize \<Rightarrow> Inr (OReturnSize (length (cm_ints m)), m\<lparr>cm_ints := cm_ints m @ [[0]]\<rparr>)
    | BReturnCols \<Rightarrow> Inr (OReturnCols (length (cm_ptrs m)), m\<lparr>cm_ptrs := cm_ptrs m @ [[None]]\<rparr>)
    | BCols k kind \<Rightarrow> Inr (OCols (object_cols (obs ! k)), m)
    | BSize t k kind \<Rightarrow> Inr (OSize (size_value t (object_size (obs ! k))), m))"

fun c_exec_bindings :: "nlohmann \<Rightarrow> cpp_input \<Rightarrow> int \<Rightarrow> c_binding list \<Rightarrow> c_object list \<Rightarrow> c_memory \<Rightarrow> string + c_object list \<times> c_memory" where
  "c_exec_bindings R inp pos [] obs m = Inr (obs, m)"
| "c_exec_bindings R inp pos (b # bs) obs m = (case c_exec_binding R inp pos b obs m of
      Inl e \<Rightarrow> Inl e | Inr (ob, m') \<Rightarrow> c_exec_bindings R inp pos bs (obs @ [ob]) m')"

text \<open>The variable that is passed to the call.\<close>

definition object_arg :: "c_object \<Rightarrow> c_value" where
  "object_arg ob = (case ob of
      OScalar v \<Rightarrow> CVal v
    | OInts b n \<Rightarrow> CInts (Some (b, 0))
    | OElems b n \<Rightarrow> CElems (Some (b, 0))
    | OChars j b n \<Rightarrow> CChars (Some (b, 0))
    | OCharRows cr \<Rightarrow> CPtrs (Some (cr_ptrs cr, 0))
    | OIntRows ir \<Rightarrow> CPtrs (Some (ir_ptrs ir, 0))
    | ONode v \<Rightarrow> CVal v
    | OReturnSize b \<Rightarrow> CInts (Some (b, 0))
    | OReturnCols b \<Rightarrow> CPtrs (Some (b, 0))
    | OCols b \<Rightarrow> CInts (Some (b, 0))
    | OSize n \<Rightarrow> CVal (int_value n))"

section \<open>Writing the result\<close>

text \<open>\<open>json(vector<elem>)\<close> for another type than \<open>int\<close>.\<close>

definition elems_json :: "cppval list \<Rightarrow> pyval option" where
  "elems_json vs = map_option VList (those (map (\<lambda>v. case v of CData d \<Rightarrow> Some d | _ \<Rightarrow> None) vs))"

text \<open>The argument that a \<open>void\<close> function reports, after the call; \<open>n\<close> bounds the walk over a tree.\<close>

definition object_json :: "nat \<Rightarrow> nlohmann \<Rightarrow> c_object \<Rightarrow> c_memory \<Rightarrow> pyval option" where
  "object_json n R ob m = (case ob of
      OInts b k \<Rightarrow> map_option ints_json (read_at (cm_ints m) (Some (b, 0)) k)
    | OElems b k \<Rightarrow> (case read_at (cm_elems m) (Some (b, 0)) k of None \<Rightarrow> None | Some vs \<Rightarrow> elems_json vs)
    | OChars j b k \<Rightarrow>
        if is_array j then map_option (stringToChars R) (read_at (cm_bytes m) (Some (b, 0)) (nat (sint (int_size k))))
        else map_option (\<lambda>s. VStr (nl_text R s)) (read_string (cm_bytes m) (Some (b, 0)))
    | OCharRows cr \<Rightarrow> CharRows_toJson R cr m
    | OIntRows ir \<Rightarrow> IntRows_json ir m
    | ONode v \<Rightarrow> cpp_toJson n R (cm_nodes m) v
    | _ \<Rightarrow> None)"

text \<open>The values of \<open>_returnSize\<close> and \<open>_returnCols\<close>.\<close>

fun return_size :: "c_object list \<Rightarrow> c_memory \<Rightarrow> int option" where
  "return_size [] m = None"
| "return_size (OReturnSize b # obs) m = map_option (\<lambda>ws. sint (hd ws)) (read_at (cm_ints m) (Some (b, 0)) 1)"
| "return_size (_ # obs) m = return_size obs m"

fun return_cols :: "c_object list \<Rightarrow> c_memory \<Rightarrow> c_ptr option" where
  "return_cols [] m = None"
| "return_cols (OReturnCols b # obs) m = map_option hd (read_at (cm_ptrs m) (Some (b, 0)) 1)"
| "return_cols (_ # obs) m = return_cols obs m"

definition count_value :: "c_count \<Rightarrow> c_object list \<Rightarrow> c_memory \<Rightarrow> int option" where
  "count_value c obs m = (case c of
      CountReturned \<Rightarrow> return_size obs m
    | CountOf k kind \<Rightarrow> Some (sint (int_size (object_size (obs ! k))))
    | CountZero \<Rightarrow> Some 0)"

text \<open>A range \<open>[p, p + k)\<close>, which has to be one.\<close>

definition read_range :: "'a list list \<Rightarrow> c_ptr \<Rightarrow> int \<Rightarrow> 'a list option" where
  "read_range mem p k = (if k < 0 then None else read_at mem p (nat k))"

definition strings_json :: "nlohmann \<Rightarrow> c_memory \<Rightarrow> c_ptr \<Rightarrow> int \<Rightarrow> pyval option" where
  "strings_json R m p k = (case read_at (cm_ptrs m) p (nat k) of
      None \<Rightarrow> None
    | Some ps \<Rightarrow> map_option VList (those (map (\<lambda>q. map_option (\<lambda>s. VStr (nl_text R s)) (read_string (cm_bytes m) q)) ps)))"

definition int_rows_json :: "c_memory \<Rightarrow> c_ptr \<Rightarrow> c_ptr \<Rightarrow> int \<Rightarrow> pyval option" where
  "int_rows_json m p cols k = (case (read_at (cm_ptrs m) p (nat k), read_at (cm_ints m) cols (nat k)) of
      (Some ps, Some ns) \<Rightarrow> map_option VList (those (map2 (\<lambda>q n. map_option ints_json (read_range (cm_ints m) q (sint n))) ps ns))
    | _ \<Rightarrow> None)"

definition result_json :: "nat \<Rightarrow> nlohmann \<Rightarrow> c_result \<Rightarrow> c_object list \<Rightarrow> c_value \<Rightarrow> c_memory \<Rightarrow> pyval option" where
  "result_json n R r obs ret m = (case (r, ret) of
      (RScalar ctype, CVal v) \<Rightarrow> cpp_toJson n R (cm_nodes m) v
    | (RString, CChars p) \<Rightarrow> if p = None then Some VNone else map_option (\<lambda>s. VStr (nl_text R s)) (read_string (cm_bytes m) p)
    | (RArray elem c, CInts p) \<Rightarrow> (case count_value c obs m of
          None \<Rightarrow> None | Some k \<Rightarrow> map_option ints_json (read_range (cm_ints m) p k))
    | (RArray elem c, CElems p) \<Rightarrow> (case count_value c obs m of
          None \<Rightarrow> None | Some k \<Rightarrow> (case read_range (cm_elems m) p k of None \<Rightarrow> None | Some vs \<Rightarrow> elems_json vs))
    | (RStrings, CPtrs p) \<Rightarrow> (case return_size obs m of None \<Rightarrow> None | Some k \<Rightarrow> strings_json R m p k)
    | (RIntRows, CPtrs p) \<Rightarrow> (case (return_size obs m, return_cols obs m) of
          (Some k, Some cols) \<Rightarrow> int_rows_json m p cols k | _ \<Rightarrow> None)
    | (RNode, CVal v) \<Rightarrow> cpp_toJson n R (cm_nodes m) v
    | _ \<Rightarrow> None)"

definition c_output :: "nat \<Rightarrow> nlohmann \<Rightarrow> c_result \<Rightarrow> c_object list \<Rightarrow> c_value \<Rightarrow> c_memory \<Rightarrow> pydict option" where
  "c_output n R r obs ret m = (case r of
      RVoid None \<Rightarrow> Some [(''result'', VNone)]
    | RVoid (Some (k, kind)) \<Rightarrow> map_option (\<lambda>v. [(''result'', VNone), (''mutated'', v)]) (object_json n R (obs ! k) m)
    | _ \<Rightarrow> map_option (\<lambda>v. [(''result'', v)]) (result_json n R r obs ret m))"

section \<open>One test case\<close>

text \<open>The program: its plan, and the submitted function, which gets its arguments and the memory, with its own variables in
  it, and returns, or ends the process with an exit code; \<open>None\<close> is a call that does not return.\<close>

record c_program =
  c_skip_pos :: bool
  c_bindings :: "c_binding list"
  c_result_of :: c_result
  c_function :: "c_value list \<Rightarrow> c_memory \<Rightarrow> ((int + c_value) \<times> c_memory \<times> string) option"

text \<open>An exception comes from the bindings only: C code throws none. \<open>Inl\<close> is the exit code of a process that died in
  the call.\<close>

definition judgeRunOne :: "nat \<Rightarrow> nlohmann \<Rightarrow> c_program \<Rightarrow> pyval \<Rightarrow> c_memory \<Rightarrow> ((int + string + pydict) \<times> c_memory \<times> string) option" where
  "judgeRunOne n R P testCase m = (case cpp_Input R testCase (c_skip_pos P) (- 1) of
      Inl e \<Rightarrow> Some (Inr (Inl e), m, [])
    | Inr (inp, pos) \<Rightarrow> (case c_exec_bindings R inp pos (c_bindings P) [] m of
        Inl e \<Rightarrow> Some (Inr (Inl e), m, [])
      | Inr (obs, m1) \<Rightarrow> (case c_function P (map object_arg obs) m1 of
          None \<Rightarrow> None
        | Some (Inl rc, m2, printed) \<Rightarrow> Some (Inl rc, m2, printed)
        | Some (Inr ret, m2, printed) \<Rightarrow>
            map_option (\<lambda>out. (Inr (Inr out), m2, printed)) (c_output n R (c_result_of P) obs ret m2))))"

text \<open>The program for a source text and a function of it.\<close>

definition c_planned :: "string \<Rightarrow> string \<Rightarrow> exn + c_signature \<times> c_binding list \<times> c_result" where
  "c_planned src fname = (case parse_signature src fname of
      Inl e \<Rightarrow> Inl e
    | Inr sig \<Rightarrow> (case plan_params (params sig) plan_start of
        Inl e \<Rightarrow> Inl e
      | Inr pl \<Rightarrow> fmap_r (\<lambda>r. (sig, pl_bindings pl, r)) (plan_result (normalize (return_type sig)) pl)))"

definition c_wrapper_text :: "string \<Rightarrow> string \<Rightarrow> c_signature \<times> c_binding list \<times> c_result \<Rightarrow> string" where
  "c_wrapper_text tmpl fname = (\<lambda>(sig, bs, r).
     let call = ''::'' @ fname @ ''('' @ join '', '' (map arg_var [0..<length bs]) @ '')'';
         declaration = return_type sig @ '' '' @ fname @ ''('' @ or_text (raw_params sig) ''void'' @ '');'';
         indent = [newline] @ ''    ''
     in replace ''__CALL_AND_SERIALIZE_PLACEHOLDER__'' (join indent (result_lines r call))
          (replace ''__PARAMETER_DESERIALIZATION_PLACEHOLDER__'' (join indent (plan_text bs))
          (replace ''__SKIP_POS_PLACEHOLDER__'' (bool_word (takes_list_node sig))
          (replace ''__FUNCTION_DECLARATION_PLACEHOLDER__'' declaration tmpl))))"

text \<open>C17. The text that the C executor generates is the text of a program with a meaning: for every template, source and
  function, \<open>_generate_wrapper\<close> fails exactly when no plan exists, with the same error, and gives otherwise the
  template filled with the lines of the planned bindings and of the planned call.\<close>

theorem c_generated_text_is_plan:
  "c_generate_wrapper tmpl src fname = fmap_r (c_wrapper_text tmpl fname) (c_planned src fname)"
proof (cases "parse_signature src fname")
  case (Inr sig)
  have start: "bind_start = render plan_start" by (simp add: bind_start_def plan_start_def render_def plan_text_def)
  show ?thesis
  proof (cases "plan_params (params sig) plan_start")
    case pl: (Inr pl)
    have "bind_params 0 (params sig) bind_start = Inr (render pl)"
      using bind_params_plan [of plan_start 0 "params sig"] pl start by (simp add: plan_start_def)
    then show ?thesis
      using Inr pl call_and_serialize_plan [of "normalize (return_type sig)" _ pl]
      by (cases "plan_result (normalize (return_type sig)) pl")
        (simp_all add: c_generate_wrapper_def c_planned_def c_wrapper_text_def Let_def, simp_all add: render_def)
  qed (use Inr bind_params_plan [of plan_start 0 "params sig"] start in \<open>simp add: c_generate_wrapper_def c_planned_def plan_start_def\<close>)
qed (simp add: c_generate_wrapper_def c_planned_def)

section \<open>Sizes\<close>

text \<open>The array that parameter \<open>i\<close> can be a size of: the last array-like input before it.\<close>

definition binding_sized :: "c_binding \<Rightarrow> bool" where
  "binding_sized b = (case b of BInput kind name n \<Rightarrow> kind_has_size kind | _ \<Rightarrow> False)"

definition last_array :: "c_binding list \<Rightarrow> nat \<Rightarrow> nat \<Rightarrow> c_kind \<Rightarrow> bool" where
  "last_array bs i k kind \<longleftrightarrow> k < i \<and> (\<exists>name n. bs ! k = BInput kind name n) \<and> kind_has_size kind \<and>
     (\<forall>l. k < l \<and> l < i \<longrightarrow> \<not> binding_sized (bs ! l))"

definition plan_ok :: "c_plan \<Rightarrow> bool" where
  "plan_ok pl \<longleftrightarrow> (\<forall>k kind. pl_sized pl = Some (k, kind) \<longrightarrow> last_array (pl_bindings pl) (length (pl_bindings pl)) k kind) \<and>
     (\<forall>i < length (pl_bindings pl). case pl_bindings pl ! i of
        BSize t k kind \<Rightarrow> last_array (pl_bindings pl) i k kind
      | BCols k kind \<Rightarrow> last_array (pl_bindings pl) i k kind \<and> kind_has_cols kind
      | _ \<Rightarrow> True)"

lemma last_array_append: "i \<le> length bs \<Longrightarrow> last_array (bs @ cs) i k kind \<longleftrightarrow> last_array bs i k kind"
  by (auto simp: last_array_def nth_append)

lemma last_array_snoc:
  "last_array (bs @ [b]) (Suc (length bs)) k kind \<longleftrightarrow>
     (if binding_sized b then k = length bs \<and> (\<exists>name n. b = BInput kind name n) else last_array bs (length bs) k kind)"
  by (auto simp: last_array_def nth_append less_Suc_eq binding_sized_def split: c_binding.splits)

lemma plan_param_step:
  assumes "plan_param p pl = Inr pl'"
  obtains b where "pl_bindings pl' = pl_bindings pl @ [b]"
    and "pl_sized pl' = (case b of BInput kind _ _ \<Rightarrow> if kind_has_size kind then Some (length (pl_bindings pl), kind) else pl_sized pl | _ \<Rightarrow> pl_sized pl)"
    and "case b of BSize t k kind \<Rightarrow> pl_sized pl = Some (k, kind) | BCols k kind \<Rightarrow> pl_sized pl = Some (k, kind) \<and> kind_has_cols kind | _ \<Rightarrow> True"
  using assms by (fastforce simp: plan_param_def plan_input_def Let_def split: if_split_asm option.split_asm)

lemma plan_param_ok:
  assumes ok: "plan_ok pl" and "plan_param p pl = Inr pl'"
  shows "plan_ok pl'"
proof -
  let ?n = "length (pl_bindings pl)"
  from assms(2) obtain b where bs: "pl_bindings pl' = pl_bindings pl @ [b]"
    and sized: "pl_sized pl' = (case b of BInput kind _ _ \<Rightarrow> if kind_has_size kind then Some (?n, kind) else pl_sized pl | _ \<Rightarrow> pl_sized pl)"
    and b: "case b of BSize t k kind \<Rightarrow> pl_sized pl = Some (k, kind) | BCols k kind \<Rightarrow> pl_sized pl = Some (k, kind) \<and> kind_has_cols kind | _ \<Rightarrow> True"
    by (rule plan_param_step)
  have "last_array (pl_bindings pl @ [b]) (Suc ?n) k kind" if "pl_sized pl' = Some (k, kind)" for k kind
    using that ok sized by (auto simp: last_array_snoc binding_sized_def plan_ok_def split: c_binding.splits if_splits)
  moreover have "case b of BSize t k kind \<Rightarrow> last_array (pl_bindings pl) ?n k kind
      | BCols k kind \<Rightarrow> last_array (pl_bindings pl) ?n k kind \<and> kind_has_cols kind | _ \<Rightarrow> True"
    using b ok by (auto simp: plan_ok_def split: c_binding.splits)
  ultimately show ?thesis
    using ok bs by (auto simp: plan_ok_def nth_append less_Suc_eq last_array_append split: c_binding.splits)
qed

lemma plan_params_ok: "plan_ok pl \<Longrightarrow> plan_params ps pl = Inr pl' \<Longrightarrow> plan_ok pl'"
  by (induction ps arbitrary: pl) (auto dest: plan_param_ok split: sum.split_asm)

lemma map_r_length: "map_r f xs = Inr ys \<Longrightarrow> length ys = length xs"
  by (induction xs arbitrary: ys) (auto split: sum.split_asm)

text \<open>The number of elements, characters or rows of a document.\<close>

definition kind_length :: "nlohmann \<Rightarrow> c_kind \<Rightarrow> pyval \<Rightarrow> string + nat" where
  "kind_length R kind j = (case kind of
      KChars \<Rightarrow> fmap_r length (charsToString R j)
    | KCharRows \<Rightarrow> fmap_r length (char_row_list R j)
    | KIntRows \<Rightarrow> fmap_r length (nl_int_rows R j)
    | _ \<Rightarrow> Inr (length (nl_items R j)))"

lemma c_bind_size: "c_bind kind R pos j m = Inr (ob, m') \<Longrightarrow> kind_has_size kind \<Longrightarrow> kind_length R kind j = Inr (object_size ob)"
  by (cases kind)
    (auto simp: kind_has_size_def kind_length_def object_size_def CharRows_def IntRows_def Let_def dest: map_r_length split: if_split_asm)

text \<open>The numbers of elements in the rows of a document.\<close>

definition kind_cols :: "nlohmann \<Rightarrow> c_kind \<Rightarrow> pyval \<Rightarrow> string + nat list" where
  "kind_cols R kind j = (if kind = KCharRows then fmap_r (map length) (char_row_list R j) else fmap_r (map length) (nl_int_rows R j))"

lemma c_bind_cols:
  assumes "c_bind kind R pos j m = Inr (ob, m')" and "kind_has_cols kind"
  shows "\<exists>lens. kind_cols R kind j = Inr lens \<and> object_cols ob < length (cm_ints m') \<and> cm_ints m' ! object_cols ob = map int_size lens"
  using assms by (auto simp: kind_has_cols_def kind_cols_def object_cols_def CharRows_def IntRows_def Let_def nth_append)

lemma exec_binding_extends:
  assumes "c_exec_binding R inp pos b obs m = Inr (ob, m')"
  shows "\<exists>xs. cm_ints m' = cm_ints m @ xs"
proof -
  have "\<exists>xs. cm_ints m' = cm_ints m @ xs" if "c_bind kind R pos j m = Inr (ob, m')" for kind j
    using that by (cases kind) (auto simp: CharRows_def IntRows_def c_node_def Let_def split: if_split_asm)
  then show ?thesis using assms by (cases b) (auto simp: c_exec_binding_def split: sum.split_asm)
qed

text \<open>What binding \<open>i\<close> made is still there when all are done.\<close>

definition bound_at :: "nlohmann \<Rightarrow> cpp_input \<Rightarrow> int \<Rightarrow> c_binding \<Rightarrow> c_object list \<Rightarrow> nat \<Rightarrow> c_memory \<Rightarrow> bool" where
  "bound_at R inp pos b obs i m' \<longleftrightarrow>
     (\<exists>m1 m2 xs. c_exec_binding R inp pos b (take i obs) m1 = Inr (obs ! i, m2) \<and> cm_ints m' = cm_ints m2 @ xs)"

lemma exec_bindings_nth:
  assumes "c_exec_bindings R inp pos bs obs m = Inr (obs', m')"
  shows "length obs' = length obs + length bs \<and> take (length obs) obs' = obs \<and> (\<exists>xs. cm_ints m' = cm_ints m @ xs) \<and>
    (\<forall>i < length bs. bound_at R inp pos (bs ! i) obs' (length obs + i) m')"
  using assms
proof (induction bs arbitrary: obs m)
  case (Cons b bs)
  from Cons.prems obtain ob m1 where b: "c_exec_binding R inp pos b obs m = Inr (ob, m1)"
    and bs: "c_exec_bindings R inp pos bs (obs @ [ob]) m1 = Inr (obs', m')" by (auto split: sum.split_asm)
  from Cons.IH [OF bs] have IH: "length obs' = Suc (length obs + length bs)" "take (Suc (length obs)) obs' = obs @ [ob]"
    "\<exists>xs. cm_ints m' = cm_ints m1 @ xs" "\<forall>i < length bs. bound_at R inp pos (bs ! i) obs' (Suc (length obs + i)) m'"
    by simp_all
  have "take (length obs) obs' = obs" using IH(2) by (metis append_eq_conv_conj length_append_singleton lessI less_imp_le_nat min.absorb1 take_take)
  moreover have "obs' ! length obs = ob" using IH(2) by (metis lessI nth_append_length nth_take)
  ultimately have "bound_at R inp pos b obs' (length obs) m'" using b IH(3) by (auto simp: bound_at_def)
  then show ?case using IH \<open>take (length obs) obs' = obs\<close> exec_binding_extends [OF b] by (auto simp: less_Suc_eq_0_disj)
qed simp

lemma planned_array:
  assumes "plan_params ps plan_start = Inr pl" and "c_exec_bindings R inp pos (pl_bindings pl) [] m = Inr (obs, m')"
    and "i < length (pl_bindings pl)" and "last_array (pl_bindings pl) i k kind"
  obtains name n j m1 m2 xs where "pl_bindings pl ! k = BInput kind name n" and "cpp_arg inp name n = Inr j"
    and "c_bind kind R pos j m1 = Inr (obs ! k, m2)" and "cm_ints m' = cm_ints m2 @ xs"
proof -
  from assms(4) obtain name n where k: "k < i" "pl_bindings pl ! k = BInput kind name n" by (auto simp: last_array_def)
  have "bound_at R inp pos (pl_bindings pl ! k) obs k m'" using exec_bindings_nth [OF assms(2)] assms(3) k(1) by simp
  then obtain m1 m2 xs where "c_exec_binding R inp pos (BInput kind name n) (take k obs) m1 = Inr (obs ! k, m2)" "cm_ints m' = cm_ints m2 @ xs"
    using k(2) by (auto simp: bound_at_def)
  then show thesis using that k(2) by (auto simp: c_exec_binding_def split: sum.split_asm)
qed

lemma plan_params_start: "plan_params ps plan_start = Inr pl \<Longrightarrow> plan_ok pl"
  by (rule plan_params_ok [of plan_start]) (simp_all add: plan_ok_def plan_start_def)

section \<open>Documents that survive the memory\<close>

text \<open>Documented behaviour of \<open>nlohmann::json\<close>: integers that fit an \<open>int\<close>.\<close>

definition nl_numbers :: "nlohmann \<Rightarrow> bool" where
  "nl_numbers R \<longleftrightarrow> (\<forall>w. nl_int R (VInt (sint w)) = Inr w) \<and> (\<forall>ws. nl_ints R (ints_json ws) = Inr ws) \<and>
     (\<forall>rows. nl_int_rows R (VList (map ints_json rows)) = Inr rows)"

definition ascii :: "string \<Rightarrow> bool" where
  "ascii s \<longleftrightarrow> list_all (\<lambda>c. code c < 128) s"

definition chars_json :: "string \<Rightarrow> pyval" where
  "chars_json s = VList (map (\<lambda>c. VStr [c]) s)"

definition place_json :: "int32 option \<Rightarrow> pyval" where
  "place_json x = (case x of None \<Rightarrow> VNone | Some w \<Rightarrow> VInt (sint w))"

text \<open>The inputs of the supported problems: integers, a string, characters, strings, a grid of characters or integers, a list,
  and a tree of at most \<open>n\<close> nodes and empty places.\<close>

inductive c_document :: "nat \<Rightarrow> c_kind \<Rightarrow> pyval \<Rightarrow> bool" for n where
  ints: "c_document n (KArray ''int'') (ints_json ws)"
| word: "ascii s \<Longrightarrow> CHR 0x00 \<notin> set s \<Longrightarrow> c_document n KChars (VStr s)"
| chars: "ascii s \<Longrightarrow> length s < 2 ^ 31 \<Longrightarrow> c_document n KChars (chars_json s)"
| strings: "\<forall>r \<in> set rows. ascii r \<and> length r < 2 ^ 31 \<Longrightarrow> c_document n KCharRows (VList (map VStr rows))"
| char_grid: "\<forall>r \<in> set rows. ascii r \<and> length r < 2 ^ 31 \<Longrightarrow> rows \<noteq> [] \<Longrightarrow> c_document n KCharRows (VList (map chars_json rows))"
| int_grid: "c_document n KIntRows (VList (map ints_json rows))"
| chain: "c_document n KList (ints_json ws)"
| tree: "no_none None t \<Longrightarrow> weight t \<le> n \<Longrightarrow> c_document n KTree (VList (map place_json (pop_nones None (level_order None [t]))))"

lemma char_rows_back:
  assumes "\<And>r. r \<in> set rows \<Longrightarrow> charsToString R (item r) = Inr (string_bytes r) \<and> row_json R (has_grid j) (string_bytes r) = item r"
    and "j = VList (map item rows)" and "\<forall>r \<in> set rows. ascii r \<and> length r < 2 ^ 31"
  shows "\<exists>ob m'. c_bind KCharRows R pos j m = Inr (ob, m') \<and> object_json n R ob m' = Some j"
proof -
  have "char_row_list R j = Inr (map string_bytes rows)" using assms(1,2) by (auto simp: char_row_list_def intro!: map_r_map)
  moreover have "length (string_bytes r) < 2 ^ 31" if "r \<in> set rows" for r
    using assms(3) that string_bytes_ascii [of r] by (simp add: ascii_def)
  ultimately obtain cr m' where "CharRows R j m = Inr (cr, m')"
    "CharRows_toJson R cr m' = Some (VList (map (row_json R (has_grid j)) (map string_bytes rows)))"
    using c_rows_layout [of R j "map string_bytes rows" m] by auto
  then show ?thesis using assms(1,2) by (simp add: object_json_def comp_def)
qed

lemma string_bytes_no_zero:
  assumes "ascii s" and "CHR 0x00 \<notin> set s"
  shows "0 \<notin> set (string_bytes s)"
proof -
  have "(of_nat (code c) :: byte) \<noteq> 0" if "c \<in> set s" for c
  proof -
    have "code c < 128" "c \<noteq> CHR 0x00" using assms that by (auto simp: ascii_def list_all_iff)
    moreover have "code c \<noteq> code (CHR 0x00)" using \<open>c \<noteq> CHR 0x00\<close> by (simp add: code_def del: of_char_Char)
    then have "0 < code c" by (simp add: code_def)
    ultimately show ?thesis by (simp add: word_of_nat_eq_0_iff nat_dvd_not_less)
  qed
  then show ?thesis using assms(1) by (auto simp: string_bytes_ascii ascii_def)
qed

lemma tree_places: "nl_numbers R \<Longrightarrow> map_r (cpp_tree_elem R) (map place_json xs) = Inr xs"
  using map_r_map [of xs "cpp_tree_elem R" place_json id]
  by (auto simp: cpp_tree_elem_def place_json_def nl_numbers_def split: option.split)

lemma nodes_back:
  assumes "nl_numbers R" and "nl_arrays R"
  shows "\<exists>ob m'. c_bind KList R pos (ints_json ws) m = Inr (ob, m') \<and> object_json n R ob m' = Some (ints_json ws)"
    and "no_none None t \<Longrightarrow> weight t \<le> n \<Longrightarrow> j = VList (map place_json (pop_nones None (level_order None [t]))) \<Longrightarrow>
      \<exists>ob m'. c_bind KTree R pos j m = Inr (ob, m') \<and> object_json n R ob m' = Some j"
proof -
  obtain p ls where b: "cpp_buildLinkedList ws pos (cp_chains (cm_nodes m)) = (p, ls)" by fastforce
  have "read_list ls p = ws" using read_list_rep [OF cpp_buildLinkedList_rep [OF b]] .
  then show "\<exists>ob m'. c_bind KList R pos (ints_json ws) m = Inr (ob, m') \<and> object_json n R ob m' = Some (ints_json ws)"
    using assms(1) b by (simp add: c_node_def nl_numbers_def object_json_def serializeLinkedList_def ints_json_def)
next
  let ?xs = "pop_nones None (level_order None [t])"
  assume t: "no_none None t" "weight t \<le> n" and j: "j = VList (map place_json ?xs)"
  obtain p ts where b: "cpp_buildTree ?xs (cp_trees (cm_nodes m)) = (p, ts)" by fastforce
  have "cpp_tree_values n ts p = Some ?xs" using cpp_tree.build_rep [OF t(1) b] cpp_tree.flatten_level [OF _ t(2)] by blast
  then show "\<exists>ob m'. c_bind KTree R pos j m = Inr (ob, m') \<and> object_json n R ob m' = Some j"
    using j assms b tree_places [OF assms(1), of ?xs]
    by (simp add: c_node_def nl_arrays_def object_json_def serializeTree_def place_json_def [abs_def])
qed

lemma test_nlohmann_numbers: "nl_numbers test_nlohmann"
proof -
  have ints: "test_ints (ints_json ws) = Inr ws" for ws
    using map_r_map [of ws test_int "\<lambda>w. VInt (sint w)" id] by (simp add: test_ints_def test_list_def test_int_def ints_json_def)
  then have "map_r test_ints (map ints_json rows) = Inr rows" for rows using map_r_map [of rows test_ints ints_json id] by simp
  then show ?thesis using ints by (simp add: nl_numbers_def test_nlohmann_def test_list_def test_int_def)
qed

section \<open>Properties\<close>

text \<open>C19. An argument of C reads back as it was given: for a document that fits the parameter's type (integers, a string,
  characters, strings, a grid, a list, a tree), the generated binding succeeds in any memory, and what is
  reported of the argument for a \<open>void\<close> function that changes nothing is the document.\<close>

theorem c_argument_roundtrip:
  assumes "nl_numbers R" and "nl_arrays R" and "nl_ascii R" and "c_document n kind j"
  shows "\<exists>ob m'. c_bind kind R pos j m = Inr (ob, m') \<and> object_json n R ob m' = Some j"
  using assms(4)
proof cases
  case (ints ws)
  have "map_r (nl_int R) (map (\<lambda>w. VInt (sint w)) ws) = Inr ws"
    using assms(1) map_r_map [of ws "nl_int R" "\<lambda>w. VInt (sint w)" id] by (simp add: nl_numbers_def)
  then show ?thesis using ints assms(2) by (simp add: nl_arrays_def ints_json_def object_json_def)
next
  case (word s)
  then show ?thesis using ascii_row [OF assms(3), of s] read_string_new [OF string_bytes_no_zero [of s], of "cm_bytes m"]
    by (simp add: ascii_def object_json_def is_array_def)
next
  case (chars s)
  then have "length (string_bytes s) = length s" by (simp add: ascii_def string_bytes_ascii)
  then show ?thesis using chars ascii_row [OF assms(3), of s] sint_int_size [of "length s"]
    by (simp add: ascii_def chars_json_def object_json_def is_array_def)
next
  case (strings rows)
  have "\<not> has_grid j" by (simp add: strings(2) has_grid_def list_ex_iff is_array_def)
  then show ?thesis unfolding strings(1) using strings(2,3) ascii_row [OF assms(3)]
    by (intro char_rows_back) (auto simp: ascii_def row_json_def)
next
  case (char_grid rows)
  have "has_grid j" using char_grid(4) by (cases rows) (simp_all add: char_grid(2) has_grid_def is_array_def chars_json_def)
  then show ?thesis unfolding char_grid(1) using char_grid(2,3) ascii_row [OF assms(3)]
    by (intro char_rows_back [of rows R chars_json]) (auto simp: ascii_def row_json_def chars_json_def)
next
  case (int_grid rows)
  then have "nl_int_rows R j = Inr rows" using assms(1) by (simp add: nl_numbers_def)
  from c_int_rows_layout [OF this, of m] show ?thesis using int_grid by (auto simp: object_json_def)
next
  case (chain ws)
  then show ?thesis using nodes_back(1) [OF assms(1,2)] by blast
next
  case (tree t)
  then show ?thesis using nodes_back(2) [OF assms(1,2)] by blast
qed

theorem c_argument_roundtrip_witness:
  "\<exists>ob m'. c_bind KCharRows test_nlohmann (- 1) (VList [VList [VStr ''X'', VStr ''O''], VList []]) no_memory = Inr (ob, m') \<and>
    object_json 0 test_nlohmann ob m' = Some (VList [VList [VStr ''X'', VStr ''O''], VList []])"
proof -
  have "c_document 0 KCharRows (VList (map chars_json [''XO'', []]))" by (rule char_grid) (simp_all add: ascii_def code_def)
  from c_argument_roundtrip [OF test_nlohmann_numbers test_nlohmann_arrays test_nlohmann_ascii this]
  show ?thesis by (simp add: chars_json_def)
qed

text \<open>C18. The size arguments of C are the sizes of the arrays before them: in every signature, a parameter that is bound to
  a size follows the array it is a size of, with no other array in between, and the call gets the number of
  elements, characters or rows of the document that the array is bound to, as an \<open>int\<close> or \<open>size_t\<close>.\<close>

theorem c_size_arguments:
  assumes "plan_params ps plan_start = Inr pl" and "c_exec_bindings R inp pos (pl_bindings pl) [] m = Inr (obs, m')"
    and "i < length (pl_bindings pl)" and "pl_bindings pl ! i = BSize t k kind"
  shows "\<exists>name n j len. last_array (pl_bindings pl) i k kind \<and> pl_bindings pl ! k = BInput kind name n \<and>
    cpp_arg inp name n = Inr j \<and> kind_length R kind j = Inr len \<and> map object_arg obs ! i = CVal (int_value (size_value t len))"
proof -
  have last: "last_array (pl_bindings pl) i k kind" using plan_params_start [OF assms(1)] assms(3,4) by (auto simp: plan_ok_def)
  then have k: "k < i" "kind_has_size kind" by (simp_all add: last_array_def)
  from planned_array [OF assms(1-3) last] obtain name n j m1 m2 where
    a: "pl_bindings pl ! k = BInput kind name n" "cpp_arg inp name n = Inr j" "c_bind kind R pos j m1 = Inr (obs ! k, m2)" .
  from exec_bindings_nth [OF assms(2)] assms(3,4) have "obs ! i = OSize (size_value t (object_size (obs ! k)))" "i < length obs"
    using k(1) by (auto simp: bound_at_def c_exec_binding_def)
  then show ?thesis using last a c_bind_size [OF a(3) k(2)] by (simp add: object_arg_def)
qed

text \<open>\<open>int* nums, int numsSize, int** grid, int gridSize, int* gridColSize\<close>, for two numbers and two rows.\<close>

definition grid_params :: "c_param list" where
  "grid_params = [\<lparr>p_type = ''int*'', p_name = ''nums'', p_raw = ''int* nums''\<rparr>, \<lparr>p_type = ''int'', p_name = ''numsSize'', p_raw = ''int numsSize''\<rparr>,
     \<lparr>p_type = ''int**'', p_name = ''grid'', p_raw = ''int** grid''\<rparr>, \<lparr>p_type = ''int'', p_name = ''gridSize'', p_raw = ''int gridSize''\<rparr>, \<lparr>p_type = ''int*'', p_name = ''gridColSize'', p_raw = ''int* gridColSize''\<rparr>]"

definition grid_plan :: c_plan where
  "grid_plan = \<lparr>pl_bindings = [BInput (KArray ''int'') ''nums'' 0, BSize ''int'' 0 (KArray ''int''), BInput KIntRows ''grid'' 1,
       BSize ''int'' 2 KIntRows, BCols 2 KIntRows],
     pl_sized = Some (2, KIntRows), pl_first = Some (0, KArray ''int''), pl_return_size = False, pl_return_cols = False, pl_json_index = 2\<rparr>"

definition grid_input :: cpp_input where
  "grid_input = \<lparr>in_keys = [''nums'', ''grid''], in_values = [ints_json [7, 8], VList [ints_json [1, 2, 3], ints_json []]], in_skipPos = False\<rparr>"

definition grid_objects :: "c_object list" where
  "grid_objects = [OInts 0 2, OSize 2, OIntRows \<lparr>ir_rows = [(1, 3), (2, 0)], ir_ptrs = 0, ir_cols = 3\<rparr>, OSize 2, OCols 3]"

definition grid_memory :: c_memory where
  "grid_memory = no_memory\<lparr>cm_ints := [[7, 8], [1, 2, 3], [], [3, 0]], cm_ptrs := [[Some (1, 0), Some (2, 0)]]\<rparr>"

lemma grid_planned: "plan_params grid_params plan_start = Inr grid_plan"
  by code_simp

lemma grid_bound: "c_exec_bindings test_nlohmann grid_input (- 1) (pl_bindings grid_plan) [] no_memory = Inr (grid_objects, grid_memory)"
  by code_simp

theorem c_size_arguments_witness:
  "\<exists>name n j len. last_array (pl_bindings grid_plan) 3 2 KIntRows \<and> pl_bindings grid_plan ! 2 = BInput KIntRows name n \<and>
    cpp_arg grid_input name n = Inr j \<and> kind_length test_nlohmann KIntRows j = Inr len \<and>
    map object_arg grid_objects ! 3 = CVal (int_value (size_value ''int'' len))"
  by (rule c_size_arguments [OF grid_planned grid_bound]) (simp_all add: grid_plan_def)

text \<open>A number of the problem whose name ends in \<open>size\<close> is taken for the length of the array before it.\<close>

lemma c_own_size_overridden:
  "fmap_r pl_bindings (plan_params
     [\<lparr>p_type = ''int*'', p_name = ''nums'', p_raw = ''int* nums''\<rparr>, \<lparr>p_type = ''int'', p_name = ''numsSize'', p_raw = ''int numsSize''\<rparr>,
      \<lparr>p_type = ''int'', p_name = ''windowSize'', p_raw = ''int windowSize''\<rparr>] plan_start) =
   Inr [BInput (KArray ''int'') ''nums'' 0, BSize ''int'' 0 (KArray ''int''), BSize ''int'' 0 (KArray ''int'')]"
  by code_simp

text \<open>The column arguments of C are the lengths of the rows before them: in every signature, a parameter that is bound
  to column sizes follows the rows it belongs to, with no other array in between, and the call gets a pointer
  behind which the lengths of all rows of the document are found when the bindings are done.\<close>

lemma c_column_arguments:
  assumes "plan_params ps plan_start = Inr pl" and "c_exec_bindings R inp pos (pl_bindings pl) [] m = Inr (obs, m')"
    and "i < length (pl_bindings pl)" and "pl_bindings pl ! i = BCols k kind"
  shows "\<exists>name n j lens p. last_array (pl_bindings pl) i k kind \<and> pl_bindings pl ! k = BInput kind name n \<and>
    cpp_arg inp name n = Inr j \<and> kind_cols R kind j = Inr lens \<and> map object_arg obs ! i = CInts p \<and>
    read_at (cm_ints m') p (length lens) = Some (map int_size lens)"
proof -
  have last: "last_array (pl_bindings pl) i k kind" "kind_has_cols kind"
    using plan_params_start [OF assms(1)] assms(3,4) by (auto simp: plan_ok_def)
  then have k: "k < i" by (simp add: last_array_def)
  from planned_array [OF assms(1-3) last(1)] obtain name n j m1 m2 xs where
    a: "pl_bindings pl ! k = BInput kind name n" "cpp_arg inp name n = Inr j" "c_bind kind R pos j m1 = Inr (obs ! k, m2)"
      "cm_ints m' = cm_ints m2 @ xs" .
  from exec_bindings_nth [OF assms(2)] assms(3,4) have "obs ! i = OCols (object_cols (obs ! k))" "i < length obs"
    using k(1) by (auto simp: bound_at_def c_exec_binding_def)
  moreover from c_bind_cols [OF a(3) last(2)] obtain lens where "kind_cols R kind j = Inr lens"
    "object_cols (obs ! k) < length (cm_ints m2)" "cm_ints m2 ! object_cols (obs ! k) = map int_size lens" by blast
  ultimately show ?thesis using last(1) a by (simp add: object_arg_def read_at_def nth_append)
qed

lemma c_column_arguments_witness:
  "\<exists>name n j lens p. last_array (pl_bindings grid_plan) 4 2 KIntRows \<and> pl_bindings grid_plan ! 2 = BInput KIntRows name n \<and>
    cpp_arg grid_input name n = Inr j \<and> kind_cols test_nlohmann KIntRows j = Inr lens \<and> map object_arg grid_objects ! 4 = CInts p \<and>
    read_at (cm_ints grid_memory) p (length lens) = Some (map int_size lens)"
  by (rule c_column_arguments [OF grid_planned grid_bound]) (simp_all add: grid_plan_def)

end
