(* ===== verification/CWrapper.thy ===== *)
theory CWrapper
  imports CBinding
begin

text \<open>
  The C wrapper (\<open>languages/c_wrapper.py\<close>): a C++ harness around C code that runs a single test case or a
  batch. The test cases of a batch share one memory, with the variables of the submission in it.
\<close>

section \<open>The process\<close>

text \<open>How a run ends: normally, with an exception in a test case after some output, or in a crash.\<close>

datatype c_end = CDone | CException string string nat | CCrash string int

fun c_cases :: "nat \<Rightarrow> nlohmann \<Rightarrow> c_program \<Rightarrow> nat \<Rightarrow> pyval list \<Rightarrow> c_memory \<Rightarrow> ((string \<times> string) list \<times> c_end) option" where
  "c_cases n R P index [] st = Some ([], CDone)"
| "c_cases n R P index (tc # tcs) st = (case judgeRunOne n R P tc st of
      None \<Rightarrow> None
    | Some (Inl rc, st', printed) \<Rightarrow> Some ([], CCrash printed rc)
    | Some (Inr (Inl e), st', printed) \<Rightarrow> Some ([], CException e printed index)
    | Some (Inr (Inr out), st', printed) \<Rightarrow>
        map_option (\<lambda>(bs, f). ((printed, nl_dump R (VDict (AList.update ''index'' (VInt (int index)) out))) # bs, f))
          (c_cases n R P (Suc index) tcs st'))"

text \<open>A single test case prints one block.\<close>

definition c_single :: "nat \<Rightarrow> nlohmann \<Rightarrow> c_program \<Rightarrow> pyval \<Rightarrow> c_memory \<Rightarrow> ((string \<times> string) list \<times> c_end) option" where
  "c_single n R P payload st = (case judgeRunOne n R P payload st of
      None \<Rightarrow> None
    | Some (Inl rc, st', printed) \<Rightarrow> Some ([], CCrash printed rc)
    | Some (Inr (Inl e), st', printed) \<Rightarrow> Some ([], CException e printed 0)
    | Some (Inr (Inr out), st', printed) \<Rightarrow> Some ([(printed, nl_dump R (VDict out))], CDone))"

text \<open>\<open>_cases[_index]\<close> raises for a value that is no array but has a size.\<close>

definition c_stream :: "nat \<Rightarrow> nlohmann \<Rightarrow> c_program \<Rightarrow> pyval \<Rightarrow> c_memory \<Rightarrow> ((string \<times> string) list \<times> c_end) option" where
  "c_stream n R P payload st = (case payload of
      VDict d \<Rightarrow> (case dget d ''test_cases'' of
          Some (VList tcs) \<Rightarrow> c_cases n R P 0 tcs st
        | Some v \<Rightarrow> if v = VNone \<or> v = VDict [] then Some ([], CDone) else Some ([], CException (nl_index_error R) [] 0)
        | None \<Rightarrow> c_single n R P payload st)
    | _ \<Rightarrow> c_single n R P payload st)"

definition c_error :: "nlohmann \<Rightarrow> string \<Rightarrow> nat \<Rightarrow> string" where
  "c_error R e index = nl_dump R (VDict [(''error'', VStr e), (''failed_test_case_index'', VInt (int index))])"

definition c_print :: "nlohmann \<Rightarrow> (string \<times> string) list \<times> c_end \<Rightarrow> string \<times> int" where
  "c_print R r = (case r of (bs, f) \<Rightarrow> (case f of
      CDone \<Rightarrow> (stream_text bs [], 0)
    | CException e printed index \<Rightarrow> (stream_text bs (printed @ emit_block (c_error R e index)), 1)
    | CCrash printed rc \<Rightarrow> (stream_text bs printed, rc)))"

definition c_main :: "nat \<times> nlohmann \<times> c_program \<times> c_memory \<Rightarrow> string \<Rightarrow> (string \<times> int) option" where
  "c_main = (\<lambda>(n, R, P, st) stdin. case nl_parse R stdin of
      None \<Rightarrow> Some (emit_block (cpp_error R ''Invalid JSON input''), 1)
    | Some payload \<Rightarrow> map_option (c_print R) (c_stream n R P payload st))"

definition c_run_all :: "nat \<times> nlohmann \<times> c_program \<times> c_memory \<Rightarrow> string \<Rightarrow> batch_run option" where
  "c_run_all = (\<lambda>(n, R, P, st) stdin. case nl_parse R stdin of
      None \<Rightarrow> None
    | Some payload \<Rightarrow> (case c_stream n R P payload st of
          Some (bs, CDone) \<Rightarrow> Some \<lparr>br_blocks = bs, br_failure = None\<rparr>
        | Some (bs, CException e printed index) \<Rightarrow> Some \<lparr>br_blocks = bs, br_failure = Some (printed, c_error R e index)\<rparr>
        | _ \<Rightarrow> None))"

interpretation c_batch: batch_harness c_run_all c_main
  by unfold_locales (auto simp: c_run_all_def c_main_def c_print_def batch_output_def
      split: option.split_asm prod.split_asm c_end.split_asm)

section \<open>Batches of test cases\<close>

definition c_batch_payload :: "pydict list \<Rightarrow> string" where
  "c_batch_payload inps = dumps (VDict [(''test_cases'', VList (map positional_dict inps))])"

lemma c_run_batch_payload: "c_run_batch E tcs = run_batch_in_container E solution_cmd (c_batch_payload (map tc_input tcs)) (length tcs)"
  by (simp add: c_run_batch_def c_batch_payload_def comp_def)

text \<open>All test cases answer: their outputs and what each printed, and the variables they leave.\<close>

fun c_runs :: "nat \<Rightarrow> nlohmann \<Rightarrow> c_program \<Rightarrow> pydict list \<Rightarrow> c_memory \<Rightarrow> ((pydict \<times> string) list \<times> c_memory) option" where
  "c_runs n R P [] st = Some ([], st)"
| "c_runs n R P (inp # inps) st = (case judgeRunOne n R P (positional_dict inp) st of
      Some (Inr (Inr out), st', printed) \<Rightarrow> map_option (\<lambda>(outs, st''). ((out, printed) # outs, st'')) (c_runs n R P inps st')
    | _ \<Rightarrow> None)"

text \<open>The outputs are answers, and neither they nor the debug output disturb the markers.\<close>

fun c_clean :: "nlohmann \<Rightarrow> nat \<Rightarrow> (pydict \<times> string) list \<Rightarrow> bool" where
  "c_clean R i [] \<longleftrightarrow> True"
| "c_clean R i ((out, printed) # outs) \<longleftrightarrow>
     json_ok (VDict out) \<and> fst ` set out \<subseteq> {''result'', ''mutated''} \<and> quiet printed \<and>
     no_marker (nl_dump R (VDict (AList.update ''index'' (VInt (int i)) out))) \<and> c_clean R (Suc i) outs"

lemma c_block:
  assumes "nl_writes R" and "json_ok (VDict out)" and "fst ` set out \<subseteq> {''result'', ''mutated''}"
    and "no_marker (nl_dump R (VDict (AList.update ''index'' (VInt i) out)))"
  shows "\<exists>d. document (nl_dump R (VDict (AList.update ''index'' (VInt i) out))) d \<and> \<not> dhas ''error'' d \<and>
    result_value d = result_value out"
proof -
  let ?d = "out @ [(''index'', VInt i)]"
  have new: "''index'' \<notin> fst ` set out" using assms(3) by auto
  then have upd: "AList.update ''index'' (VInt i) out = ?d" by (rule update_new)
  have "json_ok (VDict ?d)" using assms(2) new by auto
  then have "object_text (nl_dump R (VDict ?d)) ?d" using assms(1) by (simp add: nl_writes_def)
  then obtain d where d: "document (nl_dump R (VDict ?d)) d" "dget d = dget ?d"
    using object_document assms(4) unfolding upd by blast
  have "''error'' \<notin> fst ` set ?d" using assms(3) by auto
  then have "\<not> dhas ''error'' d" using d(2) by (simp add: dhas_def dget_None)
  moreover have "dget d k = dget out k" if "k \<noteq> ''index''" for k
    using d(2) that by (simp add: dget_def map_add_def split: option.splits)
  ultimately show ?thesis using d(1) unfolding upd by (intro exI [of _ d]) (simp add: result_value_def)
qed

lemma c_cases_runs:
  assumes "nl_writes R"
  shows "c_runs n R P inps st = Some (outs, st') \<Longrightarrow> c_clean R i outs \<Longrightarrow>
    \<exists>bs ds. c_cases n R P i (map positional_dict inps @ rest) st =
        map_option (\<lambda>(cs, g). (bs @ cs, g)) (c_cases n R P (i + length inps) rest st') \<and>
      answer_blocks bs ds \<and> length ds = length inps \<and> map result_value ds = map (\<lambda>(out, printed). result_value out) outs"
proof (induction inps arbitrary: i st outs)
  case Nil
  then show ?case by (intro exI [of _ "[]"]) (auto simp: answer_blocks_def stream_ok_def option.map_ident)
next
  case (Cons inp inps)
  from Cons.prems(1) obtain out st1 printed outs' where
    ex: "judgeRunOne n R P (positional_dict inp) st = Some (Inr (Inr out), st1, printed)"
    and rs: "c_runs n R P inps st1 = Some (outs', st')" "outs = (out, printed) # outs'"
    by (auto split: option.splits sum.splits prod.splits)
  let ?t = "nl_dump R (VDict (AList.update ''index'' (VInt (int i)) out))"
  from Cons.prems(2) rs(2) have cl: "json_ok (VDict out)" "fst ` set out \<subseteq> {''result'', ''mutated''}" "quiet printed"
    "no_marker ?t" "c_clean R (Suc i) outs'" by (simp_all del: json_ok.simps)
  from c_block [OF assms cl(1,2,4)] obtain d where
    d: "document ?t d" "\<not> dhas ''error'' d" "result_value d = result_value out" by blast
  from Cons.IH [OF rs(1) cl(5)] obtain bs ds where
    IH: "c_cases n R P (Suc i) (map positional_dict inps @ rest) st1 =
        map_option (\<lambda>(cs, g). (bs @ cs, g)) (c_cases n R P (Suc i + length inps) rest st')"
      "answer_blocks bs ds" "length ds = length inps" "map result_value ds = map (\<lambda>(out, printed). result_value out) outs'" by blast
  have "c_cases n R P i (map positional_dict (inp # inps) @ rest) st =
      map_option (\<lambda>(cs, g). (((printed, ?t) # bs) @ cs, g)) (c_cases n R P (i + length (inp # inps)) rest st')"
    using ex IH(1) by (simp add: option.map_comp comp_def case_prod_unfold)
  moreover have "answer_blocks ((printed, ?t) # bs) (d # ds)" using IH(2) cl(3) d(1,2) by (simp add: answer_blocks_def stream_ok_def)
  ultimately show ?case using IH(3,4) d(3) rs(2) by (intro exI [of _ "(printed, ?t) # bs"] exI [of _ "d # ds"]) auto
qed

lemma c_stream_batch:
  assumes "nl_reads R (VDict [(''test_cases'', VList (map positional_dict inps))])"
  shows "nl_parse R (c_batch_payload inps) = Some (VDict [(''test_cases'', VList (map positional_dict inps))])"
    and "c_stream n R P (VDict [(''test_cases'', VList (map positional_dict inps))]) st = c_cases n R P 0 (map positional_dict inps) st"
  using assms by (simp_all add: nl_reads_def c_batch_payload_def c_stream_def dget_def)

section \<open>Properties\<close>

text \<open>A batch of C test cases gives the judge every answer: if \<open>nlohmann::json\<close> reads the payload and writes
  documents as JSON, and the submission answers each of the test cases, run one after the other in one process,
  then, whatever it printed, as long as markers are left alone, \<open>run_batch_wrapper\<close> returns all the answers in
  order.\<close>

lemma c_batch_reaches_judge:
  assumes "nl_reads R (VDict [(''test_cases'', VList (map positional_dict inps))])" and "nl_writes R"
    and "c_runs n R P inps st = Some (outs, st')" and "c_clean R 0 outs"
    and "finishes E cmd (c_batch_payload inps) limit w out err rc w'"
    and "c_main (n, R, P, st) (c_batch_payload inps) = Some (utf8 E out, rc)"
  shows "run_batch_wrapper E cmd (c_batch_payload inps) limit (length inps) w =
    (Inr (map (\<lambda>(out, printed). result_value out) outs), w')"
proof -
  from c_cases_runs [OF assms(2-4), of "[]"] obtain bs ds where
    bs: "c_cases n R P 0 (map positional_dict inps) st = Some (bs, CDone)" "answer_blocks bs ds"
      "length ds = length inps" "map result_value ds = map (\<lambda>(out, printed). result_value out) outs" by auto
  have "c_run_all (n, R, P, st) (c_batch_payload inps) = Some \<lparr>br_blocks = bs, br_failure = None\<rparr>"
    using bs(1) c_stream_batch [OF assms(1)] by (simp add: c_run_all_def)
  from c_batch.batch_judged [OF this _ _ assms(5,6), of ds] show ?thesis using bs(2-4) by simp
qed

text \<open>\<open>int f(int n)\<close> that counts its calls in a static variable and returns the count.\<close>

definition c_counter :: c_program where
  "c_counter = \<lparr>c_skip_pos = False, c_bindings = [BInput (KScalar ''int'') ''n'' 0], c_result_of = RScalar ''int'',
     c_function = (\<lambda>args m. case cm_ints m of
         [w] # bs \<Rightarrow> Some (Inr (CVal (int_value (sint w))), m\<lparr>cm_ints := [w + 1] # bs\<rparr>, ''debug'')
       | _ \<Rightarrow> None)\<rparr>"

definition counted :: "int32 \<Rightarrow> c_memory" where
  "counted w = no_memory\<lparr>cm_ints := [[w]]\<rparr>"

definition count_input :: pydict where
  "count_input = [(''n'', VInt 5)]"

definition c_missing :: string where
  "c_missing = ''missing argument: n''"

definition c_answer :: "int \<Rightarrow> string" where
  "c_answer n = dumps (VDict [(''result'', VInt n), (''index'', VInt n)])"

definition c_counter_run :: "string \<Rightarrow> int \<Rightarrow> unit env" where
  "c_counter_run out rc = offline\<lparr>stream_proc := (\<lambda>_ _ _. io_return \<lparr>out_chunks = [out], err_chunks = [], exit_code = Some rc\<rparr>)\<rparr>"

lemma c_counter_runs:
  "c_runs 0 test_nlohmann c_counter [count_input, count_input] (counted 0) =
     Some ([([(''result'', VInt 0)], ''debug''), ([(''result'', VInt 1)], ''debug'')], counted 2)"
  by code_simp

lemma c_counter_clean: "c_clean test_nlohmann 0 [([(''result'', VInt 0)], ''debug''), ([(''result'', VInt 1)], ''debug'')]"
  by code_simp

lemma c_payload_reads:
  "set inps \<subseteq> {count_input, []} \<Longrightarrow> nl_reads test_nlohmann (VDict [(''test_cases'', VList (map positional_dict inps))])"
  by (rule test_nlohmann_json) (auto simp: positional_dict_def count_input_def list_all_iff)

lemma c_batch_reaches_judge_witness:
  "run_batch_wrapper (c_counter_run (stream_text [(''debug'', c_answer 0), (''debug'', c_answer 1)] []) 0) [''docker'']
      (c_batch_payload [count_input, count_input]) 10 (length [count_input, count_input]) () = (Inr [Plain (VInt 0), Plain (VInt 1)], ())"
proof -
  let ?out = "stream_text [(''debug'', c_answer 0), (''debug'', c_answer 1)] []"
  have rd: "nl_reads test_nlohmann (VDict [(''test_cases'', VList (map positional_dict [count_input, count_input]))])"
    by (rule c_payload_reads) simp
  have "int (length ?out) \<le> 1000000" by code_simp
  then have fin: "finishes (c_counter_run ?out 0) [''docker''] (c_batch_payload [count_input, count_input]) 10 () ?out [] 0 ()"
    by (simp add: finishes_def c_counter_run_def offline_def MAX_STDOUT_BYTES_def int_env_def io_return_def)
  have "c_cases 0 test_nlohmann c_counter 0 (map positional_dict [count_input, count_input]) (counted 0) =
      Some ([(''debug'', c_answer 0), (''debug'', c_answer 1)], CDone)" by code_simp
  then have "c_main (0, test_nlohmann, c_counter, counted 0) (c_batch_payload [count_input, count_input]) = Some (utf8 (c_counter_run ?out 0) ?out, 0)"
    using c_stream_batch [OF rd] by (simp add: c_main_def c_print_def c_counter_run_def offline_def)
  from c_batch_reaches_judge [OF rd test_nlohmann_json(1) c_counter_runs c_counter_clean fin this]
  show ?thesis by (simp add: result_value_def dget_def)
qed

text \<open>C20. A failing C test case is reported with its index: if the first test cases of a batch answer and the next
  one throws, whatever comes after it, the judge gets a runtime error with the text of the exception and
  the index of that test case.\<close>

theorem c_batch_failure_index:
  assumes "nl_reads R (VDict [(''test_cases'', VList (map positional_dict (inps @ inp # later)))])" and "nl_writes R"
    and "c_runs n R P inps st = Some (outs, st')" and "c_clean R 0 outs"
    and "judgeRunOne n R P (positional_dict inp) st' = Some (Inr (Inl e), st'', printed)" and "quiet printed"
    and "e \<noteq> []" and "no_marker (c_error R e (length inps))"
    and "finishes E cmd (c_batch_payload (inps @ inp # later)) limit w out err rc w'"
    and "c_main (n, R, P, st) (c_batch_payload (inps @ inp # later)) = Some (utf8 E out, rc)"
  shows "run_batch_wrapper E cmd (c_batch_payload (inps @ inp # later)) limit count w =
    (Inl (RuntimeExecutionError (truncate_message e) (VInt (int (length inps)))), w')"
proof -
  let ?err = "[(''error'', VStr e), (''failed_test_case_index'', VInt (int (length inps)))]" and ?t = "c_error R e (length inps)"
  from c_cases_runs [OF assms(2-4), of "map positional_dict (inp # later)"] obtain bs ds where
    bs: "c_cases n R P 0 (map positional_dict (inps @ inp # later)) st = Some (bs, CException e printed (length inps))"
      "answer_blocks bs ds" "length ds = length inps"
    using assms(5) by auto
  have run: "c_run_all (n, R, P, st) (c_batch_payload (inps @ inp # later)) = Some \<lparr>br_blocks = bs, br_failure = Some (printed, ?t)\<rparr>"
    using bs(1) c_stream_batch [OF assms(1)] by (simp add: c_run_all_def del: map_append)
  have "object_text ?t ?err" using assms(2) by (simp add: nl_writes_def c_error_def)
  from object_document [OF this assms(8)] obtain d where d: "document ?t d" "dget d = dget ?err" by blast
  have "block_index d (length ds) = VInt (int (length inps))" "dget d ''error'' = Some (VStr e)"
    using d(2) by (simp_all add: block_index_def dget_def)
  then show ?thesis
    using c_batch.batch_failure_judged [OF run _ _ assms(6) d(1) _ assms(7,9,10), of ds count] bs(2) by simp
qed

theorem c_batch_failure_index_witness:
  "run_batch_wrapper (c_counter_run (stream_text [(''debug'', c_answer 0), (''debug'', c_answer 1)]
        ([] @ emit_block (c_error test_nlohmann c_missing 2))) 1) [''docker''] (c_batch_payload ([count_input, count_input] @ [] # [count_input])) 10 4 () =
    (Inl (RuntimeExecutionError (truncate_message c_missing) (VInt (int (length [count_input, count_input])))), ())"
proof (rule c_batch_failure_index [OF _ test_nlohmann_json(1) c_counter_runs c_counter_clean])
  let ?cases = "[count_input, count_input] @ [] # [count_input]"
  let ?out = "stream_text [(''debug'', c_answer 0), (''debug'', c_answer 1)] ([] @ emit_block (c_error test_nlohmann c_missing 2))"
  show rd: "nl_reads test_nlohmann (VDict [(''test_cases'', VList (map positional_dict ?cases))])" by (rule c_payload_reads) simp
  show "judgeRunOne 0 test_nlohmann c_counter (positional_dict []) (counted 2) = Some (Inr (Inl c_missing), counted 2, [])" by code_simp
  show "no_marker (c_error test_nlohmann c_missing (length [count_input, count_input]))" "quiet []" "c_missing \<noteq> []" by code_simp+
  have "int (length ?out) \<le> 1000000" by code_simp
  then show "finishes (c_counter_run ?out 1) [''docker''] (c_batch_payload ?cases) 10 () ?out [] 1 ()"
    by (simp add: finishes_def c_counter_run_def offline_def MAX_STDOUT_BYTES_def int_env_def io_return_def)
  have "c_cases 0 test_nlohmann c_counter 0 (map positional_dict ?cases) (counted 0) =
      Some ([(''debug'', c_answer 0), (''debug'', c_answer 1)], CException c_missing [] 2)" by code_simp
  then show "c_main (0, test_nlohmann, c_counter, counted 0) (c_batch_payload ?cases) = Some (utf8 (c_counter_run ?out 1) ?out, 1)"
    using c_stream_batch [OF rd] by (simp add: c_main_def c_print_def c_counter_run_def offline_def del: map_append)
qed

end
