(* ===== verification/Metrics.thy ===== *)
theory Metrics
  imports Api
begin

text \<open>
  \<open>observability/metrics.py\<close>: the metrics that the service registers, and recording values in them. A metric is
  an operation on samples that are kept beside the world; theorems about handlers leave metrics out, which
  \<open>observes\<close> justifies: a handler with metrics does what it does without them.
\<close>

section \<open>The metrics\<close>

datatype metric_kind = MCounter | MGauge | MHistogram "rat list"

record metric_decl =
  md_kind :: metric_kind
  md_name :: string
  md_labels :: "string list"

definition metric :: "metric_kind \<Rightarrow> string \<Rightarrow> string list \<Rightarrow> metric_decl" where
  "metric kind name labelnames = \<lparr>md_kind = kind, md_name = name, md_labels = labelnames\<rparr>"

definition LATENCY_BUCKETS :: "rat list" where
  "LATENCY_BUCKETS = [5/1000, 1/100, 25/1000, 5/100, 1/10, 25/100, 5/10, 1, 25/10, 5, 10, 30, 60, 120, 300, 900]"

definition COUNT_BUCKETS :: "rat list" where
  "COUNT_BUCKETS = [1, 2, 5, 10, 20, 50, 100]"

text \<open>The metrics in the order of the source, without their help texts.\<close>

definition METRICS :: "(string \<times> metric_decl) list" where
  "METRICS =
     [(''api_requests_total'', metric MCounter ''execution_engine_api_requests_total'' [''route'', ''method'', ''status_code'']),
      (''api_request_duration_seconds'', metric (MHistogram LATENCY_BUCKETS) ''execution_engine_api_request_duration_seconds'' [''route'', ''method'']),
      (''api_enqueue_duration_seconds'', metric (MHistogram LATENCY_BUCKETS) ''execution_engine_api_enqueue_duration_seconds'' [''language'', ''mode'']),
      (''api_result_wait_duration_seconds'', metric (MHistogram LATENCY_BUCKETS) ''execution_engine_api_result_wait_duration_seconds'' [''language'', ''mode'', ''outcome'']),
      (''api_redis_fallbacks_total'', metric MCounter ''execution_engine_api_redis_fallbacks_total'' [''language'', ''mode'']),
      (''api_queue_rejections_total'', metric MCounter ''execution_engine_api_queue_rejections_total'' [''language'', ''mode'']),
      (''api_direct_executions_total'', metric MCounter ''execution_engine_api_direct_executions_total'' [''language'', ''mode'']),
      (''api_direct_inflight'', metric MGauge ''execution_engine_api_direct_inflight'' [''mode'']),
      (''queue_depth'', metric MGauge ''execution_engine_queue_depth'' [''language'']),
      (''worker_active_slots'', metric MGauge ''execution_engine_worker_active_slots'' [''language'']),
      (''worker_jobs_total'', metric MCounter ''execution_engine_worker_jobs_total'' [''language'', ''mode'', ''verdict'']),
      (''worker_job_duration_seconds'', metric (MHistogram LATENCY_BUCKETS) ''execution_engine_worker_job_duration_seconds'' [''language'', ''mode'', ''verdict'']),
      (''worker_queue_wait_seconds'', metric (MHistogram LATENCY_BUCKETS) ''execution_engine_worker_queue_wait_seconds'' [''language'', ''mode'']),
      (''worker_job_expired_total'', metric MCounter ''execution_engine_worker_job_expired_total'' [''language'', ''mode'']),
      (''worker_errors_total'', metric MCounter ''execution_engine_worker_errors_total'' [''operation'', ''error_type'']),
      (''pipeline_compile_duration_seconds'', metric (MHistogram LATENCY_BUCKETS) ''execution_engine_pipeline_compile_duration_seconds'' [''language'', ''outcome'']),
      (''pipeline_run_duration_seconds'', metric (MHistogram LATENCY_BUCKETS) ''execution_engine_pipeline_run_duration_seconds'' [''language'', ''mode'', ''outcome'']),
      (''pipeline_duration_seconds'', metric (MHistogram LATENCY_BUCKETS) ''execution_engine_pipeline_duration_seconds'' [''language'', ''mode'', ''verdict'']),
      (''pipeline_verdicts_total'', metric MCounter ''execution_engine_pipeline_verdicts_total'' [''language'', ''mode'', ''verdict'']),
      (''pipeline_test_cases'', metric (MHistogram COUNT_BUCKETS) ''execution_engine_pipeline_test_cases'' [''language'']),
      (''raw_executions_total'', metric MCounter ''execution_engine_raw_executions_total'' [''language'', ''exit_code'']),
      (''docker_pool_events_total'', metric MCounter ''execution_engine_docker_pool_events_total'' [''image'', ''event'']),
      (''docker_pool_size'', metric MGauge ''execution_engine_docker_pool_size'' [''image'']),
      (''docker_cold_start_duration_seconds'', metric (MHistogram LATENCY_BUCKETS) ''execution_engine_docker_cold_start_duration_seconds'' [''image'', ''operation'', ''outcome'']),
      (''docker_sanitize_duration_seconds'', metric (MHistogram LATENCY_BUCKETS) ''execution_engine_docker_sanitize_duration_seconds'' [''image'', ''outcome'']),
      (''docker_reaper_evictions_total'', metric MCounter ''execution_engine_docker_reaper_evictions_total'' [''image'']),
      (''semaphore_wait_duration_seconds'', metric (MHistogram LATENCY_BUCKETS) ''execution_engine_semaphore_wait_duration_seconds'' [''semaphore'', ''outcome''])]"

text \<open>What \<open>prometheus_client\<close> demands of them when the module is loaded: distinct names of letters, digits and underscores, and
  buckets that increase.\<close>

definition name_char :: "char \<Rightarrow> bool" where
  "name_char c \<longleftrightarrow> CHR ''a'' \<le> c \<and> c \<le> CHR ''z'' \<or> CHR ''0'' \<le> c \<and> c \<le> CHR ''9'' \<or> c = CHR ''_''"

lemma metrics_register:
  "distinct (map (\<lambda>m. md_name (snd m)) METRICS)" "list_all (\<lambda>m. list_all name_char (md_name (snd m))) METRICS"
  "distinct (map fst METRICS)" "list_all (\<lambda>m. distinct (md_labels (snd m))) METRICS"
  "sorted_wrt (<) LATENCY_BUCKETS" "sorted_wrt (<) COUNT_BUCKETS"
  by code_simp+

section \<open>Recording values\<close>

text \<open>A sample for a metric and label values: the value of a counter or gauge, the number of observations of a histogram.\<close>

type_synonym samples = "string \<times> string list \<Rightarrow> int"

text \<open>\<open>metric.labels(...)\<close> raises for another number of values than the metric has labels.\<close>

definition metric_labels :: "string \<Rightarrow> string list \<Rightarrow> exn + string \<times> string list" where
  "metric_labels name values = (case map_of METRICS name of
      None \<Rightarrow> Inl (OtherError ''AttributeError'')
    | Some m \<Rightarrow> if length values = length (md_labels m) then Inr (name, values) else Inl (ValueError ''Incorrect label count''))"

definition m_put :: "(int \<Rightarrow> int) \<Rightarrow> string \<Rightarrow> string list \<Rightarrow> ('w \<times> samples, unit) io" where
  "m_put f name values = io_bind (io_of_sum (metric_labels name values)) (\<lambda>key (w, s). (Inr (), (w, s(key := f (s key)))))"

definition m_inc :: "string \<Rightarrow> string list \<Rightarrow> ('w \<times> samples, unit) io" where
  "m_inc = m_put (\<lambda>n. n + 1)"

definition m_dec :: "string \<Rightarrow> string list \<Rightarrow> ('w \<times> samples, unit) io" where
  "m_dec = m_put (\<lambda>n. n - 1)"

definition m_observe :: "string \<Rightarrow> string list \<Rightarrow> ('w \<times> samples, unit) io" where
  "m_observe = m_put (\<lambda>n. n + 1)"

text \<open>\<open>payload.get("is_raw")\<close> and \<open>payload.get("language") or "unknown"\<close>; a label is the \<open>str\<close> of its value.\<close>

definition mode_from_payload :: "pydict \<Rightarrow> string" where
  "mode_from_payload payload = (if is_raw payload then ''raw'' else ''judge'')"

definition language_from_payload :: "pydict \<Rightarrow> pyval" where
  "language_from_payload payload = (case dget payload ''language'' of
      Some v \<Rightarrow> if truthy v then v else VStr ''unknown''
    | None \<Rightarrow> VStr ''unknown'')"

definition language_label :: "pydict \<Rightarrow> string" where
  "language_label payload = py_str (language_from_payload payload)"

definition inflight :: "string \<Rightarrow> string list \<Rightarrow> ('w \<times> samples, 'a) io \<Rightarrow> ('w \<times> samples, 'a) io" where
  "inflight gauge values body = io_then (m_inc gauge values) (io_finally body (m_dec gauge values))"

text \<open>\<open>try: m finally: f\<close>, where the block looks at how it ended.\<close>

definition io_ending :: "('w, 'a) io \<Rightarrow> (exn + 'a \<Rightarrow> ('w, unit) io) \<Rightarrow> ('w, 'a) io" where
  "io_ending m f = (\<lambda>w. case m w of (r, w') \<Rightarrow>
     if r = Inl Diverges then (r, w')
     else (case f r w' of (Inl e, w'') \<Rightarrow> (Inl e, w'') | (Inr _, w'') \<Rightarrow> (r, w'')))"

section \<open>Handlers with and without metrics\<close>

text \<open>Beside the samples, the handler on the left does what the one on the right does; \<open>f\<close> is what becomes of its result.\<close>

definition observes :: "('a \<Rightarrow> 'b) \<Rightarrow> ('w \<times> samples, 'a) io \<Rightarrow> ('w, 'b) io \<Rightarrow> bool" where
  "observes f m' m \<longleftrightarrow> (\<forall>w s. \<exists>r w1 s1. m' (w, s) = (r, (w1, s1)) \<and> m w = (map_sum id f r, w1))"

text \<open>Recording alone: no effect on the world, and no exception.\<close>

definition silent :: "('w \<times> samples, unit) io \<Rightarrow> bool" where
  "silent c \<longleftrightarrow> (\<forall>w s. \<exists>s'. c (w, s) = (Inr (), (w, s')))"

definition labels_fit :: "string \<Rightarrow> string list \<Rightarrow> bool" where
  "labels_fit name values \<longleftrightarrow> metric_labels name values = Inr (name, values)"

named_theorems observing

lemma m_put_apply: "labels_fit name values \<Longrightarrow> m_put f name values (w, s) = (Inr (), (w, s((name, values) := f (s (name, values)))))"
  by (simp add: m_put_def labels_fit_def)

lemma silent_m [observing]:
  "labels_fit name values \<Longrightarrow> silent (m_inc name values)" "labels_fit name values \<Longrightarrow> silent (m_dec name values)"
  "labels_fit name values \<Longrightarrow> silent (m_observe name values)"
  by (simp_all add: silent_def m_inc_def m_dec_def m_observe_def m_put_apply)

lemma silentE:
  assumes "silent c"
  obtains s' where "c (w, s) = (Inr (), (w, s'))"
  using assms unfolding silent_def by blast

lemma observesE:
  assumes "observes f m' m"
  obtains r w1 s1 where "m' (w, s) = (r, (w1, s1))" and "m w = (map_sum id f r, w1)"
  using assms unfolding observes_def by blast

lemma silent_then [observing]:
  assumes "silent c" and "silent d"
  shows "silent (io_then c d)"
  unfolding silent_def
proof (intro allI)
  fix w s
  obtain s1 where "c (w, s) = (Inr (), (w, s1))" using assms(1) by (rule silentE)
  moreover obtain s2 where "d (w, s1) = (Inr (), (w, s2))" using assms(2) by (rule silentE)
  ultimately show "\<exists>s'. io_then c d (w, s) = (Inr (), (w, s'))" by simp
qed

lemma silent_return [observing]: "silent (io_return ())"
  by (simp add: silent_def)

lemma observes_on_fst [observing]: "observes id (on_fst m) m"
  by (simp add: observes_def sum.map_id split: prod.split)

lemma observes_return [observing]: "f a = b \<Longrightarrow> observes f (io_return a) (io_return b)"
  by (simp add: observes_def)

lemma observes_raise [observing]: "observes f (io_raise e) (io_raise e)"
  by (simp add: observes_def)

lemma observes_bind:
  assumes "observes f m' m" and "\<And>a. observes g (k' a) (k (f a))"
  shows "observes g (io_bind m' k') (io_bind m k)"
  unfolding observes_def
proof (intro allI)
  fix w s
  obtain r w1 s1 where m: "m' (w, s) = (r, (w1, s1))" "m w = (map_sum id f r, w1)" using assms(1) by (rule observesE)
  show "\<exists>r w2 s2. io_bind m' k' (w, s) = (r, (w2, s2)) \<and> io_bind m k w = (map_sum id g r, w2)"
  proof (cases r)
    case (Inr a)
    obtain r2 w2 s2 where "k' a (w1, s1) = (r2, (w2, s2))" "k (f a) w1 = (map_sum id g r2, w2)" using assms(2) by (rule observesE)
    then show ?thesis using m Inr by simp
  qed (use m in simp)
qed

lemma observes_then: "observes f m' m \<Longrightarrow> observes g k' k \<Longrightarrow> observes g (io_then m' k') (io_then m k)"
  unfolding io_then_def by (rule observes_bind)

lemma observes_silent:
  assumes "silent c" and "observes f m' m"
  shows "observes f (io_then c m') m"
  unfolding observes_def
proof (intro allI)
  fix w s
  obtain s1 where c: "c (w, s) = (Inr (), (w, s1))" using assms(1) by (rule silentE)
  obtain r w2 s2 where "m' (w, s1) = (r, (w2, s2))" "m w = (map_sum id f r, w2)" using assms(2) by (rule observesE)
  then show "\<exists>r w1 s1. io_then c m' (w, s) = (r, (w1, s1)) \<and> m w = (map_sum id f r, w1)" using c by simp
qed

text \<open>The rules for handlers as they are written: an operation of the world, or one of a metric, and what follows.\<close>

lemma observes_world [observing]:
  "(\<And>a. observes g (k' a) (k a)) \<Longrightarrow> observes g (io_bind (on_fst m) k') (io_bind m k)"
  "observes g l' l \<Longrightarrow> observes g (io_then (on_fst m) l') (io_then m l)"
  by (rule observes_bind [OF observes_on_fst], simp) (rule observes_then [OF observes_on_fst])

lemma observes_metric [observing]:
  assumes "labels_fit name values" and "observes f m' m"
  shows "observes f (io_then (m_inc name values) m') m" "observes f (io_then (m_dec name values) m') m"
    "observes f (io_then (m_observe name values) m') m"
  using assms by (auto intro: observes_silent silent_m)

lemma observes_last [observing]:
  fixes m :: "('w, unit) io"
  assumes "observes (\<lambda>_. ()) k (io_return ())"
  shows "observes (\<lambda>_. ()) (io_then (on_fst m) k) m"
proof -
  have "io_then m (io_return ()) = m" by (auto simp: io_then_def io_bind_def fun_eq_iff split: prod.split sum.split)
  then show ?thesis using observes_then [OF observes_on_fst assms, of m] by simp
qed

lemma observes_if [observing]:
  "(b \<Longrightarrow> observes f x' x) \<Longrightarrow> (\<not> b \<Longrightarrow> observes f y' y) \<Longrightarrow> observes f (if b then x' else y') (if b then x else y)"
  by simp

lemma observes_catch [observing]:
  assumes "observes f m' m" and "\<And>e. observes f (h' e) (h e)"
  shows "observes f (io_catch m' h') (io_catch m h)"
  unfolding observes_def
proof (intro allI)
  fix w s
  obtain r w1 s1 where m: "m' (w, s) = (r, (w1, s1))" "m w = (map_sum id f r, w1)" using assms(1) by (rule observesE)
  show "\<exists>r w2 s2. io_catch m' h' (w, s) = (r, (w2, s2)) \<and> io_catch m h w = (map_sum id f r, w2)"
  proof (cases r)
    case (Inl e)
    obtain r2 w2 s2 where "h' e (w1, s1) = (r2, (w2, s2))" "h e w1 = (map_sum id f r2, w2)" using assms(2) by (rule observesE)
    then show ?thesis using m Inl by (simp add: io_catch_def)
  qed (use m in simp)
qed

lemma observes_ending [observing]:
  assumes "observes f m' m" and "\<And>r. silent (c r)"
  shows "observes f (io_ending m' c) m"
  unfolding observes_def
proof (intro allI)
  fix w s
  obtain r w1 s1 where m: "m' (w, s) = (r, (w1, s1))" "m w = (map_sum id f r, w1)" using assms(1) by (rule observesE)
  obtain s2 where "c r (w1, s1) = (Inr (), (w1, s2))" using assms(2) by (rule silentE)
  then show "\<exists>r w1 s1. io_ending m' c (w, s) = (r, (w1, s1)) \<and> m w = (map_sum id f r, w1)"
    using m by (simp add: io_ending_def)
qed

lemma observes_inflight [observing]:
  assumes "observes f m' m" and "labels_fit gauge values"
  shows "observes f (inflight gauge values m') m"
proof -
  have "io_finally m' (m_dec gauge values) = io_ending m' (\<lambda>_. m_dec gauge values)"
    by (simp add: io_finally_def io_ending_def fun_eq_iff)
  then show ?thesis unfolding inflight_def using assms by (auto intro!: observes_silent silent_m observes_ending)
qed

lemma observes_finally [observing]:
  assumes "observes f m' m" and "observes id c' c"
  shows "observes f (io_finally m' c') (io_finally m c)"
  unfolding observes_def
proof (intro allI)
  fix w s
  obtain r w1 s1 where m: "m' (w, s) = (r, (w1, s1))" "m w = (map_sum id f r, w1)" using assms(1) by (rule observesE)
  obtain r2 w2 s2 where "c' (w1, s1) = (r2, (w2, s2))" "c w1 = (map_sum id id r2, w2)" using assms(2) by (rule observesE)
  then show "\<exists>r w1 s1. io_finally m' c' (w, s) = (r, (w1, s1)) \<and> io_finally m c w = (map_sum id f r, w1)"
    using m by (cases r; cases r2) (auto simp: io_finally_def)
qed

end
