(* ===== verification/Observability.thy ===== *)
theory Observability
  imports Metrics JsonLine
begin

text \<open>
  Logging (\<open>observability/logging.py\<close>), tracing (\<open>observability/tracing.py\<close>), and the handlers of \<open>worker.py\<close> and
  \<open>api/main.py\<close> with the metrics they record. Durations are left out: an observation of a histogram counts.
\<close>

section \<open>Logging\<close>

text \<open>A value of a log record, or an object that \<open>json.dumps\<close> turns into its \<open>str\<close>.\<close>

datatype log_value = LogValue pyval | LogObject string

text \<open>\<open>lr_time\<close> is the formatted time, \<open>lr_exc\<close> the formatted exception.\<close>

record log_record =
  lr_time :: string
  lr_level :: string
  lr_name :: string
  lr_message :: string
  lr_process :: pyval
  lr_extra :: "string \<Rightarrow> log_value option"
  lr_exc :: "string option"

definition LOG_KEYS :: "string list" where
  "LOG_KEYS = [''job_id'', ''language'', ''mode'', ''verdict'', ''route'', ''status_code'', ''duration_seconds'',
     ''queue_wait_seconds'', ''error_type'', ''image'', ''operation'']"

fun log_json :: "log_value \<Rightarrow> pyval" where
  "log_json (LogValue v) = v"
| "log_json (LogObject s) = VStr s"

definition log_payload :: "'w env \<Rightarrow> log_record \<Rightarrow> pydict" where
  "log_payload E r =
     [(''ts'', VStr (lr_time r)), (''level'', VStr (lr_level r)), (''logger'', VStr (lr_name r)),
      (''service'', VStr (str_env E ''SERVICE_NAME'' ''execution-engine'')), (''message'', VStr (lr_message r)), (''pid'', lr_process r)] @
     List.map_filter (\<lambda>k. map_option (\<lambda>v. (k, log_json v)) (lr_extra r k)) LOG_KEYS @
     (case lr_exc r of Some t \<Rightarrow> [(''exception'', VStr t)] | None \<Rightarrow> [])"

text \<open>\<open>json.dumps(payload, separators=(",", ":"), default=str)\<close>\<close>

definition JsonFormatter_format :: "'w env \<Rightarrow> log_record \<Rightarrow> string" where
  "JsonFormatter_format E r = text_of dump_char dump_float [] (VDict (log_payload E r))"

definition to_upper :: "char \<Rightarrow> char" where
  "to_upper c = (if 97 \<le> code c \<and> code c \<le> 122 then char_of (code c - 32) else c)"

record log_config =
  lc_level :: string
  lc_json :: bool

definition configure_logging :: "'w env \<Rightarrow> string \<Rightarrow> log_config" where
  "configure_logging E default_level = \<lparr>lc_level = map to_upper (str_env E ''LOG_LEVEL'' default_level),
     lc_json = (map to_lower (str_env E ''LOG_FORMAT'' ''json'') = ''json'')\<rparr>"

section \<open>Tracing\<close>

text \<open>The endpoint that spans are exported to from now on, and \<open>_CONFIGURED\<close>.\<close>

definition configure_tracing :: "'w env \<Rightarrow> bool \<Rightarrow> string option \<times> bool" where
  "configure_tracing E configured =
     (if configured \<or> map to_lower (str_env E ''OTEL_SDK_DISABLED'' ''false'') = ''true'' then (None, configured)
      else (Some (rstrip_char CHR ''/'' (str_env E ''OTEL_EXPORTER_OTLP_ENDPOINT'' ''http://tempo:4318'') @ ''/v1/traces''), True))"

text \<open>\<open>carrier\<close> is what \<open>propagate.inject\<close> leaves in it.\<close>

definition inject_context :: "(string \<times> string) list \<Rightarrow> pydict \<Rightarrow> pydict" where
  "inject_context carrier payload =
     (if carrier = [] then payload
      else AList.update ''_trace_context'' (VDict (map (\<lambda>(k, v). (k, VStr v)) carrier)) payload)"

text \<open>What \<open>propagate.extract\<close> is given.\<close>

definition extract_context :: "pydict \<Rightarrow> pyval" where
  "extract_context payload = (case dget payload ''_trace_context'' of
      Some v \<Rightarrow> if truthy v then v else VDict []
    | None \<Rightarrow> VDict [])"

section \<open>The worker's handler\<close>

definition job_verdict :: "pydict \<Rightarrow> string" where
  "job_verdict result = (case dget result ''verdict'' of Some v \<Rightarrow> py_str v | None \<Rightarrow> ''completed'')"

definition ended_verdict :: "exn + string \<Rightarrow> string" where
  "ended_verdict r = (case r of Inr v \<Rightarrow> v | Inl _ \<Rightarrow> ''error'')"

text \<open>The \<open>try\<close> block with its handlers; the result is the value of \<open>verdict\<close>.\<close>

definition observed_attempt :: "'w env \<Rightarrow> string \<Rightarrow> pydict \<Rightarrow> ('w \<times> samples, string) io" where
  "observed_attempt E job_id payload =
     io_catch
       (io_then (m_inc ''worker_active_slots'' [language_label payload])
         (io_bind (on_fst (execute_payload E payload)) (\<lambda>result.
          io_then (on_fst (mark_done E job_id result)) (io_return (job_verdict result)))))
       (\<lambda>e. if is_value_error e
            then io_then (on_fst (mark_done E job_id (error_result (exn_str e))))
                (io_then (m_inc ''worker_errors_total'' [''process_job'', value_error_name e]) (io_return ''error''))
            else io_then (m_inc ''worker_errors_total'' [''process_job'', ''unexpected_exception''])
                (io_then (on_fst (mark_done E job_id (error_result ''Internal execution error''))) (io_return ''error'')))"

text \<open>The \<open>finally\<close> block.\<close>

definition observed_end :: "pydict \<Rightarrow> exn + string \<Rightarrow> ('w \<times> samples, unit) io" where
  "observed_end payload r =
     io_then (m_dec ''worker_active_slots'' [language_label payload])
    (io_then (m_inc ''worker_jobs_total'' [language_label payload, mode_from_payload payload, ended_verdict r])
       (m_observe ''worker_job_duration_seconds'' [language_label payload, mode_from_payload payload, ended_verdict r]))"

definition observed_run_job :: "'w env \<Rightarrow> string \<Rightarrow> pydict \<Rightarrow> ('w \<times> samples, unit) io" where
  "observed_run_job E job_id payload =
     io_bind (io_ending (observed_attempt E job_id payload) (observed_end payload)) (\<lambda>_. io_return ())"

definition observed_process :: "'w env \<Rightarrow> string \<Rightarrow> ('w \<times> samples, unit) io" where
  "observed_process E job_data = (case loads job_data of
      None \<Rightarrow> m_inc ''worker_errors_total'' [''decode_job'', ''malformed_json'']
    | Some v \<Rightarrow> (case as_dict v of
        None \<Rightarrow> io_raise (OtherError ''AttributeError'')
      | Some job \<Rightarrow>
          io_bind (on_fst (io_of_sum (job_payload job))) (\<lambda>payload.
          io_bind (on_fst (time_now E)) (\<lambda>now.
          io_bind (on_fst (io_of_sum (job_age job now))) (\<lambda>age.
            if older_than age JOB_MAX_AGE
            then io_then (m_inc ''worker_job_expired_total'' [language_label payload, mode_from_payload payload])
                (on_fst (mark_done E (job_name job) (error_result (''Job expired after '' @ format_0f age @ ''s in queue''))))
            else io_then (on_fst (mark_running E (job_name job)))
                (io_then (m_observe ''worker_queue_wait_seconds'' [language_label payload, mode_from_payload payload])
                  (observed_run_job E (job_name job) payload)))))))"

section \<open>The API's handlers\<close>

definition observed_wait :: "'w env \<Rightarrow> (string \<times> string) list \<Rightarrow> pydict \<Rightarrow> ('w \<times> samples, pyval option) io" where
  "observed_wait E carrier payload =
     (let ls = [language_label payload, mode_from_payload payload] in
      io_try
        (io_bind (on_fst (enqueue E (inject_context carrier payload))) (\<lambda>job_id.
         io_then (m_observe ''api_enqueue_duration_seconds'' ls) (io_return job_id)))
        (\<lambda>e. if is_overflow_error e
             then io_then (m_inc ''api_queue_rejections_total'' ls) (io_raise (HTTPException 503 ''Queue at capacity - try again shortly''))
             else if is_redis_error e then io_then (m_inc ''api_redis_fallbacks_total'' ls) (io_return None)
             else io_raise e)
        (\<lambda>job_id.
          io_bind
            (io_catch (on_fst (wait_for_job_result E job_id (QUEUE_RESULT_TIMEOUT_SECONDS E)))
              (\<lambda>e. if is_redis_error e
                   then io_then (m_observe ''api_result_wait_duration_seconds'' (ls @ [''redis_error'']))
                     (io_raise (HTTPException 503 ''Result store unavailable''))
                   else io_raise e))
            (\<lambda>result. case result of
               None \<Rightarrow> io_then (m_observe ''api_result_wait_duration_seconds'' (ls @ [''timeout''])) (io_raise (HTTPException 504 ''Execution timed out''))
             | Some content \<Rightarrow> io_then (m_observe ''api_result_wait_duration_seconds'' (ls @ [''success''])) (io_return (Some content)))))"

definition observed_direct :: "'w env \<Rightarrow> pydict \<Rightarrow> ('w \<times> samples, pyval) io" where
  "observed_direct E payload =
     (let ls = [language_label payload, mode_from_payload payload] in
      io_bind (on_fst (sem_acquire E 30)) (\<lambda>got. case got of
        TimedOut \<Rightarrow> io_raise (HTTPException 503 ''Server busy - Redis is unavailable and the fallback queue is full'')
      | Finished _ \<Rightarrow>
          io_finally
            (io_catch
              (io_then (m_inc ''api_direct_executions_total'' ls)
                (io_bind (inflight ''api_direct_inflight'' [mode_from_payload payload] (on_fst (execute_payload E payload)))
                  (\<lambda>result. io_return (VDict result))))
              (\<lambda>e. if is_value_error e then io_raise (HTTPException 400 (exn_str e)) else io_raise e))
            (on_fst (sem_release E))))"

text \<open>The middleware around a request: \<open>call_next\<close> gives the status code and the response.\<close>

definition observe_http_requests ::
  "string \<Rightarrow> string \<Rightarrow> ('w \<times> samples, int \<times> 'r) io \<Rightarrow> ('w \<times> samples, int \<times> 'r) io" where
  "observe_http_requests route method call_next = io_ending call_next (\<lambda>r.
     io_then (m_inc ''api_requests_total'' [route, method, case r of Inr (status, _) \<Rightarrow> int_str status | Inl _ \<Rightarrow> ''500''])
       (m_observe ''api_request_duration_seconds'' [route, method]))"

section \<open>Labels\<close>

lemma labels_fit_used [observing]:
  "labels_fit ''worker_active_slots'' [a]" "labels_fit ''worker_errors_total'' [a, b]" "labels_fit ''worker_jobs_total'' [a, b, c]"
  "labels_fit ''worker_job_duration_seconds'' [a, b, c]" "labels_fit ''worker_job_expired_total'' [a, b]"
  "labels_fit ''worker_queue_wait_seconds'' [a, b]" "labels_fit ''api_enqueue_duration_seconds'' [a, b]"
  "labels_fit ''api_queue_rejections_total'' [a, b]" "labels_fit ''api_redis_fallbacks_total'' [a, b]"
  "labels_fit ''api_result_wait_duration_seconds'' [a, b, c]" "labels_fit ''api_direct_executions_total'' [a, b]"
  "labels_fit ''api_direct_inflight'' [a]" "labels_fit ''api_requests_total'' [a, b, c]" "labels_fit ''api_request_duration_seconds'' [a, b]"
  by (simp_all add: labels_fit_def metric_labels_def METRICS_def metric_def)

lemma observes_try [observing]:
  assumes "observes f m' m" and "\<And>e. observes g (h' e) (h e)" and "\<And>a. observes g (k' a) (k (f a))"
  shows "observes g (io_try m' h' k') (io_try m h k)"
  unfolding observes_def
proof (intro allI)
  fix w s
  obtain r w1 s1 where m: "m' (w, s) = (r, (w1, s1))" "m w = (map_sum id f r, w1)" using assms(1) by (rule observesE)
  show "\<exists>r w2 s2. io_try m' h' k' (w, s) = (r, (w2, s2)) \<and> io_try m h k w = (map_sum id g r, w2)"
  proof (cases r)
    case (Inl e)
    obtain r2 w2 s2 where "h' e (w1, s1) = (r2, (w2, s2))" "h e w1 = (map_sum id g r2, w2)" using assms(2) by (rule observesE)
    then show ?thesis using m Inl by (simp add: io_try_def)
  next
    case (Inr a)
    obtain r2 w2 s2 where "k' a (w1, s1) = (r2, (w2, s2))" "k (f a) w1 = (map_sum id g r2, w2)" using assms(3) by (rule observesE)
    then show ?thesis using m Inr by (simp add: io_try_def)
  qed
qed

lemma observed_run_job_agrees: "observes id (observed_run_job E job_id payload) (run_job E job_id payload)"
proof -
  have attempt: "observes (\<lambda>_. ()) (observed_attempt E job_id payload) (run_job E job_id payload)"
    unfolding observed_attempt_def run_job_def by (intro observing) simp_all
  have "io_bind (run_job E job_id payload) (\<lambda>_. io_return ()) = run_job E job_id payload"
    by (auto simp: io_bind_def fun_eq_iff split: prod.split sum.split)
  moreover have "observes id (io_bind (io_ending (observed_attempt E job_id payload) (observed_end payload)) (\<lambda>_. io_return ()))
      (io_bind (run_job E job_id payload) (\<lambda>_. io_return ()))"
    unfolding observed_end_def by (rule observes_bind [OF observes_ending [OF attempt]]) (intro observing, simp)+
  ultimately show ?thesis by (simp add: observed_run_job_def)
qed

lemma observed_process_agrees: "observes id (observed_process E job_data) (process E job_data)"
proof -
  have none: "observes id (m_inc name vs) (io_return ())" if "labels_fit name vs" for name vs
    using that by (simp add: observes_def m_inc_def m_put_apply)
  show ?thesis
    unfolding observed_process_def process_def
    by (auto split: option.split intro!: observing none observed_run_job_agrees)
qed

lemma observed_wait_agrees: "observes id (observed_wait E carrier payload) (wait_for_queued_result E (inject_context carrier payload))"
proof -
  have "observes id (io_bind (on_fst (enqueue E p)) (\<lambda>job_id. io_then (m_observe ''api_enqueue_duration_seconds'' [a, b]) (io_return job_id))) (enqueue E p)"
    for p a b
  proof -
    have "io_bind (enqueue E p) io_return = enqueue E p" by (auto simp: io_bind_def fun_eq_iff split: prod.split sum.split)
    moreover have "observes id (io_bind (on_fst (enqueue E p)) (\<lambda>job_id. io_then (m_observe ''api_enqueue_duration_seconds'' [a, b]) (io_return job_id)))
        (io_bind (enqueue E p) io_return)" by (intro observing) simp
    ultimately show ?thesis by simp
  qed
  then show ?thesis
    unfolding observed_wait_def wait_for_queued_result_def Let_def
    by (intro observes_try) (auto split: option.split intro!: observing observes_bind [of id])
qed

lemma observed_direct_agrees: "observes id (observed_direct E payload) (execute_direct E payload)"
  unfolding observed_direct_def execute_direct_def Let_def
  by (auto split: timed.split intro!: observing observes_bind [of id])

section \<open>The gauge of active slots\<close>

text \<open>A handler that does not touch a sample.\<close>

definition leaves :: "string \<times> string list \<Rightarrow> ('w \<times> samples, 'a) io \<Rightarrow> bool" where
  "leaves key m \<longleftrightarrow> (\<forall>w s. snd (snd (m (w, s))) key = s key)"

lemma leavesD: "leaves key m \<Longrightarrow> m (w, s) = (r, (w', s')) \<Longrightarrow> s' key = s key"
  unfolding leaves_def by (metis snd_conv)

named_theorems leaving

lemma leaves_world [leaving]: "leaves key (on_fst m)"
  by (simp add: leaves_def split: prod.split)

lemma leaves_return [leaving]: "leaves key (io_return a)" "leaves key (io_raise e)"
  by (simp_all add: leaves_def)

lemma leaves_metric [leaving]:
  assumes "name \<noteq> fst key"
  shows "leaves key (m_inc name vs)" "leaves key (m_dec name vs)" "leaves key (m_observe name vs)"
proof -
  have "leaves key (m_put f name vs)" for f
    using assms by (auto simp: leaves_def m_put_def io_bind_def io_of_sum_def io_raise_def io_return_def metric_labels_def
        split: option.split sum.split)
  then show "leaves key (m_inc name vs)" "leaves key (m_dec name vs)" "leaves key (m_observe name vs)"
    by (simp_all add: m_inc_def m_dec_def m_observe_def)
qed

lemma leaves_bind [leaving]:
  assumes "leaves key m" and "\<And>a. leaves key (k a)"
  shows "leaves key (io_bind m k)"
  unfolding leaves_def
proof (intro allI)
  fix w s
  obtain r w1 s1 where m: "m (w, s) = (r, (w1, s1))" by (metis prod.exhaust)
  then have "s1 key = s key" using assms(1) by (rule leavesD [rotated])
  then show "snd (snd (io_bind m k (w, s))) key = s key"
    using m assms(2) unfolding leaves_def by (cases r) (simp_all add: io_bind_def)
qed

lemma leaves_then [leaving]: "leaves key m \<Longrightarrow> leaves key k \<Longrightarrow> leaves key (io_then m k)"
  unfolding io_then_def by (rule leaves_bind)

lemma leaves_catch [leaving]:
  assumes "leaves key m" and "\<And>e. leaves key (h e)"
  shows "leaves key (io_catch m h)"
  unfolding leaves_def
proof (intro allI)
  fix w s
  obtain r w1 s1 where m: "m (w, s) = (r, (w1, s1))" by (metis prod.exhaust)
  then have "s1 key = s key" using assms(1) by (rule leavesD [rotated])
  then show "snd (snd (io_catch m h (w, s))) key = s key"
    using m assms(2) unfolding leaves_def by (cases r) (simp_all add: io_catch_def)
qed

lemma leaves_if [leaving]: "(b \<Longrightarrow> leaves key x) \<Longrightarrow> (\<not> b \<Longrightarrow> leaves key y) \<Longrightarrow> leaves key (if b then x else y)"
  by simp

lemmas metric_apply = m_inc_def m_dec_def m_observe_def m_put_apply labels_fit_used

abbreviation slots :: "string list \<Rightarrow> string \<times> string list" where
  "slots ls \<equiv> (''worker_active_slots'', ls)"

lemma attempt_slots:
  assumes "observed_attempt E job_id payload (w, s) = (r, (w', s'))"
  shows "s' (slots ls) = s (slots ls) + (if ls = [language_label payload] then 1 else 0)"
proof -
  let ?key = "slots [language_label payload]"
  let ?body = "io_bind (on_fst (execute_payload E payload)) (\<lambda>result.
      io_then (on_fst (mark_done E job_id result)) (io_return (job_verdict result)))"
  let ?handler = "\<lambda>e. if is_value_error e
      then io_then (on_fst (mark_done E job_id (error_result (exn_str e))))
        (io_then (m_inc ''worker_errors_total'' [''process_job'', value_error_name e]) (io_return ''error''))
      else io_then (m_inc ''worker_errors_total'' [''process_job'', ''unexpected_exception''])
        (io_then (on_fst (mark_done E job_id (error_result ''Internal execution error''))) (io_return ''error''))"
  have "io_then (m_inc ''worker_active_slots'' [language_label payload]) ?body (w, s) = ?body (w, s(?key := s ?key + 1))"
    by (simp add: metric_apply)
  then have "observed_attempt E job_id payload (w, s) = io_catch ?body ?handler (w, s(?key := s ?key + 1))"
    unfolding observed_attempt_def io_catch_def by simp
  then have run: "io_catch ?body ?handler (w, s(?key := s ?key + 1)) = (r, (w', s'))" using assms by simp
  have "leaves (slots ls) (io_catch ?body ?handler)" by (intro leaving) simp_all
  from leavesD [OF this run] have "s' (slots ls) = (s(?key := s ?key + 1)) (slots ls)" .
  then show ?thesis by simp
qed

lemma end_slots:
  "\<exists>s2. observed_end payload r (w, s) = (Inr (), (w, s2)) \<and>
     s2 (slots ls) = s (slots ls) - (if ls = [language_label payload] then 1 else 0)"
proof -
  let ?l = "language_label payload" and ?m = "mode_from_payload payload"
  let ?s1 = "s(slots [?l] := s (slots [?l]) - 1)" and ?j = "(''worker_jobs_total'', [?l, ?m, ended_verdict r])"
    and ?d = "(''worker_job_duration_seconds'', [?l, ?m, ended_verdict r])"
  have "observed_end payload r (w, s) = (Inr (), (w, ?s1(?j := ?s1 ?j + 1, ?d := ?s1 ?d + 1)))"
    by (simp add: observed_end_def metric_apply)
  moreover have "(?s1(?j := ?s1 ?j + 1, ?d := ?s1 ?d + 1)) (slots ls) = s (slots ls) - (if ls = [?l] then 1 else 0)" by simp
  ultimately show ?thesis by blast
qed

lemma run_job_slots:
  assumes "observed_run_job E job_id payload (w, s) = (r, (w', s'))" and "r \<noteq> Inl Diverges"
  shows "s' (slots ls) = s (slots ls)"
proof -
  obtain r1 w1 s1 where a: "observed_attempt E job_id payload (w, s) = (r1, (w1, s1))" by (metis prod.exhaust)
  obtain s2 where e: "observed_end payload r1 (w1, s1) = (Inr (), (w1, s2))"
    "s2 (slots ls) = s1 (slots ls) - (if ls = [language_label payload] then 1 else 0)" using end_slots [of payload r1 w1 s1 ls] by blast
  have "io_ending (observed_attempt E job_id payload) (observed_end payload) (w, s) = (r1, (w1, if r1 = Inl Diverges then s1 else s2))"
    using a e(1) by (simp add: io_ending_def)
  then have "s' = (if r1 = Inl Diverges then s1 else s2)" "r = Inl Diverges \<longleftrightarrow> r1 = Inl Diverges"
    using assms(1) by (cases r1; auto simp: observed_run_job_def io_bind_def)+
  then show ?thesis using assms(2) e(2) attempt_slots [OF a, of ls] by simp
qed

text \<open>Endings that are not \<^const>\<open>Diverges\<close> restore the sample.\<close>

definition restores :: "string \<times> string list \<Rightarrow> ('w \<times> samples, 'a) io \<Rightarrow> bool" where
  "restores key m \<longleftrightarrow> (\<forall>w s r w' s'. m (w, s) = (r, (w', s')) \<longrightarrow> r \<noteq> Inl Diverges \<longrightarrow> s' key = s key)"

lemma leaves_restores: "leaves key m \<Longrightarrow> restores key m"
  unfolding restores_def by (blast dest: leavesD)

lemma restores_bind:
  assumes "leaves key m" and "\<And>a. restores key (k a)"
  shows "restores key (io_bind m k)"
  unfolding restores_def
proof (intro allI impI)
  fix w s r w' s'
  assume b: "io_bind m k (w, s) = (r, (w', s'))" "r \<noteq> Inl Diverges"
  obtain r1 w1 s1 where m: "m (w, s) = (r1, (w1, s1))" by (metis prod.exhaust)
  then have "s1 key = s key" using assms(1) by (rule leavesD [rotated])
  show "s' key = s key"
  proof (cases r1)
    case (Inr a)
    then have "k a (w1, s1) = (r, (w', s'))" using b(1) m by (simp add: io_bind_def)
    then show ?thesis using assms(2) [of a] b(2) \<open>s1 key = s key\<close> unfolding restores_def by metis
  qed (use b m \<open>s1 key = s key\<close> in \<open>auto simp: io_bind_def\<close>)
qed

lemma process_slots: "restores (slots ls) (observed_process E job_data)"
proof -
  have run: "restores (slots ls) (observed_run_job E job_id payload)" for job_id payload
    unfolding restores_def by (auto dest: run_job_slots)
  then have "restores (slots ls) (io_then (on_fst a) (io_then (m_observe ''worker_queue_wait_seconds'' vs) (observed_run_job E job_id payload)))"
    for a :: "('a, unit) io" and vs job_id payload
    unfolding io_then_def by (intro restores_bind leaving run) simp_all
  moreover have "restores (slots ls) (io_then (m_inc ''worker_job_expired_total'' vs) (on_fst m))"
    "restores (slots ls) (m_inc ''worker_errors_total'' vs)" "restores (slots ls) (io_raise e)" for vs e and m :: "('a, unit) io"
    by (intro leaves_restores leaving; simp)+
  ultimately show ?thesis
    unfolding observed_process_def by (auto split: option.split intro!: restores_bind leaves_world)
qed

section \<open>What logging and tracing carry\<close>

interpretation log_line: json_printer dump_char dump_float "[]"
  by unfold_locales (simp_all add: parse_chars_dump_char)

lemma map_filter_keys: "fst ` set (List.map_filter (\<lambda>k. map_option (\<lambda>v. (k, g v)) (f k)) ks) \<subseteq> set ks"
  by (auto simp: List.map_filter_def)

lemma map_filter_distinct: "distinct ks \<Longrightarrow> distinct (map fst (List.map_filter (\<lambda>k. map_option (\<lambda>v. (k, g v)) (f k)) ks))"
proof (induction ks)
  case (Cons k ks)
  then show ?case using map_filter_keys [of g f ks] by (auto simp: List.map_filter_simps split: option.split)
qed (simp add: List.map_filter_simps)

lemma log_payload_ok:
  assumes "text_ok dump_float (lr_process r)" and "\<And>k v. lr_extra r k = Some v \<Longrightarrow> text_ok dump_float (log_json v)"
  shows "text_ok dump_float (VDict (log_payload E r))"
proof -
  define extra where "extra = List.map_filter (\<lambda>k. map_option (\<lambda>v. (k, log_json v)) (lr_extra r k)) LOG_KEYS"
  have "fst ` set extra \<subseteq> set LOG_KEYS" unfolding extra_def by (rule map_filter_keys)
  moreover have "list_all (\<lambda>k. k \<notin> {''ts'', ''level'', ''logger'', ''service'', ''message'', ''pid'', ''exception''}) LOG_KEYS"
    by code_simp
  ultimately have new: "k \<notin> fst ` set extra" if "k \<in> {''ts'', ''level'', ''logger'', ''service'', ''message'', ''pid'', ''exception''}" for k
    using that by (auto simp: list_all_iff)
  have "distinct (map fst extra)" unfolding extra_def by (rule map_filter_distinct) code_simp
  moreover have "\<forall>p \<in> set extra. text_ok dump_float (snd p)" using assms(2) by (auto simp: extra_def List.map_filter_def)
  ultimately show ?thesis
    unfolding log_payload_def extra_def [symmetric] using assms(1) new by (auto simp: image_iff split: option.split)
qed

lemma trace_context_roundtrip:
  assumes "carrier \<noteq> []"
  shows "extract_context (inject_context carrier payload) = VDict (map (\<lambda>(k, v). (k, VStr v)) carrier)"
  using assms by (simp add: extract_context_def inject_context_def dget_def update_conv')

lemma trace_context_ignored:
  "is_raw (inject_context carrier payload) = is_raw payload"
  "request_of_payload (inject_context carrier payload) = request_of_payload payload"
  "raw_of_payload (inject_context carrier payload) = raw_of_payload payload"
  by (simp_all add: inject_context_def is_raw_def request_of_payload_def raw_of_payload_def field_def in_place_of_def dhas_def dget_def update_conv')

lemma trace_context_executed: "execute_payload E (inject_context carrier payload) = execute_payload E payload"
  by (simp add: execute_payload_def trace_context_ignored)

lemma request_counted_once:
  assumes "leaves (''api_requests_total'', ls) call_next" and "call_next (w, s) = (r, (w', s'))" and "r \<noteq> Inl Diverges"
  shows "\<exists>s2. observe_http_requests route method call_next (w, s) = (r, (w', s2)) \<and>
    s2 (''api_requests_total'', ls) = s (''api_requests_total'', ls) +
      (if ls = [route, method, case r of Inr (status, _) \<Rightarrow> int_str status | Inl _ \<Rightarrow> ''500''] then 1 else 0)"
  using leavesD [OF assms(1,2)] assms(2,3) by (auto simp: observe_http_requests_def io_ending_def metric_apply)

section \<open>Properties\<close>

text \<open>C38. Metrics do not change what a worker does: for every environment, job and state of the metrics, \<open>_process\<close> with its
  metrics has the outcome and the effects of \<open>_process\<close> without them, no call of \<open>labels\<close> fails, and, unless the
  job never ends, the gauge of active slots is afterwards what it was before, whatever the job raised.\<close>

theorem worker_metrics_transparent:
  "\<exists>s'. observed_process E job_data (w, s) = (fst (process E job_data w), (snd (process E job_data w), s')) \<and>
    (fst (process E job_data w) \<noteq> Inl Diverges \<longrightarrow> (\<forall>ls. s' (''worker_active_slots'', ls) = s (''worker_active_slots'', ls)))"
proof -
  obtain r w1 s1 where o: "observed_process E job_data (w, s) = (r, (w1, s1))" "process E job_data w = (map_sum id id r, w1)"
    using observed_process_agrees by (rule observesE)
  have "s1 (slots ls) = s (slots ls)" if "r \<noteq> Inl Diverges" for ls
    using process_slots [of ls E job_data] o(1) that unfolding restores_def by blast
  then show ?thesis using o by (simp add: sum.map_id)
qed

theorem worker_metrics_transparent_witness:
  "\<exists>s'. observed_process write_only (dumps (VDict empty_job)) ((), \<lambda>_. 3) = (Inr (), ((), s')) \<and> s' (''worker_active_slots'', [''unknown'']) = 3"
proof -
  have "process write_only (dumps (VDict empty_job)) () = (Inr (), ())"
    by (simp add: process_def empty_job_facts write_only_def offline_def run_job_def mark_done_def mark_running_def
        execute_payload_def is_raw_def dget_def request_of_payload_def sum_bind_def field_def is_value_error_def
        del: dumps.simps)
  then show ?thesis using worker_metrics_transparent [of write_only "dumps (VDict empty_job)" "()" "\<lambda>_. 3"] by auto
qed

text \<open>A log record is one line of JSON: if the process id and the extra attributes are values that JSON can carry, the text
  of the formatter contains no control character, whatever the message and the exception contain, and reads
  back as the payload.\<close>

lemma log_line_roundtrip:
  assumes "text_ok dump_float (lr_process r)" and "\<And>k v. lr_extra r k = Some v \<Longrightarrow> text_ok dump_float (log_json v)"
  shows "loads (JsonFormatter_format E r) = Some (VDict (log_payload E r)) \<and> (\<forall>c \<in> set (JsonFormatter_format E r). 32 \<le> code c)"
proof -
  note ok = log_payload_ok [OF assms, where E = E]
  have "list_all visible (JsonFormatter_format E r)"
    unfolding JsonFormatter_format_def using log_line.text_visible(1) [OF dump_char_visible ok] .
  then show ?thesis
    using log_line.loads_text [OF ok] by (auto simp: JsonFormatter_format_def list_all_iff visible_def)
qed

definition demo_record :: log_record where
  "demo_record = \<lparr>lr_time = ''2024-01-01T00:00:00Z'', lr_level = ''ERROR'', lr_name = ''worker'', lr_message = ''two'' @ [newline] @ ''lines'',
     lr_process = VInt 7, lr_extra = (\<lambda>k. if k = ''language'' then Some (LogValue (VStr ''python'')) else None), lr_exc = Some ''Traceback''\<rparr>"

lemma log_line_roundtrip_witness:
  "loads (JsonFormatter_format (offline :: unit env) demo_record) = Some (VDict (log_payload (offline :: unit env) demo_record)) \<and>
    (\<forall>c \<in> set (JsonFormatter_format (offline :: unit env) demo_record). 32 \<le> code c)"
  by (rule log_line_roundtrip) (auto simp: demo_record_def split: if_splits)

end
