(* ===== verification/Spec2Isabelle.thy ===== *)
theory Spec2Isabelle
  imports Api PoolSpec PoolProtocol SemaphoreProtocol QueueProtocol QueueSpec PyWrapper
    TsWrapper KotlinWrapper CsharpWrapper CWrapper Observability
begin

text \<open>
  A verification development of the DSA execution engine, a service that judges programming
  submissions in Docker sandboxes.

  \<^bold>\<open>The program.\<close> An HTTP API (\<open>api/\<close>) validates a request and puts it as a job on the Redis queue
  of its language (\<open>jobqueue/\<close>). A worker process (\<open>worker.py\<close>) runs many slots; each takes one job at
  a time and hands it to the pipeline (\<open>execution/pipeline.py\<close>), which compiles the submission with the
  executor of its language (\<open>languages/*.py\<close>), runs it on every test case and compares outputs. An
  executor takes a container from a warm pool kept in Redis (\<open>execution/container_pool.py\<close>) or starts one
  under a semaphore shared by all processes (\<open>execution/docker_semaphore.py\<close>), writes the submission
  wrapped in a harness (\<open>languages/*_wrapper.py\<close>) into its directory, and runs it there
  (\<open>execution/process.py\<close>); the harness prints each answer as JSON between two markers. The result goes
  back through Redis to the API handler that waits for it; if Redis is down the API executes directly.

  \<^bold>\<open>The theories.\<close>

  \<^item> Python: \<open>Prelude\<close> (searching texts, collections of facts), \<open>PyFloat\<close> (binary64, rounding),
    \<open>PyText\<close> (\<open>str\<close> methods, numbers as text), \<open>PyValue\<close> (the values JSON decodes to, \<open>==\<close>,
    \<open>repr\<close>), \<open>PyJson\<close> (\<open>json.dumps\<close> and \<open>json.loads\<close>, with their round trip), \<open>Regex\<close> (the
    fragment of \<open>re\<close> the sources use), \<open>Effects\<close> (exceptions as values, \<open>execution/exceptions.py\<close>, and
    the monad of effectful code).
  \<^item> \<open>Env\<close>: what the engine runs on (Redis, processes, files, clock, environment variables) as a record
    of operations over an unspecified world, \<open>config/limits.py\<close> and \<open>execution/sandbox_paths.py\<close>.
    \<open>RedisLaws\<close> names the documented behaviour the theorems assume of these operations and
    gives an environment that has it.
  \<^item> \<open>Compare\<close> (the output comparison of \<open>pipeline.py\<close>), \<open>Process\<close> (\<open>process.py\<close>), \<open>JobQueue\<close>
    (\<open>jobqueue/job.py\<close>), \<open>Semaphore\<close>, \<open>ContainerPool\<close>: the components as the code has them, one
    definition per function.
  \<^item> \<open>ExecutorBase\<close> (\<open>execution/base.py\<close>, the attributes of an executor object and the code the ten
    executors share), \<open>Pipeline\<close> (judging and raw runs), \<open>ScriptExecutors\<close> (Python, JavaScript,
    TypeScript, Java, Kotlin, C#), \<open>CSignature\<close> and \<open>CExecutors\<close> (C and C++), \<open>GoExecutors\<close>,
    \<open>RustExecutors\<close>, \<open>Executors\<close> (the registry, and a request from start to clean-up), \<open>Worker\<close>
    (a job, a slot and the tasks of the process), \<open>Api\<close> (request validation and both endpoints).
  \<^item> What the harnesses share: \<open>NodeHeap\<close>, \<open>TreeWire\<close>, \<open>ListWire\<close> and \<open>NullGraph\<close> (tree, list and
    graph nodes in a heap, and the contracts \<open>tree_wire\<close>, \<open>list_wire\<close>, \<open>graph_wire\<close> of the
    conversions between them and JSON), \<open>JsonText\<close> and \<open>JsonLine\<close> (printers of JSON that differ in
    escapes, numbers and white space, and their contract: the text reads back and is one line),
    \<open>Harness\<close> (the contract between a harness's process and \<open>process.py\<close>).
  \<^item> The harnesses, each with the submission as a parameter: \<open>WrapperHeap\<close>, \<open>WrapperGraph\<close>,
    \<open>PyWrapper\<close> (\<open>python_wrapper.py\<close>); \<open>JsValue\<close> (numbers, property order, \<open>JSON.stringify\<close>),
    \<open>JsWrapper\<close>, \<open>TsWrapper\<close>; \<open>Managed\<close> (what the harnesses of the typed languages do alike),
    \<open>JavaWrapper\<close>, \<open>KotlinWrapper\<close>, \<open>CsharpWrapper\<close>; \<open>GoWrapper\<close>, \<open>RustWrapper\<close>, \<open>CppWrapper\<close>
    (with \<open>docker/cpp_support.hpp\<close>); for C, \<open>CMemory\<close> (buffers, pointers, rows), \<open>CBinding\<close> (the code that
    \<open>c.py\<close> generates for a signature, as a program: its plan, its text, its execution) and \<open>CWrapper\<close>.
  \<^item> \<open>Metrics\<close> and \<open>Observability\<close> (\<open>observability/\<close>): the metrics and recording in them, log lines, trace
    contexts, and the handlers of the worker and the API with the metrics they record.
  \<^item> \<open>PoolFrame\<close>, \<open>PoolSpec\<close>, \<open>QueueSpec\<close>: what the pool and the queue do when one process uses them.
    \<open>Transitions\<close>, \<open>PoolProtocol\<close>, \<open>SemaphoreProtocol\<close>, \<open>QueueProtocol\<close>: the same
    components as step relations, one step per Redis command, for any number of processes.

  \<^bold>\<open>What is shown.\<close>

  \<^item> Verdicts: a batch is judged by its specification and like its test cases one by one; the comparison
    decides the relation that its rules define, raises in one case only and is symmetric; floats within
    the tolerance always match. One of its rules, on equal texts, is not in its documentation.
  \<^item> Answers: what a harness emits is what the judge reads, whatever was printed around it, for single
    runs and for streamed batches; a batch result is exact and a failure names its test case. For
    Python, JavaScript, Go, Rust and Kotlin the statement reaches from the call of the submitted function,
    what it returns and what it does to its arguments, to the outcome that the judge gets (for Python also
    from every stage that can raise); objects are related to their JSON values by inductive relations that
    do not mention the converters. Trees, linked lists (cyclic ones too), graphs, rows of integers and grids of characters
    survive the conversion both ways; the TypeScript harness agrees with the JavaScript one where their
    texts differ only in types, and Go, Rust and C++ choose the same arguments of a test case.
  \<^item> Resources: whatever happens in a request, the executor gives its container to the pool in the end;
    \<open>acquire\<close> ends with the oldest usable entry, \<open>release\<close> keeps the cap, the reaper removes exactly
    the expired, prewarming reaches its target.
  \<^item> Interleaving: semaphores are never overbooked and conserve their slots while Redis keeps its data;
    jobs are delivered once and in order; the pool is exclusive as long as no reaper replaces a
    list that has changed since it read it. The faults and races the code leaves open are theorems too: a restart of Redis, a process that dies between two
    commands, the reaper's two commands, the depth limit.
  \<^item> End to end: a request validated by the API comes out of the queue as it went in, every job a worker
    takes is answered, what the API does when Redis is down, and that a worker never ends by itself.
  \<^item> Generated code: splitting signatures and parameter lists of C and C++; the text that the C executor
    generates is the text of a planned program, in which size and column parameters describe the last
    array before them, and whose arguments read back from memory as they were given.
  \<^item> Observability: the handlers with metrics do what they do without them, gauges are restored, a
    log record is one line of JSON, and a trace context does not change how a job is executed.

  \<^bold>\<open>Fuel.\<close> Loops without a bound of their own (\<open>acquire\<close>, prewarming, the slot) take \<open>loop_fuel\<close>
  of the environment and end in \<^const>\<open>Diverges\<close>, which no handler catches, when it is used up;
  theorems about them show that fuel above the length of the list, or above the target, is enough. The
  parser of JSON takes the length of its text, which always suffices (\<open>parse_fuel\<close>). The breadth-first
  walks of the harnesses over a tree take one unit per node and empty place, which is proved enough for
  every tree that the harness can build. The regular expressions and all other loops
  are total functions.

  \<^bold>\<open>Simplifications.\<close> Text is a sequence of characters below 256, so that punctuation beyond it in messages
  is written in ASCII. A job's payload fields are read when the job starts. Log records, metrics and
  traces are left out of the handlers; \<open>Metrics\<close> and \<open>Observability\<close> show for the worker's handler and
  the two paths of the API that recording metrics changes neither their results nor their effects.
  The texts of exceptions that Python's own libraries raise (for malformed JSON or UTF-8) are fixed strings.
  Buffers of C that have been freed stay in its memory: reading them is undefined in C.

  \<^bold>\<open>Parameters.\<close> The libraries that the harnesses call are not part of the repository: the binding of
  Jackson, System.Text.Json, encoding/json, \<open>serde_json\<close> and nlohmann::json to the types of a submission
  is an argument of the definitions, with the documented behaviour as a named hypothesis of the theorems
  that need it, and an instance that has it beside them.

  \<^bold>\<open>Not modelled.\<close> What only calls libraries: spans and the export of traces, the text of the metrics
  endpoint, the registration of signal handlers (the flag they set is a part of the environment), the
  HTTP framework; and the container images and the deployment, which are configuration.
\<close>

end
